(* ===== verification/GW_Prelude.thy ===== *)
theory GW_Prelude
  imports Complex_Main "HOL-Library.Char_ord" "HOL-Library.List_Lexorder"
begin

text \<open>
  The prelude of the basis-gateway development: the Python values, strings,
  dictionaries, exceptions and time stamps the components share, with the
  lemmas the component proofs rest on.

  A Python \<^verbatim>\<open>str\<close> is a \<^typ>\<open>string\<close> whose characters are its code points (the
  range 0 to 255; nothing in the gateway distinguishes larger code points).
  A \<^verbatim>\<open>dict\<close> is an association list in insertion order. A raised exception is a
  value of \<^verbatim>\<open>exn\<close>, one constructor per exception class of the
  source; a function that may raise returns a value of \<^verbatim>\<open>'a res\<close>. The text of a
  message is modelled as its leading words and the list of values that are
  interpolated into it.
\<close>

named_theorems gw_simps \<open>equations that unfold the small helpers of the components\<close>
named_theorems audit_frame \<open>what an audit write leaves unchanged\<close>

section \<open>Strings\<close>

definition is_space :: "char \<Rightarrow> bool" where
  "is_space c \<longleftrightarrow> (let n = (of_char c :: nat) in
     (9 \<le> n \<and> n \<le> 13) \<or> (28 \<le> n \<and> n \<le> 32) \<or> n = 133 \<or> n = 160)"

text \<open>Python's \<^verbatim>\<open>str.strip()\<close>, \<^verbatim>\<open>str.startswith\<close> and \<^verbatim>\<open>sub in s\<close>.\<close>

definition strip_by :: "(char \<Rightarrow> bool) \<Rightarrow> string \<Rightarrow> string" where
  "strip_by p s = rev (dropWhile p (rev (dropWhile p s)))"

definition strip :: "string \<Rightarrow> string" where
  "strip s = strip_by is_space s"

definition startswith :: "string \<Rightarrow> string \<Rightarrow> bool" where
  "startswith p s \<longleftrightarrow> take (length p) s = p"

fun contains :: "string \<Rightarrow> string \<Rightarrow> bool" where
  "contains p [] = startswith p []"
| "contains p (c # s) = (startswith p (c # s) \<or> contains p s)"

definition blank :: "string \<Rightarrow> bool" where
  "blank s \<longleftrightarrow> strip s = []"

text \<open>\<^verbatim>\<open>str.split(sep)\<close> for a one-character separator: at least one part.\<close>

fun split_on :: "char \<Rightarrow> string \<Rightarrow> string list" where
  "split_on d [] = [[]]"
| "split_on d (c # s) =
     (if c = d then [] # split_on d s
      else case split_on d s of [] \<Rightarrow> [[c]] | p # ps \<Rightarrow> (c # p) # ps)"

definition lower_char :: "char \<Rightarrow> char" where
  "lower_char c = (let n = (of_char c :: nat) in
     if (65 \<le> n \<and> n \<le> 90) \<or> (192 \<le> n \<and> n \<le> 222 \<and> n \<noteq> 215) then char_of (n + 32) else c)"

text \<open>
  Upper-casing: the sharp s (223) becomes two letters; the micro sign (181)
  and y with diaeresis (255), whose upper-case letters lie beyond 255, stay.
\<close>

definition upper_char :: "char \<Rightarrow> string" where
  "upper_char c = (let n = (of_char c :: nat) in
     if n = 223 then ''SS''
     else if (97 \<le> n \<and> n \<le> 122) \<or> (224 \<le> n \<and> n \<le> 254 \<and> n \<noteq> 247) then [char_of (n - 32)]
     else [c])"

definition lower :: "string \<Rightarrow> string" where
  "lower s = map lower_char s"

definition upper :: "string \<Rightarrow> string" where
  "upper s = concat (map upper_char s)"

lemma startswith_append [simp]: "startswith p (p @ s)"
  by (simp add: startswith_def)

lemma startswith_iff_append: "startswith p s \<longleftrightarrow> (\<exists>t. s = p @ t)"
  unfolding startswith_def by (metis append_eq_conv_conj append_take_drop_id)

lemma startswith_Nil [simp]: "startswith [] s"
  by (simp add: startswith_def)

lemma startswith_Nil2 [simp]: "startswith p [] \<longleftrightarrow> p = []"
  by (auto simp: startswith_def)

lemma startswith_Cons [simp]:
  "startswith (p # ps) (c # s) \<longleftrightarrow> p = c \<and> startswith ps s"
  by (auto simp: startswith_def)

lemma contains_iff: "contains p s \<longleftrightarrow> (\<exists>a b. s = a @ p @ b)"
proof (induction s)
  case Nil
  then show ?case by simp
next
  case (Cons c s)
  have "(\<exists>a b. c # s = a @ p @ b) \<longleftrightarrow> (\<exists>b. c # s = p @ b) \<or> (\<exists>a b. s = a @ p @ b)"
    by (auto simp: Cons_eq_append_conv)
  then show ?case using Cons.IH by (simp add: startswith_iff_append)
qed

lemma contains_Nil [simp]: "contains [] s"
  by (auto simp: contains_iff)

lemma strip_Nil [simp]: "strip [] = []"
  by (simp add: strip_def strip_by_def)

lemma blank_Nil [simp]: "blank []"
  by (simp add: blank_def)

lemma strip_by_eq_Nil: "strip_by p s = [] \<longleftrightarrow> (\<forall>c \<in> set s. p c)"
proof -
  have "strip_by p s = [] \<longleftrightarrow> dropWhile p (rev (dropWhile p s)) = []"
    by (simp add: strip_by_def)
  also have "\<dots> \<longleftrightarrow> (\<forall>c \<in> set (dropWhile p s). p c)" by simp
  also have "\<dots> \<longleftrightarrow> dropWhile p s = []"
  proof
    assume all: "\<forall>c \<in> set (dropWhile p s). p c"
    show "dropWhile p s = []"
    proof (rule ccontr)
      assume ne: "dropWhile p s \<noteq> []"
      then have "\<not> p (hd (dropWhile p s))" by (rule hd_dropWhile)
      with all ne show False by (simp add: hd_in_set)
    qed
  next
    assume "dropWhile p s = []"
    then show "\<forall>c \<in> set (dropWhile p s). p c" by (simp only: list.set) blast
  qed
  also have "\<dots> \<longleftrightarrow> (\<forall>c \<in> set s. p c)" by simp
  finally show ?thesis .
qed

lemma blank_iff: "blank s \<longleftrightarrow> (\<forall>c \<in> set s. is_space c)"
  by (simp add: blank_def strip_def strip_by_eq_Nil)

lemma not_blank_nonempty: "\<not> blank s \<Longrightarrow> s \<noteq> []"
  by auto

lemma split_on_nonempty [simp]: "split_on d s \<noteq> []"
  by (cases s) (auto split: list.splits)

lemma split_on_no_sep: "p \<in> set (split_on d s) \<Longrightarrow> d \<notin> set p"
  by (induction s arbitrary: p) (auto split: if_splits list.splits)

lemma strip_by_substring: "set (strip_by p s) \<subseteq> set s"
  unfolding strip_by_def
  by (metis (no_types, opaque_lifting) set_dropWhileD set_rev subsetI)

lemma strip_set: "set (strip s) \<subseteq> set s"
  by (simp add: strip_def strip_by_substring)

lemma strip_by_ends:
  assumes "strip_by p s \<noteq> []"
  shows "\<not> p (last (strip_by p s))"
proof -
  have "dropWhile p (rev (dropWhile p s)) \<noteq> []" using assms by (simp add: strip_by_def)
  then have "\<not> p (hd (dropWhile p (rev (dropWhile p s))))" by (rule hd_dropWhile)
  then show ?thesis by (simp add: strip_by_def last_rev)
qed

lemma dropWhile_rev_hd:
  assumes "\<not> p (hd s)" "s \<noteq> []"
  shows "hd (rev (dropWhile p (rev s))) = hd s"
proof -
  obtain c t where s: "s = c # t" using assms(2) by (cases s) auto
  then have "\<not> p c" using assms(1) by simp
  then have "dropWhile p (rev t @ [c]) = dropWhile p (rev t) @ [c]"
    by (cases "\<forall>x \<in> set (rev t). p x")
      (auto simp: dropWhile_append)
  then show ?thesis using s by simp
qed

lemma strip_by_idem [simp]: "strip_by p (strip_by p s) = strip_by p s"
proof (cases "strip_by p s = []")
  case True
  have "strip_by p [] = []" by (simp add: strip_by_def)
  with True show ?thesis by (simp only:)
next
  case False
  define t where "t = dropWhile p s"
  have st: "strip_by p s = rev (dropWhile p (rev t))" by (simp add: strip_by_def t_def)
  have ne: "t \<noteq> []" using False unfolding st by auto
  then have h: "\<not> p (hd t)" unfolding t_def by (rule hd_dropWhile)
  have hd: "\<not> p (hd (strip_by p s))" using dropWhile_rev_hd [of p t] ne h st by simp
  have 1: "dropWhile p (strip_by p s) = strip_by p s"
    using hd False by (cases "strip_by p s") auto
  have "\<not> p (hd (rev (strip_by p s)))"
    using strip_by_ends [OF False] False by (simp add: hd_rev)
  then have 2: "dropWhile p (rev (strip_by p s)) = rev (strip_by p s)"
    using False by (cases "rev (strip_by p s)") auto
  show ?thesis by (subst strip_by_def) (simp add: 1 2)
qed

lemma strip_idem [simp]: "strip (strip s) = strip s"
  by (simp add: strip_def)

text \<open>\<^verbatim>\<open>sep.join(parts)\<close>.\<close>

fun joined :: "string \<Rightarrow> string list \<Rightarrow> string" where
  "joined sep [] = []"
| "joined sep [x] = x"
| "joined sep (x # xs) = x @ sep @ joined sep xs"

text \<open>The decimal digits of a number, as an f-string prints it.\<close>

fun nat_str :: "nat \<Rightarrow> string" where
  "nat_str n = (if n < 10 then [char_of (48 + n)]
     else nat_str (n div 10) @ [char_of (48 + n mod 10)])"

declare nat_str.simps [simp del]

section \<open>Python values and dictionaries\<close>

datatype pyfloat = Finite rat | PosInf | NegInf | NotANumber

datatype pyval =
    PNone
  | PBool bool
  | PInt int
  | PFloat pyfloat
  | PStr string
  | PList "pyval list"
  | PDict "(string \<times> pyval) list"

type_synonym 'v dict = "(string \<times> 'v) list"

text \<open>\<^verbatim>\<open>d[k] = v\<close>: a key keeps its position, a new key goes to the end.\<close>

fun dict_set :: "'v dict \<Rightarrow> string \<Rightarrow> 'v \<Rightarrow> 'v dict" where
  "dict_set [] k v = [(k, v)]"
| "dict_set ((k', v') # d) k v = (if k' = k then (k, v) # d else (k', v') # dict_set d k v)"

definition dict_update :: "'v dict \<Rightarrow> 'v dict \<Rightarrow> 'v dict" where
  "dict_update d e = fold (\<lambda>(k, v) acc. dict_set acc k v) e d"

text \<open>\<^verbatim>\<open>d.pop(k, None)\<close>.\<close>

definition dict_pop :: "'v dict \<Rightarrow> string \<Rightarrow> 'v dict" where
  "dict_pop d k = filter (\<lambda>(k', v). k' \<noteq> k) d"

lemma map_of_dict_set [simp]: "map_of (dict_set d k v) = (map_of d)(k \<mapsto> v)"
  by (induction d k v rule: dict_set.induct) auto

lemma map_of_dict_set_apply:
  "map_of (dict_set d k v) k' = (if k' = k then Some v else map_of d k')"
  by simp

lemma keys_dict_set [simp]: "fst ` set (dict_set d k v) = insert k (fst ` set d)"
  by (induction d k v rule: dict_set.induct) (auto simp: image_iff)

lemma distinct_dict_set [simp]: "distinct (map fst d) \<Longrightarrow> distinct (map fst (dict_set d k v))"
proof (induction d k v rule: dict_set.induct)
  case (2 k' v' d k v)
  have "k' \<notin> fst ` set (dict_set d k v)" if "k' \<noteq> k" using 2(2) that by simp
  with 2 show ?case by auto
qed simp

lemma dict_update_Nil [simp]: "dict_update d [] = d"
  by (simp add: dict_update_def)

lemma dict_update_Cons [simp]: "dict_update d ((k, v) # e) = dict_update (dict_set d k v) e"
  by (simp add: dict_update_def)

lemma map_of_dict_update:
  "distinct (map fst e) \<Longrightarrow> map_of (dict_update d e) = map_of d ++ map_of e"
proof (induction e arbitrary: d)
  case (Cons p e)
  obtain k v where p: "p = (k, v)" by (cases p)
  have "map_of e k = None" using Cons.prems p by (auto simp: map_of_eq_None_iff)
  then show ?case using Cons p by (auto simp: map_add_def fun_eq_iff split: option.splits)
qed simp

lemma keys_dict_update: "fst ` set (dict_update d e) = fst ` set d \<union> fst ` set e"
proof (induction e arbitrary: d)
  case (Cons p e)
  obtain k v where "p = (k, v)" by (cases p)
  with Cons.IH show ?case by simp
qed simp

lemma map_of_dict_pop [simp]: "map_of (dict_pop d k) = (map_of d)(k := None)"
  unfolding dict_pop_def by (induction d) (auto simp: fun_eq_iff)

lemma keys_dict_pop: "fst ` set (dict_pop d k) = fst ` set d - {k}"
  by (auto simp: dict_pop_def image_iff)

text \<open>\<^verbatim>\<open>x or y\<close> on optional strings: the empty string counts as absent.\<close>

definition truthy_opt :: "string option \<Rightarrow> bool" where
  "truthy_opt x \<longleftrightarrow> (case x of None \<Rightarrow> False | Some s \<Rightarrow> s \<noteq> [])"

definition opt_or :: "string option \<Rightarrow> string \<Rightarrow> string" where
  "opt_or x y = (case x of None \<Rightarrow> y | Some s \<Rightarrow> if s = [] then y else s)"

lemma truthy_opt_simps [simp]:
  "\<not> truthy_opt None" "truthy_opt (Some s) \<longleftrightarrow> s \<noteq> []"
  by (auto simp: truthy_opt_def)

lemma truthy_optE: "truthy_opt x \<Longrightarrow> (\<And>s. x = Some s \<Longrightarrow> s \<noteq> [] \<Longrightarrow> P) \<Longrightarrow> P"
  by (cases x) auto

lemma opt_or_nonempty: "y \<noteq> [] \<Longrightarrow> opt_or x y \<noteq> []"
  by (auto simp: opt_or_def split: option.splits)

text \<open>\<^verbatim>\<open>sorted(set(xs))\<close> on strings.\<close>

definition sorted_set :: "string list \<Rightarrow> string list" where
  "sorted_set xs = sort (remdups xs)"

lemma set_sorted_set [simp]: "set (sorted_set xs) = set xs"
  by (simp add: sorted_set_def)

lemma sorted_sorted_set [simp]: "sorted (sorted_set xs)"
  by (simp add: sorted_set_def)

lemma distinct_sorted_set [simp]: "distinct (sorted_set xs)"
  by (simp add: sorted_set_def)

lemma sorted_set_unique: "set xs = set ys \<Longrightarrow> sorted_set xs = sorted_set ys"
  by (rule sorted_distinct_set_unique) simp_all

section \<open>Exceptions\<close>

type_synonym msg = "string \<times> string list"

text \<open>One entry of a pydantic \<^verbatim>\<open>ValidationError\<close>: location, error type, message.\<close>

datatype verr = Verr (e_loc: "string list") (e_type: string) (e_msg: msg)

text \<open>The closed vocabularies of the operation-aware kernel results.\<close>

datatype eval_status = COMPLETED | FAILED
datatype oa_outcome = OA_ALLOW | OA_DENY | OA_NOT_APPLICABLE
datatype failure_reason =
    INVALID_REQUEST | UNSUPPORTED_SCHEMA_VERSION | INVALID_POLICY_BUNDLE
  | POLICY_VALIDATION_FAILURE | CONDITION_EVALUATION_ERROR | INTERNAL_EVALUATION_ERROR

text \<open>\<^verbatim>\<open>OperationAwarePolicyLoadFailureStage\<close> of \<^verbatim>\<open>policy/operation_aware_loader.py\<close>.\<close>

datatype load_stage = FILE_UNREADABLE | INVALID_JSON | INVALID_STRUCTURE

text \<open>
  The exception classes, grouped as the source's class hierarchy groups them:
  the subclasses of \<^verbatim>\<open>AuthenticationError\<close> (\<^verbatim>\<open>auth/errors.py\<close>,
  \<^verbatim>\<open>auth/runtime.py\<close>, \<^verbatim>\<open>auth/basis_local_token.py\<close>), the producer-certificate
  failures (\<^verbatim>\<open>auth/producer_mtls*.py\<close>), the composition failures
  (\<^verbatim>\<open>core/\<close>), and the built-in exceptions of Python.
\<close>

datatype auth_exn =
    TokenExtractionError msg
  | OIDCDiscoveryError msg
  | JWKSFetchError msg
  | JWTVerificationError msg
  | SubjectMappingError msg
  | AuthNotConfiguredError msg
  | UnsupportedAuthModeError msg
  | BasisLocalTokenConfigError msg
  | BasisLocalTokenHeaderError msg
  | BasisLocalTokenSignatureError msg
  | BasisLocalTokenVerificationError msg
  | BasisLocalTokenClaimsError msg

datatype mtls_exn =
    MissingProducerCertificateAssertionError
  | DuplicateProducerCertificateAssertionError nat
  | OversizedProducerCertificateAssertionError
  | CertificateAssertionDecodingError msg
  | CertificateParsingError msg
  | NoEligibleUriSanError msg
  | MultipleEligibleUriSansError msg

datatype comp_exn =
    ActionCompositionError msg
  | ResourceCompositionError msg
  | UntrustedOperationProducerContextError "string list"
  | ReservedContextKeyError "string list"
  | CompositionInternalError msg

datatype py_exn =
    ValueError msg
  | TypeError msg
  | KeyError msg
  | OverflowError msg
  | OSError msg
  | OtherException msg

datatype exn =
    AuthenticationError auth_exn
  | ProducerTrustError mtls_exn
  | CompositionError comp_exn
  | ProducerAdmissionConfigurationError
  | OperationAwareRequestConstructionError msg
  | OperationAwareEvaluatorInternalError msg
  | OperationAwarePreflightError eval_status "failure_reason option"
  | PolicyLoadError msg
  | OperationAwarePolicyLoadError load_stage msg
  | EvaluationConfigError msg
  | OperationAwareConfigError msg
  | ValidationError "verr list"
  | PyError py_exn

type_synonym 'a res = "exn + 'a"

text \<open>Sequencing of computations that may raise.\<close>

definition res_bind :: "'a res \<Rightarrow> ('a \<Rightarrow> 'b res) \<Rightarrow> 'b res" where
  "res_bind m f = (case m of Inl e \<Rightarrow> Inl e | Inr x \<Rightarrow> f x)"

lemma res_bind_simps [simp]:
  "res_bind (Inl e) f = Inl e" "res_bind (Inr x) f = f x"
  by (simp_all add: res_bind_def)

lemma res_bind_eq_Inr [simp]:
  "res_bind m f = Inr y \<longleftrightarrow> (\<exists>x. m = Inr x \<and> f x = Inr y)"
  by (auto simp: res_bind_def split: sum.splits)

lemma res_bind_eq_Inl:
  "res_bind m f = Inl e \<longleftrightarrow> m = Inl e \<or> (\<exists>x. m = Inr x \<and> f x = Inl e)"
  by (auto simp: res_bind_def split: sum.splits)

text \<open>\<^verbatim>\<open>try: x = m; except ...: raise g(e)\<close>, followed by a continuation.\<close>

lemma try_eq_Inr [simp]:
  "case_sum (\<lambda>e. Inl (g e)) f m = Inr y \<longleftrightarrow> (\<exists>x. m = Inr x \<and> f x = Inr y)"
  by (cases m) auto

lemma try_eq_Inl:
  "case_sum (\<lambda>e. Inl (g e)) f m = Inl e' \<longleftrightarrow>
     (\<exists>e. m = Inl e \<and> e' = g e) \<or> (\<exists>x. m = Inr x \<and> f x = Inl e')"
  by (cases m) auto

lemma dict_case_eq_Inr:
  "(case v of PDict d \<Rightarrow> f d | _ \<Rightarrow> Inl e) = Inr y \<longleftrightarrow> (\<exists>d. v = PDict d \<and> f d = Inr y)"
  by (cases v) auto

text \<open>\<^verbatim>\<open>[f(x) for x in xs]\<close> where \<^verbatim>\<open>f\<close> may raise: the first error ends it.\<close>

fun res_map :: "('a \<Rightarrow> 'b res) \<Rightarrow> 'a list \<Rightarrow> 'b list res" where
  "res_map f [] = Inr []"
| "res_map f (x # xs) = res_bind (f x) (\<lambda>y. res_bind (res_map f xs) (\<lambda>ys. Inr (y # ys)))"

lemma res_map_Inr_iff:
  "res_map f xs = Inr ys \<longleftrightarrow> list_all2 (\<lambda>x y. f x = Inr y) xs ys"
proof (induction xs arbitrary: ys)
  case Nil
  then show ?case by auto
next
  case (Cons x xs)
  then show ?case by (cases ys) auto
qed

lemma res_map_set:
  "res_map f xs = Inr ys \<Longrightarrow> y \<in> set ys \<Longrightarrow> \<exists>x \<in> set xs. f x = Inr y"
  by (induction xs arbitrary: ys) auto

section \<open>Time stamps\<close>

text \<open>
  An aware \<^verbatim>\<open>datetime\<close> is its distance from the epoch in microseconds; a naive
  one has no such distance. The standard library's \<^verbatim>\<open>datetime.fromtimestamp(v, tz=utc)\<close> on a
  64-bit platform: a value beyond the range of \<^verbatim>\<open>time_t\<close> raises
  \<^verbatim>\<open>OverflowError\<close>; one whose year does not fit the C \<^verbatim>\<open>int\<close> of
  \<^verbatim>\<open>struct tm\<close> raises \<^verbatim>\<open>OSError\<close>; one outside the years 1 to 9999 raises
  \<^verbatim>\<open>ValueError\<close>.
\<close>

datatype datetime = Aware int | Naive int

definition is_aware :: "datetime \<Rightarrow> bool" where
  "is_aware d \<longleftrightarrow> (case d of Aware _ \<Rightarrow> True | Naive _ \<Rightarrow> False)"

lemma is_aware_simps [simp]: "is_aware (Aware t)" "\<not> is_aware (Naive t)"
  by (simp_all add: is_aware_def)

definition fromtimestamp_us :: "int \<Rightarrow> datetime res" where
  "fromtimestamp_us us = (let s = us div 1000000 in
     if s < - (2 ^ 63) \<or> 2 ^ 63 \<le> s then Inl (PyError (OverflowError (''timestamp out of range'', [])))
     else if s < -67768040609740800 \<or> 67768036191676800 \<le> s
       then Inl (PyError (OSError (''value too large'', [])))
     else if s < -62135596800 \<or> 253402300800 \<le> s
       then Inl (PyError (ValueError (''year is out of range'', [])))
     else Inr (Aware us))"

text \<open>Round half to even, as the conversion of a float time stamp to microseconds does.\<close>

definition round_half_even :: "rat \<Rightarrow> int" where
  "round_half_even r = (let f = floor r; d = r - of_int f in
     if d < 1 / 2 then f else if 1 / 2 < d then f + 1 else if even f then f else f + 1)"

definition fromtimestamp_int :: "int \<Rightarrow> datetime res" where
  "fromtimestamp_int n = fromtimestamp_us (n * 1000000)"

definition fromtimestamp_float :: "pyfloat \<Rightarrow> datetime res" where
  "fromtimestamp_float x = (case x of
      Finite r \<Rightarrow> fromtimestamp_us (round_half_even (r * 1000000))
    | NotANumber \<Rightarrow> Inl (PyError (ValueError (''Invalid value NaN'', [])))
    | _ \<Rightarrow> Inl (PyError (OverflowError (''timestamp out of range'', []))))"

lemma fromtimestamp_int_Inr: "fromtimestamp_int n = Inr d \<Longrightarrow> d = Aware (n * 1000000)"
  by (auto simp: fromtimestamp_int_def fromtimestamp_us_def Let_def split: if_splits)

end
