(* ===== verification/GW_Subject.thy ===== *)
theory GW_Subject
  imports GW_Prelude
begin

text \<open>
  \<^verbatim>\<open>auth/subject_mapper.py\<close>: verified claims become a normalized subject and an
  identity context.
\<close>

record NormalizedSubject =
  subject_id :: string
  subject_name :: string
  roles :: "string list"
  attributes :: "pyval dict"

record IdentityContext =
  ic_issuer :: string
  ic_subject_id :: string
  ic_claims :: "pyval dict"

definition ATTRIBUTE_CLAIMS :: "string list" where
  "ATTRIBUTE_CLAIMS = [''email'', ''given_name'', ''family_name'', ''name'']"

text \<open>Python's truth value of a claim.\<close>

fun py_truthy :: "pyval \<Rightarrow> bool" where
  "py_truthy PNone = False"
| "py_truthy (PBool b) = b"
| "py_truthy (PInt n) = (n \<noteq> 0)"
| "py_truthy (PFloat (Finite r)) = (r \<noteq> 0)"
| "py_truthy (PFloat _) = True"
| "py_truthy (PStr s) = (s \<noteq> [])"
| "py_truthy (PList xs) = (xs \<noteq> [])"
| "py_truthy (PDict d) = (d \<noteq> [])"

text \<open>\<^verbatim>\<open>d.get(k)\<close>: a missing key reads as \<^verbatim>\<open>None\<close>.\<close>

definition dict_get :: "pyval dict \<Rightarrow> string \<Rightarrow> pyval" where
  "dict_get d k = (case map_of d k of None \<Rightarrow> PNone | Some v \<Rightarrow> v)"

text \<open>The string entries of a list, in order.\<close>

definition str_entries :: "pyval list \<Rightarrow> string list" where
  "str_entries xs = concat (map (\<lambda>x. case x of PStr s \<Rightarrow> [s] | _ \<Rightarrow> []) xs)"

definition extract_roles :: "pyval dict \<Rightarrow> string list" where
  "extract_roles claims =
     (let raw = (case dict_get claims ''realm_access'' of
                   PDict d \<Rightarrow> dict_get d ''roles'' | _ \<Rightarrow> PNone);
          raw2 = (case raw of PList xs \<Rightarrow> PList xs | _ \<Rightarrow> dict_get claims ''roles'')
      in case raw2 of PList xs \<Rightarrow> sorted_set (str_entries xs) | _ \<Rightarrow> [])"

definition claim_attributes :: "pyval dict \<Rightarrow> pyval dict" where
  "claim_attributes claims = concat (map (\<lambda>k. case dict_get claims k of
      PNone \<Rightarrow> [] | v \<Rightarrow> [(k, v)]) ATTRIBUTE_CLAIMS)"

definition display_name :: "pyval dict \<Rightarrow> string \<Rightarrow> string" where
  "display_name claims sid = (let v = dict_get claims ''preferred_username'' in
     if py_truthy v then (case v of PStr s \<Rightarrow> s | _ \<Rightarrow> sid) else sid)"

definition map_claims :: "pyval dict \<Rightarrow> auth_exn + (NormalizedSubject \<times> IdentityContext)" where
  "map_claims claims = (case dict_get claims ''sub'' of
      PStr sid \<Rightarrow>
        (if sid = [] then Inl (SubjectMappingError (''Verified token is missing required sub claim'', []))
         else Inr (\<lparr>subject_id = sid,
                    subject_name = display_name claims sid,
                    roles = extract_roles claims,
                    attributes = claim_attributes claims\<rparr>,
                   \<lparr>ic_issuer = (case dict_get claims ''iss'' of PStr i \<Rightarrow> i | _ \<Rightarrow> []),
                    ic_subject_id = sid,
                    ic_claims = claims\<rparr>))
    | _ \<Rightarrow> Inl (SubjectMappingError (''Verified token is missing required sub claim'', [])))"

text \<open>What a normalized identity guarantees to the rest of the request path.\<close>

definition wf_identity :: "NormalizedSubject \<times> IdentityContext \<Rightarrow> bool" where
  "wf_identity = (\<lambda>(s, c). subject_id s \<noteq> [] \<and> ic_subject_id c = subject_id s
     \<and> sorted (roles s) \<and> distinct (roles s))"

lemma set_str_entries [simp]: "set (str_entries xs) = {s. PStr s \<in> set xs}"
  by (auto simp: str_entries_def split: pyval.splits)

lemma extract_roles_wf [simp]: "sorted (extract_roles c)" "distinct (extract_roles c)"
  by (simp_all add: extract_roles_def Let_def split: pyval.splits)

lemma map_claims_wf: "map_claims c = Inr i \<Longrightarrow> wf_identity i"
  by (auto simp: map_claims_def wf_identity_def split: pyval.splits if_splits)

lemma map_claims_error: "map_claims c = Inl e \<Longrightarrow> \<exists>m. e = SubjectMappingError m"
  by (auto simp: map_claims_def split: pyval.splits if_splits)

section \<open>Properties\<close>

text \<open>The roles a claim set declares: the string entries of \<^verbatim>\<open>realm_access.roles\<close> when that
  is a list, else of \<^verbatim>\<open>roles\<close> when that is a list, else none.\<close>

definition declared_roles :: "pyval dict \<Rightarrow> string set" where
  "declared_roles c =
     (let flat = (case map_of c ''roles'' of Some (PList xs) \<Rightarrow> {s. PStr s \<in> set xs} | _ \<Rightarrow> {})
      in case map_of c ''realm_access'' of
           Some (PDict d) \<Rightarrow>
             (case map_of d ''roles'' of Some (PList xs) \<Rightarrow> {s. PStr s \<in> set xs} | _ \<Rightarrow> flat)
         | _ \<Rightarrow> flat)"

lemma set_extract_roles: "set (extract_roles c) = declared_roles c"
  by (simp add: extract_roles_def declared_roles_def Let_def dict_get_def
      split: pyval.splits option.splits)

text \<open>Claims map to an identity exactly when \<^verbatim>\<open>sub\<close> is a non-empty string, and fail with
  a subject-mapping error otherwise; the subject and the identity context
  both carry that string, the claims are kept unchanged, and the roles are
  the declared ones, sorted and free of duplicates.\<close>

theorem map_claims_correct:
  "case map_claims c of
     Inl e \<Rightarrow> (\<exists>m. e = SubjectMappingError m) \<and>
       \<not> (\<exists>sid. map_of c ''sub'' = Some (PStr sid) \<and> sid \<noteq> [])
   | Inr (s, ctx) \<Rightarrow> map_of c ''sub'' = Some (PStr (subject_id s)) \<and> subject_id s \<noteq> []
       \<and> ic_subject_id ctx = subject_id s \<and> ic_claims ctx = c
       \<and> set (roles s) = declared_roles c \<and> sorted (roles s) \<and> distinct (roles s)"
  by (auto simp: map_claims_def dict_get_def set_extract_roles
      split: pyval.splits option.splits if_splits)

end
