(* ===== verification/GW_Schemas.thy ===== *)
theory GW_Schemas
  imports GW_Subject
begin

text \<open>
  \<^verbatim>\<open>api/schemas.py\<close>, \<^verbatim>\<open>api/operation_aware_schemas.py\<close> and
  \<^verbatim>\<open>api/operation_aware_classification.py\<close>: shape validation of the two request
  bodies, the response bodies, and the HTTP status of an operation-aware
  result. The driver of pydantic (one error list over the fields in their
  declared order, then the undeclared keys) is written out for the field types
  the models use; the basis-core models nested in the operation-aware request
  are validated by the parameter \<^verbatim>\<open>nested\<close>.
\<close>

section \<open>Field validation\<close>

definition opt_str_field :: "pyval dict \<Rightarrow> string \<Rightarrow> verr list + string option" where
  "opt_str_field data name = (case map_of data name of
      None \<Rightarrow> Inr None
    | Some PNone \<Rightarrow> Inr None
    | Some (PStr s) \<Rightarrow> Inr (Some s)
    | Some _ \<Rightarrow> Inl [Verr [name] ''string_type'' (''Input should be a valid string'', [])])"

text \<open>The required field \<^verbatim>\<open>action\<close> with its validator \<^verbatim>\<open>action_not_empty\<close>.\<close>

definition action_not_empty :: "string \<Rightarrow> verr list + string" where
  "action_not_empty v = (if v = [] \<or> strip v = []
     then Inl [Verr [''action''] ''value_error'' (''action must not be empty'', [])] else Inr v)"

definition action_field :: "pyval dict \<Rightarrow> verr list + string" where
  "action_field data = (case map_of data ''action'' of
      None \<Rightarrow> Inl [Verr [''action''] ''missing'' (''Field required'', [])]
    | Some (PStr s) \<Rightarrow> action_not_empty s
    | Some _ \<Rightarrow> Inl [Verr [''action''] ''string_type'' (''Input should be a valid string'', [])])"

definition str_value_errors :: "pyval dict \<Rightarrow> verr list" where
  "str_value_errors d = concat (map (\<lambda>(k, v). case v of PStr s \<Rightarrow> []
     | _ \<Rightarrow> [Verr [''context'', k] ''string_type'' (''Input should be a valid string'', [])]) d)"

definition str_values :: "pyval dict \<Rightarrow> string dict" where
  "str_values d = concat (map (\<lambda>(k, v). case v of PStr s \<Rightarrow> [(k, s)] | _ \<Rightarrow> []) d)"

definition context_field :: "pyval dict \<Rightarrow> verr list + string dict" where
  "context_field data = (case map_of data ''context'' of
      None \<Rightarrow> Inr []
    | Some (PDict d) \<Rightarrow> (if str_value_errors d = [] then Inr (str_values d) else Inl (str_value_errors d))
    | Some _ \<Rightarrow> Inl [Verr [''context''] ''dict_type'' (''Input should be a valid dictionary'', [])])"

definition extra_errors :: "string list \<Rightarrow> pyval dict \<Rightarrow> verr list" where
  "extra_errors declared data = map (\<lambda>k. Verr [k] ''extra_forbidden'' (''Extra inputs are not permitted'', []))
     (filter (\<lambda>k. k \<notin> set declared) (map fst data))"

definition errors_of :: "verr list + 'a \<Rightarrow> verr list" where
  "errors_of r = (case r of Inl es \<Rightarrow> es | Inr _ \<Rightarrow> [])"

definition model_type_error :: exn where
  "model_type_error = ValidationError [Verr [] ''model_type'' (''Input should be a valid dictionary'', [])]"

section \<open>EvaluateRequest\<close>

record EvaluateRequest =
  er_request_id :: "string option"
  er_action :: string
  er_resource_type :: "string option"
  er_resource_id :: "string option"
  er_context :: "string dict"

definition evaluate_fields :: "string list" where
  "evaluate_fields = [''request_id'', ''action'', ''resource_type'', ''resource_id'', ''context'']"

definition reject_caller_supplied_subject :: "pyval dict \<Rightarrow> verr list" where
  "reject_caller_supplied_subject data =
     (let disallowed = filter (\<lambda>k. k \<in> fst ` set data) [''subject_id'', ''subject_roles''] in
      if disallowed \<noteq> []
      then [Verr [] ''value_error'' (''Fields must not be provided by the caller'', disallowed)]
      else [])"

definition EvaluateRequest_validate :: "pyval \<Rightarrow> EvaluateRequest res" where
  "EvaluateRequest_validate body = (case body of
      PDict data \<Rightarrow>
        (if reject_caller_supplied_subject data \<noteq> []
         then Inl (ValidationError (reject_caller_supplied_subject data))
         else case (opt_str_field data ''request_id'', action_field data,
                    opt_str_field data ''resource_type'', opt_str_field data ''resource_id'',
                    context_field data, extra_errors evaluate_fields data) of
           (Inr rid, Inr a, Inr rt, Inr rsid, Inr ctx, []) \<Rightarrow>
             Inr \<lparr>er_request_id = rid, er_action = a, er_resource_type = rt,
                  er_resource_id = rsid, er_context = ctx\<rparr>
         | (e1, e2, e3, e4, e5, e6) \<Rightarrow>
             Inl (ValidationError (errors_of e1 @ errors_of e2 @ errors_of e3 @ errors_of e4
               @ errors_of e5 @ e6)))
    | _ \<Rightarrow> Inl model_type_error)"

record EvaluateResponse =
  rs_request_id :: string
  rs_outcome :: string
  rs_reason :: string
  rs_policy_version :: "string option"
  rs_correlation_id :: "string option"

record ErrorResponse =
  err_error :: string
  err_message :: "msg option"
  err_correlation_id :: "string option"

section \<open>OperationAwareEvaluateRequest\<close>

record OperationAwareEvaluateRequest =
  oq_request_id :: "string option"
  oq_action :: string
  oq_resource_type :: "string option"
  oq_resource_id :: "string option"
  oq_context :: "string dict"
  oq_operation_intent :: "pyval option"
  oq_location :: "pyval option"
  oq_device :: "pyval option"
  oq_protocol_context :: "pyval option"
  oq_safety_context :: "pyval option"
  oq_environment_context :: "pyval option"
  oq_risk_context :: "pyval option"
  oq_identity_evidence_reference :: "pyval option"
  oq_adapter_evidence_reference :: "pyval option"

type_synonym nested = "string \<Rightarrow> pyval \<Rightarrow> verr list + pyval"

definition nested_field :: "nested \<Rightarrow> pyval dict \<Rightarrow> string \<Rightarrow> verr list + pyval option" where
  "nested_field nested data name = (case map_of data name of
      None \<Rightarrow> Inr None
    | Some PNone \<Rightarrow> Inr None
    | Some v \<Rightarrow> (case nested name v of Inl es \<Rightarrow> Inl es | Inr x \<Rightarrow> Inr (Some x)))"

text \<open>\<^verbatim>\<open>OPERATION_PRODUCER_ONLY_FIELDS\<close>, in the declared order.\<close>

definition OPERATION_PRODUCER_ONLY_FIELDS :: "string list" where
  "OPERATION_PRODUCER_ONLY_FIELDS =
     [''operation_intent'', ''location'', ''device'', ''protocol_context'', ''safety_context'',
      ''environment_context'', ''risk_context'', ''identity_evidence_reference'',
      ''adapter_evidence_reference'']"

definition operation_aware_context_must_be_empty :: "string dict \<Rightarrow> verr list + string dict" where
  "operation_aware_context_must_be_empty v = (if v \<noteq> []
     then Inl [Verr [''context''] ''value_error'' (''free-form context is not supported'', [])] else Inr v)"

definition oa_context_field :: "pyval dict \<Rightarrow> verr list + string dict" where
  "oa_context_field data = (case context_field data of
      Inl es \<Rightarrow> Inl es
    | Inr v \<Rightarrow> (if map_of data ''context'' = None then Inr v else operation_aware_context_must_be_empty v))"

definition ok :: "verr list + 'a \<Rightarrow> bool" where
  "ok r \<longleftrightarrow> (case r of Inl _ \<Rightarrow> False | Inr _ \<Rightarrow> True)"

definition val :: "verr list + 'a option \<Rightarrow> 'a option" where
  "val r = (case r of Inl _ \<Rightarrow> None | Inr x \<Rightarrow> x)"

definition OperationAwareEvaluateRequest_validate ::
    "nested \<Rightarrow> pyval \<Rightarrow> OperationAwareEvaluateRequest res" where
  "OperationAwareEvaluateRequest_validate nested body = (case body of
      PDict data \<Rightarrow>
        (let rid = opt_str_field data ''request_id''; act = action_field data;
             rt = opt_str_field data ''resource_type''; rsid = opt_str_field data ''resource_id'';
             ctx = oa_context_field data; n = nested_field nested data;
             extra = extra_errors (evaluate_fields @ OPERATION_PRODUCER_ONLY_FIELDS) data in
         case (act, ctx) of
           (Inr a, Inr c) \<Rightarrow>
             (if ok rid \<and> ok rt \<and> ok rsid \<and> list_all (\<lambda>f. ok (n f)) OPERATION_PRODUCER_ONLY_FIELDS
                 \<and> extra = []
              then Inr \<lparr>oq_request_id = val rid, oq_action = a, oq_resource_type = val rt,
                   oq_resource_id = val rsid, oq_context = c,
                   oq_operation_intent = val (n ''operation_intent''),
                   oq_location = val (n ''location''), oq_device = val (n ''device''),
                   oq_protocol_context = val (n ''protocol_context''),
                   oq_safety_context = val (n ''safety_context''),
                   oq_environment_context = val (n ''environment_context''),
                   oq_risk_context = val (n ''risk_context''),
                   oq_identity_evidence_reference = val (n ''identity_evidence_reference''),
                   oq_adapter_evidence_reference = val (n ''adapter_evidence_reference'')\<rparr>
              else Inl (ValidationError (errors_of rid @ errors_of rt @ errors_of rsid
                @ concat (map (\<lambda>f. errors_of (n f)) OPERATION_PRODUCER_ONLY_FIELDS) @ extra)))
         | _ \<Rightarrow> Inl (ValidationError (errors_of rid @ errors_of act @ errors_of rt @ errors_of rsid
                @ errors_of ctx @ concat (map (\<lambda>f. errors_of (n f)) OPERATION_PRODUCER_ONLY_FIELDS)
                @ extra)))
    | _ \<Rightarrow> Inl model_type_error)"

section \<open>Operation-aware results and their classification\<close>

datatype EnforcementDisposition = DISP_ALLOW | DISP_DENY

text \<open>The kernel's result, as far as the gateway reads it; the evidence and the trace carry
  their own JSON dump.\<close>

record AuditEvidence =
  evd_evidence_id :: string
  evd_dump :: "pyval dict"

record OAResponse =
  or_request_id :: string
  or_correlation_id :: "string option"
  or_evaluation_status :: eval_status
  or_outcome :: "oa_outcome option"
  or_failure_reason :: "failure_reason option"
  or_bundle_id :: "string option"
  or_bundle_version :: "string option"
  or_trace_id :: "string option"
  or_reason_code :: "string option"
  or_explanation :: "string option"
  or_evaluation_trace :: "pyval dict option"

record OAResult =
  rr_response :: OAResponse
  rr_disposition :: EnforcementDisposition
  rr_audit_evidence :: "AuditEvidence option"

definition status_value :: "eval_status \<Rightarrow> string" where
  "status_value s = (case s of COMPLETED \<Rightarrow> ''completed'' | FAILED \<Rightarrow> ''failed'')"

definition outcome_value :: "oa_outcome \<Rightarrow> string" where
  "outcome_value u = (case u of OA_ALLOW \<Rightarrow> ''allow'' | OA_DENY \<Rightarrow> ''deny''
    | OA_NOT_APPLICABLE \<Rightarrow> ''not_applicable'')"

definition failure_value :: "failure_reason \<Rightarrow> string" where
  "failure_value f = (case f of INVALID_REQUEST \<Rightarrow> ''invalid_request''
    | UNSUPPORTED_SCHEMA_VERSION \<Rightarrow> ''unsupported_schema_version''
    | INVALID_POLICY_BUNDLE \<Rightarrow> ''invalid_policy_bundle''
    | POLICY_VALIDATION_FAILURE \<Rightarrow> ''policy_validation_failure''
    | CONDITION_EVALUATION_ERROR \<Rightarrow> ''condition_evaluation_error''
    | INTERNAL_EVALUATION_ERROR \<Rightarrow> ''internal_evaluation_error'')"

definition disposition_value :: "EnforcementDisposition \<Rightarrow> string" where
  "disposition_value d = (case d of DISP_ALLOW \<Rightarrow> ''allow'' | DISP_DENY \<Rightarrow> ''deny'')"

record OperationAwareEvaluateResponse =
  ob_request_id :: string
  ob_correlation_id :: "string option"
  ob_evaluation_status :: string
  ob_outcome :: "string option"
  ob_failure_reason :: "string option"
  ob_bundle_id :: "string option"
  ob_bundle_version :: "string option"
  ob_trace_id :: "string option"
  ob_evidence_id :: "string option"
  ob_reason_code :: "string option"
  ob_explanation :: "string option"
  ob_disposition :: string
  ob_evaluation_trace :: "pyval dict option"

definition from_result :: "OAResult \<Rightarrow> OperationAwareEvaluateResponse" where
  "from_result result = (let response = rr_response result in
     \<lparr>ob_request_id = or_request_id response,
      ob_correlation_id = or_correlation_id response,
      ob_evaluation_status = status_value (or_evaluation_status response),
      ob_outcome = map_option outcome_value (or_outcome response),
      ob_failure_reason = map_option failure_value (or_failure_reason response),
      ob_bundle_id = or_bundle_id response,
      ob_bundle_version = or_bundle_version response,
      ob_trace_id = or_trace_id response,
      ob_evidence_id = map_option evd_evidence_id (rr_audit_evidence result),
      ob_reason_code = or_reason_code response,
      ob_explanation = or_explanation response,
      ob_disposition = disposition_value (rr_disposition result),
      ob_evaluation_trace = or_evaluation_trace response\<rparr>)"

definition FAILURE_REASON_HTTP_STATUS :: "failure_reason \<Rightarrow> nat" where
  "FAILURE_REASON_HTTP_STATUS f = (case f of
      INVALID_REQUEST \<Rightarrow> 400 | UNSUPPORTED_SCHEMA_VERSION \<Rightarrow> 400
    | INVALID_POLICY_BUNDLE \<Rightarrow> 503 | POLICY_VALIDATION_FAILURE \<Rightarrow> 503
    | CONDITION_EVALUATION_ERROR \<Rightarrow> 500 | INTERNAL_EVALUATION_ERROR \<Rightarrow> 500)"

definition UNRECOGNIZED_STATE_HTTP_STATUS :: nat where
  "UNRECOGNIZED_STATE_HTTP_STATUS = 500"

definition classify_operation_aware_http_status ::
    "eval_status \<Rightarrow> oa_outcome option \<Rightarrow> failure_reason option \<Rightarrow> nat" where
  "classify_operation_aware_http_status evaluation_status outcome failure_reason =
     (case evaluation_status of
        COMPLETED \<Rightarrow>
          (if outcome = Some OA_ALLOW then 200
           else if outcome = Some OA_DENY \<or> outcome = Some OA_NOT_APPLICABLE then 403
           else UNRECOGNIZED_STATE_HTTP_STATUS)
      | FAILED \<Rightarrow>
          (case failure_reason of Some f \<Rightarrow> FAILURE_REASON_HTTP_STATUS f
           | None \<Rightarrow> UNRECOGNIZED_STATE_HTTP_STATUS))"

section \<open>Lemmas\<close>

lemma opt_str_field_Inr:
  "opt_str_field data f = Inr v \<longleftrightarrow>
     map_of data f = map_option PStr v \<or> (v = None \<and> map_of data f = Some PNone)"
  by (cases v) (auto simp: opt_str_field_def split: option.splits pyval.splits)

lemma action_field_Inr:
  "action_field data = Inr a \<longleftrightarrow> map_of data ''action'' = Some (PStr a) \<and> \<not> blank a"
  by (auto simp: action_field_def action_not_empty_def blank_def split: option.splits pyval.splits)

lemma str_values_ok:
  "str_value_errors d = [] \<Longrightarrow> d = map (\<lambda>(k, s). (k, PStr s)) (str_values d)"
proof (induction d)
  case (Cons p d)
  obtain k v where "p = (k, v)" by (cases p)
  with Cons show ?case by (cases v) (auto simp: str_value_errors_def str_values_def)
qed (simp add: str_values_def)

lemma str_values_map [simp]:
  "str_values (map (\<lambda>(k, s). (k, PStr s)) d) = d" "str_value_errors (map (\<lambda>(k, s). (k, PStr s)) d) = []"
  by (induction d) (auto simp: str_values_def str_value_errors_def)

lemma context_field_Inr:
  "context_field data = Inr c \<longleftrightarrow>
     (map_of data ''context'' = None \<and> c = [])
     \<or> map_of data ''context'' = Some (PDict (map (\<lambda>(k, s). (k, PStr s)) c))"
proof (cases "map_of data ''context''")
  case (Some v)
  show ?thesis
  proof (cases v)
    case (PDict d)
    have "str_value_errors d = [] \<and> str_values d = c \<longleftrightarrow> d = map (\<lambda>(k, s). (k, PStr s)) c"
      using str_values_ok [of d] by auto
    then show ?thesis using Some PDict by (auto simp: context_field_def)
  qed (use Some in \<open>auto simp: context_field_def\<close>)
qed (auto simp: context_field_def)

lemma oa_context_field_Inr:
  "oa_context_field data = Inr c \<longleftrightarrow>
     c = [] \<and> (map_of data ''context'' = None \<or> map_of data ''context'' = Some (PDict []))"
proof (cases "context_field data")
  case (Inl e)
  then have "map_of data ''context'' \<noteq> None" "map_of data ''context'' \<noteq> Some (PDict [])"
    using context_field_Inr [of data "[]"] by auto
  with Inl show ?thesis by (simp add: oa_context_field_def)
next
  case (Inr v)
  then show ?thesis using context_field_Inr [of data v]
    by (auto simp: oa_context_field_def operation_aware_context_must_be_empty_def)
qed

lemma extra_errors_Nil: "extra_errors fs data = [] \<longleftrightarrow> fst ` set data \<subseteq> set fs"
  by (auto simp: extra_errors_def filter_empty_conv)

lemma reject_subject_Nil:
  "reject_caller_supplied_subject data = [] \<longleftrightarrow>
     ''subject_id'' \<notin> fst ` set data \<and> ''subject_roles'' \<notin> fst ` set data"
  by (auto simp: reject_caller_supplied_subject_def Let_def split: if_splits)

lemma value_inj:
  "status_value a = status_value b \<longleftrightarrow> a = b" "outcome_value u = outcome_value w \<longleftrightarrow> u = w"
  "failure_value f = failure_value g \<longleftrightarrow> f = g" "disposition_value d = disposition_value e \<longleftrightarrow> d = e"
proof -
  show "status_value a = status_value b \<longleftrightarrow> a = b"
    by (cases a; cases b) (simp_all add: status_value_def)
  show "outcome_value u = outcome_value w \<longleftrightarrow> u = w"
    by (cases u; cases w) (simp_all add: outcome_value_def)
  show "failure_value f = failure_value g \<longleftrightarrow> f = g"
    by (cases f; cases g) (simp_all add: failure_value_def)
  show "disposition_value d = disposition_value e \<longleftrightarrow> d = e"
    by (cases d; cases e) (simp_all add: disposition_value_def)
qed

lemma validate_Inr_iff:
  "EvaluateRequest_validate body = Inr r \<longleftrightarrow> (\<exists>data. body = PDict data
     \<and> reject_caller_supplied_subject data = []
     \<and> opt_str_field data ''request_id'' = Inr (er_request_id r)
     \<and> action_field data = Inr (er_action r)
     \<and> opt_str_field data ''resource_type'' = Inr (er_resource_type r)
     \<and> opt_str_field data ''resource_id'' = Inr (er_resource_id r)
     \<and> context_field data = Inr (er_context r)
     \<and> extra_errors evaluate_fields data = [])"
proof (cases body)
  case (PDict data)
  show ?thesis
    by (cases "extra_errors evaluate_fields data")
      (auto simp: PDict EvaluateRequest_validate_def split: sum.splits)
qed (simp_all add: EvaluateRequest_validate_def model_type_error_def)

lemma validate_error: "EvaluateRequest_validate body = Inl e \<Longrightarrow> \<exists>es. e = ValidationError es"
proof (cases body)
  case (PDict data)
  assume "EvaluateRequest_validate body = Inl e"
  then show ?thesis
    by (cases "extra_errors evaluate_fields data")
      (auto simp: PDict EvaluateRequest_validate_def split: sum.splits if_splits)
qed (auto simp: EvaluateRequest_validate_def model_type_error_def)

lemma ok_simps [simp]: "ok (Inr x)" "\<not> ok (Inl e)" "val (Inr y) = y"
  by (simp_all add: ok_def val_def)

lemma ok_val: "ok r \<Longrightarrow> r = Inr (val r)"
  by (cases r) simp_all

lemma oa_validate_Inr:
  assumes "OperationAwareEvaluateRequest_validate nested body = Inr r"
  obtains data where "body = PDict data"
    and "fst ` set data \<subseteq> set (evaluate_fields @ OPERATION_PRODUCER_ONLY_FIELDS)"
    and "action_field data = Inr (oq_action r)" and "oq_context r = []"
    and "opt_str_field data ''request_id'' = Inr (oq_request_id r)"
    and "opt_str_field data ''resource_type'' = Inr (oq_resource_type r)"
    and "opt_str_field data ''resource_id'' = Inr (oq_resource_id r)"
proof (cases body)
  case (PDict data)
  show ?thesis
  proof (rule that)
    show "body = PDict data" by (rule PDict)
    note [simp] = PDict OperationAwareEvaluateRequest_validate_def Let_def extra_errors_Nil
    show "fst ` set data \<subseteq> set (evaluate_fields @ OPERATION_PRODUCER_ONLY_FIELDS)"
      using assms by (auto split: sum.splits if_splits)
    show "action_field data = Inr (oq_action r)" "oq_context r = []"
      using assms oa_context_field_Inr [of data] by (auto split: sum.splits if_splits)
    show "opt_str_field data ''request_id'' = Inr (oq_request_id r)"
      "opt_str_field data ''resource_type'' = Inr (oq_resource_type r)"
      "opt_str_field data ''resource_id'' = Inr (oq_resource_id r)"
      using assms by (auto dest: ok_val split: sum.splits if_splits)
  qed
qed (use assms in \<open>simp_all add: OperationAwareEvaluateRequest_validate_def model_type_error_def\<close>)

lemma oa_validate_error:
  "OperationAwareEvaluateRequest_validate nested body = Inl e \<Longrightarrow> \<exists>es. e = ValidationError es"
  by (cases body) (auto simp: OperationAwareEvaluateRequest_validate_def Let_def model_type_error_def
      split: sum.splits if_splits)

section \<open>Properties\<close>

text \<open>C29: A body of the evaluation endpoint validates exactly when it is an object whose keys
  are all declared fields, whose action is a string with visible content,
  whose optional fields are strings or null, and whose context maps strings
  to strings; the request carries these values unchanged. In particular a
  body that names a subject is rejected. Every other body is a validation error.\<close>

theorem evaluate_request_exact:
  "(EvaluateRequest_validate body = Inr r \<longleftrightarrow>
      (\<exists>data. body = PDict data \<and> fst ` set data \<subseteq> set evaluate_fields
        \<and> map_of data ''action'' = Some (PStr (er_action r)) \<and> \<not> blank (er_action r)
        \<and> opt_str_field data ''request_id'' = Inr (er_request_id r)
        \<and> opt_str_field data ''resource_type'' = Inr (er_resource_type r)
        \<and> opt_str_field data ''resource_id'' = Inr (er_resource_id r)
        \<and> (case map_of data ''context'' of None \<Rightarrow> er_context r = []
           | Some v \<Rightarrow> v = PDict (map (\<lambda>(k, s). (k, PStr s)) (er_context r)))))
   \<and> (\<forall>e. EvaluateRequest_validate body = Inl e \<longrightarrow> (\<exists>es. e = ValidationError es))"
proof -
  have sub: "reject_caller_supplied_subject data = []" if "fst ` set data \<subseteq> set evaluate_fields" for data
    using that by (auto simp: reject_subject_Nil evaluate_fields_def)
  have ctx: "context_field data = Inr c \<longleftrightarrow> (case map_of data ''context'' of None \<Rightarrow> c = []
      | Some v \<Rightarrow> v = PDict (map (\<lambda>(k, s). (k, PStr s)) c))" for data c
    by (auto simp: context_field_Inr split: option.splits)
  show ?thesis
    using validate_error [of body] sub
    unfolding validate_Inr_iff action_field_Inr extra_errors_Nil ctx by blast
qed

theorem evaluate_request_exact_witness:
  "\<exists>es. EvaluateRequest_validate (PDict [(''action'', PStr ''read:ahu''), (''subject_id'', PStr ''eve'')])
     = Inl (ValidationError es)"
proof -
  let ?b = "PDict [(''action'', PStr ''read:ahu''), (''subject_id'', PStr ''eve'')]"
  have "EvaluateRequest_validate ?b \<noteq> Inr r" for r
    unfolding evaluate_request_exact [THEN conjunct1] by (simp add: evaluate_fields_def)
  then show ?thesis using evaluate_request_exact [of ?b]
    by (cases "EvaluateRequest_validate ?b") auto
qed

text \<open>An accepted operation-aware body has only declared fields, an action with visible
  content and an empty free-form context; it cannot carry a subject, a
  producer-trust flag or any other undeclared key, and every rejection is a
  validation error.\<close>

theorem oa_request_shape:
  "case OperationAwareEvaluateRequest_validate nested body of
     Inl e \<Rightarrow> \<exists>es. e = ValidationError es
   | Inr r \<Rightarrow> oq_context r = [] \<and> \<not> blank (oq_action r)
       \<and> (\<exists>data. body = PDict data \<and> map_of data ''action'' = Some (PStr (oq_action r))
            \<and> (map_of data ''context'' = None \<or> map_of data ''context'' = Some (PDict []))
            \<and> fst ` set data \<subseteq> set (evaluate_fields @ OPERATION_PRODUCER_ONLY_FIELDS))"
proof (cases "OperationAwareEvaluateRequest_validate nested body")
  case (Inl e)
  then show ?thesis using oa_validate_error by simp
next
  case (Inr r)
  have c: "\<exists>c. oa_context_field data = Inr c" if "body = PDict data" for data
    using Inr that by (auto simp: OperationAwareEvaluateRequest_validate_def Let_def
        split: sum.splits if_splits)
  show ?thesis
    using Inr by (rule oa_validate_Inr)
      (use Inr c in \<open>auto simp: action_field_Inr oa_context_field_Inr\<close>)
qed

text \<open>The HTTP status of an operation-aware result: 200 exactly for a completed ALLOW, 403
  exactly for a completed DENY or NOT\_APPLICABLE, and a failed or contradictory
  result is always one of 400, 500 and 503, never a permit or a policy denial.\<close>

theorem http_status_exact:
  "let s = classify_operation_aware_http_status st oc fr in
   (s = 200 \<longleftrightarrow> st = COMPLETED \<and> oc = Some OA_ALLOW)
   \<and> (s = 403 \<longleftrightarrow> st = COMPLETED \<and> (oc = Some OA_DENY \<or> oc = Some OA_NOT_APPLICABLE))
   \<and> (st = FAILED \<or> oc = None \<longleftrightarrow> s \<in> {400, 500, 503})"
proof (cases oc)
  case None
  then show ?thesis
    by (cases st) (simp_all add: classify_operation_aware_http_status_def
        UNRECOGNIZED_STATE_HTTP_STATUS_def FAILURE_REASON_HTTP_STATUS_def
        split: option.split failure_reason.split)
next
  case (Some u)
  then show ?thesis
    by (cases st; cases u) (simp_all add: classify_operation_aware_http_status_def
        UNRECOGNIZED_STATE_HTTP_STATUS_def FAILURE_REASON_HTTP_STATUS_def
        split: option.split failure_reason.split)
qed

text \<open>The operation-aware response body loses nothing the caller must be able to tell
  apart: two results with the same body agree in evaluation status, outcome,
  failure reason, disposition and evidence id, so NOT\_APPLICABLE is never
  reported as DENY and a failure never as a denial.\<close>

theorem from_result_faithful:
  assumes "from_result r = from_result r'"
  shows "or_evaluation_status (rr_response r) = or_evaluation_status (rr_response r')
    \<and> or_outcome (rr_response r) = or_outcome (rr_response r')
    \<and> or_failure_reason (rr_response r) = or_failure_reason (rr_response r')
    \<and> rr_disposition r = rr_disposition r'
    \<and> map_option evd_evidence_id (rr_audit_evidence r) = map_option evd_evidence_id (rr_audit_evidence r')"
proof -
  have inj: "inj outcome_value" "inj failure_value" by (auto simp: inj_def value_inj)
  note e = assms [unfolded from_result_def Let_def]
  have "status_value (or_evaluation_status (rr_response r)) = status_value (or_evaluation_status (rr_response r'))"
    and "map_option outcome_value (or_outcome (rr_response r)) = map_option outcome_value (or_outcome (rr_response r'))"
    and "map_option failure_value (or_failure_reason (rr_response r))
      = map_option failure_value (or_failure_reason (rr_response r'))"
    and "disposition_value (rr_disposition r) = disposition_value (rr_disposition r')"
    and "map_option evd_evidence_id (rr_audit_evidence r) = map_option evd_evidence_id (rr_audit_evidence r')"
    using e by simp_all
  then show ?thesis
    using option.inj_map [OF inj(1)] option.inj_map [OF inj(2)] by (simp add: value_inj inj_eq)
qed

definition sample_oa_response :: "oa_outcome \<Rightarrow> OAResponse" where
  "sample_oa_response u = \<lparr>or_request_id = ''r1'', or_correlation_id = None,
     or_evaluation_status = COMPLETED, or_outcome = Some u, or_failure_reason = None,
     or_bundle_id = None, or_bundle_version = None, or_trace_id = None, or_reason_code = None,
     or_explanation = None, or_evaluation_trace = None\<rparr>"

definition sample_oa_result :: "oa_outcome \<Rightarrow> OAResult" where
  "sample_oa_result u = \<lparr>rr_response = sample_oa_response u,
     rr_disposition = (if u = OA_ALLOW then DISP_ALLOW else DISP_DENY),
     rr_audit_evidence = Some \<lparr>evd_evidence_id = ''e1'', evd_dump = []\<rparr>\<rparr>"

theorem from_result_faithful_witness:
  "from_result (sample_oa_result OA_DENY) \<noteq> from_result (sample_oa_result OA_NOT_APPLICABLE)"
  using from_result_faithful [of "sample_oa_result OA_DENY" "sample_oa_result OA_NOT_APPLICABLE"]
  by (auto simp: sample_oa_result_def sample_oa_response_def)

end
