(* ===== verification/GW_Config.thy ===== *)
theory GW_Config
  imports GW_Prelude
begin

text \<open>
  \<^verbatim>\<open>config.py\<close>: the configuration record with the validators of its fields and
  the two fail-early checks of startup. Reading the environment is the work of
  pydantic-settings and is a parameter of the startup model; the bounds it
  enforces are \<^verbatim>\<open>config_ok\<close>. \<^verbatim>\<open>json.loads\<close> and \<^verbatim>\<open>str()\<close> of a value that
  is not a string are parameters.
\<close>

datatype AuthMode = OIDC | BASIS_LOCAL_TOKEN

record GatewayConfig =
  service_name :: string
  host :: string
  port :: int
  log_level :: string
  environment :: string
  auth_mode :: AuthMode
  oidc_issuer :: "string option"
  oidc_audience :: "string option"
  oidc_jwks_uri :: "string option"
  jwks_cache_ttl_seconds :: rat
  basis_local_token_issuer :: "string option"
  basis_local_token_audience :: "string option"
  basis_local_token_public_keys_json :: "string option"
  basis_local_token_allowed_algorithms :: string
  basis_local_token_leeway_seconds :: int
  policy_version :: "string option"
  policy_path :: "string option"
  audit_failure_threshold :: int
  audit_fail_closed :: bool
  operation_producer_subject_ids :: "string set"
  operation_aware_enabled :: bool
  operation_aware_policy_bundle_path :: "string option"
  operation_producer_mtls_trusted_proxy_enabled :: bool
  operation_producer_mtls_admitted_uris :: "string set"

text \<open>The defaults of the fields.\<close>

definition default_config :: GatewayConfig where
  "default_config = \<lparr>service_name = ''basis-gateway'', host = ''0.0.0.0'', port = 8000,
     log_level = ''INFO'', environment = ''local'', auth_mode = OIDC,
     oidc_issuer = None, oidc_audience = None, oidc_jwks_uri = None,
     jwks_cache_ttl_seconds = 300,
     basis_local_token_issuer = None, basis_local_token_audience = None,
     basis_local_token_public_keys_json = None,
     basis_local_token_allowed_algorithms = ''RS256'', basis_local_token_leeway_seconds = 0,
     policy_version = None, policy_path = None,
     audit_failure_threshold = 10, audit_fail_closed = False,
     operation_producer_subject_ids = {}, operation_aware_enabled = False,
     operation_aware_policy_bundle_path = None,
     operation_producer_mtls_trusted_proxy_enabled = False,
     operation_producer_mtls_admitted_uris = {}\<rparr>"

section \<open>Field validators\<close>

definition VALID_LOG_LEVELS :: "string list" where
  "VALID_LOG_LEVELS = [''DEBUG'', ''INFO'', ''WARNING'', ''ERROR'', ''CRITICAL'']"

definition validate_log_level :: "string \<Rightarrow> string res" where
  "validate_log_level v = (let u = upper v in
     if u \<notin> set VALID_LOG_LEVELS then Inl (PyError (ValueError (''Invalid LOG_LEVEL'', [v])))
     else Inr u)"

text \<open>\<^verbatim>\<open>part.strip() for part in v.split(",") if part.strip()\<close>.\<close>

definition csv_parts :: "string \<Rightarrow> string list" where
  "csv_parts v = filter (\<lambda>p. p \<noteq> []) (map strip (split_on (CHR '','') v))"

definition py_str :: "(pyval \<Rightarrow> string) \<Rightarrow> pyval \<Rightarrow> string" where
  "py_str str_of v = (case v of PStr s \<Rightarrow> s | _ \<Rightarrow> str_of v)"

definition parse_operation_producer_subject_ids ::
    "(pyval \<Rightarrow> string) \<Rightarrow> pyval \<Rightarrow> string set res" where
  "parse_operation_producer_subject_ids str_of v = (case v of
      PNone \<Rightarrow> Inr {}
    | PStr s \<Rightarrow> Inr (set (csv_parts s))
    | PList xs \<Rightarrow> Inr (set (filter (\<lambda>p. p \<noteq> []) (map (\<lambda>x. strip (py_str str_of x)) xs)))
    | _ \<Rightarrow> Inl (PyError (TypeError (''operation_producer_subject_ids must be a comma-separated string'', []))))"

text \<open>The per-entry loop of \<^verbatim>\<open>parse_operation_producer_mtls_admitted_uris\<close>; the error of a
  non-string entry depends on the branch.\<close>

fun uri_entries :: "exn \<Rightarrow> pyval list \<Rightarrow> string list res" where
  "uri_entries bad [] = Inr []"
| "uri_entries bad (PStr s # xs) =
     (if s = [] then Inl (PyError (ValueError (''admitted uris must not be empty strings'', [])))
      else res_bind (uri_entries bad xs) (\<lambda>ys. Inr (s # ys)))"
| "uri_entries bad (x # xs) = Inl bad"

definition parse_operation_producer_mtls_admitted_uris ::
    "(string \<Rightarrow> pyval option) \<Rightarrow> pyval \<Rightarrow> string set res" where
  "parse_operation_producer_mtls_admitted_uris json_loads v = (case v of
      PNone \<Rightarrow> Inr {}
    | PList xs \<Rightarrow> res_bind
        (uri_entries (PyError (TypeError (''admitted uris must all be strings'', []))) xs)
        (\<lambda>ys. Inr (set ys))
    | PStr s \<Rightarrow> (case json_loads s of
        None \<Rightarrow> Inl (PyError (ValueError (''admitted uris must be valid JSON'', [])))
      | Some (PList xs) \<Rightarrow> res_bind
          (uri_entries (PyError (ValueError (''admitted uris must all be JSON strings'', []))) xs)
          (\<lambda>ys. Inr (set ys))
      | Some _ \<Rightarrow> Inl (PyError (ValueError (''admitted uris must be a JSON array'', []))))
    | _ \<Rightarrow> Inl (PyError (TypeError (''admitted uris must be a JSON array string'', []))))"

text \<open>The bounds pydantic enforces on the declared fields, and the log-level validator.\<close>

definition config_ok :: "GatewayConfig \<Rightarrow> bool" where
  "config_ok c \<longleftrightarrow> 1 \<le> port c \<and> port c \<le> 65535 \<and> log_level c \<in> set VALID_LOG_LEVELS
     \<and> environment c \<in> {''local'', ''development'', ''staging'', ''production''}
     \<and> 0 < jwks_cache_ttl_seconds c \<and> 0 \<le> basis_local_token_leeway_seconds c
     \<and> 1 \<le> audit_failure_threshold c"

section \<open>Startup validation\<close>

definition evaluation_enabled :: "GatewayConfig \<Rightarrow> bool" where
  "evaluation_enabled c \<longleftrightarrow>
     (if auth_mode c = BASIS_LOCAL_TOKEN then True else oidc_issuer c \<noteq> None)"

definition missing_local_settings :: "GatewayConfig \<Rightarrow> string list" where
  "missing_local_settings c = map fst (filter (\<lambda>(name, v). \<not> truthy_opt v)
     [(''BASIS_LOCAL_TOKEN_ISSUER'', basis_local_token_issuer c),
      (''BASIS_LOCAL_TOKEN_AUDIENCE'', basis_local_token_audience c),
      (''BASIS_LOCAL_TOKEN_PUBLIC_KEYS_JSON'', basis_local_token_public_keys_json c)])"

definition validate_evaluation_config :: "GatewayConfig \<Rightarrow> unit res" where
  "validate_evaluation_config c =
     (if auth_mode c = BASIS_LOCAL_TOKEN
      then let missing = missing_local_settings c in
           if missing \<noteq> [] then Inl (EvaluationConfigError (''required when AUTH_MODE=basis_local_token'', missing))
           else if \<not> truthy_opt (policy_path c)
           then Inl (EvaluationConfigError (''POLICY_PATH is required when AUTH_MODE=basis_local_token'', []))
           else Inr ()
      else if oidc_issuer c \<noteq> None \<and> \<not> truthy_opt (policy_path c)
      then Inl (EvaluationConfigError (''POLICY_PATH is required when OIDC_ISSUER is configured'', []))
      else Inr ())"

definition validate_operation_aware_config :: "GatewayConfig \<Rightarrow> unit res" where
  "validate_operation_aware_config c =
     (if \<not> operation_aware_enabled c then Inr ()
      else if \<not> truthy_opt (operation_aware_policy_bundle_path c)
      then Inl (OperationAwareConfigError (''OPERATION_AWARE_POLICY_BUNDLE_PATH is required'', []))
      else Inr ())"

section \<open>Lemmas\<close>

lemma split_on_subset: "p \<in> set (split_on d s) \<Longrightarrow> set p \<subseteq> set s"
proof (induction s arbitrary: p)
  case (Cons c s)
  obtain q qs where q: "split_on d s = q # qs" by (cases "split_on d s") auto
  have sub: "x \<in> set (q # qs) \<Longrightarrow> set x \<subseteq> set s" for x using Cons.IH [of x] q by simp
  show ?case using Cons.prems q sub [of q] sub [of p] by (auto split: if_splits)
qed simp

lemma csv_parts_entry: "p \<in> set (csv_parts v) \<Longrightarrow> p \<noteq> [] \<and> strip p = p \<and> CHR '','' \<notin> set p"
  unfolding csv_parts_def using split_on_no_sep strip_set by fastforce

lemma csv_parts_single:
  assumes "CHR '','' \<notin> set p" and "strip p = p" and "p \<noteq> []"
  shows "csv_parts p = [p]"
proof -
  have "CHR '','' \<notin> set s \<Longrightarrow> split_on (CHR '','') s = [s]" for s
    by (induction s) auto
  then show ?thesis using assms by (simp add: csv_parts_def)
qed

lemma uri_entries_Inr: "uri_entries bad xs = Inr ys \<longleftrightarrow> xs = map PStr ys \<and> [] \<notin> set ys"
proof (induction bad xs arbitrary: ys rule: uri_entries.induct)
  case (2 bad s xs)
  then show ?case by (cases ys) auto
qed auto

lemma validate_evaluation_config_Inr:
  "validate_evaluation_config c = Inr () \<longleftrightarrow>
     (evaluation_enabled c \<longrightarrow> truthy_opt (policy_path c)) \<and>
     (auth_mode c = BASIS_LOCAL_TOKEN \<longrightarrow> missing_local_settings c = [])"
  by (auto simp: validate_evaluation_config_def evaluation_enabled_def Let_def)

section \<open>Properties\<close>

text \<open>The bearer-subject allowlist: every configured entry is non-empty, carries no
  surrounding whitespace and no comma, and an entry that is already in that
  form is kept literally, so a pattern such as \<^verbatim>\<open>adapter-*\<close> is one exact
  subject id and an empty setting admits nobody.\<close>

theorem producer_subject_ids_exact:
  "\<exists>ids. parse_operation_producer_subject_ids str_of (PStr v) = Inr ids
     \<and> (\<forall>p \<in> ids. p \<noteq> [] \<and> strip p = p \<and> CHR '','' \<notin> set p)
     \<and> (blank v \<longrightarrow> ids = {})
     \<and> (CHR '','' \<notin> set v \<longrightarrow> strip v = v \<longrightarrow> v \<noteq> [] \<longrightarrow> ids = {v})"
proof -
  have bl: "csv_parts v = []" if "blank v"
  proof (rule ccontr)
    assume "csv_parts v \<noteq> []"
    then obtain p where p: "p \<in> set (split_on (CHR '','') v)" "strip p \<noteq> []"
      by (auto simp: csv_parts_def filter_empty_conv)
    have "set p \<subseteq> set v" using p(1) by (rule split_on_subset)
    with that p(2) show False by (auto simp: blank_iff strip_def strip_by_eq_Nil)
  qed
  show ?thesis
    using csv_parts_entry csv_parts_single [of v] bl
    by (auto simp: parse_operation_producer_subject_ids_def)
qed

theorem producer_subject_ids_exact_witness:
  "parse_operation_producer_subject_ids (\<lambda>_. []) (PStr ''adapter-*'') = Inr {''adapter-*''}"
proof -
  have "strip ''adapter-*'' = ''adapter-*''"
    by (simp add: strip_def strip_by_def is_space_def)
  then show ?thesis using producer_subject_ids_exact [of "\<lambda>_. []" "''adapter-*''"] by auto
qed

text \<open>The admitted-URI allowlist is loaded verbatim or not at all: parsing succeeds on a
  JSON array exactly when all its entries are non-empty strings, the result
  is the set of exactly these strings with no trimming or case folding, and
  a scalar, an object or any other JSON value is rejected.\<close>

theorem admitted_uris_verbatim:
  "parse_operation_producer_mtls_admitted_uris json_loads (PStr s) = Inr ids \<longleftrightarrow>
     (\<exists>ys. json_loads s = Some (PList (map PStr ys)) \<and> [] \<notin> set ys \<and> ids = set ys)"
  by (auto simp: parse_operation_producer_mtls_admitted_uris_def uri_entries_Inr
      split: option.splits pyval.splits)

text \<open>The fail-early check passes exactly when an enabled evaluation endpoint has a
  policy path and, in BASIS-local mode, issuer, audience and public keys are
  all set; settings of the inactive mode are never required.\<close>

theorem validate_evaluation_config_complete:
  "validate_evaluation_config c = Inr () \<longleftrightarrow>
     (evaluation_enabled c \<longrightarrow> truthy_opt (policy_path c)) \<and>
     (auth_mode c = BASIS_LOCAL_TOKEN \<longrightarrow>
        truthy_opt (basis_local_token_issuer c) \<and> truthy_opt (basis_local_token_audience c)
        \<and> truthy_opt (basis_local_token_public_keys_json c))"
  by (auto simp: validate_evaluation_config_Inr missing_local_settings_def split: if_splits)

theorem validate_evaluation_config_complete_witness:
  "validate_evaluation_config default_config = Inr ()"
  using validate_evaluation_config_complete [of default_config]
  by (simp add: default_config_def evaluation_enabled_def)

end
