(* ===== verification/GW_Producer.thy ===== *)
theory GW_Producer
  imports GW_Subject GW_Config "HOL-Library.While_Combinator"
begin

text \<open>
  Operation-producer trust: \<^verbatim>\<open>auth/operation_producer.py\<close> (bearer-subject
  allowlist), \<^verbatim>\<open>auth/producer_mtls_trusted_proxy.py\<close> (header retrieval),
  \<^verbatim>\<open>auth/producer_mtls.py\<close> (decoding, parsing and admission of a certificate
  assertion) and \<^verbatim>\<open>auth/operation_producer_mtls.py\<close> (the mode-selecting
  resolver). X.509 parsing is the parameter \<^verbatim>\<open>load_pem\<close>; of a parsed
  certificate the gateway reads only the URI entries of its SAN extension.
  Byte strings are character strings.
\<close>

section \<open>Classification of the bearer subject (operation\_producer.py)\<close>

datatype OperationProducerTrustStatus = TRUSTED | UNTRUSTED

datatype OperationProducerTrustSource =
    CONFIGURED_SUBJECT_ID_ALLOWLIST
  | NOT_CONFIGURED
  | SUBJECT_ID_NOT_ALLOWED
  | MTLS_ADMITTED_URI_SAN
  | MTLS_URI_SAN_NOT_ADMITTED

record OperationProducerTrust =
  ot_status :: OperationProducerTrustStatus
  ot_source :: OperationProducerTrustSource
  ot_authorization_subject_id :: string
  ot_operation_producer_subject_id :: "string option"
  ot_producer_workload_identity :: "string option"

definition classify_operation_producer :: "NormalizedSubject \<Rightarrow> string set \<Rightarrow> OperationProducerTrust" where
  "classify_operation_producer subject trusted_subject_ids =
     (if trusted_subject_ids = {}
      then \<lparr>ot_status = UNTRUSTED, ot_source = NOT_CONFIGURED,
            ot_authorization_subject_id = subject_id subject,
            ot_operation_producer_subject_id = None, ot_producer_workload_identity = None\<rparr>
      else if subject_id subject \<in> trusted_subject_ids
      then \<lparr>ot_status = TRUSTED, ot_source = CONFIGURED_SUBJECT_ID_ALLOWLIST,
            ot_authorization_subject_id = subject_id subject,
            ot_operation_producer_subject_id = Some (subject_id subject),
            ot_producer_workload_identity = None\<rparr>
      else \<lparr>ot_status = UNTRUSTED, ot_source = SUBJECT_ID_NOT_ALLOWED,
            ot_authorization_subject_id = subject_id subject,
            ot_operation_producer_subject_id = None, ot_producer_workload_identity = None\<rparr>)"

section \<open>Header retrieval (producer\_mtls\_trusted\_proxy.py)\<close>

definition PRODUCER_CLIENT_CERT_HEADER_NAME :: string where
  "PRODUCER_CLIENT_CERT_HEADER_NAME = ''X-BASIS-Producer-Client-Cert''"

definition MAX_ASSERTION_SIZE_BYTES :: nat where
  "MAX_ASSERTION_SIZE_BYTES = 16 * 1024"

text \<open>\<^verbatim>\<open>bytes.lower()\<close>: only the ASCII letters.\<close>

definition ascii_lower :: "string \<Rightarrow> string" where
  "ascii_lower s = map (\<lambda>c. let n = (of_char c :: nat) in
     if 65 \<le> n \<and> n \<le> 90 then char_of (n + 32) else c) s"

definition cert_header_values :: "(string \<times> string) list \<Rightarrow> string list" where
  "cert_header_values raw_headers =
     map snd (filter (\<lambda>(name, value). ascii_lower name = ascii_lower PRODUCER_CLIENT_CERT_HEADER_NAME)
       raw_headers)"

definition retrieve_trusted_producer_certificate_assertion ::
    "(string \<times> string) list \<Rightarrow> bool \<Rightarrow> mtls_exn + string option" where
  "retrieve_trusted_producer_certificate_assertion raw_headers trusted_proxy_enabled =
     (if \<not> trusted_proxy_enabled then Inr None
      else case cert_header_values raw_headers of
        [] \<Rightarrow> Inr None
      | [raw_value] \<Rightarrow>
          (if MAX_ASSERTION_SIZE_BYTES < length raw_value
           then Inl OversizedProducerCertificateAssertionError
           else Inr (Some raw_value))
      | matches \<Rightarrow> Inl (DuplicateProducerCertificateAssertionError (length matches)))"

section \<open>Certificate identity (producer\_mtls.py)\<close>

definition hex_value :: "char \<Rightarrow> nat option" where
  "hex_value c = (let n = (of_char c :: nat) in
     if 48 \<le> n \<and> n \<le> 57 then Some (n - 48)
     else if 65 \<le> n \<and> n \<le> 70 then Some (n - 55)
     else if 97 \<le> n \<and> n \<le> 102 then Some (n - 87)
     else None)"

definition percent_error :: mtls_exn where
  "percent_error = CertificateAssertionDecodingError (''malformed percent-encoding'', [])"
definition non_ascii_error :: mtls_exn where
  "non_ascii_error = CertificateAssertionDecodingError (''contains a non-ASCII character'', [])"

definition push_byte :: "char \<Rightarrow> mtls_exn + string \<Rightarrow> mtls_exn + string" where
  "push_byte c r = (case r of Inl e \<Rightarrow> Inl e | Inr s \<Rightarrow> Inr (c # s))"

fun decode_producer_certificate_assertion :: "string \<Rightarrow> mtls_exn + string" where
  "decode_producer_certificate_assertion [] = Inr []"
| "decode_producer_certificate_assertion (c # s) =
     (if c = CHR ''%'' then
        (case s of
           h1 # h2 # rest \<Rightarrow>
             (case (hex_value h1, hex_value h2) of
                (Some x, Some y) \<Rightarrow>
                  push_byte (char_of (16 * x + y)) (decode_producer_certificate_assertion rest)
              | _ \<Rightarrow> Inl percent_error)
         | _ \<Rightarrow> Inl percent_error)
      else if 127 < (of_char c :: nat) then Inl non_ascii_error
      else push_byte c (decode_producer_certificate_assertion s))"

text \<open>The same function as the source writes it: a \<^verbatim>\<open>while\<close> loop over the index, with the bytes
  decoded so far; a \<^verbatim>\<open>raise\<close> leaves the loop with the error.\<close>

type_synonym decode_st = "nat \<times> string \<times> mtls_exn option"

definition decode_iter :: "string \<Rightarrow> decode_st \<Rightarrow> decode_st" where
  "decode_iter assertion = (\<lambda>(index, decoded, err).
     let c = assertion ! index in
     if c = CHR ''%'' then
       (if length assertion \<le> index + 2 then (index, decoded, Some percent_error)
        else case (hex_value (assertion ! (index + 1)), hex_value (assertion ! (index + 2))) of
          (Some x, Some y) \<Rightarrow> (index + 3, decoded @ [char_of (16 * x + y)], None)
        | _ \<Rightarrow> (index, decoded, Some percent_error))
     else if 127 < (of_char c :: nat) then (index, decoded, Some non_ascii_error)
     else (index + 1, decoded @ [c], None))"

definition decode_running :: "string \<Rightarrow> decode_st \<Rightarrow> bool" where
  "decode_running assertion = (\<lambda>(index, decoded, err). index < length assertion \<and> err = None)"

definition decode_loop :: "string \<Rightarrow> decode_st option" where
  "decode_loop assertion = while_option (decode_running assertion) (decode_iter assertion) (0, [], None)"

definition decode_returns :: "decode_st \<Rightarrow> mtls_exn + string" where
  "decode_returns = (\<lambda>(index, decoded, err). case err of Some e \<Rightarrow> Inl e | None \<Rightarrow> Inr decoded)"

definition PEM_BEGIN :: string where "PEM_BEGIN = ''-----BEGIN CERTIFICATE-----''"
definition PEM_END :: string where "PEM_END = ''-----END CERTIFICATE-----''"

definition pem_space :: "char \<Rightarrow> bool" where
  "pem_space c \<longleftrightarrow> c \<in> {CHR '' '', CHR 0x09, CHR 0x0D, CHR 0x0A}"

text \<open>\<^verbatim>\<open>bytes.count\<close> (occurrences that do not overlap) and \<^verbatim>\<open>bytes.index\<close>.\<close>

function count_sub :: "string \<Rightarrow> string \<Rightarrow> nat" where
  "count_sub p s =
     (if p = [] then length s + 1
      else if startswith p s then 1 + count_sub p (drop (length p) s)
      else case s of [] \<Rightarrow> 0 | c # t \<Rightarrow> count_sub p t)"
  by auto
termination
proof (relation "measure (length \<circ> snd)")
  fix p s :: string
  assume "p \<noteq> []" "startswith p s"
  then show "((p, drop (length p) s), (p, s)) \<in> measure (length \<circ> snd)"
    by (cases s) auto
qed auto

declare count_sub.simps [simp del]

fun index_of :: "string \<Rightarrow> string \<Rightarrow> nat" where
  "index_of p [] = 0"
| "index_of p (c # s) = (if startswith p (c # s) then 0 else Suc (index_of p s))"

definition require_single_pem_certificate_block :: "string \<Rightarrow> mtls_exn + unit" where
  "require_single_pem_certificate_block pem =
     (if count_sub PEM_BEGIN pem \<noteq> 1 \<or> count_sub PEM_END pem \<noteq> 1
      then Inl (CertificateParsingError (''must contain exactly one PEM CERTIFICATE block'', []))
      else let begin_index = index_of PEM_BEGIN pem;
               end_index = index_of PEM_END pem + length PEM_END in
        if strip_by pem_space (take begin_index pem) \<noteq> [] \<or> strip_by pem_space (drop end_index pem) \<noteq> []
        then Inl (CertificateParsingError (''must not contain data before or after the block'', []))
        else Inr ())"

text \<open>A parsed certificate: the URI entries of its SAN extension, \<^term>\<open>None\<close> without the
  extension, or the error that reading its extensions raises.\<close>

datatype x509_cert = X509 (san_uris: "py_exn + string list option")

type_synonym load_pem = "string \<Rightarrow> py_exn + x509_cert"

definition parse_producer_leaf_certificate :: "load_pem \<Rightarrow> string \<Rightarrow> x509_cert res" where
  "parse_producer_leaf_certificate load pem =
     (case require_single_pem_certificate_block pem of
        Inl e \<Rightarrow> Inl (ProducerTrustError e)
      | Inr _ \<Rightarrow> (case load pem of
            Inr cert \<Rightarrow> Inr cert
          | Inl (ValueError m) \<Rightarrow> Inl (ProducerTrustError (CertificateParsingError (''could not be parsed'', [])))
          | Inl (TypeError m) \<Rightarrow> Inl (ProducerTrustError (CertificateParsingError (''could not be parsed'', [])))
          | Inl e \<Rightarrow> Inl (PyError e)))"

definition derive_producer_identity :: "x509_cert \<Rightarrow> string res" where
  "derive_producer_identity cert = (case san_uris cert of
      Inl e \<Rightarrow> Inl (PyError e)
    | Inr None \<Rightarrow> Inl (ProducerTrustError (NoEligibleUriSanError (''no Subject Alternative Name extension'', [])))
    | Inr (Some []) \<Rightarrow> Inl (ProducerTrustError (NoEligibleUriSanError (''zero eligible URI SAN entries'', [])))
    | Inr (Some [u]) \<Rightarrow> Inr u
    | Inr (Some _) \<Rightarrow> Inl (ProducerTrustError (MultipleEligibleUriSansError (''more than one eligible URI SAN'', []))))"

datatype ProducerAdmissionStatus = ADMITTED | NOT_ADMITTED

record ProducerAdmissionResult =
  pa_status :: ProducerAdmissionStatus
  pa_producer_uri :: string

text \<open>The second argument is a set of strings, or (a caller's mistake the function guards
  against) a bare string.\<close>

definition admit_producer :: "string \<Rightarrow> string + string set \<Rightarrow> ProducerAdmissionResult res" where
  "admit_producer producer_uri admitted = (case admitted of
      Inl s \<Rightarrow> Inl ProducerAdmissionConfigurationError
    | Inr uris \<Rightarrow> Inr \<lparr>pa_status = (if producer_uri \<in> uris then ADMITTED else NOT_ADMITTED),
                       pa_producer_uri = producer_uri\<rparr>)"

section \<open>The resolver (operation\_producer\_mtls.py)\<close>

definition lift_mtls :: "mtls_exn + 'a \<Rightarrow> 'a res" where
  "lift_mtls m = (case m of Inl e \<Rightarrow> Inl (ProducerTrustError e) | Inr x \<Rightarrow> Inr x)"

definition resolve_mtls_operation_producer_trust ::
    "load_pem \<Rightarrow> (string \<times> string) list \<Rightarrow> NormalizedSubject \<Rightarrow> string set \<Rightarrow> OperationProducerTrust res" where
  "resolve_mtls_operation_producer_trust load raw_headers subject admitted =
     res_bind (lift_mtls (retrieve_trusted_producer_certificate_assertion raw_headers True)) (\<lambda>a.
       case a of
         None \<Rightarrow> Inl (ProducerTrustError MissingProducerCertificateAssertionError)
       | Some assertion \<Rightarrow>
           res_bind (lift_mtls (decode_producer_certificate_assertion assertion)) (\<lambda>pem.
           res_bind (parse_producer_leaf_certificate load pem) (\<lambda>cert.
           res_bind (derive_producer_identity cert) (\<lambda>uri.
           res_bind (admit_producer uri (Inr admitted)) (\<lambda>adm.
             if pa_status adm = ADMITTED
             then Inr \<lparr>ot_status = TRUSTED, ot_source = MTLS_ADMITTED_URI_SAN,
                       ot_authorization_subject_id = subject_id subject,
                       ot_operation_producer_subject_id = None,
                       ot_producer_workload_identity = Some uri\<rparr>
             else Inr \<lparr>ot_status = UNTRUSTED, ot_source = MTLS_URI_SAN_NOT_ADMITTED,
                       ot_authorization_subject_id = subject_id subject,
                       ot_operation_producer_subject_id = None,
                       ot_producer_workload_identity = Some uri\<rparr>)))))"

definition resolve_operation_producer_trust ::
    "load_pem \<Rightarrow> (string \<times> string) list \<Rightarrow> NormalizedSubject \<Rightarrow> GatewayConfig \<Rightarrow> OperationProducerTrust res" where
  "resolve_operation_producer_trust load raw_headers subject config =
     (if operation_producer_mtls_trusted_proxy_enabled config
      then resolve_mtls_operation_producer_trust load raw_headers subject
             (operation_producer_mtls_admitted_uris config)
      else Inr (classify_operation_producer subject (operation_producer_subject_ids config)))"

section \<open>The contract of a trust resolver\<close>

text \<open>
  What composition relies on: the classification names its own mechanism, is
  about the authenticated caller, and identifies the producer only through
  the mechanism it names.
\<close>

definition trust_consistent :: "OperationProducerTrust \<Rightarrow> bool" where
  "trust_consistent t \<longleftrightarrow>
     (ot_status t = TRUSTED \<longleftrightarrow> ot_source t \<in> {CONFIGURED_SUBJECT_ID_ALLOWLIST, MTLS_ADMITTED_URI_SAN})
     \<and> ot_operation_producer_subject_id t =
         (if ot_source t = CONFIGURED_SUBJECT_ID_ALLOWLIST then Some (ot_authorization_subject_id t) else None)
     \<and> (ot_producer_workload_identity t \<noteq> None \<longleftrightarrow>
         ot_source t \<in> {MTLS_ADMITTED_URI_SAN, MTLS_URI_SAN_NOT_ADMITTED})"

locale trust_resolver =
  fixes resolve :: "NormalizedSubject \<Rightarrow> OperationProducerTrust res"
  assumes resolve_consistent: "resolve s = Inr t \<Longrightarrow> trust_consistent t"
    and resolve_subject: "resolve s = Inr t \<Longrightarrow> ot_authorization_subject_id t = subject_id s"
begin

lemma producer_is_caller:
  "resolve s = Inr t \<Longrightarrow> ot_operation_producer_subject_id t = Some p \<Longrightarrow> p = subject_id s"
  using resolve_consistent [of s t] resolve_subject [of s t]
  by (auto simp: trust_consistent_def split: if_splits)

lemma trusted_identified:
  "resolve s = Inr t \<Longrightarrow> ot_status t = TRUSTED \<Longrightarrow>
     ot_operation_producer_subject_id t \<noteq> None \<or> ot_producer_workload_identity t \<noteq> None"
  using resolve_consistent [of s t] by (auto simp: trust_consistent_def)

lemma one_mechanism:
  "resolve s = Inr t \<Longrightarrow>
     ot_operation_producer_subject_id t = None \<or> ot_producer_workload_identity t = None"
  using resolve_consistent [of s t] by (auto simp: trust_consistent_def split: if_splits)

end

interpretation legacy: trust_resolver "\<lambda>s. Inr (classify_operation_producer s ids)" for ids
  by unfold_locales (auto simp: classify_operation_producer_def trust_consistent_def)

text \<open>The certificate pipeline up to the derived identity, without the admission step.\<close>

definition presented_identity :: "load_pem \<Rightarrow> (string \<times> string) list \<Rightarrow> string res" where
  "presented_identity load raw_headers =
     res_bind (lift_mtls (retrieve_trusted_producer_certificate_assertion raw_headers True)) (\<lambda>a.
       case a of
         None \<Rightarrow> Inl (ProducerTrustError MissingProducerCertificateAssertionError)
       | Some assertion \<Rightarrow>
           res_bind (lift_mtls (decode_producer_certificate_assertion assertion)) (\<lambda>pem.
           res_bind (parse_producer_leaf_certificate load pem) derive_producer_identity))"

lemma res_bind_assoc: "res_bind (res_bind m f) g = res_bind m (\<lambda>x. res_bind (f x) g)"
  by (cases m) simp_all

lemma admitted_iff: "(if P then ADMITTED else NOT_ADMITTED) = ADMITTED \<longleftrightarrow> P"
  by simp

lemma resolve_mtls_eq:
  "resolve_mtls_operation_producer_trust load hs s adm =
     res_bind (presented_identity load hs) (\<lambda>uri.
       if uri \<in> adm
       then Inr \<lparr>ot_status = TRUSTED, ot_source = MTLS_ADMITTED_URI_SAN,
              ot_authorization_subject_id = subject_id s,
              ot_operation_producer_subject_id = None, ot_producer_workload_identity = Some uri\<rparr>
       else Inr \<lparr>ot_status = UNTRUSTED, ot_source = MTLS_URI_SAN_NOT_ADMITTED,
              ot_authorization_subject_id = subject_id s,
              ot_operation_producer_subject_id = None, ot_producer_workload_identity = Some uri\<rparr>)"
  unfolding resolve_mtls_operation_producer_trust_def presented_identity_def
  by (cases "lift_mtls (retrieve_trusted_producer_certificate_assertion hs True)")
    (simp_all add: res_bind_assoc admit_producer_def admitted_iff split: option.split)

interpretation mtls: trust_resolver "\<lambda>s. resolve_mtls_operation_producer_trust load hs s adm"
  for load hs adm
  by unfold_locales (auto simp: resolve_mtls_eq trust_consistent_def split: if_splits)

interpretation producer: trust_resolver "\<lambda>s. resolve_operation_producer_trust load hs s config"
  for load hs config
proof unfold_locales
  fix s t
  assume "resolve_operation_producer_trust load hs s config = Inr t"
  then show "trust_consistent t" "ot_authorization_subject_id t = subject_id s"
    using legacy.resolve_consistent mtls.resolve_consistent legacy.resolve_subject mtls.resolve_subject
    unfolding resolve_operation_producer_trust_def by (metis (full_types))+
qed

section \<open>The percent code\<close>

text \<open>The encoder of the ingress: bytes outside a chosen set of ASCII characters are escaped.\<close>

definition hex_digit :: "nat \<Rightarrow> char" where
  "hex_digit n = (if n < 10 then char_of (48 + n) else char_of (55 + n))"

definition encode_byte :: "(char \<Rightarrow> bool) \<Rightarrow> char \<Rightarrow> string" where
  "encode_byte keep c = (if keep c \<and> c \<noteq> CHR ''%'' \<and> (of_char c :: nat) \<le> 127 then [c]
     else [CHR ''%'', hex_digit (of_char c div 16), hex_digit (of_char c mod 16)])"

definition percent_encode :: "(char \<Rightarrow> bool) \<Rightarrow> string \<Rightarrow> string" where
  "percent_encode keep bs = concat (map (encode_byte keep) bs)"

lemma hex_value_digit: "n < 16 \<Longrightarrow> hex_value (hex_digit n) = Some n"
  by (auto simp: hex_value_def hex_digit_def Let_def)

lemma char_below_256: "(of_char c :: nat) < 256"
proof -
  have "(of_char (char_of (of_char c :: nat) :: char) :: nat) = of_char c mod 256"
    by (rule of_char_of)
  then show ?thesis by simp
qed

lemma decode_encode_byte:
  "decode_producer_certificate_assertion (encode_byte keep c @ s) =
     push_byte c (decode_producer_certificate_assertion s)"
proof (cases "keep c \<and> c \<noteq> CHR ''%'' \<and> (of_char c :: nat) \<le> 127")
  case True
  then show ?thesis by (auto simp: encode_byte_def)
next
  case False
  have "(of_char c :: nat) div 16 < 16"
    by (rule less_mult_imp_div_less) (use char_below_256 [of c] in simp)
  then have "hex_value (hex_digit (of_char c div 16)) = Some (of_char c div 16)"
    by (rule hex_value_digit)
  moreover have "hex_value (hex_digit (of_char c mod 16)) = Some (of_char c mod 16)"
    by (rule hex_value_digit) simp
  moreover have "encode_byte keep c =
      [CHR ''%'', hex_digit (of_char c div 16), hex_digit (of_char c mod 16)]"
    using False by (simp only: encode_byte_def if_False)
  ultimately show ?thesis by simp
qed

lemma decode_encode: "decode_producer_certificate_assertion (percent_encode keep bs) = Inr bs"
  by (induction bs) (simp_all add: percent_encode_def decode_encode_byte push_byte_def)

lemma decode_error:
  "decode_producer_certificate_assertion s = Inl e \<Longrightarrow> e = percent_error \<or> e = non_ascii_error"
proof (induction s rule: decode_producer_certificate_assertion.induct)
  case (2 c s)
  then show ?case
    by (auto simp: push_byte_def split: if_splits list.splits option.splits sum.splits)
qed simp

section \<open>The decoding loop\<close>

definition append_result :: "string \<Rightarrow> mtls_exn + string \<Rightarrow> mtls_exn + string" where
  "append_result d r = (case r of Inl e \<Rightarrow> Inl e | Inr s \<Rightarrow> Inr (d @ s))"

lemma append_result_simps [simp]:
  "append_result [] r = r" "append_result d (Inl e) = Inl e" "append_result d (Inr s) = Inr (d @ s)"
  "append_result d (push_byte c r) = append_result (d @ [c]) r"
  by (simp_all add: append_result_def push_byte_def split: sum.split)

text \<open>The loop invariant: what is decoded so far, followed by the decoding of the rest.\<close>

definition decode_inv :: "string \<Rightarrow> decode_st \<Rightarrow> bool" where
  "decode_inv a = (\<lambda>(i, d, e). i \<le> length a \<and> decode_producer_certificate_assertion a =
     (case e of Some x \<Rightarrow> Inl x | None \<Rightarrow> append_result d (decode_producer_certificate_assertion (drop i a))))"

definition decode_measure :: "string \<Rightarrow> decode_st \<Rightarrow> nat" where
  "decode_measure a = (\<lambda>(i, d, e). length a - i + (if e = None then 1 else 0))"

lemma drop_3:
  assumes "i + 2 < length a"
  shows "drop i a = a ! i # a ! (i + 1) # a ! (i + 2) # drop (i + 3) a"
proof -
  have "drop i a = a ! i # drop (Suc i) a" "drop (Suc i) a = a ! Suc i # drop (Suc (Suc i)) a"
    "drop (Suc (Suc i)) a = a ! Suc (Suc i) # drop (Suc (Suc (Suc i))) a"
    using assms by (simp_all add: Cons_nth_drop_Suc)
  then show ?thesis by (simp add: numeral_3_eq_3)
qed

lemma decode_short: "length s < 2 \<Longrightarrow> decode_producer_certificate_assertion (CHR ''%'' # s) = Inl percent_error"
  by (cases s; cases "tl s") auto

lemma decode_iter_step:
  assumes "decode_inv a s" and "decode_running a s"
  shows "decode_inv a (decode_iter a s)" "decode_measure a (decode_iter a s) < decode_measure a s"
proof -
  obtain i d where s: "s = (i, d, None)" and i: "i < length a"
    and v: "decode_producer_certificate_assertion a = append_result d (decode_producer_certificate_assertion (drop i a))"
    using assms by (cases s) (auto simp: decode_inv_def decode_running_def)
  have dr: "drop i a = a ! i # drop (i + 1) a" using i by (simp add: Cons_nth_drop_Suc)
  consider (short) "a ! i = CHR ''%''" "length a \<le> i + 2" | (escape) "a ! i = CHR ''%''" "i + 2 < length a"
    | (plain) "a ! i \<noteq> CHR ''%''" by linarith
  then have "decode_inv a (decode_iter a s) \<and> decode_measure a (decode_iter a s) < decode_measure a s"
  proof cases
    case short
    have "length (drop (i + 1) a) < 2" using short(2) by simp
    then have "decode_producer_certificate_assertion (drop i a) = Inl percent_error"
      using dr short(1) decode_short by simp
    then show ?thesis using short v i by (simp add: s decode_iter_def decode_inv_def decode_measure_def)
  next
    case escape
    then show ?thesis using drop_3 [OF escape(2)] v i
      by (simp add: s decode_iter_def decode_inv_def decode_measure_def split: option.split) auto
  next
    case plain
    then show ?thesis using dr v i
      by (simp add: s decode_iter_def decode_inv_def decode_measure_def Let_def)
  qed
  then show "decode_inv a (decode_iter a s)" "decode_measure a (decode_iter a s) < decode_measure a s" by simp_all
qed

lemma decode_length:
  "decode_producer_certificate_assertion s = Inr bs \<Longrightarrow> length bs \<le> length s"
proof (induction s arbitrary: bs rule: decode_producer_certificate_assertion.induct)
  case (2 c s)
  then show ?case
    by (fastforce simp: push_byte_def split: if_splits list.splits option.splits sum.splits)
qed simp

lemma derive_identity_Inr:
  assumes "derive_producer_identity cert = Inr uri"
  shows "san_uris cert = Inr (Some [uri])"
proof (cases "san_uris cert")
  case (Inr o1)
  then show ?thesis using assms
    by (cases o1) (auto simp: derive_producer_identity_def split: list.splits)
qed (use assms in \<open>simp add: derive_producer_identity_def\<close>)

section \<open>PEM shape\<close>

lemma count_sub_pos:
  "p \<noteq> [] \<Longrightarrow> 0 < count_sub p s \<Longrightarrow> startswith p (drop (index_of p s) s)"
proof (induction s)
  case Nil
  then show ?case by (simp add: count_sub.simps)
next
  case (Cons c s)
  show ?case
  proof (cases "startswith p (c # s)")
    case False
    then have "count_sub p (c # s) = count_sub p s" using Cons.prems(1) by (simp add: count_sub.simps)
    then show ?thesis using Cons False by simp
  qed simp
qed

lemma single_block_shape:
  assumes "require_single_pem_certificate_block pem = Inr ()"
  shows "\<exists>lead block trail. pem = lead @ block @ trail
     \<and> list_all pem_space lead \<and> list_all pem_space trail
     \<and> startswith PEM_BEGIN (block @ trail) \<and> (\<exists>body. lead @ block = body @ PEM_END)"
proof -
  let ?b = "index_of PEM_BEGIN pem" and ?e = "index_of PEM_END pem"
  let ?n = "?e + length PEM_END"
  have ws: "list_all pem_space (take ?b pem)" "list_all pem_space (drop ?n pem)"
    and cnt: "0 < count_sub PEM_BEGIN pem" "0 < count_sub PEM_END pem"
    using assms
    by (auto simp: require_single_pem_certificate_block_def Let_def strip_by_eq_Nil list_all_iff
        split: if_splits)
  have b: "startswith PEM_BEGIN (drop ?b pem)"
    using cnt(1) by (intro count_sub_pos) (simp_all add: PEM_BEGIN_def)
  have e: "startswith PEM_END (drop ?e pem)"
    using cnt(2) by (intro count_sub_pos) (simp_all add: PEM_END_def)
  have end_eq: "take ?n pem = take ?e pem @ PEM_END"
    using e by (simp add: take_add startswith_def)
  have le: "?b \<le> ?n"
  proof (rule ccontr)
    assume "\<not> ?b \<le> ?n"
    then have "set (take ?n pem) \<subseteq> set (take ?b pem)" by (intro set_take_subset_set_take) simp
    moreover have "CHR ''-'' \<in> set (take ?n pem)" unfolding end_eq by (simp add: PEM_END_def)
    ultimately show False using ws(1) by (auto simp: list_all_iff pem_space_def)
  qed
  define blk where "blk = drop ?b (take ?n pem)"
  have tk: "take ?b pem @ blk = take ?n pem"
    using le unfolding blk_def by (metis append_take_drop_id min.absorb1 take_take)
  have "(take ?b pem @ blk) @ drop ?n pem = pem" unfolding tk by (rule append_take_drop_id)
  then have pem: "pem = take ?b pem @ blk @ drop ?n pem" by simp
  have "take ?b pem @ drop ?b pem = take ?b pem @ (blk @ drop ?n pem)"
    using pem by simp
  then have "drop ?b pem = blk @ drop ?n pem" by (simp only: same_append_eq)
  then have "startswith PEM_BEGIN (blk @ drop ?n pem)" using b by (simp only:)
  with pem show ?thesis using ws tk end_eq by metis
qed

section \<open>Properties\<close>

text \<open>C9: Producer trust is granted on exactly one ground, fixed by the configured mode. In
  trusted-proxy mode a caller is trusted exactly when its request carries one
  certificate assertion whose single URI SAN is an admitted identity; the
  bearer-subject allowlist has no influence. Otherwise it is trusted exactly
  when its verified subject id is on the allowlist; headers have no influence.\<close>

theorem producer_trust_exact:
  "(\<exists>t. resolve_operation_producer_trust load hs s config = Inr t \<and> ot_status t = TRUSTED) \<longleftrightarrow>
     (if operation_producer_mtls_trusted_proxy_enabled config
      then \<exists>uri \<in> operation_producer_mtls_admitted_uris config. presented_identity load hs = Inr uri
      else subject_id s \<in> operation_producer_subject_ids config)"
  by (auto simp: resolve_operation_producer_trust_def resolve_mtls_eq classify_operation_producer_def
      split: if_splits)

definition adapter_subject :: NormalizedSubject where
  "adapter_subject = \<lparr>subject_id = ''adapter'', subject_name = ''adapter'', roles = [], attributes = []\<rparr>"

definition no_cert :: load_pem where
  "no_cert = (\<lambda>_. Inl (ValueError (''no certificate'', [])))"

text \<open>The two mechanisms never mix: a classification names its mechanism, is about the
  authenticated caller, carries a producer subject only on the allowlist path
  (then the caller itself) and a workload identity only on the certificate
  path; in trusted-proxy mode the result is independent of the allowlist, and
  outside it independent of the request headers and the admitted URIs.\<close>

theorem producer_trust_no_fallback:
  "(\<forall>t. resolve_operation_producer_trust load hs s config = Inr t \<longrightarrow>
      trust_consistent t \<and> ot_authorization_subject_id t = subject_id s)
   \<and> (if operation_producer_mtls_trusted_proxy_enabled config
      then resolve_operation_producer_trust load hs s (config\<lparr>operation_producer_subject_ids := ids\<rparr>)
           = resolve_operation_producer_trust load hs s config
      else resolve_operation_producer_trust load hs' s (config\<lparr>operation_producer_mtls_admitted_uris := uris\<rparr>)
           = resolve_operation_producer_trust load hs s config)"
proof (intro conjI allI impI)
  fix t assume "resolve_operation_producer_trust load hs s config = Inr t"
  then show "trust_consistent t" "ot_authorization_subject_id t = subject_id s"
    by (rule producer.resolve_consistent, rule producer.resolve_subject)
qed (simp add: resolve_operation_producer_trust_def)

theorem producer_trust_no_fallback_witness:
  "trust_consistent (classify_operation_producer adapter_subject {''adapter''})"
proof -
  let ?c = "default_config\<lparr>operation_producer_subject_ids := {''adapter''}\<rparr>"
  have "resolve_operation_producer_trust no_cert [] adapter_subject ?c
      = Inr (classify_operation_producer adapter_subject {''adapter''})"
    by (simp add: resolve_operation_producer_trust_def default_config_def)
  with producer_trust_no_fallback [of no_cert "[]" adapter_subject ?c] show ?thesis by blast
qed

text \<open>C32: Strict percent-decoding inverts the ingress encoder for every byte string and every
  choice of unescaped ASCII characters, in one pass (so a \<^verbatim>\<open>+\<close> stays a \<^verbatim>\<open>+\<close> and
  an encoded percent sign is not decoded again); any failure is a decoding error.\<close>

theorem percent_decode_roundtrip:
  "decode_producer_certificate_assertion (percent_encode keep bs) = Inr bs
   \<and> (\<forall>e. decode_producer_certificate_assertion s = Inl e \<longrightarrow>
        (\<exists>m. e = CertificateAssertionDecodingError m))"
  using decode_encode [of keep bs] decode_error [of s]
  by (auto simp: percent_error_def non_ascii_error_def)

theorem percent_decode_roundtrip_witness:
  "decode_producer_certificate_assertion ''%25%2'' = Inl percent_error
   \<and> (\<exists>m. percent_error = CertificateAssertionDecodingError m)"
proof -
  have e: "decode_producer_certificate_assertion ''%25%2'' = Inl percent_error"
    by (simp add: hex_value_def push_byte_def)
  show ?thesis using e percent_decode_roundtrip [of "\<lambda>_. True" "[]" "''%25%2''"] by blast
qed

text \<open>C31: The decoding loop of the source, an index-driven \<^verbatim>\<open>while\<close> with three ways to leave it,
  ends on every assertion, and returns or raises what the structural decoder
  says.\<close>

theorem decode_loop_terminates:
  "\<exists>s. decode_loop assertion = Some s \<and> decode_returns s = decode_producer_certificate_assertion assertion"
proof -
  have init: "decode_inv assertion (0, [], None)" by (simp add: decode_inv_def)
  obtain t where t: "decode_loop assertion = Some t"
    unfolding decode_loop_def
    using measure_while_option_Some [of "decode_inv assertion" "decode_running assertion"
        "decode_iter assertion" "decode_measure assertion", OF _ init] decode_iter_step by blast
  have "decode_inv assertion t"
    by (rule while_option_rule [where P = "decode_inv assertion", OF decode_iter_step(1) t [unfolded decode_loop_def] init])
  moreover have "\<not> decode_running assertion t"
    by (rule while_option_stop [OF t [unfolded decode_loop_def]])
  ultimately have "decode_returns t = decode_producer_certificate_assertion assertion"
    by (cases t) (auto simp: decode_inv_def decode_running_def decode_returns_def split: option.splits)
  then show ?thesis using t by blast
qed

text \<open>C33: The certificate pipeline is bounded and single-valued: an identity is derived only from a
  request with exactly one certificate header of at most 16384 bytes; the
  X.509 parser then sees at most that many bytes, in the shape of one PEM
  block, and the certificate names exactly this one URI.\<close>

theorem presented_identity_bounded:
  assumes "presented_identity load hs = Inr uri"
  shows "\<exists>assertion pem cert. cert_header_values hs = [assertion] \<and> length assertion \<le> 16384
    \<and> decode_producer_certificate_assertion assertion = Inr pem \<and> length pem \<le> 16384
    \<and> require_single_pem_certificate_block pem = Inr () \<and> load pem = Inr cert
    \<and> san_uris cert = Inr (Some [uri])"
proof -
  obtain assertion where a: "retrieve_trusted_producer_certificate_assertion hs True = Inr (Some assertion)"
    and r: "res_bind (lift_mtls (decode_producer_certificate_assertion assertion)) (\<lambda>pem.
      res_bind (parse_producer_leaf_certificate load pem) derive_producer_identity) = Inr uri"
    using assms
    by (auto simp: presented_identity_def lift_mtls_def res_bind_eq_Inr split: sum.splits option.splits)
  obtain pem cert where p: "decode_producer_certificate_assertion assertion = Inr pem"
    "parse_producer_leaf_certificate load pem = Inr cert" "derive_producer_identity cert = Inr uri"
    using r by (auto simp: lift_mtls_def res_bind_eq_Inr split: sum.splits)
  have h: "cert_header_values hs = [assertion]" "length assertion \<le> 16384"
    using a by (auto simp: retrieve_trusted_producer_certificate_assertion_def MAX_ASSERTION_SIZE_BYTES_def
        split: list.splits if_splits)
  have "require_single_pem_certificate_block pem = Inr ()" "load pem = Inr cert"
    using p(2) by (auto simp: parse_producer_leaf_certificate_def split: sum.splits py_exn.splits)
  moreover have "san_uris cert = Inr (Some [uri])"
    by (rule derive_identity_Inr [OF p(3)])
  ultimately show ?thesis using h p(1) decode_length [OF p(1)] by auto
qed

text \<open>An assertion reaches the X.509 parser only in the shape of a single PEM block:
  white space, then text that begins with the begin marker and ends with the
  end marker, then white space.\<close>

theorem parsed_certificate_single_block:
  assumes "parse_producer_leaf_certificate load pem = Inr cert"
  shows "load pem = Inr cert \<and> (\<exists>lead block trail. pem = lead @ block @ trail
     \<and> list_all pem_space lead \<and> list_all pem_space trail
     \<and> startswith PEM_BEGIN (block @ trail) \<and> (\<exists>body. lead @ block = body @ PEM_END))"
proof -
  have "require_single_pem_certificate_block pem = Inr ()" and "load pem = Inr cert"
    using assms by (auto simp: parse_producer_leaf_certificate_def split: sum.splits py_exn.splits)
  then show ?thesis using single_block_shape by simp
qed

definition sample_pem :: string where
  "sample_pem = PEM_BEGIN @ ''A'' @ PEM_END @ [CHR 0x0A]"

theorem parsed_certificate_single_block_witness:
  "\<exists>lead block trail. sample_pem = lead @ block @ trail
     \<and> list_all pem_space lead \<and> list_all pem_space trail
     \<and> startswith PEM_BEGIN (block @ trail) \<and> (\<exists>body. lead @ block = body @ PEM_END)"
proof -
  have "require_single_pem_certificate_block sample_pem = Inr ()" by code_simp
  then have "parse_producer_leaf_certificate (\<lambda>_. Inr (X509 (Inr None))) sample_pem = Inr (X509 (Inr None))"
    by (simp add: parse_producer_leaf_certificate_def)
  from parsed_certificate_single_block [OF this] show ?thesis by simp
qed

theorem presented_identity_bounded_witness:
  "\<exists>pem. decode_producer_certificate_assertion (percent_encode (\<lambda>_. True) sample_pem) = Inr pem
     \<and> length pem \<le> 16384 \<and> require_single_pem_certificate_block pem = Inr ()"
proof -
  let ?a = "percent_encode (\<lambda>_. True) sample_pem" and ?load = "\<lambda>_. Inr (X509 (Inr (Some [''spiffe://a''])))"
  have b: "require_single_pem_certificate_block sample_pem = Inr ()" by code_simp
  have l: "length ?a \<le> 16384" by code_simp
  have "cert_header_values [(PRODUCER_CLIENT_CERT_HEADER_NAME, ?a)] = [?a]"
    by (simp add: cert_header_values_def)
  then have "presented_identity ?load [(PRODUCER_CLIENT_CERT_HEADER_NAME, ?a)] = Inr ''spiffe://a''"
    using b l by (simp add: presented_identity_def retrieve_trusted_producer_certificate_assertion_def
        MAX_ASSERTION_SIZE_BYTES_def lift_mtls_def decode_encode parse_producer_leaf_certificate_def
        derive_producer_identity_def)
  from presented_identity_bounded [OF this] show ?thesis
    using \<open>cert_header_values _ = _\<close> by auto
qed

end
