(* ===== verification/GW_Actions.thy ===== *)
theory GW_Actions
  imports GW_Prelude
begin

text \<open>
  \<^verbatim>\<open>core/actions.py\<close> and \<^verbatim>\<open>core/resources.py\<close>: composition of a bare verb and a
  resource type into a composite action, and of a resource type and a local
  identifier into a typed resource identifier, with the evidence recorded in
  the reserved \<^verbatim>\<open>basis_gateway.\<close> namespace. The locale \<^verbatim>\<open>composition_boundary\<close> states
  what both boundaries promise to the request handlers; it is interpreted on both.
\<close>

section \<open>The contract of a composition boundary\<close>

text \<open>
  \<^verbatim>\<open>compose t x\<close> composes \<^verbatim>\<open>x\<close> with the type \<^verbatim>\<open>t\<close> when one is supplied and passes
  \<^verbatim>\<open>x\<close> through otherwise; \<^verbatim>\<open>join t x\<close> is the composed text.
\<close>

locale composition_boundary =
  fixes is_typed :: "string \<Rightarrow> bool"
    and join :: "string \<Rightarrow> string \<Rightarrow> string"
    and compose :: "string option \<Rightarrow> string \<Rightarrow> 'e + string"
  assumes compose_Some: "compose (Some t) x = Inr y \<Longrightarrow> y = join t x \<and> \<not> is_typed x"
    and compose_None: "compose None x = Inr y \<longleftrightarrow> y = x \<and> is_typed x"
    and typed_join: "is_typed (join t x)"
    and join_inj: "\<not> is_typed x \<Longrightarrow> \<not> is_typed x' \<Longrightarrow> join t x = join t' x' \<Longrightarrow> t = t' \<and> x = x'"
begin

lemma result_typed: "compose t x = Inr y \<Longrightarrow> is_typed y"
  by (cases t) (auto simp: compose_None typed_join dest: compose_Some)

lemma recompose: "compose t x = Inr y \<Longrightarrow> compose None y = Inr y"
  by (simp add: compose_None result_typed)

lemma typed_result_inj:
  assumes "compose (Some t) x = Inr y" and "compose (Some t') x' = Inr y"
  shows "t = t' \<and> x = x'"
  using assms compose_Some join_inj by metis

lemma typed_with_type_rejected: "is_typed x \<Longrightarrow> compose (Some t) x \<noteq> Inr y"
  using compose_Some by blast

lemma untyped_without_type_rejected: "\<not> is_typed x \<Longrightarrow> compose None x \<noteq> Inr y"
  by (simp add: compose_None)

end

section \<open>Action composition (core/actions.py)\<close>

definition RESERVED_CONTEXT_PREFIX :: string where
  "RESERVED_CONTEXT_PREFIX = ''basis_gateway.''"

definition EVIDENCE_ACTION_COMPOSED :: string where
  "EVIDENCE_ACTION_COMPOSED = RESERVED_CONTEXT_PREFIX @ ''action_composed''"
definition EVIDENCE_ORIGINAL_ACTION :: string where
  "EVIDENCE_ORIGINAL_ACTION = RESERVED_CONTEXT_PREFIX @ ''original_action''"
definition EVIDENCE_RESOURCE_TYPE :: string where
  "EVIDENCE_RESOURCE_TYPE = RESERVED_CONTEXT_PREFIX @ ''resource_type''"
definition EVIDENCE_COMPOSED_ACTION :: string where
  "EVIDENCE_COMPOSED_ACTION = RESERVED_CONTEXT_PREFIX @ ''composed_action''"

text \<open>
  \<^verbatim>\<open>re.compile(r"^[a-z][a-z0-9_-]*$").match(s)\<close>. In Python \<^verbatim>\<open>$\<close> matches at
  the end of the text and also just before a newline that ends it.
\<close>

definition seg_start :: "char \<Rightarrow> bool" where
  "seg_start c \<longleftrightarrow> (let n = (of_char c :: nat) in 97 \<le> n \<and> n \<le> 122)"

definition seg_char :: "char \<Rightarrow> bool" where
  "seg_char c \<longleftrightarrow> seg_start c \<or> (let n = (of_char c :: nat) in 48 \<le> n \<and> n \<le> 57) \<or>
     c = CHR ''_'' \<or> c = CHR ''-''"

definition newline :: char where "newline = CHR 0x0A"

definition SEGMENT_RE_match :: "string \<Rightarrow> bool" where
  "SEGMENT_RE_match s \<longleftrightarrow> (case s of [] \<Rightarrow> False
     | c # t \<Rightarrow> seg_start c \<and>
         (list_all seg_char t \<or> (t \<noteq> [] \<and> last t = newline \<and> list_all seg_char (butlast t))))"

definition is_composite_action :: "string \<Rightarrow> bool" where
  "is_composite_action action \<longleftrightarrow> CHR '':'' \<in> set action"

definition compose_action :: "string \<Rightarrow> string option \<Rightarrow> comp_exn + string" where
  "compose_action action resource_type =
     (if action = [] \<or> strip action = []
      then Inl (ActionCompositionError (''action must not be empty'', []))
      else if is_composite_action action
      then (if resource_type \<noteq> None
            then Inl (ActionCompositionError
                   (''resource_type must not be supplied when action is already composite'', [action]))
            else Inr action)
      else case resource_type of
        None \<Rightarrow> Inl (ActionCompositionError
                   (''resource_type is required when action is a bare verb'', [action]))
      | Some rt \<Rightarrow>
          (if rt = []
           then Inl (ActionCompositionError (''resource_type must not be empty'', []))
           else if \<not> SEGMENT_RE_match action
           then Inl (ActionCompositionError (''action verb is not a valid segment'', [action]))
           else if \<not> SEGMENT_RE_match rt
           then Inl (ActionCompositionError (''resource_type is not a valid segment'', [rt]))
           else Inr (action @ '':'' @ rt)))"

definition reserved_key_collisions :: "string dict \<Rightarrow> string list" where
  "reserved_key_collisions context =
     sort (filter (startswith RESERVED_CONTEXT_PREFIX) (map fst context))"

definition build_composition_evidence :: "string \<Rightarrow> string \<Rightarrow> string \<Rightarrow> string dict" where
  "build_composition_evidence original_action resource_type composed_action =
     [(EVIDENCE_ACTION_COMPOSED, ''true''),
      (EVIDENCE_ORIGINAL_ACTION, original_action),
      (EVIDENCE_RESOURCE_TYPE, resource_type),
      (EVIDENCE_COMPOSED_ACTION, composed_action)]"

section \<open>Resource composition (core/resources.py)\<close>

definition EVIDENCE_RESOURCE_COMPOSED :: string where
  "EVIDENCE_RESOURCE_COMPOSED = RESERVED_CONTEXT_PREFIX @ ''resource_composed''"
definition EVIDENCE_ORIGINAL_RESOURCE_ID :: string where
  "EVIDENCE_ORIGINAL_RESOURCE_ID = RESERVED_CONTEXT_PREFIX @ ''original_resource_id''"
definition EVIDENCE_COMPOSED_RESOURCE_ID :: string where
  "EVIDENCE_COMPOSED_RESOURCE_ID = RESERVED_CONTEXT_PREFIX @ ''composed_resource_id''"

record ResourceCompositionResult =
  rc_resource_id :: "string option"
  rc_composed :: bool
  rc_original_resource_id :: "string option"
  rc_resource_type :: "string option"

definition is_typed_resource_id :: "string \<Rightarrow> bool" where
  "is_typed_resource_id resource_id \<longleftrightarrow> CHR '':'' \<in> set resource_id"

definition compose_resource_id ::
    "string option \<Rightarrow> string option \<Rightarrow> comp_exn + ResourceCompositionResult" where
  "compose_resource_id resource_type resource_id = (case resource_id of
      None \<Rightarrow> Inr \<lparr>rc_resource_id = None, rc_composed = False,
                  rc_original_resource_id = None, rc_resource_type = None\<rparr>
    | Some rid \<Rightarrow>
        (if is_typed_resource_id rid
         then (case resource_type of
             Some rt \<Rightarrow> Inl (ResourceCompositionError
               (''resource_type must not be supplied when resource_id is already typed'', [rt, rid]))
           | None \<Rightarrow> Inr \<lparr>rc_resource_id = Some rid, rc_composed = False,
                         rc_original_resource_id = None, rc_resource_type = None\<rparr>)
         else (case resource_type of
             None \<Rightarrow> Inl (ResourceCompositionError
               (''resource_id is local and cannot be composed without a resource_type'', [rid]))
           | Some rt \<Rightarrow> Inr \<lparr>rc_resource_id = Some (rt @ '':'' @ rid), rc_composed = True,
                            rc_original_resource_id = Some rid, rc_resource_type = Some rt\<rparr>)))"

definition build_resource_composition_evidence :: "string \<Rightarrow> string \<Rightarrow> string \<Rightarrow> string dict" where
  "build_resource_composition_evidence original_resource_id resource_type composed_resource_id =
     [(EVIDENCE_RESOURCE_COMPOSED, ''true''),
      (EVIDENCE_ORIGINAL_RESOURCE_ID, original_resource_id),
      (EVIDENCE_RESOURCE_TYPE, resource_type),
      (EVIDENCE_COMPOSED_RESOURCE_ID, composed_resource_id)]"

text \<open>The identifier a resource composition yields for a request that names a resource.\<close>

definition resource_text :: "string option \<Rightarrow> string \<Rightarrow> comp_exn + string" where
  "resource_text t x = (case compose_resource_id t (Some x) of
      Inl e \<Rightarrow> Inl e | Inr r \<Rightarrow> Inr (case rc_resource_id r of None \<Rightarrow> [] | Some y \<Rightarrow> y))"

section \<open>Both boundaries meet the contract\<close>

lemma append_colon_inj:
  assumes "CHR '':'' \<notin> set a" "CHR '':'' \<notin> set a'" "a @ CHR '':'' # b = a' @ CHR '':'' # b'"
  shows "a = a' \<and> b = b'"
  using assms
proof (induction a arbitrary: a')
  case Nil
  then show ?case by (cases a') auto
next
  case (Cons c a)
  then show ?case by (cases a') auto
qed

lemma colon_not_space: "\<not> is_space (CHR '':'')"
  by (simp add: is_space_def)

lemma composite_not_blank: "is_composite_action a \<Longrightarrow> strip a \<noteq> []"
  using colon_not_space by (auto simp: is_composite_action_def strip_def strip_by_eq_Nil)

lemma seg_char_not_colon: "seg_char c \<Longrightarrow> c \<noteq> CHR '':''"
  by (auto simp: seg_char_def seg_start_def)

interpretation act: composition_boundary
  is_composite_action "\<lambda>t x. x @ '':'' @ t" "\<lambda>t x. compose_action x t"
proof unfold_locales
  fix t x y
  assume "compose_action x (Some t) = Inr y"
  then show "y = x @ '':'' @ t \<and> \<not> is_composite_action x"
    by (auto simp: compose_action_def split: if_splits)
next
  fix x y
  show "compose_action x None = Inr y \<longleftrightarrow> y = x \<and> is_composite_action x"
    using composite_not_blank [of x] by (auto simp: compose_action_def)
next
  fix t x :: string
  show "is_composite_action (x @ '':'' @ t)" by (simp add: is_composite_action_def)
next
  fix x x' t t' :: string
  assume "\<not> is_composite_action x" "\<not> is_composite_action x'" "x @ '':'' @ t = x' @ '':'' @ t'"
  then show "t = t' \<and> x = x'"
    using append_colon_inj [of x x' t t'] by (simp add: is_composite_action_def)
qed

interpretation rsc: composition_boundary
  is_typed_resource_id "\<lambda>t x. t @ '':'' @ x" resource_text
proof unfold_locales
  fix t x y
  assume "resource_text (Some t) x = Inr y"
  then show "y = t @ '':'' @ x \<and> \<not> is_typed_resource_id x"
    by (auto simp: resource_text_def compose_resource_id_def split: if_splits)
next
  fix x y
  show "resource_text None x = Inr y \<longleftrightarrow> y = x \<and> is_typed_resource_id x"
    by (auto simp: resource_text_def compose_resource_id_def)
next
  fix t x :: string
  show "is_typed_resource_id (t @ '':'' @ x)" by (simp add: is_typed_resource_id_def)
next
  fix x x' t t' :: string
  assume "\<not> is_typed_resource_id x" "\<not> is_typed_resource_id x'" "t @ '':'' @ x = t' @ '':'' @ x'"
  note hyps = this
  have "rev (t @ '':'' @ x) = rev (t' @ '':'' @ x')" by (simp only: hyps(3))
  then have "rev x @ CHR '':'' # rev t = rev x' @ CHR '':'' # rev t'" by simp
  then show "t = t' \<and> x = x'"
    using append_colon_inj [of "rev x" "rev x'" "rev t" "rev t'"] hyps(1,2)
    by (simp add: is_typed_resource_id_def)
qed

section \<open>Evidence\<close>

lemmas evidence_key_defs =
  EVIDENCE_ACTION_COMPOSED_def EVIDENCE_ORIGINAL_ACTION_def EVIDENCE_RESOURCE_TYPE_def
  EVIDENCE_COMPOSED_ACTION_def EVIDENCE_RESOURCE_COMPOSED_def EVIDENCE_ORIGINAL_RESOURCE_ID_def
  EVIDENCE_COMPOSED_RESOURCE_ID_def

lemma composition_evidence_reserved:
  "k \<in> fst ` set (build_composition_evidence a t c) \<Longrightarrow> startswith RESERVED_CONTEXT_PREFIX k"
  "k \<in> fst ` set (build_resource_composition_evidence r t c) \<Longrightarrow> startswith RESERVED_CONTEXT_PREFIX k"
  by (auto simp: build_composition_evidence_def build_resource_composition_evidence_def
      evidence_key_defs)

lemma distinct_composition_evidence:
  "distinct (map fst (build_composition_evidence a t c))"
  "distinct (map fst (build_resource_composition_evidence r t c))"
  by (simp_all add: build_composition_evidence_def build_resource_composition_evidence_def
      evidence_key_defs)

lemma no_collision_iff:
  "reserved_key_collisions ctx = [] \<longleftrightarrow>
     (\<forall>k \<in> fst ` set ctx. \<not> startswith RESERVED_CONTEXT_PREFIX k)"
proof -
  have "reserved_key_collisions ctx = [] \<longleftrightarrow> set (reserved_key_collisions ctx) = {}"
    by (simp only: set_empty)
  then show ?thesis by (auto simp: reserved_key_collisions_def)
qed

lemma set_reserved_key_collisions:
  "set (reserved_key_collisions ctx) = {k \<in> fst ` set ctx. startswith RESERVED_CONTEXT_PREFIX k}"
  by (auto simp: reserved_key_collisions_def)

lemma update_reserved_keeps:
  assumes "reserved_key_collisions ctx = []" and "distinct (map fst e)"
    and "\<And>k. k \<in> fst ` set e \<Longrightarrow> startswith RESERVED_CONTEXT_PREFIX k"
    and "\<not> startswith RESERVED_CONTEXT_PREFIX k"
  shows "map_of (dict_update d e) k = map_of d k"
proof -
  have "map_of e k = None" using assms(3,4) by (auto simp: map_of_eq_None_iff)
  then show ?thesis by (simp add: map_of_dict_update [OF assms(2)] map_add_def)
qed

section \<open>Properties\<close>

lemma compose_action_Inr_iff:
  "compose_action a t = Inr y \<longleftrightarrow>
     (case t of
        None \<Rightarrow> is_composite_action a \<and> y = a
      | Some rt \<Rightarrow> \<not> is_composite_action a \<and> SEGMENT_RE_match a \<and> SEGMENT_RE_match rt
          \<and> y = a @ '':'' @ rt)"
proof (cases t)
  case None
  then show ?thesis using act.compose_None [of a y] by auto
next
  case (Some rt)
  have sp: "strip a \<noteq> []" if seg: "SEGMENT_RE_match a"
  proof -
    obtain c s where "a = c # s" "seg_start c"
      using seg by (auto simp: SEGMENT_RE_match_def split: list.splits)
    moreover have "\<not> is_space c" if "seg_start c" for c
      using that by (auto simp: seg_start_def is_space_def Let_def)
    ultimately show ?thesis by (auto simp: strip_def strip_by_eq_Nil)
  qed
  have "rt \<noteq> []" if "SEGMENT_RE_match rt"
    using that by (auto simp: SEGMENT_RE_match_def)
  then show ?thesis using Some sp
    by (auto simp: compose_action_def strip_Nil)
qed

text \<open>C27: Action composition, the whole function: an action is accepted exactly when it is
  already composite and no resource type is given (and is then returned
  unchanged), or it is a bare verb and both segments match the segment
  pattern (and the result is the verb, a colon and the resource type).\<close>

theorem compose_action_correct:
  "compose_action a t = Inr y \<longleftrightarrow>
     (case t of
        None \<Rightarrow> is_composite_action a \<and> y = a
      | Some rt \<Rightarrow> \<not> is_composite_action a \<and> SEGMENT_RE_match a \<and> SEGMENT_RE_match rt
          \<and> y = a @ '':'' @ rt)"
  by (rule compose_action_Inr_iff)

text \<open>C28: Composition is unambiguous and stable: a composed action determines the verb and
  the resource type it came from, is itself composite, and passes the
  boundary again unchanged; the same holds for composed resource identifiers.\<close>

theorem composition_unambiguous:
  shows "compose_action a t = Inr y \<Longrightarrow> compose_action a' t' = Inr y \<Longrightarrow>
           compose_action y None = Inr y \<and> (t \<noteq> None \<longrightarrow> t' \<noteq> None \<longrightarrow> a = a' \<and> t = t')
           \<and> (resource_text u x = Inr z \<longrightarrow> resource_text u' x' = Inr z \<longrightarrow>
                resource_text None z = Inr z \<and> (u \<noteq> None \<longrightarrow> u' \<noteq> None \<longrightarrow> x = x' \<and> u = u'))"
  using act.recompose [of a t y] act.typed_result_inj [of a _ y a']
    rsc.recompose [of u x z] rsc.typed_result_inj [of _ x z _ x']
  by (cases t; cases t'; cases u; cases u') auto

theorem composition_unambiguous_witness:
  "compose_action ''read:ahu'' None = Inr ''read:ahu''"
proof -
  have "compose_action ''read'' (Some ''ahu'') = Inr ''read:ahu''"
    by (simp add: compose_action_Inr_iff is_composite_action_def SEGMENT_RE_match_def
        seg_start_def seg_char_def)
  from composition_unambiguous [OF this this] show ?thesis by blast
qed

text \<open>The segment pattern is anchored with \<^verbatim>\<open>$\<close>, which also matches before a final
  newline: a resource type that ends in a newline passes the boundary and
  the newline becomes part of the composed action.\<close>

theorem compose_action_accepts_trailing_newline:
  "compose_action ''read'' (Some (''ahu'' @ [newline])) = Inr (''read:ahu'' @ [newline])
   \<and> \<not> list_all seg_char (''ahu'' @ [newline])"
  by (simp add: compose_action_Inr_iff is_composite_action_def SEGMENT_RE_match_def
      seg_start_def seg_char_def newline_def)

end
