(* ===== verification/GW_Composition.thy ===== *)
theory GW_Composition
  imports GW_Schemas GW_Producer GW_Actions
begin

text \<open>
  \<^verbatim>\<open>core/operation_aware_composition.py\<close>: a validated operation-aware request, the
  verified identity and the producer trust become one composed input, with a
  provenance class for every field. Steps and error order are those of
  \<^verbatim>\<open>compose_operation_aware_input\<close>; the clock is its injected value.
\<close>

section \<open>Data\<close>

datatype ProvenanceClassification =
    VERIFIED | GATEWAY_DERIVED | TRUSTED_PRODUCER_ASSERTED | UNTRUSTED_CALLER_ASSERTED
  | CONFIGURATION_DERIVED | UNAVAILABLE

record ComposedOperationAwareInput =
  ci_request_id :: string
  ci_correlation_id :: string
  ci_authorization_subject :: NormalizedSubject
  ci_identity_context :: IdentityContext
  ci_operation_producer_trust :: OperationProducerTrust
  ci_action :: string
  ci_resource_id :: "string option"
  ci_resource_type :: "string option"
  ci_context :: "string dict"
  ci_operation_intent :: "pyval option"
  ci_location :: "pyval option"
  ci_device :: "pyval option"
  ci_protocol_context :: "pyval option"
  ci_safety_context :: "pyval option"
  ci_environment_context :: "pyval option"
  ci_risk_context :: "pyval option"
  ci_identity_evidence_reference :: "pyval option"
  ci_adapter_evidence_reference :: "pyval option"
  ci_evaluation_time :: datetime
  ci_provenance :: "ProvenanceClassification dict"

text \<open>\<^verbatim>\<open>getattr(request, field_name)\<close> for the producer-only fields.\<close>

definition producer_only_values :: "OperationAwareEvaluateRequest \<Rightarrow> (string \<times> pyval option) list" where
  "producer_only_values request =
     [(''operation_intent'', oq_operation_intent request),
      (''location'', oq_location request),
      (''device'', oq_device request),
      (''protocol_context'', oq_protocol_context request),
      (''safety_context'', oq_safety_context request),
      (''environment_context'', oq_environment_context request),
      (''risk_context'', oq_risk_context request),
      (''identity_evidence_reference'', oq_identity_evidence_reference request),
      (''adapter_evidence_reference'', oq_adapter_evidence_reference request)]"

definition getattr_producer :: "OperationAwareEvaluateRequest \<Rightarrow> string \<Rightarrow> pyval option" where
  "getattr_producer request name = (case map_of (producer_only_values request) name of
      Some v \<Rightarrow> v | None \<Rightarrow> None)"

section \<open>Composition\<close>

definition present_operation_producer_only_fields :: "OperationAwareEvaluateRequest \<Rightarrow> string list" where
  "present_operation_producer_only_fields request =
     filter (\<lambda>f. getattr_producer request f \<noteq> None) OPERATION_PRODUCER_ONLY_FIELDS"

definition internal_error :: "string \<Rightarrow> string list \<Rightarrow> comp_exn" where
  "internal_error m xs = CompositionInternalError (m, xs)"

text \<open>Step 2: the identity-consistency invariants.\<close>

definition check_identity_consistency ::
    "NormalizedSubject \<Rightarrow> IdentityContext \<Rightarrow> OperationProducerTrust \<Rightarrow> comp_exn + unit" where
  "check_identity_consistency subject identity_context trust =
     (if ic_subject_id identity_context \<noteq> subject_id subject
      then Inl (internal_error ''identity_context.subject_id does not match subject.subject_id''
             [ic_subject_id identity_context, subject_id subject])
      else if ot_authorization_subject_id trust \<noteq> subject_id subject
      then Inl (internal_error ''producer_trust.authorization_subject_id does not match''
             [ot_authorization_subject_id trust, subject_id subject])
      else if ot_status trust = TRUSTED
      then (if ot_source trust = CONFIGURED_SUBJECT_ID_ALLOWLIST
            then (if ot_operation_producer_subject_id trust \<noteq> Some (subject_id subject)
                  then Inl (internal_error ''operation_producer_subject_id does not match'' [])
                  else Inr ())
            else if ot_source trust = MTLS_ADMITTED_URI_SAN
            then (if ot_operation_producer_subject_id trust \<noteq> None
                  then Inl (internal_error ''operation_producer_subject_id is not None'' [])
                  else if \<not> truthy_opt (ot_producer_workload_identity trust)
                  then Inl (internal_error ''producer_workload_identity is empty'' [])
                  else Inr ())
            else Inl (internal_error ''source is not a recognized trusted source'' []))
      else if ot_operation_producer_subject_id trust \<noteq> None
      then Inl (internal_error ''untrusted result carries a producer subject id'' [])
      else Inr ())"

text \<open>Step 7: the caller's context, extended by the composition evidence.\<close>

definition combined_context ::
    "OperationAwareEvaluateRequest \<Rightarrow> string \<Rightarrow> ResourceCompositionResult \<Rightarrow> string dict" where
  "combined_context request composed_action rc =
     (let c1 = (case oq_resource_type request of
                  None \<Rightarrow> oq_context request
                | Some rt \<Rightarrow> dict_update (oq_context request)
                    (build_composition_evidence (oq_action request) rt composed_action))
      in if rc_composed rc
         then dict_update c1 (build_resource_composition_evidence
                (case rc_original_resource_id rc of Some x \<Rightarrow> x | None \<Rightarrow> [])
                (case rc_resource_type rc of Some x \<Rightarrow> x | None \<Rightarrow> [])
                (case rc_resource_id rc of Some x \<Rightarrow> x | None \<Rightarrow> []))
         else c1)"

definition producer_only_field_provenance :: "pyval option \<Rightarrow> ProvenanceClassification" where
  "producer_only_field_provenance v = (if v \<noteq> None then TRUSTED_PRODUCER_ASSERTED else UNAVAILABLE)"

text \<open>Step 11: the provenance mapping.\<close>

definition build_provenance ::
    "OperationAwareEvaluateRequest \<Rightarrow> OperationProducerTrust \<Rightarrow> ResourceCompositionResult \<Rightarrow> string dict
     \<Rightarrow> ProvenanceClassification dict" where
  "build_provenance request trust rc ctx =
     [(''authorization_subject_id'', VERIFIED),
      (''authorization_subject_roles'', VERIFIED),
      (''authorization_subject_attributes'', VERIFIED),
      (''operation_producer_subject_id'',
         if ot_operation_producer_subject_id trust \<noteq> None then VERIFIED else UNAVAILABLE),
      (''operation_producer_trust'', CONFIGURATION_DERIVED),
      (''action'', if oq_resource_type request \<noteq> None then GATEWAY_DERIVED else UNTRUSTED_CALLER_ASSERTED),
      (''resource_id'', if rc_composed rc then GATEWAY_DERIVED
         else if rc_resource_id rc \<noteq> None then UNTRUSTED_CALLER_ASSERTED else UNAVAILABLE),
      (''resource_type'', if oq_resource_type request \<noteq> None then UNTRUSTED_CALLER_ASSERTED else UNAVAILABLE),
      (''context'', if ctx \<noteq> [] then GATEWAY_DERIVED else UNAVAILABLE)]
     @ map (\<lambda>f. (f, producer_only_field_provenance (getattr_producer request f))) OPERATION_PRODUCER_ONLY_FIELDS @
     [(''evaluation_time'', GATEWAY_DERIVED),
      (''request_id'', if oq_request_id request \<noteq> None then UNTRUSTED_CALLER_ASSERTED else GATEWAY_DERIVED),
      (''correlation_id'', GATEWAY_DERIVED)]"

text \<open>Steps 5 to 11, once the gates have passed.\<close>

definition compose_accepted ::
    "OperationAwareEvaluateRequest \<Rightarrow> NormalizedSubject \<Rightarrow> IdentityContext \<Rightarrow> OperationProducerTrust
     \<Rightarrow> string \<Rightarrow> datetime \<Rightarrow> comp_exn + ComposedOperationAwareInput" where
  "compose_accepted request subject identity_context trust correlation_id clock =
     (case compose_action (oq_action request) (oq_resource_type request) of
        Inl e \<Rightarrow> Inl e
      | Inr composed_action \<Rightarrow>
          (case compose_resource_id (oq_resource_type request) (oq_resource_id request) of
             Inl e \<Rightarrow> Inl e
           | Inr rc \<Rightarrow>
               (let ctx = combined_context request composed_action rc in
                if \<not> is_aware clock
                then Inl (internal_error ''clock() returned a naive datetime'' [])
                else Inr \<lparr>ci_request_id = (case oq_request_id request of Some r \<Rightarrow> r | None \<Rightarrow> correlation_id),
                     ci_correlation_id = correlation_id,
                     ci_authorization_subject = subject,
                     ci_identity_context = identity_context,
                     ci_operation_producer_trust = trust,
                     ci_action = composed_action,
                     ci_resource_id = rc_resource_id rc,
                     ci_resource_type = oq_resource_type request,
                     ci_context = ctx,
                     ci_operation_intent = oq_operation_intent request,
                     ci_location = oq_location request,
                     ci_device = oq_device request,
                     ci_protocol_context = oq_protocol_context request,
                     ci_safety_context = oq_safety_context request,
                     ci_environment_context = oq_environment_context request,
                     ci_risk_context = oq_risk_context request,
                     ci_identity_evidence_reference = oq_identity_evidence_reference request,
                     ci_adapter_evidence_reference = oq_adapter_evidence_reference request,
                     ci_evaluation_time = clock,
                     ci_provenance = build_provenance request trust rc ctx\<rparr>)))"

definition compose_operation_aware_input ::
    "OperationAwareEvaluateRequest \<Rightarrow> NormalizedSubject \<Rightarrow> IdentityContext \<Rightarrow> OperationProducerTrust
     \<Rightarrow> string \<Rightarrow> datetime \<Rightarrow> comp_exn + ComposedOperationAwareInput" where
  "compose_operation_aware_input request subject identity_context trust correlation_id clock =
     (if blank correlation_id
      then Inl (internal_error ''correlation_id must be a non-empty, non-whitespace string'' [])
      else case check_identity_consistency subject identity_context trust of
        Inl e \<Rightarrow> Inl e
      | Inr _ \<Rightarrow>
          (let offending_fields = present_operation_producer_only_fields request;
               collisions = reserved_key_collisions (oq_context request) in
           if offending_fields \<noteq> [] \<and> ot_status trust \<noteq> TRUSTED
           then Inl (UntrustedOperationProducerContextError offending_fields)
           else if collisions \<noteq> [] then Inl (ReservedContextKeyError collisions)
           else compose_accepted request subject identity_context trust correlation_id clock))"

section \<open>Lemmas\<close>

lemma getattr_simps [simp]:
  "getattr_producer r ''operation_intent'' = oq_operation_intent r"
  "getattr_producer r ''location'' = oq_location r"
  "getattr_producer r ''device'' = oq_device r"
  "getattr_producer r ''protocol_context'' = oq_protocol_context r"
  "getattr_producer r ''safety_context'' = oq_safety_context r"
  "getattr_producer r ''environment_context'' = oq_environment_context r"
  "getattr_producer r ''risk_context'' = oq_risk_context r"
  "getattr_producer r ''identity_evidence_reference'' = oq_identity_evidence_reference r"
  "getattr_producer r ''adapter_evidence_reference'' = oq_adapter_evidence_reference r"
  by (simp_all add: getattr_producer_def producer_only_values_def)

text \<open>The operation context of a composed input, as the kernel will see it.\<close>

definition composed_context_values :: "ComposedOperationAwareInput \<Rightarrow> pyval option list" where
  "composed_context_values c =
     [ci_operation_intent c, ci_location c, ci_device c, ci_protocol_context c, ci_safety_context c,
      ci_environment_context c, ci_risk_context c, ci_identity_evidence_reference c,
      ci_adapter_evidence_reference c]"

definition request_context_values :: "OperationAwareEvaluateRequest \<Rightarrow> pyval option list" where
  "request_context_values r = map (getattr_producer r) OPERATION_PRODUCER_ONLY_FIELDS"

lemma no_producer_fields_iff:
  "present_operation_producer_only_fields r = [] \<longleftrightarrow> (\<forall>v \<in> set (request_context_values r). v = None)"
  by (auto simp: present_operation_producer_only_fields_def request_context_values_def filter_empty_conv)

lemma compose_accepted_Inr:
  "compose_accepted r s ic t corr clk = Inr c \<longleftrightarrow>
     (\<exists>a rc. compose_action (oq_action r) (oq_resource_type r) = Inr a
       \<and> compose_resource_id (oq_resource_type r) (oq_resource_id r) = Inr rc \<and> is_aware clk
       \<and> c = \<lparr>ci_request_id = (case oq_request_id r of Some x \<Rightarrow> x | None \<Rightarrow> corr),
              ci_correlation_id = corr, ci_authorization_subject = s, ci_identity_context = ic,
              ci_operation_producer_trust = t, ci_action = a, ci_resource_id = rc_resource_id rc,
              ci_resource_type = oq_resource_type r, ci_context = combined_context r a rc,
              ci_operation_intent = oq_operation_intent r, ci_location = oq_location r,
              ci_device = oq_device r, ci_protocol_context = oq_protocol_context r,
              ci_safety_context = oq_safety_context r, ci_environment_context = oq_environment_context r,
              ci_risk_context = oq_risk_context r,
              ci_identity_evidence_reference = oq_identity_evidence_reference r,
              ci_adapter_evidence_reference = oq_adapter_evidence_reference r,
              ci_evaluation_time = clk,
              ci_provenance = build_provenance r t rc (combined_context r a rc)\<rparr>)"
  by (auto simp: compose_accepted_def Let_def split: sum.splits)

lemma compose_Inr:
  assumes "compose_operation_aware_input r s ic t corr clk = Inr c"
  shows "\<not> blank corr" "check_identity_consistency s ic t = Inr ()"
    "present_operation_producer_only_fields r \<noteq> [] \<Longrightarrow> ot_status t = TRUSTED"
    "reserved_key_collisions (oq_context r) = []"
    "compose_accepted r s ic t corr clk = Inr c"
  using assms
  by (auto simp: compose_operation_aware_input_def Let_def split: if_splits sum.splits)

lemma dict_update_keys_all:
  "\<forall>k \<in> fst ` set d. P k \<Longrightarrow> \<forall>k \<in> fst ` set e. P k \<Longrightarrow> \<forall>k \<in> fst ` set (dict_update d e). P k"
  unfolding keys_dict_update by blast

lemma combined_context_keys:
  assumes "oq_context r = []"
  shows "\<forall>k \<in> fst ` set (combined_context r a rc). startswith RESERVED_CONTEXT_PREFIX k"
proof -
  let ?P = "startswith RESERVED_CONTEXT_PREFIX"
  define c1 where "c1 = (case oq_resource_type r of None \<Rightarrow> oq_context r
    | Some rt \<Rightarrow> dict_update (oq_context r) (build_composition_evidence (oq_action r) rt a))"
  have nil: "\<forall>k \<in> fst ` set (oq_context r). ?P k" using assms by simp
  have 1: "\<forall>k \<in> fst ` set c1. ?P k"
  proof (cases "oq_resource_type r")
    case None
    then show ?thesis using nil by (simp only: c1_def option.case)
  next
    case (Some rt)
    have "\<forall>k \<in> fst ` set (build_composition_evidence (oq_action r) rt a). ?P k"
      using composition_evidence_reserved(1) by (rule ballI)
    from dict_update_keys_all [OF nil this] show ?thesis by (simp only: c1_def option.case Some)
  qed
  have "\<forall>k \<in> fst ` set (dict_update c1 (build_resource_composition_evidence x y z)). ?P k" for x y z
    by (rule dict_update_keys_all [OF 1], rule ballI, rule composition_evidence_reserved(2))
  then show ?thesis
    unfolding combined_context_def Let_def c1_def [symmetric] using 1
    by (cases "rc_composed rc") (simp_all only: if_True if_False)
qed

lemma identity_consistent:
  assumes "wf_identity (s, ic)" and "trust_consistent t" and "ot_authorization_subject_id t = subject_id s"
    and "ot_producer_workload_identity t \<noteq> Some []"
  shows "check_identity_consistency s ic t = Inr ()"
  using assms
  by (auto simp: check_identity_consistency_def wf_identity_def trust_consistent_def truthy_opt_def
      split: option.splits)

lemma compose_action_not_internal:
  "compose_action a t = Inl e \<Longrightarrow> \<exists>m. e = ActionCompositionError m"
  "compose_resource_id t' x = Inl e' \<Longrightarrow> \<exists>m. e' = ResourceCompositionError m"
  by (auto simp: compose_action_def compose_resource_id_def split: if_splits option.splits)

lemma compose_accepted_error:
  assumes "compose_accepted r s ic t corr clk = Inl e" and "is_aware clk"
  shows "(\<exists>m. e = ActionCompositionError m) \<or> (\<exists>m. e = ResourceCompositionError m)"
proof (cases "compose_action (oq_action r) (oq_resource_type r)")
  case (Inl x)
  then show ?thesis using assms(1) compose_action_not_internal(1) [OF Inl]
    by (simp add: compose_accepted_def)
next
  case (Inr a)
  show ?thesis
  proof (cases "compose_resource_id (oq_resource_type r) (oq_resource_id r)")
    case (Inl x)
    then show ?thesis using Inr assms(1) compose_action_not_internal(2) [OF Inl]
      by (simp add: compose_accepted_def)
  next
    case (Inr rc)
    then show ?thesis using \<open>compose_action _ _ = Inr a\<close> assms
      by (simp add: compose_accepted_def Let_def)
  qed
qed

lemma build_provenance_keys:
  "map fst (build_provenance r t rc ctx) =
     [''authorization_subject_id'', ''authorization_subject_roles'', ''authorization_subject_attributes'',
      ''operation_producer_subject_id'', ''operation_producer_trust'', ''action'', ''resource_id'',
      ''resource_type'', ''context''] @ OPERATION_PRODUCER_ONLY_FIELDS @
     [''evaluation_time'', ''request_id'', ''correlation_id'']"
  by (simp add: build_provenance_def comp_def)

lemma build_provenance_distinct: "distinct (map fst (build_provenance r t rc ctx))"
  unfolding build_provenance_keys by (simp add: OPERATION_PRODUCER_ONLY_FIELDS_def)

lemma build_provenance_producer_fields:
  assumes "f \<in> set OPERATION_PRODUCER_ONLY_FIELDS"
  shows "map_of (build_provenance r t rc ctx) f = Some (producer_only_field_provenance (getattr_producer r f))"
proof -
  have "(f, producer_only_field_provenance (getattr_producer r f)) \<in> set (build_provenance r t rc ctx)"
    using assms by (auto simp: build_provenance_def)
  then show ?thesis using build_provenance_distinct by (rule map_of_is_SomeI [rotated])
qed

lemma build_provenance_classes:
  "(f, TRUSTED_PRODUCER_ASSERTED) \<in> set (build_provenance r t rc ctx) \<Longrightarrow>
     f \<in> set OPERATION_PRODUCER_ONLY_FIELDS \<and> getattr_producer r f \<noteq> None"
  "(f, VERIFIED) \<in> set (build_provenance r t rc ctx) \<Longrightarrow>
     f \<in> {''authorization_subject_id'', ''authorization_subject_roles'', ''authorization_subject_attributes''}
     \<or> (f = ''operation_producer_subject_id'' \<and> ot_operation_producer_subject_id t \<noteq> None)"
  unfolding build_provenance_def set_append list.set set_map Un_iff insert_iff empty_iff prod.inject image_iff
  by (elim disjE bexE conjE; simp add: producer_only_field_provenance_def split: if_split_asm)+

section \<open>Properties\<close>

text \<open>C10: The producer gate: operation context reaches a composed input only from a caller
  classified as a trusted producer, and then unchanged and complete; a request
  that carries such context from any other caller is rejected with exactly
  the names of the fields it carries, and none of their values.\<close>

theorem composition_producer_gate:
  "(\<forall>c. compose_operation_aware_input r s ic t corr clk = Inr c \<longrightarrow>
      composed_context_values c = request_context_values r
      \<and> ((\<exists>v \<in> set (composed_context_values c). v \<noteq> None) \<longrightarrow> ot_status t = TRUSTED))
   \<and> (\<not> blank corr \<and> check_identity_consistency s ic t = Inr () \<and> ot_status t \<noteq> TRUSTED
      \<and> (\<exists>v \<in> set (request_context_values r). v \<noteq> None) \<longrightarrow>
      (\<exists>fs. compose_operation_aware_input r s ic t corr clk
              = Inl (UntrustedOperationProducerContextError fs)
         \<and> set fs = {f \<in> set OPERATION_PRODUCER_ONLY_FIELDS. getattr_producer r f \<noteq> None}))"
proof (intro conjI allI impI)
  fix c assume c: "compose_operation_aware_input r s ic t corr clk = Inr c"
  show eq: "composed_context_values c = request_context_values r"
    using compose_Inr(5) [OF c]
    by (auto simp: compose_accepted_Inr composed_context_values_def request_context_values_def
        OPERATION_PRODUCER_ONLY_FIELDS_def)
  show "ot_status t = TRUSTED" if "\<exists>v \<in> set (composed_context_values c). v \<noteq> None"
    using that compose_Inr(3) [OF c] no_producer_fields_iff [of r] unfolding eq by blast
next
  assume h: "\<not> blank corr \<and> check_identity_consistency s ic t = Inr () \<and> ot_status t \<noteq> TRUSTED
      \<and> (\<exists>v \<in> set (request_context_values r). v \<noteq> None)"
  then have ne: "present_operation_producer_only_fields r \<noteq> []"
    using no_producer_fields_iff [of r] by blast
  show "\<exists>fs. compose_operation_aware_input r s ic t corr clk
              = Inl (UntrustedOperationProducerContextError fs)
         \<and> set fs = {f \<in> set OPERATION_PRODUCER_ONLY_FIELDS. getattr_producer r f \<noteq> None}"
    using h ne by (auto simp: compose_operation_aware_input_def Let_def
        present_operation_producer_only_fields_def)
qed

definition sample_oq :: OperationAwareEvaluateRequest where
  "sample_oq = \<lparr>oq_request_id = None, oq_action = ''write'', oq_resource_type = Some ''ahu'',
     oq_resource_id = Some ''r1'', oq_context = [], oq_operation_intent = None,
     oq_location = None, oq_device = Some (PStr ''dev''), oq_protocol_context = None,
     oq_safety_context = None, oq_environment_context = None, oq_risk_context = None,
     oq_identity_evidence_reference = None, oq_adapter_evidence_reference = None\<rparr>"

definition sample_ic :: IdentityContext where
  "sample_ic = \<lparr>ic_issuer = ''idp'', ic_subject_id = ''adapter'', ic_claims = []\<rparr>"

definition sample_trust :: "string set \<Rightarrow> OperationProducerTrust" where
  "sample_trust ids = classify_operation_producer adapter_subject ids"

lemma sample_identity: "wf_identity (adapter_subject, sample_ic)"
  by (simp add: wf_identity_def adapter_subject_def sample_ic_def)

lemma sample_consistent: "check_identity_consistency adapter_subject sample_ic (sample_trust ids) = Inr ()"
proof (rule identity_consistent [OF sample_identity])
  show "trust_consistent (sample_trust ids)" "ot_authorization_subject_id (sample_trust ids) = subject_id adapter_subject"
    unfolding sample_trust_def by (rule legacy.resolve_consistent [OF refl], rule legacy.resolve_subject [OF refl])
  show "ot_producer_workload_identity (sample_trust ids) \<noteq> Some []"
    by (simp add: sample_trust_def classify_operation_producer_def)
qed

lemma not_blank_c1: "\<not> blank ''c-1''"
  by (simp add: blank_def strip_def strip_by_def is_space_def)

theorem composition_producer_gate_witness:
  "\<exists>fs. compose_operation_aware_input sample_oq adapter_subject sample_ic (sample_trust {}) ''c-1'' (Aware 0)
     = Inl (UntrustedOperationProducerContextError fs) \<and> ''device'' \<in> set fs"
proof -
  have "\<not> blank ''c-1'' \<and> check_identity_consistency adapter_subject sample_ic (sample_trust {}) = Inr ()
    \<and> ot_status (sample_trust {}) \<noteq> TRUSTED \<and> (\<exists>v \<in> set (request_context_values sample_oq). v \<noteq> None)"
    by (intro conjI not_blank_c1 sample_consistent)
      (simp_all add: sample_trust_def classify_operation_producer_def request_context_values_def
        OPERATION_PRODUCER_ONLY_FIELDS_def sample_oq_def)
  from composition_producer_gate [of sample_oq adapter_subject sample_ic "sample_trust {}" "''c-1''" "Aware 0",
      THEN conjunct2, rule_format, OF this]
  obtain fs where fs: "compose_operation_aware_input sample_oq adapter_subject sample_ic (sample_trust {}) ''c-1'' (Aware 0)
      = Inl (UntrustedOperationProducerContextError fs)"
    "set fs = {f \<in> set OPERATION_PRODUCER_ONLY_FIELDS. getattr_producer sample_oq f \<noteq> None}" by blast
  have "''device'' \<in> set fs" unfolding fs(2)
    by (simp add: OPERATION_PRODUCER_ONLY_FIELDS_def sample_oq_def)
  with fs(1) show ?thesis by blast
qed

text \<open>C26: Provenance is truthful: the mapping of a composed input names no field twice; a
  field is marked as asserted by a trusted producer exactly when it is present
  producer context (so the caller was trusted), and only the authenticated
  subject's own fields, and a producer subject id, are marked verified.\<close>

theorem composition_provenance_truthful:
  assumes "compose_operation_aware_input r s ic t corr clk = Inr c"
  shows "distinct (map fst (ci_provenance c))
    \<and> (\<forall>f \<in> set OPERATION_PRODUCER_ONLY_FIELDS.
         map_of (ci_provenance c) f = Some TRUSTED_PRODUCER_ASSERTED \<longleftrightarrow> getattr_producer r f \<noteq> None)
    \<and> (\<forall>f. (f, TRUSTED_PRODUCER_ASSERTED) \<in> set (ci_provenance c) \<longrightarrow> ot_status t = TRUSTED)
    \<and> (\<forall>f. (f, VERIFIED) \<in> set (ci_provenance c) \<longrightarrow>
         f \<in> {''authorization_subject_id'', ''authorization_subject_roles'', ''authorization_subject_attributes''}
         \<or> (f = ''operation_producer_subject_id'' \<and> ot_operation_producer_subject_id t = Some (subject_id s)))"
proof -
  obtain a rc where p: "ci_provenance c = build_provenance r t rc (combined_context r a rc)"
    using compose_Inr(5) [OF assms] by (auto simp: compose_accepted_Inr)
  have trusted: "ot_status t = TRUSTED" if "(f, TRUSTED_PRODUCER_ASSERTED) \<in> set (ci_provenance c)" for f
  proof -
    have "f \<in> set (present_operation_producer_only_fields r)"
      using that build_provenance_classes(1) [of f r t rc] unfolding p
      by (auto simp: present_operation_producer_only_fields_def)
    then show ?thesis using compose_Inr(3) [OF assms] by force
  qed
  have sid: "ot_operation_producer_subject_id t = None \<or> ot_operation_producer_subject_id t = Some (subject_id s)"
    using compose_Inr(2) [OF assms] by (auto simp: check_identity_consistency_def split: if_splits)
  have ver: "f \<in> {''authorization_subject_id'', ''authorization_subject_roles'', ''authorization_subject_attributes''}
      \<or> (f = ''operation_producer_subject_id'' \<and> ot_operation_producer_subject_id t = Some (subject_id s))"
    if "(f, VERIFIED) \<in> set (ci_provenance c)" for f
    using build_provenance_classes(2) [OF that [unfolded p]] sid
    by (elim disjE conjE) simp_all
  have fields: "map_of (ci_provenance c) f = Some TRUSTED_PRODUCER_ASSERTED \<longleftrightarrow> getattr_producer r f \<noteq> None"
    if "f \<in> set OPERATION_PRODUCER_ONLY_FIELDS" for f
    unfolding p build_provenance_producer_fields [OF that] by (simp add: producer_only_field_provenance_def)
  have "distinct (map fst (ci_provenance c))" unfolding p by (rule build_provenance_distinct)
  with trusted ver fields show ?thesis by blast
qed

lemma sample_compose:
  "\<exists>c. compose_operation_aware_input sample_oq adapter_subject sample_ic (sample_trust {''adapter''})
     ''c-1'' (Aware 0) = Inr c"
proof -
  have tr: "ot_status (sample_trust {''adapter''}) = TRUSTED"
    by (simp add: sample_trust_def classify_operation_producer_def adapter_subject_def)
  have "reserved_key_collisions (oq_context sample_oq) = []"
    by (simp add: reserved_key_collisions_def sample_oq_def)
  moreover have "compose_action (oq_action sample_oq) (oq_resource_type sample_oq) = Inr ''write:ahu''"
    by (simp add: sample_oq_def compose_action_Inr_iff is_composite_action_def SEGMENT_RE_match_def
        seg_start_def seg_char_def)
  moreover have "\<exists>rc. compose_resource_id (oq_resource_type sample_oq) (oq_resource_id sample_oq) = Inr rc"
    by (simp add: sample_oq_def compose_resource_id_def is_typed_resource_id_def)
  ultimately show ?thesis
    using not_blank_c1 sample_consistent [of "{''adapter''}"] tr
    by (auto simp: compose_operation_aware_input_def compose_accepted_def Let_def)
qed

theorem composition_provenance_truthful_witness:
  "\<exists>c. compose_operation_aware_input sample_oq adapter_subject sample_ic (sample_trust {''adapter''})
     ''c-1'' (Aware 0) = Inr c \<and> map_of (ci_provenance c) ''device'' = Some TRUSTED_PRODUCER_ASSERTED"
proof -
  obtain c where c: "compose_operation_aware_input sample_oq adapter_subject sample_ic
      (sample_trust {''adapter''}) ''c-1'' (Aware 0) = Inr c"
    using sample_compose by blast
  have "''device'' \<in> set OPERATION_PRODUCER_ONLY_FIELDS"
    by (simp add: OPERATION_PRODUCER_ONLY_FIELDS_def)
  then have "map_of (ci_provenance c) ''device'' = Some TRUSTED_PRODUCER_ASSERTED"
    using composition_provenance_truthful [OF c] by (auto simp: sample_oq_def)
  with c show ?thesis by blast
qed

text \<open>Internal composition errors are unreachable from requests: with an identity as
  authentication delivers it, a trust classification as the resolver delivers
  it, a non-blank correlation id and an aware clock, composition either
  succeeds or raises one of the caller-facing errors.\<close>

lemma composition_no_internal:
  assumes "wf_identity (s, ic)" and "resolve_operation_producer_trust load hs s config = Inr t"
    and "[] \<notin> operation_producer_mtls_admitted_uris config" and "\<not> blank corr" and "is_aware clk"
  shows "compose_operation_aware_input r s ic t corr clk \<noteq> Inl (CompositionInternalError m)"
proof -
  show ?thesis
  proof (cases "ot_producer_workload_identity t = Some [] \<and> ot_status t = TRUSTED")
    case True
    then show ?thesis using assms(2,3)
      by (auto simp: resolve_operation_producer_trust_def resolve_mtls_eq classify_operation_producer_def
          split: if_splits)
  next
    case False
    have "check_identity_consistency s ic t = Inr ()"
      using assms(1) producer.resolve_consistent [OF assms(2)] producer.resolve_subject [OF assms(2)] False
      by (auto simp: check_identity_consistency_def wf_identity_def trust_consistent_def truthy_opt_def
          split: option.splits)
    then show ?thesis
      using assms(4) compose_accepted_error [OF _ assms(5), of r s ic t corr "CompositionInternalError m"]
      by (auto simp: compose_operation_aware_input_def Let_def)
  qed
qed

text \<open>The free-form context of a composed input holds gateway evidence only: for every
  request that passed validation, all its keys lie in the reserved namespace.\<close>

theorem composed_context_reserved:
  assumes "OperationAwareEvaluateRequest_validate nested body = Inr r"
    and "compose_operation_aware_input r s ic t corr clk = Inr c"
  shows "\<forall>k \<in> fst ` set (ci_context c). startswith RESERVED_CONTEXT_PREFIX k"
proof -
  have "oq_context r = []" using assms(1) by (rule oa_validate_Inr)
  moreover obtain a rc where "ci_context c = combined_context r a rc"
    using compose_Inr(5) [OF assms(2)] by (auto simp: compose_accepted_Inr)
  ultimately show ?thesis using combined_context_keys by (simp only:)
qed

theorem composed_context_reserved_witness:
  "\<exists>r. OperationAwareEvaluateRequest_validate (\<lambda>_ v. Inr v)
         (PDict [(''action'', PStr ''write''), (''resource_type'', PStr ''ahu'')]) = Inr r
     \<and> (\<forall>c. compose_operation_aware_input r adapter_subject sample_ic (sample_trust {}) ''c-1'' (Aware 0) = Inr c
          \<longrightarrow> (\<forall>k \<in> fst ` set (ci_context c). startswith RESERVED_CONTEXT_PREFIX k))"
proof -
  let ?b = "PDict [(''action'', PStr ''write''), (''resource_type'', PStr ''ahu'')]"
  obtain r where "OperationAwareEvaluateRequest_validate (\<lambda>_ v. Inr v) ?b = Inr r"
    by (simp add: OperationAwareEvaluateRequest_validate_def action_field_def action_not_empty_def
        opt_str_field_def oa_context_field_def context_field_def nested_field_def extra_errors_def
        evaluate_fields_def OPERATION_PRODUCER_ONLY_FIELDS_def strip_def strip_by_def is_space_def)
  then show ?thesis using composed_context_reserved by blast
qed

end
