(* ===== verification/GW_Readiness.thy ===== *)
theory GW_Readiness
  imports GW_Prelude
begin

text \<open>
  \<^verbatim>\<open>readiness.py\<close>: the multi-component readiness tracker. Its state is the two
  dictionaries of the class; the lock makes every method atomic, so a method
  is a function from state to state. The locale \<^verbatim>\<open>component_tracker\<close> is the contract
  the audit writer and the startup sequence rely on, interpreted at the end on the model.
\<close>

section \<open>State and operations\<close>

record ReadinessState =
  components :: "bool dict"
  reasons :: "msg dict"

definition initial_readiness :: ReadinessState where
  "initial_readiness = \<lparr>components = [], reasons = []\<rparr>"

definition mark_ready :: "string \<Rightarrow> ReadinessState \<Rightarrow> ReadinessState" where
  "mark_ready component s =
     s\<lparr>components := dict_set (components s) component True,
       reasons := dict_pop (reasons s) component\<rparr>"

definition mark_not_ready :: "msg \<Rightarrow> string \<Rightarrow> ReadinessState \<Rightarrow> ReadinessState" where
  "mark_not_ready reason component s =
     s\<lparr>components := dict_set (components s) component False,
       reasons := dict_set (reasons s) component reason\<rparr>"

definition is_ready :: "ReadinessState \<Rightarrow> bool" where
  "is_ready s \<longleftrightarrow> (if components s = [] then False else \<forall>(c, r) \<in> set (components s). r)"

definition default_reason :: "string \<Rightarrow> msg" where
  "default_reason component = (''not ready'', [component])"

definition reason_of :: "ReadinessState \<Rightarrow> string \<Rightarrow> msg" where
  "reason_of s component =
     (case map_of (reasons s) component of Some m \<Rightarrow> m | None \<Rightarrow> default_reason component)"

text \<open>\<^verbatim>\<open>ReadinessState.reason\<close>: the first component that is not ready; \<^term>\<open>None\<close> is the empty string.\<close>

definition reason :: "ReadinessState \<Rightarrow> msg option" where
  "reason s = (case find (\<lambda>(c, r). \<not> r) (components s) of
      None \<Rightarrow> None | Some (c, r) \<Rightarrow> Some (reason_of s c))"

definition all_reasons :: "ReadinessState \<Rightarrow> msg dict" where
  "all_reasons s = map (\<lambda>(c, r). (c, reason_of s c)) (filter (\<lambda>(c, r). \<not> r) (components s))"

definition reset_readiness_state :: "ReadinessState \<Rightarrow> ReadinessState" where
  "reset_readiness_state s = s\<lparr>components := [], reasons := []\<rparr>"

definition component_of :: "ReadinessState \<Rightarrow> string \<Rightarrow> bool option" where
  "component_of s c = map_of (components s) c"

text \<open>
  The invariant: component names are unique, every component that is not ready
  has a recorded reason and no ready component has one.
\<close>

definition readiness_inv :: "ReadinessState \<Rightarrow> bool" where
  "readiness_inv s \<longleftrightarrow> distinct (map fst (components s)) \<and>
     (\<forall>c. map_of (reasons s) c \<noteq> None \<longleftrightarrow> component_of s c = Some False)"

section \<open>The contract of a component tracker\<close>

locale component_tracker =
  fixes ready :: "string \<Rightarrow> 's \<Rightarrow> 's"
    and not_ready :: "msg \<Rightarrow> string \<Rightarrow> 's \<Rightarrow> 's"
    and status :: "'s \<Rightarrow> string \<Rightarrow> bool option"
    and overall :: "'s \<Rightarrow> bool"
    and inv :: "'s \<Rightarrow> bool"
  assumes status_ready: "status (ready c s) d = (if d = c then Some True else status s d)"
    and status_not_ready: "status (not_ready m c s) d = (if d = c then Some False else status s d)"
    and overall_iff: "inv s \<Longrightarrow>
          overall s \<longleftrightarrow> (\<exists>c. status s c \<noteq> None) \<and> (\<forall>c. status s c \<noteq> Some False)"
    and inv_ready: "inv s \<Longrightarrow> inv (ready c s)"
    and inv_not_ready: "inv s \<Longrightarrow> inv (not_ready m c s)"
begin

lemma not_ready_blocks: "inv s \<Longrightarrow> \<not> overall (not_ready m c s)"
  by (auto simp: overall_iff inv_not_ready status_not_ready)

lemma status_False_blocks: "inv s \<Longrightarrow> status s c = Some False \<Longrightarrow> \<not> overall s"
  by (auto simp: overall_iff)

lemma ready_restores:
  assumes "inv s" and "\<forall>d. d \<noteq> c \<longrightarrow> status s d \<noteq> Some False"
  shows "overall (ready c s)"
  using assms by (auto simp: overall_iff inv_ready status_ready)

lemma not_ready_ready_status:
  "status (ready c (not_ready m c s)) d = (if d = c then Some True else status s d)"
  by (simp add: status_ready status_not_ready)

lemma other_unchanged:
  "d \<noteq> c \<Longrightarrow> status (ready c s) d = status s d"
  "d \<noteq> c \<Longrightarrow> status (not_ready m c s) d = status s d"
  by (simp_all add: status_ready status_not_ready)

end

section \<open>The model meets the contract\<close>

lemma component_of_mark_ready [simp]:
  "component_of (mark_ready c s) d = (if d = c then Some True else component_of s d)"
  by (simp add: component_of_def mark_ready_def)

lemma component_of_mark_not_ready [simp]:
  "component_of (mark_not_ready m c s) d = (if d = c then Some False else component_of s d)"
  by (simp add: component_of_def mark_not_ready_def)

lemma reasons_mark_ready [simp]:
  "map_of (reasons (mark_ready c s)) d = (if d = c then None else map_of (reasons s) d)"
  by (simp add: mark_ready_def)

lemma reasons_mark_not_ready [simp]:
  "map_of (reasons (mark_not_ready m c s)) d = (if d = c then Some m else map_of (reasons s) d)"
  by (simp add: mark_not_ready_def)

lemma readiness_inv_initial [simp]: "readiness_inv initial_readiness"
  by (simp add: readiness_inv_def initial_readiness_def component_of_def)

lemma component_of_initial [simp]: "component_of initial_readiness c = None"
  by (simp add: initial_readiness_def component_of_def)

lemma readiness_inv_reset: "readiness_inv (reset_readiness_state s)"
  by (simp add: readiness_inv_def reset_readiness_state_def component_of_def)

lemma readiness_inv_mark_ready [simp]: "readiness_inv s \<Longrightarrow> readiness_inv (mark_ready c s)"
  unfolding readiness_inv_def by (simp add: mark_ready_def component_of_def)

lemma readiness_inv_mark_not_ready [simp]:
  "readiness_inv s \<Longrightarrow> readiness_inv (mark_not_ready m c s)"
  unfolding readiness_inv_def by (simp add: mark_not_ready_def component_of_def)

lemma all_ready_iff:
  assumes "readiness_inv s"
  shows "(\<forall>(c, r) \<in> set (components s). r) \<longleftrightarrow> (\<forall>c. component_of s c \<noteq> Some False)"
proof -
  have "component_of s c = Some r \<longleftrightarrow> (c, r) \<in> set (components s)" for c r
    using assms by (simp add: readiness_inv_def component_of_def map_of_eq_Some_iff)
  moreover have "(\<forall>(c, r) \<in> S. r) \<longleftrightarrow> (\<forall>c. (c, False) \<notin> S)" for S :: "(string \<times> bool) set"
    by auto (metis (full_types))
  ultimately show ?thesis by simp
qed

lemma is_ready_iff:
  assumes "readiness_inv s"
  shows "is_ready s \<longleftrightarrow>
    (\<exists>c. component_of s c \<noteq> None) \<and> (\<forall>c. component_of s c \<noteq> Some False)"
proof -
  have 1: "(\<exists>c. component_of s c \<noteq> None) \<longleftrightarrow> components s \<noteq> []"
    by (cases "components s") (auto simp: component_of_def)
  show ?thesis unfolding is_ready_def 1 all_ready_iff [OF assms, symmetric] by auto
qed

interpretation rdy: component_tracker mark_ready mark_not_ready component_of is_ready readiness_inv
  by unfold_locales (simp_all add: is_ready_iff)

section \<open>The reason views agree with the component states\<close>

lemma all_reasons_keys:
  assumes "readiness_inv s"
  shows "c \<in> fst ` set (all_reasons s) \<longleftrightarrow> component_of s c = Some False"
proof -
  have "distinct (map fst (components s))" using assms by (simp add: readiness_inv_def)
  then show ?thesis
    by (force simp: all_reasons_def component_of_def image_iff)
qed

lemma reason_None_iff:
  assumes "readiness_inv s"
  shows "reason s = None \<longleftrightarrow> (\<forall>c. component_of s c \<noteq> Some False)"
proof -
  have "reason s = None \<longleftrightarrow> find (\<lambda>(c, r). \<not> r) (components s) = None"
    by (simp add: reason_def split: option.splits prod.splits)
  also have "\<dots> \<longleftrightarrow> (\<forall>(c, r) \<in> set (components s). r)"
    by (auto simp: find_None_iff)
  finally show ?thesis by (simp add: all_ready_iff [OF assms])
qed

lemma all_reasons_recorded:
  assumes "readiness_inv s" and "(c, m) \<in> set (all_reasons s)"
  shows "map_of (reasons s) c = Some m"
proof -
  have "component_of s c = Some False"
    using all_reasons_keys [OF assms(1)] assms(2) by force
  then have "map_of (reasons s) c \<noteq> None"
    using assms(1) by (simp add: readiness_inv_def)
  then obtain m' where "map_of (reasons s) c = Some m'" by blast
  moreover have "m = reason_of s c" using assms(2) by (auto simp: all_reasons_def)
  ultimately show ?thesis by (simp add: reason_of_def)
qed

end
