(* ===== verification/GW_Audit.thy ===== *)
theory GW_Audit
  imports GW_Readiness
begin

text \<open>
  \<^verbatim>\<open>audit/writer.py\<close> and \<^verbatim>\<open>audit/gateway_events.py\<close>: the audit writer that counts
  consecutive failures, degrades the \<^verbatim>\<open>audit_writer\<close> readiness component at a
  threshold and recovers on the first successful write, and the helper that
  emits the gateway's own events. The audit event model and the inner writer
  belong to basis-core: whether an event can be constructed and whether a
  write succeeds are the parameters \<^verbatim>\<open>ae_accepts\<close> and \<^verbatim>\<open>inner_write\<close>; the
  latter sees every earlier attempt, so it may fail and recover at will.

  The fields \<^verbatim>\<open>w_attempts\<close> and \<^verbatim>\<open>w_written\<close> are history: the events handed to
  the inner writer, and those it took.
\<close>

section \<open>Events and the writer\<close>

datatype audit_outcome = ALLOWED | DENIED

record AuditEvent =
  ev_event_type :: string
  ev_action :: string
  ev_outcome :: "audit_outcome option"
  ev_reason :: "string option"
  ev_correlation_id :: "string option"
  ev_subject_id :: "string option"
  ev_request_id :: "string option"
  ev_policy_version :: "string option"
  ev_detail :: "pyval dict"

record audit_lib =
  ae_accepts :: "AuditEvent \<Rightarrow> bool"
  inner_write :: "AuditEvent list \<Rightarrow> AuditEvent \<Rightarrow> bool"

record GatewayAuditWriter =
  w_readiness_state :: bool
  w_failure_threshold :: int
  w_failed_write_count :: nat
  w_consecutive_failure_count :: nat
  w_degraded :: bool
  w_attempts :: "AuditEvent list"
  w_written :: "AuditEvent list"

definition AUDIT_WRITER_COMPONENT :: string where
  "AUDIT_WRITER_COMPONENT = ''audit_writer''"

text \<open>\<^verbatim>\<open>GatewayAuditWriter.__init__\<close>; the flag says whether a readiness state was passed.\<close>

definition GatewayAuditWriter_init :: "bool \<Rightarrow> int \<Rightarrow> GatewayAuditWriter" where
  "GatewayAuditWriter_init readiness_state failure_threshold =
     \<lparr>w_readiness_state = readiness_state,
      w_failure_threshold = max 1 failure_threshold,
      w_failed_write_count = 0,
      w_consecutive_failure_count = 0,
      w_degraded = False,
      w_attempts = [],
      w_written = []\<rparr>"

definition build_audit_writer :: "bool \<Rightarrow> int \<Rightarrow> GatewayAuditWriter" where
  "build_audit_writer readiness_state failure_threshold =
     GatewayAuditWriter_init readiness_state failure_threshold"

definition threshold_message :: "nat \<Rightarrow> msg" where
  "threshold_message n = (''Audit write failures exceeded threshold'', [nat_str n])"

text \<open>The two paths of \<^verbatim>\<open>GatewayAuditWriter.write\<close>.\<close>

definition write_failed ::
    "GatewayAuditWriter \<times> ReadinessState \<Rightarrow> GatewayAuditWriter \<times> ReadinessState" where
  "write_failed = (\<lambda>(w, rs).
     let w1 = w\<lparr>w_failed_write_count := w_failed_write_count w + 1,
                w_consecutive_failure_count := w_consecutive_failure_count w + 1\<rparr>
     in if w_failure_threshold w1 \<le> int (w_consecutive_failure_count w1) \<and> \<not> w_degraded w1
        then (w1\<lparr>w_degraded := True\<rparr>,
              if w_readiness_state w1
              then mark_not_ready (threshold_message (w_consecutive_failure_count w1))
                     AUDIT_WRITER_COMPONENT rs
              else rs)
        else (w1, rs))"

definition write_succeeded ::
    "GatewayAuditWriter \<times> ReadinessState \<Rightarrow> GatewayAuditWriter \<times> ReadinessState" where
  "write_succeeded = (\<lambda>(w, rs).
     let (w1, rs1) =
       (if w_degraded w
        then (w\<lparr>w_degraded := False\<rparr>,
              if w_readiness_state w then mark_ready AUDIT_WRITER_COMPONENT rs else rs)
        else (w, rs))
     in (w1\<lparr>w_consecutive_failure_count := 0\<rparr>, rs1))"

definition audit_write ::
    "(AuditEvent list \<Rightarrow> AuditEvent \<Rightarrow> bool) \<Rightarrow> AuditEvent
     \<Rightarrow> GatewayAuditWriter \<times> ReadinessState \<Rightarrow> GatewayAuditWriter \<times> ReadinessState" where
  "audit_write inner event = (\<lambda>(w, rs).
     let w0 = w\<lparr>w_attempts := w_attempts w @ [event]\<rparr>
     in if inner (w_attempts w) event
        then write_succeeded (w0\<lparr>w_written := w_written w0 @ [event]\<rparr>, rs)
        else write_failed (w0, rs))"

section \<open>Emission of gateway events\<close>

type_synonym audit_st = "GatewayAuditWriter option \<times> ReadinessState"

text \<open>
  Constructing the event and writing it, with every exception caught: the
  common tail of the emission helpers of \<^verbatim>\<open>gateway_events.py\<close> and
  \<^verbatim>\<open>operation_aware_gateway_events.py\<close>.
\<close>

definition emit_event :: "audit_lib \<Rightarrow> AuditEvent \<Rightarrow> audit_st \<Rightarrow> audit_st" where
  "emit_event A event = (\<lambda>(writer, rs). case writer of
       None \<Rightarrow> (None, rs)
     | Some w \<Rightarrow>
         (if ae_accepts A event
          then let (w', rs') = audit_write (inner_write A) event (w, rs) in (Some w', rs')
          else (Some w, rs)))"

definition SYSTEM_EVENT :: string where "SYSTEM_EVENT = ''system_event''"

definition EVALUATION_REQUESTED :: string where
  "EVALUATION_REQUESTED = ''gateway.evaluation_requested''"
definition AUTHENTICATION_FAILED :: string where
  "AUTHENTICATION_FAILED = ''gateway.authentication_failed''"
definition VALIDATION_FAILED :: string where
  "VALIDATION_FAILED = ''gateway.validation_failed''"
definition EVALUATOR_UNAVAILABLE :: string where
  "EVALUATOR_UNAVAILABLE = ''gateway.evaluator_unavailable''"
definition EVALUATION_FAILED_CLOSED :: string where
  "EVALUATION_FAILED_CLOSED = ''gateway.evaluation_failed_closed''"
definition AUDIT_RECOVERY_PROBE :: string where
  "AUDIT_RECOVERY_PROBE = ''gateway.audit_recovery_probe''"

definition REASON_MISSING_TOKEN :: string where
  "REASON_MISSING_TOKEN = ''missing_bearer_token''"
definition REASON_INVALID_TOKEN :: string where
  "REASON_INVALID_TOKEN = ''invalid_token''"
definition REASON_IDENTITY_NORMALIZATION_FAILED :: string where
  "REASON_IDENTITY_NORMALIZATION_FAILED = ''identity_normalization_failed''"
definition REASON_VERIFIER_NOT_CONFIGURED :: string where
  "REASON_VERIFIER_NOT_CONFIGURED = ''verifier_not_configured''"
definition REASON_EVALUATOR_NOT_INITIALIZED :: string where
  "REASON_EVALUATOR_NOT_INITIALIZED = ''evaluator_not_initialized''"
definition REASON_MALFORMED_BODY :: string where
  "REASON_MALFORMED_BODY = ''malformed_request_body''"
definition REASON_INVALID_FIELDS :: string where
  "REASON_INVALID_FIELDS = ''invalid_request_fields''"
definition REASON_EVALUATION_EXCEPTION :: string where
  "REASON_EVALUATION_EXCEPTION = ''unexpected_evaluation_exception''"
definition REASON_INVALID_DECISION_REQUEST :: string where
  "REASON_INVALID_DECISION_REQUEST = ''invalid_decision_request''"

definition gateway_event_detail ::
    "string option \<Rightarrow> string option \<Rightarrow> pyval dict \<Rightarrow> pyval dict" where
  "gateway_event_detail http_method request_path detail =
     dict_update
       ((case http_method of None \<Rightarrow> [] | Some m \<Rightarrow> [(''http_method'', PStr m)]) @
        (case request_path of None \<Rightarrow> [] | Some p \<Rightarrow> [(''request_path'', PStr p)]))
       detail"

definition emit_gateway_event ::
    "audit_lib \<Rightarrow> string \<Rightarrow> string option \<Rightarrow> string option \<Rightarrow> string option
     \<Rightarrow> audit_outcome option \<Rightarrow> string option \<Rightarrow> string option \<Rightarrow> string option \<Rightarrow> pyval dict
     \<Rightarrow> audit_st \<Rightarrow> audit_st" where
  "emit_gateway_event A action correlation_id request_path http_method outcome event_reason
       policy_version subject_id detail st =
     emit_event A
       \<lparr>ev_event_type = SYSTEM_EVENT, ev_action = action, ev_outcome = outcome,
        ev_reason = event_reason, ev_correlation_id = correlation_id, ev_subject_id = subject_id,
        ev_request_id = None, ev_policy_version = policy_version,
        ev_detail = gateway_event_detail http_method request_path detail\<rparr> st"

section \<open>The contract of an audit sink\<close>

text \<open>
  What the request handlers rely on: a write extends the trail by exactly its
  event and keeps the sink's invariant, whatever the outcome of the write.
\<close>

locale audit_sink =
  fixes put :: "'e \<Rightarrow> 's \<Rightarrow> 's"
    and trail :: "'s \<Rightarrow> 'e list"
    and inv :: "'s \<Rightarrow> bool"
  assumes trail_put: "trail (put e s) = trail s @ [e]"
    and inv_put: "inv s \<Longrightarrow> inv (put e s)"
begin

lemma trail_fold: "trail (fold put es s) = trail s @ es"
  by (induction es arbitrary: s) (simp_all add: trail_put)

lemma inv_fold: "inv s \<Longrightarrow> inv (fold put es s)"
  by (induction es arbitrary: s) (simp_all add: inv_put)

lemma length_trail_fold: "length (trail (fold put es s)) = length (trail s) + length es"
  by (simp add: trail_fold)

end

section \<open>The writer's invariant\<close>

text \<open>
  Degraded exactly when the consecutive failures reach the threshold; the
  consecutive failures are among the failures; attempts split into written
  and failed ones. The readiness component is the negation of the flag.
\<close>

definition writer_inv :: "GatewayAuditWriter \<Rightarrow> bool" where
  "writer_inv w \<longleftrightarrow> 1 \<le> w_failure_threshold w \<and>
     (w_degraded w \<longleftrightarrow> w_failure_threshold w \<le> int (w_consecutive_failure_count w)) \<and>
     w_consecutive_failure_count w \<le> w_failed_write_count w \<and>
     length (w_attempts w) = length (w_written w) + w_failed_write_count w"

definition writer_link :: "GatewayAuditWriter \<times> ReadinessState \<Rightarrow> bool" where
  "writer_link = (\<lambda>(w, rs). w_readiness_state w \<longrightarrow>
     component_of rs AUDIT_WRITER_COMPONENT = Some (\<not> w_degraded w))"

definition audit_inv :: "GatewayAuditWriter \<times> ReadinessState \<Rightarrow> bool" where
  "audit_inv = (\<lambda>(w, rs). writer_inv w \<and> readiness_inv rs \<and> writer_link (w, rs))"

lemma writer_inv_init [simp]: "writer_inv (GatewayAuditWriter_init b t)"
  by (auto simp: writer_inv_def GatewayAuditWriter_init_def)

lemma writer_init_simps [simp]:
  "w_degraded (GatewayAuditWriter_init b t) = False"
  "w_readiness_state (GatewayAuditWriter_init b t) = b"
  "w_failure_threshold (GatewayAuditWriter_init b t) = max 1 t"
  "w_attempts (GatewayAuditWriter_init b t) = []"
  "w_written (GatewayAuditWriter_init b t) = []"
  "w_failed_write_count (GatewayAuditWriter_init b t) = 0"
  "w_consecutive_failure_count (GatewayAuditWriter_init b t) = 0"
  by (simp_all add: GatewayAuditWriter_init_def)

lemma write_cases:
  "audit_write inner ev (w, rs) =
     (if inner (w_attempts w) ev
      then write_succeeded (w\<lparr>w_attempts := w_attempts w @ [ev], w_written := w_written w @ [ev]\<rparr>, rs)
      else write_failed (w\<lparr>w_attempts := w_attempts w @ [ev]\<rparr>, rs))"
  by (simp add: audit_write_def Let_def)

lemma write_attempts [audit_frame]:
  "w_attempts (fst (audit_write inner ev s)) = w_attempts (fst s) @ [ev]"
  by (cases s) (simp add: write_cases write_succeeded_def write_failed_def Let_def)

lemma write_fixed_fields [audit_frame]:
  "w_failure_threshold (fst (audit_write inner ev s)) = w_failure_threshold (fst s)"
  "w_readiness_state (fst (audit_write inner ev s)) = w_readiness_state (fst s)"
  by (cases s, simp add: write_cases write_succeeded_def write_failed_def Let_def)+

lemma writer_inv_write: "writer_inv w \<Longrightarrow> writer_inv (fst (audit_write inner ev (w, rs)))"
  by (auto simp: write_cases write_succeeded_def write_failed_def writer_inv_def Let_def)

lemma readiness_inv_write: "readiness_inv rs \<Longrightarrow> readiness_inv (snd (audit_write inner ev (w, rs)))"
  by (auto simp: write_cases write_succeeded_def write_failed_def Let_def)

lemma writer_link_write:
  "writer_link (w, rs) \<Longrightarrow> writer_link (audit_write inner ev (w, rs))"
  by (auto simp: write_cases write_succeeded_def write_failed_def writer_link_def Let_def)

lemma write_other_components [audit_frame]:
  "c \<noteq> AUDIT_WRITER_COMPONENT \<Longrightarrow> component_of (snd (audit_write inner ev (w, rs))) c = component_of rs c"
  by (auto simp: write_cases write_succeeded_def write_failed_def Let_def)

lemma audit_inv_write: "audit_inv s \<Longrightarrow> audit_inv (audit_write inner ev s)"
proof (cases s)
  case (Pair w rs)
  assume "audit_inv s"
  then show ?thesis
    using Pair writer_inv_write [of w inner ev rs] readiness_inv_write [of rs inner ev w]
      writer_link_write [of w rs inner ev]
    by (auto simp: audit_inv_def split: prod.splits)
qed

interpretation aw: audit_sink "audit_write inner" "\<lambda>s. w_attempts (fst s)" audit_inv
  for inner
  by unfold_locales (simp_all add: write_attempts audit_inv_write)

section \<open>Refinement: degradation is a suffix of failures\<close>

text \<open>
  The abstract specification looks only at the sequence of write outcomes:
  the writer is degraded when the last \<^verbatim>\<open>failure_threshold\<close> writes all failed.
\<close>

fun outcomes :: "(AuditEvent list \<Rightarrow> AuditEvent \<Rightarrow> bool) \<Rightarrow> AuditEvent list \<Rightarrow> AuditEvent list \<Rightarrow> bool list"
where
  "outcomes inner hist [] = []"
| "outcomes inner hist (e # es) = inner hist e # outcomes inner (hist @ [e]) es"

definition trailing_failures :: "bool list \<Rightarrow> nat" where
  "trailing_failures os = length (takeWhile Not (rev os))"

definition spec_degraded :: "int \<Rightarrow> bool list \<Rightarrow> bool" where
  "spec_degraded t os \<longleftrightarrow> t \<le> int (length os) \<and> (\<forall>b \<in> set (take (nat t) (rev os)). \<not> b)"

lemma outcomes_snoc:
  "outcomes inner hist (es @ [e]) = outcomes inner hist es @ [inner (hist @ es) e]"
  by (induction es arbitrary: hist) auto

lemma trailing_failures_snoc [simp]:
  "trailing_failures (os @ [True]) = 0"
  "trailing_failures (os @ [False]) = Suc (trailing_failures os)"
  by (simp_all add: trailing_failures_def)

lemma write_counters:
  "w_consecutive_failure_count (fst (audit_write inner ev s)) =
     (if inner (w_attempts (fst s)) ev then 0 else w_consecutive_failure_count (fst s) + 1)"
  "w_failed_write_count (fst (audit_write inner ev s)) =
     (if inner (w_attempts (fst s)) ev then w_failed_write_count (fst s)
      else w_failed_write_count (fst s) + 1)"
  by (cases s, simp add: write_cases write_succeeded_def write_failed_def Let_def)+

lemma write_written:
  "w_written (fst (audit_write inner ev s)) =
     (if inner (w_attempts (fst s)) ev then w_written (fst s) @ [ev] else w_written (fst s))"
  by (cases s) (simp add: write_cases write_succeeded_def write_failed_def Let_def)

lemma consecutive_is_trailing:
  assumes "w_attempts (fst s) = []" and "w_consecutive_failure_count (fst s) = 0"
  shows "w_consecutive_failure_count (fst (fold (audit_write inner) es s))
    = trailing_failures (outcomes inner [] es)"
proof (induction es rule: rev_induct)
  case Nil
  then show ?case using assms by (simp add: trailing_failures_def)
next
  case (snoc e es)
  have "w_attempts (fst (fold (audit_write inner) es s)) = es"
    using aw.trail_fold [of inner es s] assms(1) by simp
  then show ?case using snoc by (simp add: write_counters outcomes_snoc)
qed

lemma threshold_fold:
  "w_failure_threshold (fst (fold (audit_write inner) es s)) = w_failure_threshold (fst s)"
  by (induction es arbitrary: s) (simp_all add: audit_frame)

lemma readiness_flag_fold:
  "w_readiness_state (fst (fold (audit_write inner) es s)) = w_readiness_state (fst s)"
  by (induction es arbitrary: s) (simp_all add: audit_frame)

lemma other_components_fold:
  "c \<noteq> AUDIT_WRITER_COMPONENT \<Longrightarrow>
   component_of (snd (fold (audit_write inner) es s)) c = component_of (snd s) c"
proof (induction es arbitrary: s)
  case (Cons e es)
  then show ?case by (cases s) (simp add: write_other_components)
qed simp

lemma takeWhile_ge_iff:
  "n \<le> length (takeWhile P xs) \<longleftrightarrow> n \<le> length xs \<and> (\<forall>x \<in> set (take n xs). P x)"
proof (induction xs arbitrary: n)
  case (Cons x xs)
  then show ?case by (cases n) auto
qed simp

lemma trailing_ge_iff:
  "1 \<le> t \<Longrightarrow> t \<le> int (trailing_failures os) \<longleftrightarrow> spec_degraded t os"
  using takeWhile_ge_iff [of "nat t" Not "rev os"]
  by (auto simp: trailing_failures_def spec_degraded_def)

lemma audit_inv_init:
  "readiness_inv rs \<Longrightarrow> (b \<longrightarrow> component_of rs AUDIT_WRITER_COMPONENT = Some True)
   \<Longrightarrow> audit_inv (GatewayAuditWriter_init b t, rs)"
  by (simp add: audit_inv_def writer_link_def)

section \<open>Frame lemmas for emission\<close>

text \<open>The trail and the invariant of the optional writer the handlers carry.\<close>

definition st_trail :: "audit_st \<Rightarrow> AuditEvent list" where
  "st_trail st = (case fst st of None \<Rightarrow> [] | Some w \<Rightarrow> w_attempts w)"

definition st_inv :: "audit_st \<Rightarrow> bool" where
  "st_inv st \<longleftrightarrow> (case fst st of None \<Rightarrow> readiness_inv (snd st) | Some w \<Rightarrow> audit_inv (w, snd st))"

definition st_degraded :: "audit_st \<Rightarrow> bool" where
  "st_degraded st \<longleftrightarrow> (case fst st of None \<Rightarrow> False | Some w \<Rightarrow> w_degraded w)"

lemma emit_event_None [simp]: "emit_event A ev (None, rs) = (None, rs)"
  by (simp add: emit_event_def)

lemma emit_event_Some:
  "emit_event A ev (Some w, rs) = (if ae_accepts A ev
     then (Some (fst (audit_write (inner_write A) ev (w, rs))), snd (audit_write (inner_write A) ev (w, rs)))
     else (Some w, rs))"
  by (simp add: emit_event_def split: prod.splits)

lemma fst_emit_event_None_iff [simp]: "fst (emit_event A ev st) = None \<longleftrightarrow> fst st = None"
  by (cases st; cases "fst st") (auto simp: emit_event_Some)

lemma st_trail_emit [audit_frame]:
  "st_trail (emit_event A ev st) =
     (if fst st \<noteq> None \<and> ae_accepts A ev then st_trail st @ [ev] else st_trail st)"
  by (cases st; cases "fst st") (auto simp: emit_event_Some st_trail_def write_attempts)

lemma st_inv_emit [audit_frame]: "st_inv st \<Longrightarrow> st_inv (emit_event A ev st)"
proof (cases st)
  case (Pair wo rs)
  assume "st_inv st"
  then show ?thesis
    using Pair audit_inv_write [of "(_, rs)" "inner_write A" ev]
    by (cases wo) (auto simp: emit_event_Some st_inv_def)
qed

lemma emit_other_components [audit_frame]:
  "c \<noteq> AUDIT_WRITER_COMPONENT \<Longrightarrow> component_of (snd (emit_event A ev st)) c = component_of (snd st) c"
  by (cases st; cases "fst st") (auto simp: emit_event_Some write_other_components)

lemma st_degraded_link:
  assumes "st_inv (Some w, rs)" and "w_readiness_state w"
  shows "component_of rs AUDIT_WRITER_COMPONENT = Some (\<not> w_degraded w)"
  using assms by (simp add: st_inv_def audit_inv_def writer_link_def)

section \<open>Properties\<close>

text \<open>A concrete event and a concrete writer with its readiness state, for the witnesses.\<close>

definition sample_event :: AuditEvent where
  "sample_event = \<lparr>ev_event_type = SYSTEM_EVENT, ev_action = AUTHENTICATION_FAILED,
     ev_outcome = None, ev_reason = Some REASON_MISSING_TOKEN, ev_correlation_id = Some ''c-1'',
     ev_subject_id = None, ev_request_id = None, ev_policy_version = None, ev_detail = []\<rparr>"

definition sample_audit :: "GatewayAuditWriter \<times> ReadinessState" where
  "sample_audit = (GatewayAuditWriter_init True 2, mark_ready AUDIT_WRITER_COMPONENT initial_readiness)"

lemma sample_audit_inv: "audit_inv sample_audit"
  unfolding sample_audit_def by (rule audit_inv_init) simp_all

text \<open>C19: The audit writer is degraded exactly when its last \<^verbatim>\<open>failure_threshold\<close> writes all
  failed, whatever sequence of events it was given and however the inner
  writer behaved: the counters and the flag of the class refine the
  specification over the history of write outcomes.\<close>

theorem writer_degraded_refines_spec:
  "w_degraded (fst (fold (audit_write inner) es (GatewayAuditWriter_init b t, rs)))
   = spec_degraded (max 1 t) (outcomes inner [] es)"
proof -
  let ?s = "fold (audit_write inner) es (GatewayAuditWriter_init b t, rs)"
  have "writer_inv (fst (fold (audit_write inner) fs (GatewayAuditWriter_init b t, rs)))" for fs
    by (induction fs rule: rev_induct)
      (simp_all, metis prod.collapse writer_inv_write)
  then have "w_degraded (fst ?s) \<longleftrightarrow>
      w_failure_threshold (fst ?s) \<le> int (w_consecutive_failure_count (fst ?s))"
    by (simp add: writer_inv_def)
  then show ?thesis
    using trailing_ge_iff [of "max 1 t" "outcomes inner [] es"]
    by (simp add: threshold_fold consecutive_is_trailing)
qed

text \<open>Readiness signalling: after any sequence of audit writes, the \<^verbatim>\<open>audit_writer\<close>
  component is registered and is ready exactly when the writer is not
  degraded, and no other component is touched by audit writes.\<close>

theorem writer_signals_readiness:
  assumes "audit_inv (w, rs)" and "w_readiness_state w"
    and "fold (audit_write inner) es (w, rs) = (w', rs')"
  shows "component_of rs' AUDIT_WRITER_COMPONENT = Some (\<not> w_degraded w')
    \<and> (w_degraded w' \<longrightarrow> \<not> is_ready rs')
    \<and> (\<forall>c. c \<noteq> AUDIT_WRITER_COMPONENT \<longrightarrow> component_of rs' c = component_of rs c)"
proof -
  have inv: "audit_inv (w', rs')" using aw.inv_fold [OF assms(1), of inner es] assms(3) by simp
  have rd: "w_readiness_state w'"
    using readiness_flag_fold [of inner es "(w, rs)"] assms(2,3) by simp
  have link: "component_of rs' AUDIT_WRITER_COMPONENT = Some (\<not> w_degraded w')"
    using inv rd by (simp add: audit_inv_def writer_link_def)
  moreover have "w_degraded w' \<longrightarrow> \<not> is_ready rs'"
    using link inv rdy.status_False_blocks [of rs' AUDIT_WRITER_COMPONENT]
    by (simp add: audit_inv_def)
  moreover have "\<forall>c. c \<noteq> AUDIT_WRITER_COMPONENT \<longrightarrow> component_of rs' c = component_of rs c"
    using other_components_fold [of _ inner es "(w, rs)"] assms(3) by simp
  ultimately show ?thesis by blast
qed

theorem writer_signals_readiness_witness:
  "let (w, rs) = fold (audit_write (\<lambda>_ _. False)) [sample_event, sample_event] sample_audit
   in w_degraded w \<and> component_of rs AUDIT_WRITER_COMPONENT = Some False \<and> \<not> is_ready rs"
proof -
  let ?s = "fold (audit_write (\<lambda>_ _. False)) [sample_event, sample_event] sample_audit"
  have deg: "w_degraded (fst ?s)"
    by (simp add: sample_audit_def write_cases write_failed_def)
  have "audit_inv (fst sample_audit, snd sample_audit)" using sample_audit_inv by simp
  moreover have "w_readiness_state (fst sample_audit)" by (simp add: sample_audit_def)
  ultimately show ?thesis
    using deg writer_signals_readiness
      [of "fst sample_audit" "snd sample_audit" "\<lambda>_ _. False" "[sample_event, sample_event]"
        "fst ?s" "snd ?s"]
    by (simp add: case_prod_beta)
qed

end
