(* ===== verification/GW_Policy.thy ===== *)
theory GW_Policy
  imports GW_Subject
begin

text \<open>
  \<^verbatim>\<open>policy/loader.py\<close> and \<^verbatim>\<open>policy/operation_aware_loader.py\<close>: structural loading of
  the two policy documents. The file system and \<^verbatim>\<open>json.loads\<close> are parameters
  (\<^term>\<open>None\<close> is a \<^verbatim>\<open>JSONDecodeError\<close>), as are the constructors of basis-core:
  \<^verbatim>\<open>rule_error\<close> and \<^verbatim>\<open>engine_error\<close> give the exception they raise, if any, and
  \<^verbatim>\<open>bundle_validate\<close> is \<^verbatim>\<open>PolicyBundle.model_validate\<close>.
\<close>

section \<open>The libraries\<close>

record fs_lib =
  path_exists :: "string \<Rightarrow> bool"
  path_is_file :: "string \<Rightarrow> bool"
  read_text :: "string \<Rightarrow> py_exn + string"
  json_loads :: "string \<Rightarrow> pyval option"

record RolePolicyRule =
  pr_role_table :: "string set dict"
  pr_rule_name :: string

record policy_lib =
  rule_error :: "RolePolicyRule \<Rightarrow> exn option"
  engine_error :: "RolePolicyRule list \<Rightarrow> exn option"
  bundle_validate :: "pyval dict \<Rightarrow> exn + pyval"

section \<open>The role policy (loader.py)\<close>

definition load_error :: "string \<Rightarrow> string list \<Rightarrow> exn" where
  "load_error m xs = PolicyLoadError (m, xs)"

fun parse_roles :: "string \<Rightarrow> pyval list \<Rightarrow> string list res" where
  "parse_roles act [] = Inr []"
| "parse_roles act (PStr s # rs) =
     (if blank s then Inl (load_error ''each role must be a non-empty string'' [act])
      else res_bind (parse_roles act rs) (\<lambda>ys. Inr (s # ys)))"
| "parse_roles act (r # rs) = Inl (load_error ''each role must be a non-empty string'' [act])"

text \<open>The loop over \<^verbatim>\<open>raw_table.items()\<close>.\<close>

fun parse_role_table :: "pyval dict \<Rightarrow> string set dict res" where
  "parse_role_table [] = Inr []"
| "parse_role_table ((action, v) # d) =
     (if blank action then Inl (load_error ''action keys must be non-empty strings'' [])
      else case v of
        PList rs \<Rightarrow>
          res_bind (parse_roles action rs) (\<lambda>names.
          res_bind (parse_role_table d) (\<lambda>t. Inr ((action, set names) # t)))
      | _ \<Rightarrow> Inl (load_error ''roles must be a list'' [action]))"

definition default_rule_name :: "nat \<Rightarrow> string" where
  "default_rule_name index = ''rule-'' @ nat_str index"

definition parse_rule :: "policy_lib \<Rightarrow> pyval \<Rightarrow> nat \<Rightarrow> RolePolicyRule res" where
  "parse_rule P raw index = (case raw of
      PDict d \<Rightarrow>
        (case (case map_of d ''rule_name'' of None \<Rightarrow> PStr (default_rule_name index) | Some v \<Rightarrow> v) of
           PStr rule_name \<Rightarrow>
             (if blank rule_name then Inl (load_error ''rule_name must be a non-empty string'' [nat_str index])
              else case dict_get d ''role_table'' of
                PNone \<Rightarrow> Inl (load_error ''role_table is required'' [nat_str index])
              | PDict raw_table \<Rightarrow>
                  res_bind (parse_role_table raw_table) (\<lambda>t.
                    let rule = \<lparr>pr_role_table = t, pr_rule_name = rule_name\<rparr> in
                    case rule_error P rule of Some e \<Rightarrow> Inl e | None \<Rightarrow> Inr rule)
              | _ \<Rightarrow> Inl (load_error ''role_table must be an object'' [nat_str index]))
         | _ \<Rightarrow> Inl (load_error ''rule_name must be a non-empty string'' [nat_str index]))
    | _ \<Rightarrow> Inl (load_error ''rule must be an object'' [nat_str index]))"

fun parse_rules :: "policy_lib \<Rightarrow> nat \<Rightarrow> pyval list \<Rightarrow> RolePolicyRule list res" where
  "parse_rules P i [] = Inr []"
| "parse_rules P i (raw # raws) =
     res_bind (parse_rule P raw i) (\<lambda>r. res_bind (parse_rules P (Suc i) raws) (\<lambda>rs. Inr (r # rs)))"

text \<open>Everything after the file has been read and decoded.\<close>

definition engine_from_data :: "policy_lib \<Rightarrow> string \<Rightarrow> pyval \<Rightarrow> RolePolicyRule list res" where
  "engine_from_data P policy_path data = (case data of
      PDict d \<Rightarrow>
        (case dict_get d ''rules'' of
           PNone \<Rightarrow> Inl (load_error ''Policy file must contain a rules array'' [policy_path])
         | PList raw_rules \<Rightarrow>
             (if raw_rules = []
              then Inl (load_error ''rules must contain at least one rule'' [policy_path])
              else res_bind (parse_rules P 0 raw_rules) (\<lambda>rules.
                case engine_error P rules of Some e \<Rightarrow> Inl e | None \<Rightarrow> Inr rules))
         | _ \<Rightarrow> Inl (load_error ''rules must be an array'' [policy_path]))
    | _ \<Rightarrow> Inl (load_error ''Policy file must be a JSON object at the top level'' [policy_path]))"

definition load_policy_engine :: "fs_lib \<Rightarrow> policy_lib \<Rightarrow> string \<Rightarrow> RolePolicyRule list res" where
  "load_policy_engine F P policy_path =
     (if \<not> path_exists F policy_path then Inl (load_error ''Policy file not found'' [policy_path])
      else if \<not> path_is_file F policy_path then Inl (load_error ''Policy path is not a file'' [policy_path])
      else case read_text F policy_path of
        Inl (OSError m) \<Rightarrow> Inl (load_error ''Could not read policy file'' [policy_path])
      | Inl e \<Rightarrow> Inl (PyError e)
      | Inr raw_text \<Rightarrow>
          (case json_loads F raw_text of
             None \<Rightarrow> Inl (load_error ''Policy file is not valid JSON'' [policy_path])
           | Some data \<Rightarrow> engine_from_data P policy_path data))"

section \<open>The operation-aware bundle (operation\_aware\_loader.py)\<close>

definition load_operation_aware_policy_bundle :: "fs_lib \<Rightarrow> policy_lib \<Rightarrow> string \<Rightarrow> pyval res" where
  "load_operation_aware_policy_bundle F P path =
     (if \<not> path_exists F path
      then Inl (OperationAwarePolicyLoadError FILE_UNREADABLE (''bundle file not found'', [path]))
      else if \<not> path_is_file F path
      then Inl (OperationAwarePolicyLoadError FILE_UNREADABLE (''bundle path is not a file'', [path]))
      else case read_text F path of
        Inl (OSError m) \<Rightarrow>
          Inl (OperationAwarePolicyLoadError FILE_UNREADABLE (''Could not read bundle file'', [path]))
      | Inl e \<Rightarrow> Inl (PyError e)
      | Inr raw_text \<Rightarrow>
          (case json_loads F raw_text of
             None \<Rightarrow> Inl (OperationAwarePolicyLoadError INVALID_JSON (''bundle file is not valid JSON'', [path]))
           | Some (PDict d) \<Rightarrow>
               (case bundle_validate P d of
                  Inl (ValidationError es) \<Rightarrow>
                    Inl (OperationAwarePolicyLoadError INVALID_STRUCTURE
                      (''bundle does not match the required structure'', [path, nat_str (length es)]))
                | Inl e \<Rightarrow> Inl e
                | Inr bundle \<Rightarrow> Inr bundle)
           | Some _ \<Rightarrow> Inl (OperationAwarePolicyLoadError INVALID_STRUCTURE
                (''bundle must be a JSON object at the top level'', [path]))))"

section \<open>Lemmas\<close>

text \<open>The JSON document of a policy, and when a policy is well formed.\<close>

type_synonym policy_doc = "(string \<times> (string \<times> string list) list) list"

definition rule_json :: "string \<times> (string \<times> string list) list \<Rightarrow> pyval" where
  "rule_json = (\<lambda>(name, table). PDict [(''rule_name'', PStr name),
     (''role_table'', PDict (map (\<lambda>(a, rs). (a, PList (map PStr rs))) table))])"

definition policy_json :: "policy_doc \<Rightarrow> pyval" where
  "policy_json doc = PDict [(''rules'', PList (map rule_json doc))]"

definition doc_rule :: "string \<times> (string \<times> string list) list \<Rightarrow> RolePolicyRule" where
  "doc_rule = (\<lambda>(name, table). \<lparr>pr_role_table = map (\<lambda>(a, rs). (a, set rs)) table, pr_rule_name = name\<rparr>)"

definition wf_table :: "string set dict \<Rightarrow> bool" where
  "wf_table t \<longleftrightarrow> (\<forall>(a, rs) \<in> set t. \<not> blank a \<and> (\<forall>x \<in> rs. \<not> blank x))"

definition wf_rule :: "RolePolicyRule \<Rightarrow> bool" where
  "wf_rule r \<longleftrightarrow> \<not> blank (pr_rule_name r) \<and> wf_table (pr_role_table r)"

lemma wf_table_simps [simp]:
  "wf_table []" "wf_table ((a, rs) # t) \<longleftrightarrow> \<not> blank a \<and> (\<forall>x \<in> rs. \<not> blank x) \<and> wf_table t"
  by (auto simp: wf_table_def)

lemma parse_roles_Inr:
  "parse_roles w rs = Inr names \<longleftrightarrow> rs = map PStr names \<and> (\<forall>n \<in> set names. \<not> blank n)"
proof (induction w rs arbitrary: names rule: parse_roles.induct)
  case (2 w s rs)
  then show ?case by (cases names) auto
qed auto

lemma parse_role_table_wf:
  "parse_role_table d = Inr t \<Longrightarrow> wf_table t"
proof (induction d arbitrary: t rule: parse_role_table.induct)
  case (2 a v d)
  then show ?case by (cases v) (auto simp: parse_roles_Inr split: if_splits)
qed simp

lemma parse_role_table_json:
  "\<forall>(a, rs) \<in> set table. \<not> blank a \<and> (\<forall>x \<in> set rs. \<not> blank x) \<Longrightarrow>
   parse_role_table (map (\<lambda>(a, rs). (a, PList (map PStr rs))) table) = Inr (map (\<lambda>(a, rs). (a, set rs)) table)"
proof (induction table)
  case (Cons p table)
  obtain a rs where p: "p = (a, rs)" by (cases p)
  have "parse_roles a (map PStr rs) = Inr rs" using Cons.prems p by (simp add: parse_roles_Inr)
  then show ?case using Cons p by simp
qed simp

lemma parse_rule_wf: "parse_rule P raw i = Inr r \<Longrightarrow> wf_rule r"
  using parse_role_table_wf
  by (auto simp: parse_rule_def wf_rule_def Let_def split: pyval.splits option.splits if_splits)

lemma parse_rules_wf: "parse_rules P i raws = Inr rs \<Longrightarrow> length rs = length raws \<and> list_all wf_rule rs"
proof (induction raws arbitrary: i rs)
  case (Cons raw raws)
  then show ?case using parse_rule_wf by auto
qed simp

lemma parse_rules_json:
  assumes "\<forall>p \<in> set doc. wf_rule (doc_rule p) \<and> rule_error P (doc_rule p) = None"
  shows "parse_rules P i (map rule_json doc) = Inr (map doc_rule doc)"
  using assms
proof (induction doc arbitrary: i)
  case (Cons p doc)
  obtain name table where p: "p = (name, table)" by (cases p)
  have t: "\<forall>(a, rs) \<in> set table. \<not> blank a \<and> (\<forall>x \<in> set rs. \<not> blank x)" and n: "\<not> blank name"
    and e: "rule_error P \<lparr>pr_role_table = map (\<lambda>(a, rs). (a, set rs)) table, pr_rule_name = name\<rparr> = None"
    using Cons.prems p by (auto simp: wf_rule_def wf_table_def doc_rule_def)
  have "parse_rule P (rule_json p) i = Inr (doc_rule p)"
    using parse_role_table_json [OF t] n e
    by (simp add: p parse_rule_def rule_json_def doc_rule_def dict_get_def)
  then show ?case using Cons by simp
qed simp

section \<open>Properties\<close>

text \<open>C30: A loaded role policy is non-empty and well formed: every rule has a visible name and
  every action and role in its table is a visible string; and loading is
  faithful: the JSON document of any well-formed, non-empty policy loads back
  to exactly that policy.\<close>

theorem policy_load_roundtrip:
  "(engine_from_data P path data = Inr rules \<longrightarrow> rules \<noteq> [] \<and> list_all wf_rule rules)
   \<and> (doc \<noteq> [] \<and> (\<forall>p \<in> set doc. wf_rule (doc_rule p) \<and> rule_error P (doc_rule p) = None)
        \<and> engine_error P (map doc_rule doc) = None
      \<longrightarrow> engine_from_data P path (policy_json doc) = Inr (map doc_rule doc))"
proof (intro conjI impI; (elim conjE)?)
  assume "engine_from_data P path data = Inr rules"
  then show "rules \<noteq> []" "list_all wf_rule rules"
    using parse_rules_wf
    by (fastforce simp: engine_from_data_def split: pyval.splits if_splits option.splits)+
next
  assume "doc \<noteq> []" "\<forall>p \<in> set doc. wf_rule (doc_rule p) \<and> rule_error P (doc_rule p) = None"
    "engine_error P (map doc_rule doc) = None"
  then show "engine_from_data P path (policy_json doc) = Inr (map doc_rule doc)"
    using parse_rules_json [of doc P 0] by (simp add: engine_from_data_def policy_json_def dict_get_def)
qed

definition sample_doc :: policy_doc where
  "sample_doc = [(''viewers'', [(''read:ahu'', [''viewer'', ''operator''])])]"

definition stub_policy :: policy_lib where
  "stub_policy = \<lparr>rule_error = (\<lambda>_. None), engine_error = (\<lambda>_. None), bundle_validate = (\<lambda>d. Inr (PDict d))\<rparr>"

theorem policy_load_roundtrip_witness:
  "engine_from_data stub_policy ''p'' (policy_json sample_doc) = Inr (map doc_rule sample_doc)"
proof -
  have "sample_doc \<noteq> [] \<and> (\<forall>p \<in> set sample_doc. wf_rule (doc_rule p) \<and> rule_error stub_policy (doc_rule p) = None)
    \<and> engine_error stub_policy (map doc_rule sample_doc) = None"
    by (simp add: sample_doc_def stub_policy_def wf_rule_def doc_rule_def blank_def strip_def
        strip_by_def is_space_def)
  then show ?thesis using policy_load_roundtrip [of stub_policy "''p''" PNone "[]" sample_doc] by blast
qed

text \<open>Structural loading of the operation-aware bundle succeeds exactly when the path is a
  readable file with a JSON object that the bundle model accepts; a failure
  names the stage that failed. An error of the read other than \<^verbatim>\<open>OSError\<close>, such
  as a file that is not UTF-8, leaves the loader unclassified.\<close>

theorem bundle_load_exact:
  "(load_operation_aware_policy_bundle F P path = Inr b \<longleftrightarrow>
      path_exists F path \<and> path_is_file F path
      \<and> (\<exists>text d. read_text F path = Inr text \<and> json_loads F text = Some (PDict d) \<and> bundle_validate P d = Inr b))
   \<and> (\<forall>st m. load_operation_aware_policy_bundle F P path = Inl (OperationAwarePolicyLoadError st m)
        \<and> (\<forall>d. bundle_validate P d \<noteq> Inl (OperationAwarePolicyLoadError st m)) \<longrightarrow>
        st = (if \<not> path_exists F path \<or> \<not> path_is_file F path \<or> (\<exists>m. read_text F path = Inl (OSError m))
              then FILE_UNREADABLE
              else if \<exists>text. read_text F path = Inr text \<and> json_loads F text = None then INVALID_JSON
              else INVALID_STRUCTURE))
   \<and> (\<forall>m. path_exists F path \<and> path_is_file F path \<and> read_text F path = Inl (ValueError m) \<longrightarrow>
        load_operation_aware_policy_bundle F P path = Inl (PyError (ValueError m)))"
  by (auto simp: load_operation_aware_policy_bundle_def
      split: sum.splits py_exn.splits option.splits pyval.splits exn.splits if_splits)

definition latin1_fs :: fs_lib where
  "latin1_fs = \<lparr>path_exists = (\<lambda>_. True), path_is_file = (\<lambda>_. True),
     read_text = (\<lambda>_. Inl (ValueError (''invalid start byte'', []))), json_loads = (\<lambda>_. None)\<rparr>"

theorem bundle_load_exact_witness:
  "load_operation_aware_policy_bundle latin1_fs stub_policy ''bundle.json''
     = Inl (PyError (ValueError (''invalid start byte'', [])))"
proof -
  have "path_exists latin1_fs ''bundle.json'' \<and> path_is_file latin1_fs ''bundle.json''
    \<and> read_text latin1_fs ''bundle.json'' = Inl (ValueError (''invalid start byte'', []))"
    by (simp add: latin1_fs_def)
  then show ?thesis using bundle_load_exact [of latin1_fs stub_policy "''bundle.json''"] by blast
qed

end
