(* ===== verification/GW_Evaluator.thy ===== *)
theory GW_Evaluator
  imports GW_Composition GW_Audit GW_Policy
begin

text \<open>
  \<^verbatim>\<open>core/evaluator.py\<close> and \<^verbatim>\<open>core/operation_aware_evaluator.py\<close>: the two wrappers
  around the kernel of basis-core. The kernel is a parameter: the exceptions its
  model constructors raise, and its enforcement points. The v0.1 enforcement
  point holds the gateway's audit writer, so its result comes with the list of
  events it writes; the operation-aware one returns its evidence instead.
  Clocks and identifier factories are the values they yield in a call.
\<close>

section \<open>The v0.1 evaluator\<close>

datatype DecisionOutcome = D_ALLOW | D_DENY | D_NOT_APPLICABLE

record KSubject =
  ks_id :: string
  ks_name :: string
  ks_roles :: "string list"
  ks_attrs :: "string dict"

record KIdentity =
  ki_subject :: KSubject
  ki_token :: string
  ki_issued_at :: datetime
  ki_expires_at :: "datetime option"

record DecisionRequest =
  dq_request_id :: string
  dq_subject_id :: string
  dq_subject_roles :: "string list"
  dq_subject_attrs :: "string dict"
  dq_action :: string
  dq_resource_id :: "string option"
  dq_context :: "string dict"
  dq_timestamp :: datetime

record DecisionResponse =
  dr_request_id :: string
  dr_outcome :: DecisionOutcome
  dr_reason :: string
  dr_policy_version :: "string option"

text \<open>A \<^verbatim>\<open>GatewayEvaluator\<close> is the enforcement point it wraps.\<close>

record GatewayEvaluator =
  subject_error :: "KSubject \<Rightarrow> exn option"
  identity_error :: "KIdentity \<Rightarrow> exn option"
  request_error :: "DecisionRequest \<Rightarrow> exn option"
  ep_evaluate :: "DecisionRequest \<Rightarrow> KSubject \<Rightarrow> KIdentity \<Rightarrow> string option
    \<Rightarrow> AuditEvent list \<times> (exn + DecisionResponse)"
  ep_policy_version :: "string option"

definition check :: "exn option \<Rightarrow> 'a \<Rightarrow> 'a res" where
  "check e x = (case e of Some err \<Rightarrow> Inl err | None \<Rightarrow> Inr x)"

definition str_attrs :: "pyval dict \<Rightarrow> string dict" where
  "str_attrs d = concat (map (\<lambda>(k, v). case v of PStr s \<Rightarrow> [(k, s)] | _ \<Rightarrow> []) d)"

definition build_subject :: "NormalizedSubject \<Rightarrow> KSubject" where
  "build_subject normalized =
     \<lparr>ks_id = subject_id normalized, ks_name = subject_name normalized,
      ks_roles = roles normalized, ks_attrs = str_attrs (attributes normalized)\<rparr>"

text \<open>\<^verbatim>\<open>isinstance(v, (int, float))\<close> also holds of a Boolean.\<close>

definition claim_time :: "pyval \<Rightarrow> datetime option res" where
  "claim_time v = (case v of
      PInt n \<Rightarrow> res_bind (fromtimestamp_int n) (\<lambda>d. Inr (Some d))
    | PBool b \<Rightarrow> res_bind (fromtimestamp_int (if b then 1 else 0)) (\<lambda>d. Inr (Some d))
    | PFloat x \<Rightarrow> res_bind (fromtimestamp_float x) (\<lambda>d. Inr (Some d))
    | _ \<Rightarrow> Inr None)"

definition build_identity_context :: "datetime \<Rightarrow> KSubject \<Rightarrow> string \<Rightarrow> pyval dict \<Rightarrow> KIdentity res" where
  "build_identity_context now subject raw_token claims =
     res_bind (claim_time (dict_get claims ''iat'')) (\<lambda>iat.
     res_bind (claim_time (dict_get claims ''exp'')) (\<lambda>exp.
       Inr \<lparr>ki_subject = subject, ki_token = raw_token,
            ki_issued_at = (case iat of Some d \<Rightarrow> d | None \<Rightarrow> now),
            ki_expires_at = exp\<rparr>))"

text \<open>The kernel call the wrapper arrives at, or the exception before it.\<close>

definition kernel_call ::
    "GatewayEvaluator \<Rightarrow> datetime \<Rightarrow> NormalizedSubject \<Rightarrow> string \<Rightarrow> pyval dict \<Rightarrow> string
     \<Rightarrow> string option \<Rightarrow> string \<Rightarrow> string dict \<Rightarrow> (DecisionRequest \<times> KSubject \<times> KIdentity) res" where
  "kernel_call K now normalized raw_token claims action resource_id request_id context =
     res_bind (check (subject_error K (build_subject normalized)) (build_subject normalized)) (\<lambda>subject.
     res_bind (build_identity_context now subject raw_token claims) (\<lambda>ic.
     res_bind (check (identity_error K ic) ic) (\<lambda>ic.
       let dq = \<lparr>dq_request_id = request_id, dq_subject_id = ks_id subject,
                 dq_subject_roles = ks_roles subject, dq_subject_attrs = ks_attrs subject,
                 dq_action = action, dq_resource_id = resource_id, dq_context = context,
                 dq_timestamp = now\<rparr>
       in res_bind (check (request_error K dq) dq) (\<lambda>dq. Inr (dq, subject, ic)))))"

text \<open>The enforcement point writes its events through the gateway's writer.\<close>

definition kernel_writes :: "audit_lib \<Rightarrow> AuditEvent list \<Rightarrow> audit_st \<Rightarrow> audit_st" where
  "kernel_writes A evs = (\<lambda>(writer, rs). case writer of
      None \<Rightarrow> (None, rs)
    | Some w \<Rightarrow> (let (w', rs') = fold (audit_write (inner_write A)) evs (w, rs) in (Some w', rs')))"

definition GatewayEvaluator_evaluate ::
    "audit_lib \<Rightarrow> GatewayEvaluator \<Rightarrow> datetime \<Rightarrow> NormalizedSubject \<Rightarrow> string \<Rightarrow> pyval dict \<Rightarrow> string
     \<Rightarrow> string option \<Rightarrow> string \<Rightarrow> string option \<Rightarrow> string dict \<Rightarrow> audit_st
     \<Rightarrow> DecisionResponse res \<times> audit_st" where
  "GatewayEvaluator_evaluate A K now normalized raw_token claims action resource_id request_id
       correlation_id context st =
     (case kernel_call K now normalized raw_token claims action resource_id request_id context of
        Inl e \<Rightarrow> (Inl e, st)
      | Inr (dq, subject, ic) \<Rightarrow>
          (let (evs, r) = ep_evaluate K dq subject ic correlation_id
           in (r, kernel_writes A evs st)))"

section \<open>The operation-aware evaluator\<close>

record OADecisionRequest =
  ok_request_id :: string
  ok_correlation_id :: "string option"
  ok_subject_id :: string
  ok_subject_roles :: "string list"
  ok_subject_attrs :: "string dict"
  ok_identity_evidence_reference :: "pyval option"
  ok_action :: string
  ok_resource :: "string option"
  ok_resource_type :: "string option"
  ok_location :: "pyval option"
  ok_device :: "pyval option"
  ok_protocol_context :: "pyval option"
  ok_operation_intent :: "pyval option"
  ok_adapter_evidence_reference :: "pyval option"
  ok_safety_context :: "pyval option"
  ok_environment_context :: "pyval option"
  ok_risk_context :: "pyval option"
  ok_evaluation_time :: datetime

text \<open>The wrapped enforcement point, and the fresh values of one call.\<close>

record OperationAwareGatewayEvaluator =
  oa_request_error :: "OADecisionRequest \<Rightarrow> exn option"
  oa_ep_evaluate :: "OADecisionRequest \<Rightarrow> string \<Rightarrow> string \<Rightarrow> datetime \<Rightarrow> exn + OAResult"

record oa_call =
  trace_id_factory :: string
  evidence_id_factory :: string
  call_clock :: datetime

definition reject_unexpected_composed_context_keys :: "string dict \<Rightarrow> unit res" where
  "reject_unexpected_composed_context_keys context =
     (let unexpected = sort (filter (\<lambda>k. \<not> startswith RESERVED_CONTEXT_PREFIX k) (map fst context)) in
      if unexpected \<noteq> []
      then Inl (OperationAwareRequestConstructionError
             (''composed operation-aware context contains key(s) outside the reserved namespace'',
              [nat_str (length unexpected)]))
      else Inr ())"

definition oa_request_of :: "ComposedOperationAwareInput \<Rightarrow> OADecisionRequest" where
  "oa_request_of c =
     \<lparr>ok_request_id = ci_request_id c,
      ok_correlation_id = Some (ci_correlation_id c),
      ok_subject_id = subject_id (ci_authorization_subject c),
      ok_subject_roles = roles (ci_authorization_subject c),
      ok_subject_attrs = str_attrs (attributes (ci_authorization_subject c)),
      ok_identity_evidence_reference = ci_identity_evidence_reference c,
      ok_action = ci_action c,
      ok_resource = ci_resource_id c,
      ok_resource_type = ci_resource_type c,
      ok_location = ci_location c,
      ok_device = ci_device c,
      ok_protocol_context = ci_protocol_context c,
      ok_operation_intent = ci_operation_intent c,
      ok_adapter_evidence_reference = ci_adapter_evidence_reference c,
      ok_safety_context = ci_safety_context c,
      ok_environment_context = ci_environment_context c,
      ok_risk_context = ci_risk_context c,
      ok_evaluation_time = ci_evaluation_time c\<rparr>"

definition build_operation_aware_decision_request ::
    "OperationAwareGatewayEvaluator \<Rightarrow> ComposedOperationAwareInput \<Rightarrow> OADecisionRequest res" where
  "build_operation_aware_decision_request E composed =
     res_bind (reject_unexpected_composed_context_keys (ci_context composed)) (\<lambda>_.
       case oa_request_error E (oa_request_of composed) of
         None \<Rightarrow> Inr (oa_request_of composed)
       | Some (ValidationError es) \<Rightarrow>
           Inl (OperationAwareRequestConstructionError
             (''Failed to construct OperationAwareDecisionRequest'', [nat_str (length es)]))
       | Some e \<Rightarrow> Inl e)"

definition require_tz_aware :: "datetime \<Rightarrow> unit res" where
  "require_tz_aware value = (if is_aware value then Inr ()
     else Inl (OperationAwareEvaluatorInternalError (''clock() returned a naive datetime'', [])))"

definition evaluate_with_metadata ::
    "OperationAwareGatewayEvaluator \<Rightarrow> OADecisionRequest \<Rightarrow> string \<Rightarrow> string \<Rightarrow> datetime \<Rightarrow> OAResult res" where
  "evaluate_with_metadata E request trace_id evidence_id recorded_at =
     oa_ep_evaluate E request trace_id evidence_id recorded_at"

definition OperationAwareGatewayEvaluator_evaluate ::
    "OperationAwareGatewayEvaluator \<Rightarrow> oa_call \<Rightarrow> ComposedOperationAwareInput \<Rightarrow> OAResult res" where
  "OperationAwareGatewayEvaluator_evaluate E call composed =
     res_bind (build_operation_aware_decision_request E composed) (\<lambda>request.
     res_bind (require_tz_aware (call_clock call)) (\<lambda>_.
       evaluate_with_metadata E request (trace_id_factory call) (evidence_id_factory call) (call_clock call)))"

section \<open>Preflight and construction\<close>

definition PREFLIGHT_REQUEST_ID :: string where
  "PREFLIGHT_REQUEST_ID = ''basis-gateway:operation-aware-preflight''"
definition PREFLIGHT_SUBJECT_ID :: string where
  "PREFLIGHT_SUBJECT_ID = ''basis-gateway:preflight-subject''"
definition PREFLIGHT_ACTION :: string where
  "PREFLIGHT_ACTION = ''read:basis_gateway_preflight''"
definition PREFLIGHT_TRACE_ID :: string where
  "PREFLIGHT_TRACE_ID = ''preflight-trace-basis-gateway-operation-aware''"
definition PREFLIGHT_EVIDENCE_ID :: string where
  "PREFLIGHT_EVIDENCE_ID = ''preflight-evidence-basis-gateway-operation-aware''"

definition build_preflight_request :: "datetime \<Rightarrow> OADecisionRequest" where
  "build_preflight_request evaluation_time =
     \<lparr>ok_request_id = PREFLIGHT_REQUEST_ID, ok_correlation_id = None,
      ok_subject_id = PREFLIGHT_SUBJECT_ID, ok_subject_roles = [], ok_subject_attrs = [],
      ok_identity_evidence_reference = None, ok_action = PREFLIGHT_ACTION, ok_resource = None,
      ok_resource_type = None, ok_location = None, ok_device = None, ok_protocol_context = None,
      ok_operation_intent = None, ok_adapter_evidence_reference = None, ok_safety_context = None,
      ok_environment_context = None, ok_risk_context = None, ok_evaluation_time = evaluation_time\<rparr>"

definition preflight_operation_aware_evaluator ::
    "OperationAwareGatewayEvaluator \<Rightarrow> datetime \<Rightarrow> OAResult res" where
  "preflight_operation_aware_evaluator E now =
     (let request = build_preflight_request now in
      res_bind (check (oa_request_error E request) request) (\<lambda>request.
      res_bind (evaluate_with_metadata E request PREFLIGHT_TRACE_ID PREFLIGHT_EVIDENCE_ID now) (\<lambda>result.
        if or_evaluation_status (rr_response result) \<noteq> COMPLETED
        then Inl (OperationAwarePreflightError (or_evaluation_status (rr_response result))
               (or_failure_reason (rr_response result)))
        else Inr result)))"

text \<open>\<^verbatim>\<open>for_bundle\<close> is the factory of basis-core.\<close>

type_synonym for_bundle = "pyval \<Rightarrow> exn + OperationAwareGatewayEvaluator"

definition construct_operation_aware_evaluator ::
    "for_bundle \<Rightarrow> pyval \<Rightarrow> OperationAwareGatewayEvaluator res" where
  "construct_operation_aware_evaluator for_bundle bundle = for_bundle bundle"

definition build_operation_aware_evaluator ::
    "for_bundle \<Rightarrow> datetime \<Rightarrow> pyval \<Rightarrow> OperationAwareGatewayEvaluator res" where
  "build_operation_aware_evaluator for_bundle now bundle =
     res_bind (construct_operation_aware_evaluator for_bundle bundle) (\<lambda>evaluator.
     res_bind (preflight_operation_aware_evaluator evaluator now) (\<lambda>_. Inr evaluator))"

definition load_and_build_operation_aware_evaluator ::
    "fs_lib \<Rightarrow> policy_lib \<Rightarrow> for_bundle \<Rightarrow> datetime \<Rightarrow> string \<Rightarrow> OperationAwareGatewayEvaluator res" where
  "load_and_build_operation_aware_evaluator F P for_bundle now path =
     res_bind (load_operation_aware_policy_bundle F P path)
       (build_operation_aware_evaluator for_bundle now)"

section \<open>Lemmas\<close>

lemma check_simps [simp]: "check None x = Inr x" "check (Some e) x = Inl e"
  by (simp_all add: check_def)

lemma check_Inr: "check e x = Inr y \<longleftrightarrow> e = None \<and> y = x"
  by (cases e) auto

lemma kernel_writes_Nil [simp]: "kernel_writes A [] st = st"
  by (cases st) (simp add: kernel_writes_def split: option.split)

lemma fst_kernel_writes_None [simp]: "fst (kernel_writes A evs st) = None \<longleftrightarrow> fst st = None"
  by (cases st) (simp add: kernel_writes_def split: option.split prod.split)

lemma st_trail_kernel_writes [audit_frame]:
  "st_trail (kernel_writes A evs st) = (if fst st = None then [] else st_trail st @ evs)"
proof (cases st)
  case (Pair wo rs)
  show ?thesis
  proof (cases wo)
    case None
    then show ?thesis by (simp add: Pair kernel_writes_def st_trail_def)
  next
    case (Some w)
    show ?thesis using aw.trail_fold [of "inner_write A" evs "(w, rs)"]
      by (simp add: Pair Some kernel_writes_def st_trail_def case_prod_beta)
  qed
qed

lemma st_inv_kernel_writes [audit_frame]: "st_inv st \<Longrightarrow> st_inv (kernel_writes A evs st)"
proof (cases st)
  case (Pair wo rs)
  assume i: "st_inv st"
  show ?thesis
  proof (cases wo)
    case None
    with i show ?thesis by (simp add: Pair kernel_writes_def)
  next
    case (Some w)
    with i have "audit_inv (w, rs)" by (simp add: Pair st_inv_def)
    then show ?thesis using aw.inv_fold [of "(w, rs)" "inner_write A" evs]
      by (simp add: Pair Some kernel_writes_def st_inv_def case_prod_beta)
  qed
qed

lemma kernel_writes_other_components [audit_frame]:
  assumes "c \<noteq> AUDIT_WRITER_COMPONENT"
  shows "component_of (snd (kernel_writes A evs st)) c = component_of (snd st) c"
proof (cases st)
  case (Pair wo rs)
  show ?thesis
  proof (cases wo)
    case None
    then show ?thesis by (simp add: Pair kernel_writes_def)
  next
    case (Some w)
    show ?thesis using other_components_fold [OF assms, of "inner_write A" evs "(w, rs)"]
      by (simp add: Pair Some kernel_writes_def case_prod_beta)
  qed
qed

lemma kernel_call_Inr:
  assumes "kernel_call K now s tok claims act rid reqid ctx = Inr (dq, ks, ic)"
  shows "dq_subject_id dq = subject_id s" "dq_subject_roles dq = roles s" "dq_action dq = act"
    "dq_resource_id dq = rid" "dq_context dq = ctx" "dq_request_id dq = reqid"
    "ks = build_subject s" "ki_subject ic = ks" "ki_token ic = tok"
  using assms
  by (auto simp: kernel_call_def build_subject_def build_identity_context_def Let_def check_Inr)

section \<open>Properties\<close>

text \<open>The v0.1 kernel is asked exactly what was authenticated: whenever the wrapper reaches
  the enforcement point, subject id and roles are those of the authenticated
  subject, attributes are its string attributes only, and action, resource,
  context and request id are the arguments unchanged; an exception before the
  kernel writes no audit event.\<close>

theorem evaluator_asks_authenticated:
  "case kernel_call K now s tok claims act rid reqid ctx of
     Inl e \<Rightarrow> GatewayEvaluator_evaluate A K now s tok claims act rid reqid corr ctx st = (Inl e, st)
   | Inr (dq, ks, ic) \<Rightarrow>
       fst (GatewayEvaluator_evaluate A K now s tok claims act rid reqid corr ctx st)
         = snd (ep_evaluate K dq ks ic corr)
       \<and> dq_subject_id dq = subject_id s \<and> dq_subject_roles dq = roles s
       \<and> dq_subject_attrs dq = str_attrs (attributes s)
       \<and> dq_action dq = act \<and> dq_resource_id dq = rid \<and> dq_context dq = ctx \<and> dq_request_id dq = reqid
       \<and> ki_token ic = tok"
  by (auto simp: GatewayEvaluator_evaluate_def kernel_call_def build_subject_def
      build_identity_context_def check_Inr Let_def split: sum.splits prod.splits)

text \<open>The operation-aware kernel is invoked only with the composed facts: a result of the
  wrapper is the enforcement point's own result for the request built from
  the composed input with this call's fresh trace and evidence ids and an aware
  time, and every key of the composed context was in the reserved namespace.\<close>

theorem oa_evaluator_faithful:
  assumes "OperationAwareGatewayEvaluator_evaluate E call c = Inr result"
  shows "oa_ep_evaluate E (oa_request_of c) (trace_id_factory call) (evidence_id_factory call) (call_clock call)
      = Inr result
    \<and> is_aware (call_clock call) \<and> oa_request_error E (oa_request_of c) = None
    \<and> (\<forall>k \<in> fst ` set (ci_context c). startswith RESERVED_CONTEXT_PREFIX k)"
proof -
  have keys: "reject_unexpected_composed_context_keys ctx = Inr () \<longleftrightarrow>
      (\<forall>k \<in> fst ` set ctx. startswith RESERVED_CONTEXT_PREFIX k)" for ctx
  proof -
    have "sort xs = [] \<longleftrightarrow> xs = []" for xs :: "string list"
      by (metis length_0_conv length_sort)
    then show ?thesis
      by (auto simp: reject_unexpected_composed_context_keys_def Let_def filter_empty_conv)
  qed
  show ?thesis using assms
    by (auto simp: OperationAwareGatewayEvaluator_evaluate_def build_operation_aware_decision_request_def
        require_tz_aware_def evaluate_with_metadata_def keys split: option.splits exn.splits if_splits)
qed

definition stub_oa :: OperationAwareGatewayEvaluator where
  "stub_oa = \<lparr>oa_request_error = (\<lambda>_. None), oa_ep_evaluate = (\<lambda>_ _ _ _. Inr (sample_oa_result OA_ALLOW))\<rparr>"

definition stub_call :: oa_call where
  "stub_call = \<lparr>trace_id_factory = ''t1'', evidence_id_factory = ''e1'', call_clock = Aware 0\<rparr>"

lemma composed_context_eq:
  assumes "compose_operation_aware_input r s ic t corr clk = Inr c"
  shows "\<exists>a rc. ci_context c = combined_context r a rc"
  using compose_Inr(5) [OF assms] unfolding compose_accepted_Inr
  by (metis ComposedOperationAwareInput.select_convs(9))

lemma reserved_context_accepted:
  assumes "\<forall>k \<in> fst ` set ctx. startswith RESERVED_CONTEXT_PREFIX k"
  shows "reject_unexpected_composed_context_keys ctx = Inr ()"
proof -
  have "filter (\<lambda>k. \<not> startswith RESERVED_CONTEXT_PREFIX k) (map fst ctx) = []"
    using assms by (auto simp: filter_empty_conv)
  then show ?thesis by (simp add: reject_unexpected_composed_context_keys_def)
qed

lemma stub_oa_evaluate:
  assumes "compose_operation_aware_input r s ic t corr clk = Inr c" and "oq_context r = []"
  shows "OperationAwareGatewayEvaluator_evaluate stub_oa stub_call c = Inr (sample_oa_result OA_ALLOW)"
proof -
  obtain a rc where "ci_context c = combined_context r a rc" using composed_context_eq [OF assms(1)] by blast
  then have "reject_unexpected_composed_context_keys (ci_context c) = Inr ()"
    using combined_context_keys [OF assms(2)] by (intro reserved_context_accepted) (simp only:)
  then show ?thesis
    by (simp add: OperationAwareGatewayEvaluator_evaluate_def build_operation_aware_decision_request_def
        require_tz_aware_def evaluate_with_metadata_def stub_oa_def stub_call_def)
qed

theorem oa_evaluator_faithful_witness:
  "\<exists>c. compose_operation_aware_input sample_oq adapter_subject sample_ic (sample_trust {''adapter''})
         ''c-1'' (Aware 0) = Inr c
     \<and> oa_ep_evaluate stub_oa (oa_request_of c) ''t1'' ''e1'' (Aware 0) = Inr (sample_oa_result OA_ALLOW)"
proof -
  obtain c where c: "compose_operation_aware_input sample_oq adapter_subject sample_ic
      (sample_trust {''adapter''}) ''c-1'' (Aware 0) = Inr c" using sample_compose by blast
  have "OperationAwareGatewayEvaluator_evaluate stub_oa stub_call c = Inr (sample_oa_result OA_ALLOW)"
    by (rule stub_oa_evaluate [OF c]) (simp add: sample_oq_def)
  from oa_evaluator_faithful [OF this] c show ?thesis by (auto simp: stub_call_def)
qed

text \<open>An evaluator leaves startup only after its bundle was loaded and its preflight
  evaluation completed: the reserved synthetic request, through the very
  enforcement point that will serve requests, gave a completed result. A
  failed preflight is reported with the kernel's own status and reason.\<close>

theorem oa_evaluator_preflighted:
  "(load_and_build_operation_aware_evaluator F P fb now path = Inr E \<longrightarrow>
     (\<exists>b result. load_operation_aware_policy_bundle F P path = Inr b \<and> fb b = Inr E
        \<and> oa_ep_evaluate E (build_preflight_request now) PREFLIGHT_TRACE_ID PREFLIGHT_EVIDENCE_ID now = Inr result
        \<and> or_evaluation_status (rr_response result) = COMPLETED))
   \<and> (\<forall>result. oa_request_error E (build_preflight_request now) = None
        \<and> oa_ep_evaluate E (build_preflight_request now) PREFLIGHT_TRACE_ID PREFLIGHT_EVIDENCE_ID now = Inr result
        \<and> or_evaluation_status (rr_response result) = FAILED
      \<longrightarrow> preflight_operation_aware_evaluator E now
           = Inl (OperationAwarePreflightError FAILED (or_failure_reason (rr_response result))))"
  by (auto simp: load_and_build_operation_aware_evaluator_def build_operation_aware_evaluator_def
      construct_operation_aware_evaluator_def preflight_operation_aware_evaluator_def
      evaluate_with_metadata_def check_Inr Let_def split: if_splits)

definition ok_fs :: fs_lib where
  "ok_fs = \<lparr>path_exists = (\<lambda>_. True), path_is_file = (\<lambda>_. True), read_text = (\<lambda>_. Inr ''{}''),
     json_loads = (\<lambda>_. Some (PDict []))\<rparr>"

theorem oa_evaluator_preflighted_witness:
  "\<exists>result. oa_ep_evaluate stub_oa (build_preflight_request (Aware 0)) PREFLIGHT_TRACE_ID PREFLIGHT_EVIDENCE_ID (Aware 0)
     = Inr result \<and> or_evaluation_status (rr_response result) = COMPLETED"
proof -
  have "load_and_build_operation_aware_evaluator ok_fs stub_policy (\<lambda>_. Inr stub_oa) (Aware 0) ''b'' = Inr stub_oa"
    by (simp add: load_and_build_operation_aware_evaluator_def load_operation_aware_policy_bundle_def
        build_operation_aware_evaluator_def construct_operation_aware_evaluator_def
        preflight_operation_aware_evaluator_def evaluate_with_metadata_def ok_fs_def stub_policy_def
        stub_oa_def sample_oa_result_def sample_oa_response_def)
  then show ?thesis
    using oa_evaluator_preflighted [of ok_fs stub_policy "\<lambda>_. Inr stub_oa" "Aware 0" "''b''" stub_oa] by blast
qed

end
