(* ===== verification/GW_OA_Audit.thy ===== *)
theory GW_OA_Audit
  imports GW_Evaluator
begin

text \<open>
  \<^verbatim>\<open>audit/operation_aware_gateway_events.py\<close>: the gateway's record of an
  operation-aware evaluation, assembled from the kernel result and the composed
  input, and the three emission helpers. Assembly happens before the helper's
  \<^verbatim>\<open>try\<close>, so the completed-event helper may raise; its model returns that
  exception together with the audit state.
\<close>

section \<open>Vocabulary\<close>

definition OA_VALIDATION_FAILED :: string where
  "OA_VALIDATION_FAILED = ''gateway.operation_aware_validation_failed''"
definition OA_AUTHENTICATION_FAILED :: string where
  "OA_AUTHENTICATION_FAILED = ''gateway.operation_aware_authentication_failed''"
definition COMPOSITION_REJECTED :: string where
  "COMPOSITION_REJECTED = ''gateway.operation_aware_composition_rejected''"
definition OA_EVALUATOR_UNAVAILABLE :: string where
  "OA_EVALUATOR_UNAVAILABLE = ''gateway.operation_aware_evaluator_unavailable''"
definition OA_EVALUATION_FAILED_CLOSED :: string where
  "OA_EVALUATION_FAILED_CLOSED = ''gateway.operation_aware_evaluation_failed_closed''"
definition PRODUCER_MTLS_TRUST_FAILED :: string where
  "PRODUCER_MTLS_TRUST_FAILED = ''gateway.operation_aware_producer_mtls_trust_failed''"
definition OA_AUDIT_RECOVERY_PROBE :: string where
  "OA_AUDIT_RECOVERY_PROBE = ''gateway.operation_aware_audit_recovery_probe''"
definition AUTHORIZATION_COMPLETED :: string where
  "AUTHORIZATION_COMPLETED = ''gateway.operation_aware_authorization_completed''"
definition EVIDENCE_MISSING :: string where
  "EVIDENCE_MISSING = ''gateway.operation_aware_evidence_missing''"

definition REASON_PRODUCER_CONTEXT_REJECTED :: string where
  "REASON_PRODUCER_CONTEXT_REJECTED = ''producer_context_rejected''"
definition REASON_RESERVED_CONTEXT_KEY :: string where
  "REASON_RESERVED_CONTEXT_KEY = ''reserved_context_key''"
definition REASON_ACTION_OR_RESOURCE_COMPOSITION_FAILED :: string where
  "REASON_ACTION_OR_RESOURCE_COMPOSITION_FAILED = ''action_or_resource_composition_failed''"
definition REASON_COMPOSITION_INTERNAL_ERROR :: string where
  "REASON_COMPOSITION_INTERNAL_ERROR = ''composition_internal_error''"
definition REASON_MISSING_AUDIT_EVIDENCE :: string where
  "REASON_MISSING_AUDIT_EVIDENCE = ''missing_audit_evidence''"
definition REASON_PRODUCER_MTLS_MISSING_ASSERTION :: string where
  "REASON_PRODUCER_MTLS_MISSING_ASSERTION = ''producer_mtls_missing_assertion''"
definition REASON_PRODUCER_MTLS_DUPLICATE_ASSERTION :: string where
  "REASON_PRODUCER_MTLS_DUPLICATE_ASSERTION = ''producer_mtls_duplicate_assertion''"
definition REASON_PRODUCER_MTLS_OVERSIZED_ASSERTION :: string where
  "REASON_PRODUCER_MTLS_OVERSIZED_ASSERTION = ''producer_mtls_oversized_assertion''"
definition REASON_PRODUCER_MTLS_MALFORMED_ENCODING :: string where
  "REASON_PRODUCER_MTLS_MALFORMED_ENCODING = ''producer_mtls_malformed_encoding''"
definition REASON_PRODUCER_MTLS_MALFORMED_CERTIFICATE :: string where
  "REASON_PRODUCER_MTLS_MALFORMED_CERTIFICATE = ''producer_mtls_malformed_certificate''"
definition REASON_PRODUCER_MTLS_NO_ELIGIBLE_URI_SAN :: string where
  "REASON_PRODUCER_MTLS_NO_ELIGIBLE_URI_SAN = ''producer_mtls_no_eligible_uri_san''"
definition REASON_PRODUCER_MTLS_MULTIPLE_ELIGIBLE_URI_SANS :: string where
  "REASON_PRODUCER_MTLS_MULTIPLE_ELIGIBLE_URI_SANS = ''producer_mtls_multiple_eligible_uri_sans''"

definition GATEWAY_AUDIT_EVENT_TYPE :: string where
  "GATEWAY_AUDIT_EVENT_TYPE = ''gateway_authorization''"

section \<open>GatewayAuditEvent\<close>

record GatewayAuditEvent =
  ga_event_type :: string
  ga_request_id :: string
  ga_evaluation_status :: string
  ga_outcome :: "string option"
  ga_failure_reason :: "string option"
  ga_audit_evidence_id :: string
  ga_enforcement_action :: string

definition value_error :: "string \<Rightarrow> exn" where
  "value_error m = PyError (ValueError (m, []))"

definition GatewayAuditEvent_post_init :: "GatewayAuditEvent \<Rightarrow> GatewayAuditEvent res" where
  "GatewayAuditEvent_post_init e =
     (if ga_event_type e \<noteq> GATEWAY_AUDIT_EVENT_TYPE then Inl (value_error ''event_type'')
      else if blank (ga_request_id e) then Inl (value_error ''request_id must not be empty'')
      else if ga_evaluation_status e \<notin> {''completed'', ''failed''} then Inl (value_error ''evaluation_status'')
      else if ga_evaluation_status e = ''failed'' \<and> ga_outcome e \<noteq> None
      then Inl (value_error ''outcome must be null when evaluation_status is failed'')
      else if ga_evaluation_status e = ''failed'' \<and> \<not> truthy_opt (ga_failure_reason e)
      then Inl (value_error ''failure_reason must be non-null when evaluation_status is failed'')
      else if ga_evaluation_status e \<noteq> ''failed'' \<and> ga_outcome e = None
      then Inl (value_error ''outcome must be non-null when evaluation_status is completed'')
      else if ga_evaluation_status e \<noteq> ''failed'' \<and> ga_failure_reason e \<noteq> None
      then Inl (value_error ''failure_reason must be null when evaluation_status is completed'')
      else if blank (ga_audit_evidence_id e) then Inl (value_error ''audit_evidence_id must not be empty'')
      else if ga_enforcement_action e \<notin> {''allow'', ''deny''} then Inl (value_error ''enforcement_action'')
      else Inr e)"

definition opt_pyval :: "string option \<Rightarrow> pyval" where
  "opt_pyval x = (case x of None \<Rightarrow> PNone | Some s \<Rightarrow> PStr s)"

definition GatewayAuditEvent_to_dict :: "GatewayAuditEvent \<Rightarrow> pyval dict" where
  "GatewayAuditEvent_to_dict e =
     [(''event_type'', PStr (ga_event_type e)),
      (''request_id'', PStr (ga_request_id e)),
      (''evaluation_status'', PStr (ga_evaluation_status e)),
      (''outcome'', opt_pyval (ga_outcome e)),
      (''failure_reason'', opt_pyval (ga_failure_reason e)),
      (''audit_evidence_id'', PStr (ga_audit_evidence_id e)),
      (''enforcement_action'', PStr (ga_enforcement_action e))]"

definition assemble_gateway_audit_event :: "OAResult \<Rightarrow> GatewayAuditEvent option res" where
  "assemble_gateway_audit_event result = (case rr_audit_evidence result of
      None \<Rightarrow> Inr None
    | Some evidence \<Rightarrow>
        (let response = rr_response result in
         res_bind (GatewayAuditEvent_post_init
           \<lparr>ga_event_type = GATEWAY_AUDIT_EVENT_TYPE,
            ga_request_id = or_request_id response,
            ga_evaluation_status = status_value (or_evaluation_status response),
            ga_outcome = map_option outcome_value (or_outcome response),
            ga_failure_reason = map_option failure_value (or_failure_reason response),
            ga_audit_evidence_id = evd_evidence_id evidence,
            ga_enforcement_action = disposition_value (rr_disposition result)\<rparr>)
           (\<lambda>e. Inr (Some e))))"

section \<open>Serialization and the durable detail\<close>

definition serialize_audit_evidence :: "AuditEvidence \<Rightarrow> pyval dict" where
  "serialize_audit_evidence evidence = evd_dump evidence"

definition provenance_value :: "ProvenanceClassification \<Rightarrow> string" where
  "provenance_value p = (case p of VERIFIED \<Rightarrow> ''verified'' | GATEWAY_DERIVED \<Rightarrow> ''gateway_derived''
    | TRUSTED_PRODUCER_ASSERTED \<Rightarrow> ''trusted_producer_asserted''
    | UNTRUSTED_CALLER_ASSERTED \<Rightarrow> ''untrusted_caller_asserted''
    | CONFIGURATION_DERIVED \<Rightarrow> ''configuration_derived'' | UNAVAILABLE \<Rightarrow> ''unavailable'')"

definition serialize_provenance :: "ProvenanceClassification dict \<Rightarrow> pyval dict" where
  "serialize_provenance provenance = map (\<lambda>(k, v). (k, PStr (provenance_value v))) provenance"

definition trust_status_value :: "OperationProducerTrustStatus \<Rightarrow> string" where
  "trust_status_value s = (case s of TRUSTED \<Rightarrow> ''trusted'' | UNTRUSTED \<Rightarrow> ''untrusted'')"

definition trust_source_value :: "OperationProducerTrustSource \<Rightarrow> string" where
  "trust_source_value s = (case s of
      CONFIGURED_SUBJECT_ID_ALLOWLIST \<Rightarrow> ''configured_subject_id_allowlist''
    | NOT_CONFIGURED \<Rightarrow> ''not_configured'' | SUBJECT_ID_NOT_ALLOWED \<Rightarrow> ''subject_id_not_allowed''
    | MTLS_ADMITTED_URI_SAN \<Rightarrow> ''mtls_admitted_uri_san''
    | MTLS_URI_SAN_NOT_ADMITTED \<Rightarrow> ''mtls_uri_san_not_admitted'')"

definition build_operation_aware_audit_detail ::
    "GatewayAuditEvent \<Rightarrow> AuditEvidence \<Rightarrow> string \<Rightarrow> string \<Rightarrow> nat \<Rightarrow> OperationProducerTrust
     \<Rightarrow> ProvenanceClassification dict \<Rightarrow> pyval dict" where
  "build_operation_aware_audit_detail event evidence http_method request_path http_status trust provenance =
     [(''http_method'', PStr http_method),
      (''request_path'', PStr request_path),
      (''http_status'', PInt (int http_status)),
      (''operation_producer_subject_id'', opt_pyval (ot_operation_producer_subject_id trust)),
      (''operation_producer_trust_status'', PStr (trust_status_value (ot_status trust))),
      (''operation_producer_trust_source'', PStr (trust_source_value (ot_source trust))),
      (''operation_producer_workload_identity'', opt_pyval (ot_producer_workload_identity trust)),
      (''enforcement_action'', PStr (ga_enforcement_action event)),
      (''provenance'', PDict (serialize_provenance provenance)),
      (''gateway_audit_event'', PDict (GatewayAuditEvent_to_dict event)),
      (''audit_evidence'', PDict (serialize_audit_evidence evidence))]"

section \<open>Emission\<close>

definition oa_system_event ::
    "string \<Rightarrow> string option \<Rightarrow> string \<Rightarrow> string \<Rightarrow> string option \<Rightarrow> nat option \<Rightarrow> string option
     \<Rightarrow> pyval dict \<Rightarrow> AuditEvent" where
  "oa_system_event action correlation_id request_path http_method event_reason http_status sid detail =
     \<lparr>ev_event_type = SYSTEM_EVENT, ev_action = action, ev_outcome = None, ev_reason = event_reason,
      ev_correlation_id = correlation_id, ev_subject_id = sid, ev_request_id = None,
      ev_policy_version = None,
      ev_detail = dict_update ([(''http_method'', PStr http_method), (''request_path'', PStr request_path)]
        @ (case http_status of None \<Rightarrow> [] | Some n \<Rightarrow> [(''http_status'', PInt (int n))])) detail\<rparr>"

definition emit_operation_aware_system_event ::
    "audit_lib \<Rightarrow> string \<Rightarrow> string option \<Rightarrow> string \<Rightarrow> string \<Rightarrow> string option \<Rightarrow> nat option
     \<Rightarrow> string option \<Rightarrow> pyval dict \<Rightarrow> audit_st \<Rightarrow> audit_st" where
  "emit_operation_aware_system_event A action correlation_id request_path http_method event_reason
       http_status sid detail st =
     emit_event A (oa_system_event action correlation_id request_path http_method event_reason
       http_status sid detail) st"

definition missing_evidence_event ::
    "ComposedOperationAwareInput \<Rightarrow> nat \<Rightarrow> string \<Rightarrow> string \<Rightarrow> AuditEvent" where
  "missing_evidence_event composed http_status request_path http_method =
     (let trust = ci_operation_producer_trust composed in
      \<lparr>ev_event_type = SYSTEM_EVENT, ev_action = EVIDENCE_MISSING, ev_outcome = None,
       ev_reason = Some REASON_MISSING_AUDIT_EVIDENCE,
       ev_correlation_id = Some (ci_correlation_id composed),
       ev_subject_id = Some (subject_id (ci_authorization_subject composed)),
       ev_request_id = Some (ci_request_id composed), ev_policy_version = None,
       ev_detail =
         [(''http_method'', PStr http_method), (''request_path'', PStr request_path),
          (''http_status'', PInt (int http_status)),
          (''operation_producer_subject_id'', opt_pyval (ot_operation_producer_subject_id trust)),
          (''operation_producer_trust_status'', PStr (trust_status_value (ot_status trust))),
          (''operation_producer_workload_identity'', opt_pyval (ot_producer_workload_identity trust))]\<rparr>)"

definition emit_operation_aware_missing_evidence_event ::
    "audit_lib \<Rightarrow> ComposedOperationAwareInput \<Rightarrow> nat \<Rightarrow> string \<Rightarrow> string \<Rightarrow> audit_st \<Rightarrow> audit_st" where
  "emit_operation_aware_missing_evidence_event A composed http_status request_path http_method st =
     emit_event A (missing_evidence_event composed http_status request_path http_method) st"

definition completed_event ::
    "OAResult \<Rightarrow> GatewayAuditEvent \<Rightarrow> AuditEvidence \<Rightarrow> ComposedOperationAwareInput \<Rightarrow> nat \<Rightarrow> string \<Rightarrow> string
     \<Rightarrow> AuditEvent" where
  "completed_event result event evidence composed http_status request_path http_method =
     \<lparr>ev_event_type = SYSTEM_EVENT, ev_action = AUTHORIZATION_COMPLETED,
      ev_outcome = Some (if rr_disposition result = DISP_ALLOW then ALLOWED else DENIED),
      ev_reason = None,
      ev_correlation_id = Some (ci_correlation_id composed),
      ev_subject_id = Some (subject_id (ci_authorization_subject composed)),
      ev_request_id = Some (ga_request_id event), ev_policy_version = None,
      ev_detail = build_operation_aware_audit_detail event evidence http_method request_path http_status
        (ci_operation_producer_trust composed) (ci_provenance composed)\<rparr>"

definition emit_operation_aware_completed_event ::
    "audit_lib \<Rightarrow> OAResult \<Rightarrow> ComposedOperationAwareInput \<Rightarrow> nat \<Rightarrow> string \<Rightarrow> string \<Rightarrow> audit_st
     \<Rightarrow> unit res \<times> audit_st" where
  "emit_operation_aware_completed_event A result composed http_status request_path http_method st =
     (case fst st of
        None \<Rightarrow> (Inr (), st)
      | Some w \<Rightarrow>
          (case assemble_gateway_audit_event result of
             Inl e \<Rightarrow> (Inl e, st)
           | Inr gateway_event \<Rightarrow>
               (case (gateway_event, rr_audit_evidence result) of
                  (Some event, Some evidence) \<Rightarrow>
                    (Inr (), emit_event A
                      (completed_event result event evidence composed http_status request_path http_method) st)
                | _ \<Rightarrow> (Inr (), emit_operation_aware_missing_evidence_event A composed http_status
                          request_path http_method st))))"

section \<open>Lemmas\<close>

text \<open>The kernel's documented invariants of a result that carries evidence.\<close>

definition kernel_result_ok :: "OAResult \<Rightarrow> bool" where
  "kernel_result_ok r \<longleftrightarrow>
     (or_evaluation_status (rr_response r) = COMPLETED \<longleftrightarrow> or_outcome (rr_response r) \<noteq> None)
     \<and> (or_evaluation_status (rr_response r) = FAILED \<longleftrightarrow> or_failure_reason (rr_response r) \<noteq> None)"

lemma failure_value_nonempty: "failure_value f \<noteq> []"
  by (cases f) (simp_all add: failure_value_def)

lemma assemble_ok_iff:
  "(\<exists>e. assemble_gateway_audit_event r = Inr (Some e)) \<longleftrightarrow>
     (\<exists>v. rr_audit_evidence r = Some v \<and> \<not> blank (evd_evidence_id v))
     \<and> \<not> blank (or_request_id (rr_response r)) \<and> kernel_result_ok r"
proof (cases "rr_audit_evidence r")
  case (Some v)
  have "disposition_value (rr_disposition r) \<in> {''allow'', ''deny''}"
    by (cases "rr_disposition r") (simp_all add: disposition_value_def)
  then show ?thesis using Some
    by (cases "or_evaluation_status (rr_response r)"; cases "or_outcome (rr_response r)";
        cases "or_failure_reason (rr_response r)")
      (simp_all add: assemble_gateway_audit_event_def GatewayAuditEvent_post_init_def
        kernel_result_ok_def status_value_def failure_value_nonempty Let_def)
qed (simp add: assemble_gateway_audit_event_def)

lemma post_init_Inr: "GatewayAuditEvent_post_init e = Inr e' \<Longrightarrow> e' = e"
  by (auto simp: GatewayAuditEvent_post_init_def split: if_splits)

lemma assemble_Some:
  assumes "assemble_gateway_audit_event r = Inr (Some e)"
  shows "\<exists>v. rr_audit_evidence r = Some v
    \<and> e = \<lparr>ga_event_type = GATEWAY_AUDIT_EVENT_TYPE, ga_request_id = or_request_id (rr_response r),
            ga_evaluation_status = status_value (or_evaluation_status (rr_response r)),
            ga_outcome = map_option outcome_value (or_outcome (rr_response r)),
            ga_failure_reason = map_option failure_value (or_failure_reason (rr_response r)),
            ga_audit_evidence_id = evd_evidence_id v,
            ga_enforcement_action = disposition_value (rr_disposition r)\<rparr>"
  using assms by (auto simp: assemble_gateway_audit_event_def Let_def dest: post_init_Inr split: option.splits)

lemma emit_completed_inv [audit_frame]:
  "st_inv st \<Longrightarrow> st_inv (snd (emit_operation_aware_completed_event A r c n p m st))"
  by (simp add: emit_operation_aware_completed_event_def emit_operation_aware_missing_evidence_event_def
      st_inv_emit split: option.split sum.split)

lemma emit_completed_components [audit_frame]:
  "k \<noteq> AUDIT_WRITER_COMPONENT \<Longrightarrow>
   component_of (snd (snd (emit_operation_aware_completed_event A r c n p m st))) k = component_of (snd st) k"
  by (simp add: emit_operation_aware_completed_event_def emit_operation_aware_missing_evidence_event_def
      emit_other_components split: option.split sum.split)

section \<open>Properties\<close>

text \<open>The completed record: for a kernel result with evidence and the kernel's documented
  invariants, emission never raises and hands the writer exactly one event; it
  carries the request's correlation id and subject, an outcome that is ALLOWED
  exactly when the kernel's disposition is ALLOW, the complete evidence
  unchanged, and a gateway event that refers to this evidence by id.\<close>

theorem completed_record_exact:
  assumes "rr_audit_evidence r = Some v" and "kernel_result_ok r"
    and "\<not> blank (or_request_id (rr_response r))" and "\<not> blank (evd_evidence_id v)"
    and "fst st \<noteq> None" and "\<And>e. ae_accepts A e"
  shows "\<exists>ev st'. emit_operation_aware_completed_event A r c n path meth st = (Inr (), st')
     \<and> st_trail st' = st_trail st @ [ev]
     \<and> ev_correlation_id ev = Some (ci_correlation_id c)
     \<and> ev_subject_id ev = Some (subject_id (ci_authorization_subject c))
     \<and> (ev_outcome ev = Some ALLOWED \<longleftrightarrow> rr_disposition r = DISP_ALLOW)
     \<and> map_of (ev_detail ev) ''audit_evidence'' = Some (PDict (evd_dump v))
     \<and> (\<exists>ge. map_of (ev_detail ev) ''gateway_audit_event'' = Some (PDict ge)
          \<and> map_of ge ''audit_evidence_id'' = Some (PStr (evd_evidence_id v)))"
proof -
  obtain e where e: "assemble_gateway_audit_event r = Inr (Some e)"
    using assemble_ok_iff [of r] assms(1-4) by auto
  have id: "ga_audit_evidence_id e = evd_evidence_id v" using assemble_Some [OF e] assms(1) by auto
  let ?ev = "completed_event r e v c n path meth"
  let ?st' = "emit_event A ?ev st"
  have "emit_operation_aware_completed_event A r c n path meth st = (Inr (), ?st')"
    using e assms(1,5) by (auto simp: emit_operation_aware_completed_event_def)
  moreover have "st_trail ?st' = st_trail st @ [?ev]" using assms(5,6) by (simp add: st_trail_emit)
  moreover have "map_of (ev_detail ?ev) ''audit_evidence'' = Some (PDict (evd_dump v))"
    "map_of (ev_detail ?ev) ''gateway_audit_event'' = Some (PDict (GatewayAuditEvent_to_dict e))"
    "map_of (GatewayAuditEvent_to_dict e) ''audit_evidence_id'' = Some (PStr (evd_evidence_id v))"
    by (simp_all add: completed_event_def build_operation_aware_audit_detail_def
        serialize_audit_evidence_def GatewayAuditEvent_to_dict_def id)
  moreover have "ev_correlation_id ?ev = Some (ci_correlation_id c)"
    "ev_subject_id ?ev = Some (subject_id (ci_authorization_subject c))"
    "ev_outcome ?ev = Some ALLOWED \<longleftrightarrow> rr_disposition r = DISP_ALLOW"
    by (simp_all add: completed_event_def)
  ultimately show ?thesis by blast
qed

definition stub_audit :: audit_lib where
  "stub_audit = \<lparr>ae_accepts = (\<lambda>_. True), inner_write = (\<lambda>_ _. True)\<rparr>"

definition sample_st :: audit_st where
  "sample_st = (Some (GatewayAuditWriter_init True 2), mark_ready AUDIT_WRITER_COMPONENT initial_readiness)"

theorem completed_record_exact_witness:
  "\<exists>c. compose_operation_aware_input sample_oq adapter_subject sample_ic (sample_trust {''adapter''})
         ''c-1'' (Aware 0) = Inr c
     \<and> (\<exists>ev st'. emit_operation_aware_completed_event stub_audit (sample_oa_result OA_ALLOW) c 200 ''p'' ''POST'' sample_st
           = (Inr (), st') \<and> st_trail st' = st_trail sample_st @ [ev] \<and> ev_outcome ev = Some ALLOWED)"
proof -
  obtain c where c: "compose_operation_aware_input sample_oq adapter_subject sample_ic
      (sample_trust {''adapter''}) ''c-1'' (Aware 0) = Inr c" using sample_compose by blast
  let ?r = "sample_oa_result OA_ALLOW" and ?v = "\<lparr>evd_evidence_id = ''e1'', evd_dump = []\<rparr>"
  have d: "rr_disposition ?r = DISP_ALLOW" by (simp add: sample_oa_result_def)
  have b: "\<not> blank ''r1''" "\<not> blank ''e1''" by (simp_all add: blank_def strip_def strip_by_def is_space_def)
  have "\<exists>ev st'. emit_operation_aware_completed_event stub_audit ?r c 200 ''p'' ''POST'' sample_st = (Inr (), st')
      \<and> st_trail st' = st_trail sample_st @ [ev]
      \<and> ev_correlation_id ev = Some (ci_correlation_id c)
      \<and> ev_subject_id ev = Some (subject_id (ci_authorization_subject c))
      \<and> (ev_outcome ev = Some ALLOWED \<longleftrightarrow> rr_disposition ?r = DISP_ALLOW)
      \<and> map_of (ev_detail ev) ''audit_evidence'' = Some (PDict (evd_dump ?v))
      \<and> (\<exists>ge. map_of (ev_detail ev) ''gateway_audit_event'' = Some (PDict ge)
           \<and> map_of ge ''audit_evidence_id'' = Some (PStr (evd_evidence_id ?v)))"
    by (rule completed_record_exact)
      (use b in \<open>simp_all add: sample_oa_result_def sample_oa_response_def kernel_result_ok_def
          sample_st_def stub_audit_def\<close>)
  then show ?thesis using c d by blast
qed

text \<open>Assembly of the completed record is not covered by the helper's own exception
  handling: for a result whose request id is blank (the gateway's own request
  schema does not exclude one) the helper raises and writes no event.\<close>

theorem completed_record_blank_request_id_raises:
  assumes "rr_audit_evidence r = Some v" and "blank (or_request_id (rr_response r))" and "fst st \<noteq> None"
  shows "emit_operation_aware_completed_event A r c n path meth st
    = (Inl (PyError (ValueError (''request_id must not be empty'', []))), st)"
  using assms
  by (auto simp: emit_operation_aware_completed_event_def assemble_gateway_audit_event_def
      GatewayAuditEvent_post_init_def value_error_def GATEWAY_AUDIT_EVENT_TYPE_def Let_def)

theorem completed_record_blank_request_id_raises_witness:
  "\<exists>c. compose_operation_aware_input sample_oq adapter_subject sample_ic (sample_trust {''adapter''})
         ''c-1'' (Aware 0) = Inr c
     \<and> emit_operation_aware_completed_event stub_audit
         ((sample_oa_result OA_ALLOW)\<lparr>rr_response := (sample_oa_response OA_ALLOW)\<lparr>or_request_id := []\<rparr>\<rparr>)
         c 200 ''p'' ''POST'' sample_st
       = (Inl (PyError (ValueError (''request_id must not be empty'', []))), sample_st)"
proof -
  obtain c where c: "compose_operation_aware_input sample_oq adapter_subject sample_ic
      (sample_trust {''adapter''}) ''c-1'' (Aware 0) = Inr c" using sample_compose by blast
  let ?r = "(sample_oa_result OA_ALLOW)\<lparr>rr_response := (sample_oa_response OA_ALLOW)\<lparr>or_request_id := []\<rparr>\<rparr>"
  have "emit_operation_aware_completed_event stub_audit ?r c 200 ''p'' ''POST'' sample_st
      = (Inl (PyError (ValueError (''request_id must not be empty'', []))), sample_st)"
    by (rule completed_record_blank_request_id_raises [of _ "\<lparr>evd_evidence_id = ''e1'', evd_dump = []\<rparr>"])
      (simp_all add: sample_oa_result_def sample_st_def)
  with c show ?thesis by blast
qed

end
