(* ===== verification/GW_Oidc.thy ===== *)
theory GW_Oidc
  imports GW_Subject
begin

text \<open>
  \<^verbatim>\<open>auth/oidc.py\<close>: Bearer extraction, OIDC discovery, and JWT verification.
  PyJWT, its JWKS client and the HTTP client are parameters: \<^verbatim>\<open>jwt_lib\<close> has
  the decoding functions and their exceptions, \<^verbatim>\<open>oidc_net\<close> the two network
  calls of startup.
\<close>

section \<open>The libraries\<close>

text \<open>
  PyJWT's exceptions as its class hierarchy has them: everything but the last
  two is an \<^verbatim>\<open>InvalidTokenError\<close>, the first two are \<^verbatim>\<open>DecodeError\<close>s;
  \<^verbatim>\<open>OtherPyJWTError\<close> is a \<^verbatim>\<open>PyJWTError\<close> only, \<^verbatim>\<open>ForeignError\<close> any other exception.
\<close>

datatype jwt_exn =
    InvalidSignatureError
  | DecodeError
  | ExpiredSignatureError
  | ImmatureSignatureError
  | InvalidAudienceError
  | InvalidIssuerError
  | MissingRequiredClaimError string
  | OtherInvalidTokenError
  | OtherPyJWTError
  | ForeignError py_exn

definition is_DecodeError :: "jwt_exn \<Rightarrow> bool" where
  "is_DecodeError e \<longleftrightarrow> e = InvalidSignatureError \<or> e = DecodeError"

definition is_InvalidTokenError :: "jwt_exn \<Rightarrow> bool" where
  "is_InvalidTokenError e \<longleftrightarrow> (case e of OtherPyJWTError \<Rightarrow> False | ForeignError _ \<Rightarrow> False | _ \<Rightarrow> True)"

definition is_PyJWTError :: "jwt_exn \<Rightarrow> bool" where
  "is_PyJWTError e \<longleftrightarrow> (case e of ForeignError _ \<Rightarrow> False | _ \<Rightarrow> True)"

text \<open>An exception that no clause of the source catches is re-raised as it is.\<close>

definition raise_jwt :: "jwt_exn \<Rightarrow> exn" where
  "raise_jwt e = PyError (case e of ForeignError p \<Rightarrow> p | _ \<Rightarrow> OtherException (''PyJWTError'', []))"

record decode_args =
  da_token :: string
  da_key :: string
  da_algorithms :: "string list"
  da_audience :: "string list option"
  da_issuer :: string
  da_leeway :: int
  da_require :: "string list"

datatype jwks_exn = PyJWKClientError string | JWKSOther string

record jwt_lib =
  get_unverified_header :: "string \<Rightarrow> jwt_exn + pyval dict"
  jwt_decode :: "decode_args \<Rightarrow> jwt_exn + pyval dict"
  signing_key_from_jwt :: "string \<Rightarrow> string \<Rightarrow> jwks_exn + string"

section \<open>Bearer extraction\<close>

definition BEARER_PREFIX :: string where "BEARER_PREFIX = ''Bearer ''"

definition extract_bearer_token :: "string option \<Rightarrow> auth_exn + string" where
  "extract_bearer_token authorization = (case authorization of
      None \<Rightarrow> Inl (TokenExtractionError (''Missing Authorization header'', []))
    | Some h \<Rightarrow>
        (if \<not> startswith BEARER_PREFIX h
         then Inl (TokenExtractionError (''Authorization header must use Bearer scheme'', []))
         else let token = drop (length BEARER_PREFIX) h in
           if token = [] then Inl (TokenExtractionError (''Bearer token is empty'', []))
           else if CHR '' '' \<in> set token \<or> CHR 0x09 \<in> set token
           then Inl (TokenExtractionError (''Bearer token contains invalid whitespace'', []))
           else Inr token))"

section \<open>JWKS lookup and verification\<close>

definition ALLOWED_ALGORITHMS :: "string list" where
  "ALLOWED_ALGORITHMS = [''RS256'', ''RS384'', ''RS512'', ''ES256'', ''ES384'', ''ES512'']"

definition get_signing_key :: "jwt_lib \<Rightarrow> string \<Rightarrow> string \<Rightarrow> auth_exn + string" where
  "get_signing_key J jwks_uri token = (case signing_key_from_jwt J jwks_uri token of
      Inr key \<Rightarrow> Inr key
    | Inl (PyJWKClientError m) \<Rightarrow>
        (if contains ''Unable to find'' m \<or> contains ''Keyset is empty'' m
         then Inl (JWTVerificationError (''No matching key found in JWKS'', [m]))
         else Inl (JWKSFetchError (''JWKS fetch failed'', [m])))
    | Inl (JWKSOther m) \<Rightarrow> Inl (JWKSFetchError (''JWKS fetch failed'', [m])))"

record OIDCVerifier =
  v_issuer :: string
  v_audience :: "string option"
  v_jwks_uri_override :: "string option"
  v_cache_ttl_seconds :: rat
  v_cache :: "string option"

definition OIDCVerifier_from_config ::
    "string \<Rightarrow> string option \<Rightarrow> string option \<Rightarrow> rat \<Rightarrow> OIDCVerifier" where
  "OIDCVerifier_from_config issuer audience jwks_uri_override cache_ttl_seconds =
     \<lparr>v_issuer = issuer, v_audience = audience, v_jwks_uri_override = jwks_uri_override,
      v_cache_ttl_seconds = cache_ttl_seconds, v_cache = None\<rparr>"

text \<open>\<^verbatim>\<open>make_verifier_from_env\<close>, with the defaults of its optional arguments.\<close>

definition make_verifier_from_env ::
    "string \<Rightarrow> string option \<Rightarrow> string option \<Rightarrow> rat option \<Rightarrow> OIDCVerifier" where
  "make_verifier_from_env issuer audience jwks_uri_override cache_ttl_seconds =
     OIDCVerifier_from_config issuer audience jwks_uri_override (case cache_ttl_seconds of None \<Rightarrow> 300 | Some s \<Rightarrow> s)"

text \<open>The exception clauses around \<^verbatim>\<open>jwt.decode\<close>, in order.\<close>

definition oidc_decode_error :: "jwt_exn \<Rightarrow> exn" where
  "oidc_decode_error e =
     (if e = ExpiredSignatureError then AuthenticationError (JWTVerificationError (''Token has expired'', []))
      else if e = InvalidIssuerError then AuthenticationError (JWTVerificationError (''Token issuer is invalid'', []))
      else if e = InvalidAudienceError then AuthenticationError (JWTVerificationError (''Token audience is invalid'', []))
      else if e = InvalidSignatureError then AuthenticationError (JWTVerificationError (''Token signature is invalid'', []))
      else if is_DecodeError e then AuthenticationError (JWTVerificationError (''Token decode error'', []))
      else if is_PyJWTError e then AuthenticationError (JWTVerificationError (''Token verification failed'', []))
      else raise_jwt e)"

definition oidc_decode_args :: "OIDCVerifier \<Rightarrow> string \<Rightarrow> string \<Rightarrow> decode_args" where
  "oidc_decode_args v token key =
     \<lparr>da_token = token, da_key = key, da_algorithms = ALLOWED_ALGORITHMS,
      da_audience = (if truthy_opt (v_audience v) then map_option (\<lambda>a. [a]) (v_audience v) else None),
      da_issuer = v_issuer v, da_leeway = 0, da_require = []\<rparr>"

definition OIDCVerifier_verify :: "jwt_lib \<Rightarrow> OIDCVerifier \<Rightarrow> string \<Rightarrow> pyval dict res" where
  "OIDCVerifier_verify J v token = (case v_cache v of
      None \<Rightarrow> Inl (AuthenticationError (JWTVerificationError (''OIDCVerifier not initialized'', [])))
    | Some jwks_uri \<Rightarrow>
        (case get_unverified_header J token of
           Inl e \<Rightarrow> (if is_DecodeError e
                     then Inl (AuthenticationError (JWTVerificationError (''Malformed JWT header'', [])))
                     else Inl (raise_jwt e))
         | Inr header \<Rightarrow>
             (if (case map_of header ''alg'' of Some (PStr a) \<Rightarrow> a \<notin> set ALLOWED_ALGORITHMS | _ \<Rightarrow> True)
              then Inl (AuthenticationError (JWTVerificationError (''Unsupported JWT algorithm'', [])))
              else case get_signing_key J jwks_uri token of
                Inl e \<Rightarrow> Inl (AuthenticationError e)
              | Inr key \<Rightarrow> (case jwt_decode J (oidc_decode_args v token key) of
                    Inl e \<Rightarrow> Inl (oidc_decode_error e)
                  | Inr claims \<Rightarrow> Inr claims))))"

section \<open>Discovery and initialization\<close>

datatype http_result = HTTPError string | HTTPBody "pyval option"

record oidc_net =
  http_get :: "string \<Rightarrow> http_result"
  fetch_data :: "string \<Rightarrow> string option"
  str_of_value :: "pyval \<Rightarrow> string"

fun rstrip_slash :: "string \<Rightarrow> string" where
  "rstrip_slash s = rev (dropWhile (\<lambda>c. c = CHR ''/'') (rev s))"

definition discover_jwks_uri :: "oidc_net \<Rightarrow> string \<Rightarrow> string option \<Rightarrow> string res" where
  "discover_jwks_uri N issuer override =
     (if truthy_opt override then Inr (case override of Some u \<Rightarrow> u | None \<Rightarrow> [])
      else case http_get N (rstrip_slash issuer @ ''/.well-known/openid-configuration'') of
        HTTPError m \<Rightarrow> Inl (AuthenticationError (OIDCDiscoveryError (''OIDC discovery request failed'', [issuer, m])))
      | HTTPBody None \<Rightarrow> Inl (AuthenticationError (OIDCDiscoveryError (''OIDC discovery response is not valid JSON'', [issuer])))
      | HTTPBody (Some (PDict metadata)) \<Rightarrow>
          (if dict_get metadata ''issuer'' \<noteq> PStr issuer
           then Inl (AuthenticationError (OIDCDiscoveryError (''OIDC issuer mismatch'', [issuer])))
           else if \<not> py_truthy (dict_get metadata ''jwks_uri'')
           then Inl (AuthenticationError (OIDCDiscoveryError (''OIDC discovery document is missing jwks_uri'', [issuer])))
           else Inr (case dict_get metadata ''jwks_uri'' of PStr u \<Rightarrow> u | v \<Rightarrow> str_of_value N v))
      | HTTPBody (Some _) \<Rightarrow> Inl (PyError (OtherException (''AttributeError'', []))))"

definition OIDCVerifier_initialize :: "oidc_net \<Rightarrow> OIDCVerifier \<Rightarrow> OIDCVerifier res" where
  "OIDCVerifier_initialize N v =
     res_bind (discover_jwks_uri N (v_issuer v) (v_jwks_uri_override v)) (\<lambda>jwks_uri.
       case fetch_data N jwks_uri of
         Some m \<Rightarrow> Inl (AuthenticationError (JWKSFetchError (''Initial JWKS fetch failed'', [m])))
       | None \<Rightarrow> Inr (v\<lparr>v_cache := Some jwks_uri\<rparr>))"

section \<open>Lemmas\<close>

lemma oidc_decode_error_auth:
  "is_PyJWTError e \<Longrightarrow> \<exists>m. oidc_decode_error e = AuthenticationError (JWTVerificationError m)"
  by (simp add: oidc_decode_error_def)

lemma verify_Inr:
  assumes "OIDCVerifier_verify J v token = Inr claims"
  obtains uri header a key where "v_cache v = Some uri"
    and "get_unverified_header J token = Inr header"
    and "map_of header ''alg'' = Some (PStr a)" and "a \<in> set ALLOWED_ALGORITHMS"
    and "signing_key_from_jwt J uri token = Inr key"
    and "jwt_decode J (oidc_decode_args v token key) = Inr claims"
  using assms
  by (auto simp: OIDCVerifier_verify_def get_signing_key_def
      split: option.splits sum.splits if_splits pyval.splits jwks_exn.splits)

section \<open>Properties\<close>

text \<open>Bearer extraction accepts exactly the headers \<^verbatim>\<open>Bearer\<close> plus one space plus a
  non-empty token without space or tab, and returns that token unchanged.\<close>

theorem extract_bearer_token_correct:
  "extract_bearer_token authorization = Inr token \<longleftrightarrow>
     authorization = Some (BEARER_PREFIX @ token) \<and> token \<noteq> []
     \<and> CHR '' '' \<notin> set token \<and> CHR 0x09 \<notin> set token"
proof (cases authorization)
  case (Some h)
  show ?thesis
  proof (cases "startswith BEARER_PREFIX h")
    case True
    then obtain t where "h = BEARER_PREFIX @ t" by (auto simp: startswith_iff_append)
    then show ?thesis using Some by (auto simp: extract_bearer_token_def Let_def)
  next
    case False
    then show ?thesis using Some by (auto simp: extract_bearer_token_def)
  qed
qed (simp add: extract_bearer_token_def)


text \<open>A library stub for the witnesses: every token has an RS256 header and fixed claims.\<close>

definition stub_jwt :: jwt_lib where
  "stub_jwt = \<lparr>get_unverified_header = (\<lambda>_. Inr [(''alg'', PStr ''RS256''), (''kid'', PStr ''k1'')]),
     jwt_decode = (\<lambda>_. Inr [(''sub'', PStr ''alice''), (''iss'', PStr ''https://idp'')]),
     signing_key_from_jwt = (\<lambda>_ _. Inr ''key'')\<rparr>"

definition stub_verifier :: OIDCVerifier where
  "stub_verifier = (OIDCVerifier_from_config ''https://idp'' None None 300)\<lparr>v_cache := Some ''https://idp/jwks''\<rparr>"

lemma stub_verify: "OIDCVerifier_verify stub_jwt stub_verifier t =
    Inr [(''sub'', PStr ''alice''), (''iss'', PStr ''https://idp'')]"
  by (simp add: OIDCVerifier_verify_def stub_jwt_def stub_verifier_def OIDCVerifier_from_config_def
      get_signing_key_def ALLOWED_ALGORITHMS_def)


text \<open>Discovery is bound to the configured issuer: without an explicit override an
  initialized verifier uses a JWKS address from a discovery document whose
  \<^verbatim>\<open>issuer\<close> equals the configured one; initialization never changes issuer,
  audience or override, and every library failure surfaces as an
  authentication error.\<close>

theorem oidc_initialize_bound_to_issuer:
  assumes "OIDCVerifier_initialize N v = Inr v'"
  shows "v_issuer v' = v_issuer v \<and> v_audience v' = v_audience v \<and>
    (truthy_opt (v_jwks_uri_override v) \<longrightarrow> v_cache v' = v_jwks_uri_override v) \<and>
    (\<not> truthy_opt (v_jwks_uri_override v) \<longrightarrow>
       (\<exists>metadata. http_get N (rstrip_slash (v_issuer v) @ ''/.well-known/openid-configuration'')
            = HTTPBody (Some (PDict metadata))
          \<and> map_of metadata ''issuer'' = Some (PStr (v_issuer v))
          \<and> (\<exists>u. map_of metadata ''jwks_uri'' = Some u \<and> py_truthy u)))"
  using assms
  by (auto simp: OIDCVerifier_initialize_def discover_jwks_uri_def dict_get_def truthy_opt_def
      split: if_splits http_result.splits option.splits pyval.splits)

definition stub_net :: oidc_net where
  "stub_net = \<lparr>http_get = (\<lambda>_. HTTPBody (Some (PDict [(''issuer'', PStr ''https://idp''),
        (''jwks_uri'', PStr ''https://idp/jwks'')]))),
     fetch_data = (\<lambda>_. None), str_of_value = (\<lambda>_. [])\<rparr>"

theorem oidc_initialize_bound_to_issuer_witness:
  "v_issuer stub_verifier = ''https://idp''"
proof -
  have "OIDCVerifier_initialize stub_net (OIDCVerifier_from_config ''https://idp'' None None 300)
      = Inr stub_verifier"
    by (simp add: OIDCVerifier_initialize_def discover_jwks_uri_def stub_net_def stub_verifier_def
        OIDCVerifier_from_config_def dict_get_def)
  from oidc_initialize_bound_to_issuer [OF this] show ?thesis
    by (simp add: OIDCVerifier_from_config_def)
qed

end
