(* ===== verification/GW_Local_Token.thy ===== *)
theory GW_Local_Token
  imports GW_Oidc
begin

text \<open>
  \<^verbatim>\<open>auth/basis_local_token.py\<close>: verification of BASIS-local identity tokens against
  a static trust configuration. The constructor arguments of the configuration
  are Python values (\<^typ>\<open>pyval\<close>), so every type check of the source is a branch;
  PyJWT is the parameter \<^verbatim>\<open>jwt_lib\<close> of \<^verbatim>\<open>GW_Oidc\<close>.
\<close>

section \<open>Constants\<close>

definition BASIS_LOCAL_IDENTITY_TOKEN_TYPE :: string where
  "BASIS_LOCAL_IDENTITY_TOKEN_TYPE = ''basis-local-identity''"
definition UNSIGNED_ALGORITHM :: string where "UNSIGNED_ALGORITHM = ''none''"
definition SYMMETRIC_ALGORITHM_PREFIX :: string where "SYMMETRIC_ALGORITHM_PREFIX = ''HS''"

definition DEFAULT_REQUIRED_BASIS_TOKEN_CLAIMS :: "string list" where
  "DEFAULT_REQUIRED_BASIS_TOKEN_CLAIMS =
     [''iss'', ''sub'', ''aud'', ''iat'', ''exp'', ''jti'', ''typ'',
      ''basis.session_id'', ''basis.provider_id'', ''basis.authority_mode'',
      ''basis.authentication_protocol'', ''basis.canonical_identity'']"

definition FORBIDDEN_CLAIM_TERMS :: "string list" where
  "FORBIDDEN_CLAIM_TERMS = [''allow'', ''deny'', ''decision'', ''policy'', ''permission'',
     ''grant'', ''matched_rule'', ''enforce'', ''obligation'']"

definition AUTHORIZATION_SCAN_EXEMPT_KEYS :: "string list" where
  "AUTHORIZATION_SCAN_EXEMPT_KEYS = [''allowed_algorithms'']"

section \<open>Validation of the trust configuration\<close>

definition config_error :: "string \<Rightarrow> string list \<Rightarrow> exn" where
  "config_error m xs = AuthenticationError (BasisLocalTokenConfigError (m, xs))"
definition claims_error :: "string \<Rightarrow> string list \<Rightarrow> exn" where
  "claims_error m xs = AuthenticationError (BasisLocalTokenClaimsError (m, xs))"
definition header_error :: "string \<Rightarrow> string list \<Rightarrow> exn" where
  "header_error m xs = AuthenticationError (BasisLocalTokenHeaderError (m, xs))"

text \<open>A string that is not blank and equals its stripped form: the check the validators share.\<close>

definition trimmed_string :: "string \<Rightarrow> string \<Rightarrow> pyval \<Rightarrow> string res" where
  "trimmed_string empty_msg pad_msg v = (case v of
      PStr s \<Rightarrow> (if blank s then Inl (config_error empty_msg [])
                else if s \<noteq> strip s then Inl (config_error pad_msg [])
                else Inr s)
    | _ \<Rightarrow> Inl (config_error empty_msg []))"

definition require_no_surrounding_whitespace :: "pyval \<Rightarrow> string \<Rightarrow> string res" where
  "require_no_surrounding_whitespace value field_name =
     trimmed_string (field_name @ '' must be a non-empty string'')
       (field_name @ '' must not have leading or trailing whitespace'') value"

definition audience_entry :: "pyval \<Rightarrow> string res" where
  "audience_entry v = trimmed_string ''audience entries must be non-empty strings''
     ''audience entries must not have leading or trailing whitespace'' v"

definition normalize_audience :: "pyval \<Rightarrow> string list res" where
  "normalize_audience value = (case value of
      PStr s \<Rightarrow> res_map audience_entry [PStr s]
    | PList xs \<Rightarrow> (if xs = [] then Inl (config_error ''audience must contain at least one entry'' [])
                  else res_map audience_entry xs)
    | _ \<Rightarrow> Inl (config_error ''audience must be a string or a sequence of strings'' []))"

definition validate_algorithm_string :: "pyval \<Rightarrow> string \<Rightarrow> string res" where
  "validate_algorithm_string value field_name =
     res_bind (require_no_surrounding_whitespace value field_name) (\<lambda>s.
       if lower s = UNSIGNED_ALGORITHM
       then Inl (config_error (field_name @ '' must not be none'') [])
       else if startswith SYMMETRIC_ALGORITHM_PREFIX (upper s)
       then Inl (config_error (field_name @ '' must not be a symmetric algorithm'') [s])
       else Inr s)"

definition validate_allowed_algorithms :: "pyval \<Rightarrow> string list res" where
  "validate_allowed_algorithms value = (case value of
      PList xs \<Rightarrow> (if xs = [] then Inl (config_error ''allowed_algorithms must not be empty'' [])
         else res_map (\<lambda>x. validate_algorithm_string x ''allowed_algorithms entry'') xs)
    | _ \<Rightarrow> Inl (config_error ''allowed_algorithms must be a sequence of strings'' []))"

definition public_key_entry :: "string \<times> pyval \<Rightarrow> (string \<times> string) res" where
  "public_key_entry = (\<lambda>(kid, pem).
     if blank kid then Inl (config_error ''public key id must be a non-empty string'' [])
     else if kid \<noteq> strip kid
     then Inl (config_error ''public key id must not have leading or trailing whitespace'' [])
     else case pem of
       PStr p \<Rightarrow>
         (if blank p then Inl (config_error ''public key material must be a non-empty string'' [kid])
          else if contains ''PRIVATE KEY'' (upper p)
          then Inl (config_error ''public_keys_by_id entry looks like a private key'' [kid])
          else Inr (kid, p))
     | _ \<Rightarrow> Inl (config_error ''public key material must be a non-empty string'' [kid]))"

definition validate_public_keys_by_id :: "pyval \<Rightarrow> string dict res" where
  "validate_public_keys_by_id value = (case value of
      PDict d \<Rightarrow> (if d = [] then Inl (config_error ''public_keys_by_id must be a non-empty mapping'' [])
         else res_map public_key_entry d)
    | _ \<Rightarrow> Inl (config_error ''public_keys_by_id must be a non-empty mapping'' []))"

definition has_forbidden_term :: "string \<Rightarrow> bool" where
  "has_forbidden_term k \<longleftrightarrow> list_ex (\<lambda>term. contains term (lower k)) FORBIDDEN_CLAIM_TERMS"

definition reject_authorization_shaped_claim_paths :: "string list \<Rightarrow> unit res" where
  "reject_authorization_shaped_claim_paths paths = (case find has_forbidden_term paths of
      None \<Rightarrow> Inr ()
    | Some path \<Rightarrow> Inl (config_error ''required_claims entry looks like an authorization claim'' [path]))"

definition required_claim_entry :: "pyval \<Rightarrow> string res" where
  "required_claim_entry v = trimmed_string ''required_claims entries must be non-empty strings''
     ''required_claims entries must not have leading or trailing whitespace'' v"

definition validate_required_claims :: "pyval \<Rightarrow> string list res" where
  "validate_required_claims value = (case value of
      PList xs \<Rightarrow>
        (if xs = [] then Inl (config_error ''required_claims must not be empty'' [])
         else res_bind (res_map required_claim_entry xs) (\<lambda>cleaned.
                res_bind (reject_authorization_shaped_claim_paths cleaned) (\<lambda>_. Inr cleaned)))
    | _ \<Rightarrow> Inl (config_error ''required_claims must be a sequence of claim path strings'' []))"

definition validate_leeway_seconds :: "pyval \<Rightarrow> int res" where
  "validate_leeway_seconds value = (case value of
      PInt n \<Rightarrow> (if n < 0 then Inl (config_error ''leeway_seconds must be non-negative'' []) else Inr n)
    | _ \<Rightarrow> Inl (config_error ''leeway_seconds must be an int'' []))"

record BasisLocalTokenTrustConfig =
  tc_issuer :: string
  tc_audience :: "string list"
  tc_public_keys_by_id :: "string dict"
  tc_allowed_algorithms :: "string list"
  tc_required_claims :: "string list"
  tc_leeway_seconds :: int

text \<open>The constructor with \<^verbatim>\<open>__post_init__\<close>: every field is validated, in order.\<close>

definition make_trust_config ::
    "pyval \<Rightarrow> pyval \<Rightarrow> pyval \<Rightarrow> pyval \<Rightarrow> pyval \<Rightarrow> pyval \<Rightarrow> BasisLocalTokenTrustConfig res" where
  "make_trust_config issuer audience public_keys_by_id allowed_algorithms required_claims leeway_seconds =
     res_bind (require_no_surrounding_whitespace issuer ''issuer'') (\<lambda>i.
     res_bind (normalize_audience audience) (\<lambda>a.
     res_bind (validate_public_keys_by_id public_keys_by_id) (\<lambda>ks.
     res_bind (validate_allowed_algorithms allowed_algorithms) (\<lambda>algs.
     res_bind (validate_required_claims required_claims) (\<lambda>rc.
     res_bind (validate_leeway_seconds leeway_seconds) (\<lambda>l.
       Inr \<lparr>tc_issuer = i, tc_audience = a, tc_public_keys_by_id = ks,
            tc_allowed_algorithms = algs, tc_required_claims = rc, tc_leeway_seconds = l\<rparr>))))))"

definition trust_config_to_dict :: "BasisLocalTokenTrustConfig \<Rightarrow> pyval dict" where
  "trust_config_to_dict tc =
     [(''issuer'', PStr (tc_issuer tc)),
      (''audience'', PList (map PStr (tc_audience tc))),
      (''public_key_ids'', PList (map PStr (sort (map fst (tc_public_keys_by_id tc))))),
      (''public_key_count'', PInt (int (length (tc_public_keys_by_id tc)))),
      (''allowed_algorithms'', PList (map PStr (tc_allowed_algorithms tc))),
      (''required_claims'', PList (map PStr (tc_required_claims tc))),
      (''leeway_seconds'', PInt (tc_leeway_seconds tc))]"

section \<open>Claims\<close>

fun claim_path_parts :: "pyval \<Rightarrow> string list \<Rightarrow> bool" where
  "claim_path_parts node [] = (node \<noteq> PNone)"
| "claim_path_parts (PDict d) (part # parts) =
     (case map_of d part of None \<Rightarrow> False | Some v \<Rightarrow> claim_path_parts v parts)"
| "claim_path_parts node (part # parts) = False"

definition claim_path_present :: "pyval dict \<Rightarrow> string \<Rightarrow> bool" where
  "claim_path_present payload path = claim_path_parts (PDict payload) (split_on (CHR ''.'') path)"

definition forbidden_key :: "string \<Rightarrow> bool" where
  "forbidden_key key \<longleftrightarrow> key \<notin> set AUTHORIZATION_SCAN_EXEMPT_KEYS \<and> has_forbidden_term key"

function (sequential) assert_no_authorization_shaped_keys :: "pyval \<Rightarrow> unit res"
  and scan_items :: "(string \<times> pyval) list \<Rightarrow> unit res"
  and scan_list :: "pyval list \<Rightarrow> unit res" where
  "assert_no_authorization_shaped_keys (PDict d) = scan_items d"
| "assert_no_authorization_shaped_keys (PList xs) = scan_list xs"
| "assert_no_authorization_shaped_keys v = Inr ()"
| "scan_items [] = Inr ()"
| "scan_items ((key, v) # d) =
     (if forbidden_key key then Inl (claims_error ''claim key is not permitted'' [key])
      else res_bind (assert_no_authorization_shaped_keys v) (\<lambda>_. scan_items d))"
| "scan_list [] = Inr ()"
| "scan_list (x # xs) = res_bind (assert_no_authorization_shaped_keys x) (\<lambda>_. scan_list xs)"
  by pat_completeness auto
termination
  by (relation "measure (\<lambda>p. case p of
        Inl v \<Rightarrow> size v
      | Inr (Inl d) \<Rightarrow> size_list (size_prod (\<lambda>_. 0) size) d
      | Inr (Inr xs) \<Rightarrow> size_list size xs)")
    (auto simp: size_list_conv_sum_list)

definition timestamp_to_datetime :: "pyval \<Rightarrow> string \<Rightarrow> datetime res" where
  "timestamp_to_datetime value field_name = (case value of
      PInt n \<Rightarrow> fromtimestamp_int n
    | PFloat x \<Rightarrow> fromtimestamp_float x
    | _ \<Rightarrow> Inl (claims_error (field_name @ '' must be a numeric timestamp'') []))"

text \<open>\<^verbatim>\<open>_to_json_safe\<close>: mappings and sequences become plain ones, recursively.\<close>

primrec to_json_safe :: "pyval \<Rightarrow> pyval" where
  "to_json_safe PNone = PNone"
| "to_json_safe (PBool b) = PBool b"
| "to_json_safe (PInt n) = PInt n"
| "to_json_safe (PFloat x) = PFloat x"
| "to_json_safe (PStr s) = PStr s"
| "to_json_safe (PList xs) = PList (map to_json_safe xs)"
| "to_json_safe (PDict d) = PDict (map (map_prod id to_json_safe) d)"

lemma to_json_safe_id [simp]: "to_json_safe v = v"
proof (induction v)
  case (PDict d)
  then have "map (map_prod id to_json_safe) d = map id d"
    by (intro map_cong) (auto simp: snds.simps)
  then show ?case by simp
qed (auto intro: map_idI)

record BasisLocalTokenClaims =
  bc_issuer :: string
  bc_subject_id :: string
  bc_audience :: "pyval list"
  bc_issued_at :: datetime
  bc_expires_at :: datetime
  bc_token_id :: string
  bc_token_type :: string
  bc_session_id :: string
  bc_provider_id :: string
  bc_authority_mode :: string
  bc_authentication_protocol :: string
  bc_canonical_identity :: "pyval dict"
  bc_raw_claims :: "pyval dict"

text \<open>\<^verbatim>\<open>d[k]\<close>.\<close>

definition getitem :: "pyval dict \<Rightarrow> string \<Rightarrow> pyval res" where
  "getitem d k = (case map_of d k of None \<Rightarrow> Inl (PyError (KeyError (k, []))) | Some v \<Rightarrow> Inr v)"

definition claim_string :: "string \<Rightarrow> pyval \<Rightarrow> string res" where
  "claim_string label v = (case v of
      PStr s \<Rightarrow> (if blank s then Inl (claims_error ''claim must be a non-empty string'' [label]) else Inr s)
    | _ \<Rightarrow> Inl (claims_error ''claim must be a non-empty string'' [label]))"

definition audience_claim :: "pyval \<Rightarrow> pyval list res" where
  "audience_claim v = (case v of PStr s \<Rightarrow> Inr [PStr s] | PList xs \<Rightarrow> Inr xs
    | _ \<Rightarrow> Inl (claims_error ''aud claim must be a string or list of strings'' []))"

text \<open>The body of the \<^verbatim>\<open>try\<close> of \<^verbatim>\<open>_basis_local_claims_from_verified_payload\<close>, in source order:
  first the items are fetched, then the string claims are checked.\<close>

definition claims_body :: "pyval dict \<Rightarrow> BasisLocalTokenClaims res" where
  "claims_body payload =
     res_bind (getitem payload ''basis'') (\<lambda>basis_value.
     case basis_value of PDict basis \<Rightarrow>
     res_bind (getitem payload ''iss'') (\<lambda>issuer.
     res_bind (getitem payload ''sub'') (\<lambda>sid.
     res_bind (getitem payload ''jti'') (\<lambda>token_id.
     res_bind (getitem payload ''typ'') (\<lambda>token_type.
     res_bind (res_bind (getitem payload ''aud'') audience_claim) (\<lambda>audience.
     res_bind (res_bind (getitem payload ''iat'') (\<lambda>v. timestamp_to_datetime v ''iat'')) (\<lambda>issued_at.
     res_bind (res_bind (getitem payload ''exp'') (\<lambda>v. timestamp_to_datetime v ''exp'')) (\<lambda>expires_at.
     res_bind (getitem basis ''session_id'') (\<lambda>session_id.
     res_bind (getitem basis ''provider_id'') (\<lambda>provider_id.
     res_bind (getitem basis ''authority_mode'') (\<lambda>authority_mode.
     res_bind (getitem basis ''authentication_protocol'') (\<lambda>authentication_protocol.
     res_bind (getitem basis ''canonical_identity'') (\<lambda>canonical_value.
     case canonical_value of PDict canonical_identity \<Rightarrow>
     res_bind (claim_string ''iss'' issuer) (\<lambda>i.
     res_bind (claim_string ''sub'' sid) (\<lambda>s.
     res_bind (claim_string ''jti'' token_id) (\<lambda>j.
     res_bind (claim_string ''typ'' token_type) (\<lambda>t.
     res_bind (claim_string ''basis.session_id'' session_id) (\<lambda>se.
     res_bind (claim_string ''basis.provider_id'' provider_id) (\<lambda>pr.
     res_bind (claim_string ''basis.authority_mode'' authority_mode) (\<lambda>au.
     res_bind (claim_string ''basis.authentication_protocol'' authentication_protocol) (\<lambda>ap.
       Inr \<lparr>bc_issuer = i, bc_subject_id = s, bc_audience = audience, bc_issued_at = issued_at,
            bc_expires_at = expires_at, bc_token_id = j, bc_token_type = t, bc_session_id = se,
            bc_provider_id = pr, bc_authority_mode = au, bc_authentication_protocol = ap,
            bc_canonical_identity = canonical_identity, bc_raw_claims = payload\<rparr>))))))))
     | _ \<Rightarrow> Inl (claims_error ''basis.canonical_identity claim must be an object'' [])))))))))))))
     | _ \<Rightarrow> Inl (claims_error ''basis claim must be an object'' []))"

text \<open>\<^verbatim>\<open>except BasisLocalTokenClaimsError: raise\<close>, then
  \<^verbatim>\<open>except (KeyError, TypeError, ValueError)\<close>; anything else escapes.\<close>

definition wrap_claims_error :: "exn \<Rightarrow> exn" where
  "wrap_claims_error e = (case e of
      PyError (KeyError m) \<Rightarrow> claims_error ''verified token payload is missing a required claim or is malformed'' []
    | PyError (TypeError m) \<Rightarrow> claims_error ''verified token payload is missing a required claim or is malformed'' []
    | PyError (ValueError m) \<Rightarrow> claims_error ''verified token payload is missing a required claim or is malformed'' []
    | _ \<Rightarrow> e)"

definition basis_local_claims_from_verified_payload :: "pyval dict \<Rightarrow> BasisLocalTokenClaims res" where
  "basis_local_claims_from_verified_payload payload =
     (case claims_body payload of Inl e \<Rightarrow> Inl (wrap_claims_error e) | Inr c \<Rightarrow> Inr c)"

section \<open>The verification result\<close>

record BasisLocalTokenVerificationResult =
  br_subject_id :: string
  br_issuer :: string
  br_audience :: "pyval list"
  br_token_id :: string
  br_token_type :: string
  br_session_id :: string
  br_provider_id :: string
  br_authority_mode :: string
  br_authentication_protocol :: string
  br_canonical_identity :: "pyval dict"
  br_claims :: "pyval dict"

text \<open>The string fields with the names the constructor checks them under, in order.\<close>

definition result_strings :: "BasisLocalTokenVerificationResult \<Rightarrow> string dict" where
  "result_strings r =
     [(''subject_id'', br_subject_id r), (''issuer'', br_issuer r), (''token_id'', br_token_id r),
      (''token_type'', br_token_type r), (''session_id'', br_session_id r),
      (''provider_id'', br_provider_id r), (''authority_mode'', br_authority_mode r),
      (''authentication_protocol'', br_authentication_protocol r)]"

definition result_post_init ::
    "BasisLocalTokenVerificationResult \<Rightarrow> BasisLocalTokenVerificationResult res" where
  "result_post_init r = (case find (\<lambda>(name, v). blank v) (result_strings r) of
      Some (name, v) \<Rightarrow> Inl (claims_error (name @ '' must be a non-empty string'') [])
    | None \<Rightarrow>
        (if br_audience r = [] then Inl (claims_error ''audience must be a non-empty tuple of strings'' [])
         else res_bind (assert_no_authorization_shaped_keys (PDict (br_canonical_identity r))) (\<lambda>_.
              res_bind (assert_no_authorization_shaped_keys (PDict (br_claims r))) (\<lambda>_. Inr r))))"

definition result_to_dict :: "BasisLocalTokenVerificationResult \<Rightarrow> pyval dict" where
  "result_to_dict r =
     [(''subject_id'', PStr (br_subject_id r)), (''issuer'', PStr (br_issuer r)),
      (''audience'', PList (br_audience r)), (''token_id'', PStr (br_token_id r)),
      (''token_type'', PStr (br_token_type r)), (''session_id'', PStr (br_session_id r)),
      (''provider_id'', PStr (br_provider_id r)), (''authority_mode'', PStr (br_authority_mode r)),
      (''authentication_protocol'', PStr (br_authentication_protocol r)),
      (''canonical_identity'', to_json_safe (PDict (br_canonical_identity r))),
      (''claims'', to_json_safe (PDict (br_claims r)))]"

definition result_from_claims :: "BasisLocalTokenClaims \<Rightarrow> BasisLocalTokenVerificationResult res" where
  "result_from_claims c = result_post_init
     \<lparr>br_subject_id = bc_subject_id c, br_issuer = bc_issuer c, br_audience = bc_audience c,
      br_token_id = bc_token_id c, br_token_type = bc_token_type c, br_session_id = bc_session_id c,
      br_provider_id = bc_provider_id c, br_authority_mode = bc_authority_mode c,
      br_authentication_protocol = bc_authentication_protocol c,
      br_canonical_identity = bc_canonical_identity c, br_claims = bc_raw_claims c\<rparr>"

section \<open>Verification\<close>

definition local_decode_args ::
    "BasisLocalTokenTrustConfig \<Rightarrow> string \<Rightarrow> string \<Rightarrow> string \<Rightarrow> decode_args" where
  "local_decode_args tc token key alg =
     \<lparr>da_token = token, da_key = key, da_algorithms = [alg], da_audience = Some (tc_audience tc),
      da_issuer = tc_issuer tc, da_leeway = tc_leeway_seconds tc,
      da_require = [''exp'', ''iss'', ''aud'', ''sub'', ''iat'', ''jti'']\<rparr>"

text \<open>The exception clauses around \<^verbatim>\<open>jwt.decode\<close>, in order.\<close>

definition local_decode_error :: "jwt_exn \<Rightarrow> exn" where
  "local_decode_error e = (case e of
      ExpiredSignatureError \<Rightarrow> AuthenticationError (BasisLocalTokenVerificationError (''token is expired'', []))
    | ImmatureSignatureError \<Rightarrow> AuthenticationError (BasisLocalTokenVerificationError (''token is not yet valid'', []))
    | InvalidAudienceError \<Rightarrow> AuthenticationError (BasisLocalTokenVerificationError (''token audience does not match'', []))
    | InvalidIssuerError \<Rightarrow> AuthenticationError (BasisLocalTokenVerificationError (''token issuer does not match'', []))
    | MissingRequiredClaimError c \<Rightarrow> claims_error ''token is missing required claim'' [c]
    | InvalidSignatureError \<Rightarrow> AuthenticationError (BasisLocalTokenSignatureError (''token signature failed verification'', []))
    | DecodeError \<Rightarrow> AuthenticationError (BasisLocalTokenSignatureError (''token could not be decoded'', []))
    | OtherInvalidTokenError \<Rightarrow> AuthenticationError (BasisLocalTokenVerificationError (''token failed standard claim validation'', []))
    | _ \<Rightarrow> raise_jwt e)"

text \<open>The header stage: the stripped key id and algorithm, and the configured key.\<close>

definition header_string :: "string \<Rightarrow> string \<Rightarrow> pyval dict \<Rightarrow> string res" where
  "header_string name message header = (case dict_get header name of
      PStr s \<Rightarrow> (if blank s then Inl (header_error message []) else Inr (strip s))
    | _ \<Rightarrow> Inl (header_error message []))"

definition select_key ::
    "BasisLocalTokenTrustConfig \<Rightarrow> pyval dict \<Rightarrow> (string \<times> string \<times> string) res" where
  "select_key tc header =
     res_bind (header_string ''kid'' ''token header is missing a non-empty kid'' header) (\<lambda>kid.
     res_bind (header_string ''alg'' ''token header is missing the alg parameter'' header) (\<lambda>alg.
       if lower alg = UNSIGNED_ALGORITHM
       then Inl (header_error ''unsigned tokens (alg=none) are not accepted'' [])
       else if startswith SYMMETRIC_ALGORITHM_PREFIX (upper alg)
       then Inl (header_error ''symmetric algorithm is not accepted'' [alg])
       else if alg \<notin> set (tc_allowed_algorithms tc)
       then Inl (header_error ''algorithm is not in the configured allow-list'' [alg])
       else case map_of (tc_public_keys_by_id tc) kid of
         None \<Rightarrow> Inl (header_error ''no public key configured for kid'' [kid])
       | Some pem \<Rightarrow> Inr (kid, alg, pem)))"

text \<open>The stage after cryptographic verification.\<close>

definition accept_payload ::
    "BasisLocalTokenTrustConfig \<Rightarrow> pyval dict \<Rightarrow> BasisLocalTokenVerificationResult res" where
  "accept_payload tc payload =
     (let missing = filter (\<lambda>path. \<not> claim_path_present payload path) (tc_required_claims tc) in
      if missing \<noteq> []
      then Inl (claims_error ''verified token payload is missing required claim path(s)'' missing)
      else if dict_get payload ''typ'' \<noteq> PStr BASIS_LOCAL_IDENTITY_TOKEN_TYPE
      then Inl (claims_error ''unexpected token type'' [])
      else res_bind (basis_local_claims_from_verified_payload payload) result_from_claims)"

definition verify_basis_local_identity_token ::
    "jwt_lib \<Rightarrow> BasisLocalTokenTrustConfig \<Rightarrow> string \<Rightarrow> BasisLocalTokenVerificationResult res" where
  "verify_basis_local_identity_token J tc token =
     (if blank token then Inl (header_error ''token must be a non-empty string'' [])
      else case get_unverified_header J token of
        Inl e \<Rightarrow> (if is_InvalidTokenError e
                  then Inl (header_error ''token JOSE header could not be parsed'' [])
                  else Inl (raise_jwt e))
      | Inr header \<Rightarrow>
          res_bind (select_key tc header) (\<lambda>(kid, alg, pem).
            case jwt_decode J (local_decode_args tc token pem alg) of
              Inl e \<Rightarrow> Inl (local_decode_error e)
            | Inr payload \<Rightarrow> accept_payload tc payload))"

section \<open>Conversion to the gateway's identity\<close>

definition local_roles :: "pyval \<Rightarrow> string list" where
  "local_roles subject_data = (case subject_data of
      PDict d \<Rightarrow> (case dict_get d ''roles'' of PList xs \<Rightarrow> sorted_set (str_entries xs) | _ \<Rightarrow> [])
    | _ \<Rightarrow> [])"

definition local_display_name :: "string \<Rightarrow> pyval \<Rightarrow> string" where
  "local_display_name sid subject_data = (case subject_data of
      PDict d \<Rightarrow> (case dict_get d ''display_name'' of
          PStr s \<Rightarrow> if blank s then sid else s | _ \<Rightarrow> sid)
    | _ \<Rightarrow> sid)"

definition local_attributes :: "pyval \<Rightarrow> pyval dict" where
  "local_attributes subject_data = (case subject_data of
      PDict d \<Rightarrow> (case dict_get d ''email'' of
          PStr s \<Rightarrow> if s = [] then [] else [(''email'', PStr s)] | _ \<Rightarrow> [])
    | _ \<Rightarrow> [])"

definition basis_local_verification_result_to_gateway_identity ::
    "BasisLocalTokenVerificationResult \<Rightarrow> NormalizedSubject \<times> IdentityContext" where
  "basis_local_verification_result_to_gateway_identity r =
     (let subject_data = dict_get (br_canonical_identity r) ''subject'' in
      (\<lparr>subject_id = br_subject_id r,
        subject_name = local_display_name (br_subject_id r) subject_data,
        roles = local_roles subject_data,
        attributes = local_attributes subject_data\<rparr>,
       \<lparr>ic_issuer = br_issuer r, ic_subject_id = br_subject_id r, ic_claims = br_claims r\<rparr>))"

section \<open>The key scan\<close>

text \<open>A key occurs in a value: in one of its dictionaries, at any depth.\<close>

inductive has_key :: "string \<Rightarrow> pyval \<Rightarrow> bool" where
  here: "(k, v) \<in> set d \<Longrightarrow> has_key k (PDict d)"
| in_dict: "(k', v) \<in> set d \<Longrightarrow> has_key k v \<Longrightarrow> has_key k (PDict d)"
| in_list: "v \<in> set xs \<Longrightarrow> has_key k v \<Longrightarrow> has_key k (PList xs)"

inductive_simps has_key_simps [simp]:
  "has_key k PNone" "has_key k (PBool b)" "has_key k (PInt n)" "has_key k (PFloat x)"
  "has_key k (PStr s)" "has_key k (PList xs)" "has_key k (PDict d)"

lemma scan_iff:
  "assert_no_authorization_shaped_keys v = Inr () \<longleftrightarrow> (\<forall>k. has_key k v \<longrightarrow> \<not> forbidden_key k)"
  "scan_items d = Inr () \<longleftrightarrow>
     (\<forall>(k, v) \<in> set d. \<not> forbidden_key k \<and> (\<forall>k'. has_key k' v \<longrightarrow> \<not> forbidden_key k'))"
  "scan_list xs = Inr () \<longleftrightarrow> (\<forall>v \<in> set xs. \<forall>k. has_key k v \<longrightarrow> \<not> forbidden_key k)"
  by (induction v and d and xs
      rule: assert_no_authorization_shaped_keys_scan_items_scan_list.induct) (simp_all, blast+)

lemma scan_error:
  "assert_no_authorization_shaped_keys v = Inl e \<Longrightarrow> \<exists>m. e = AuthenticationError (BasisLocalTokenClaimsError m)"
  "scan_items d = Inl e \<Longrightarrow> \<exists>m. e = AuthenticationError (BasisLocalTokenClaimsError m)"
  "scan_list xs = Inl e \<Longrightarrow> \<exists>m. e = AuthenticationError (BasisLocalTokenClaimsError m)"
  by (induction v and d and xs
      rule: assert_no_authorization_shaped_keys_scan_items_scan_list.induct)
    (auto simp: res_bind_eq_Inl claims_error_def split: if_splits)

section \<open>Well-formed trust configurations\<close>

definition trimmed :: "string \<Rightarrow> bool" where
  "trimmed s \<longleftrightarrow> \<not> blank s \<and> strip s = s"

definition asymmetric :: "string \<Rightarrow> bool" where
  "asymmetric alg \<longleftrightarrow> lower alg \<noteq> ''none'' \<and> \<not> startswith ''HS'' (upper alg)"

definition wf_trust :: "BasisLocalTokenTrustConfig \<Rightarrow> bool" where
  "wf_trust tc \<longleftrightarrow> trimmed (tc_issuer tc)
     \<and> tc_audience tc \<noteq> [] \<and> list_all trimmed (tc_audience tc)
     \<and> tc_public_keys_by_id tc \<noteq> []
     \<and> list_all (\<lambda>(kid, pem). trimmed kid \<and> \<not> blank pem \<and> \<not> contains ''PRIVATE KEY'' (upper pem))
         (tc_public_keys_by_id tc)
     \<and> tc_allowed_algorithms tc \<noteq> []
     \<and> list_all (\<lambda>a. trimmed a \<and> asymmetric a) (tc_allowed_algorithms tc)
     \<and> tc_required_claims tc \<noteq> []
     \<and> list_all (\<lambda>p. trimmed p \<and> \<not> has_forbidden_term p) (tc_required_claims tc)
     \<and> 0 \<le> tc_leeway_seconds tc"

lemma trimmed_string_Inr: "trimmed_string m m' v = Inr s \<longleftrightarrow> v = PStr s \<and> trimmed s"
  by (auto simp: trimmed_string_def trimmed_def split: pyval.splits if_splits)

lemma res_map_strings:
  assumes "\<And>v s. f v = Inr s \<longleftrightarrow> v = PStr s \<and> P s"
  shows "res_map f xs = Inr ys \<longleftrightarrow> xs = map PStr ys \<and> list_all P ys"
proof (induction xs arbitrary: ys)
  case (Cons x xs)
  then show ?case using assms by (cases ys) auto
qed auto

lemma algorithm_string_Inr:
  "validate_algorithm_string v n = Inr s \<longleftrightarrow> v = PStr s \<and> trimmed s \<and> asymmetric s"
  by (auto simp: validate_algorithm_string_def require_no_surrounding_whitespace_def
      trimmed_string_Inr asymmetric_def UNSIGNED_ALGORITHM_def SYMMETRIC_ALGORITHM_PREFIX_def
      split: if_splits)

lemma public_keys_Inr:
  "res_map public_key_entry d = Inr ks \<longleftrightarrow> d = map (\<lambda>(k, p). (k, PStr p)) ks \<and>
     list_all (\<lambda>(kid, pem). trimmed kid \<and> \<not> blank pem \<and> \<not> contains ''PRIVATE KEY'' (upper pem)) ks"
proof (induction d arbitrary: ks)
  case (Cons x d)
  have "public_key_entry x = Inr (kid, pem) \<longleftrightarrow> x = (kid, PStr pem) \<and>
      trimmed kid \<and> \<not> blank pem \<and> \<not> contains ''PRIVATE KEY'' (upper pem)" for kid pem
    by (cases x) (auto simp: public_key_entry_def trimmed_def split: if_splits pyval.splits)
  then show ?case using Cons.IH by (cases ks) (auto split: prod.splits)
qed auto

lemma claim_paths_ok:
  "reject_authorization_shaped_claim_paths ps = Inr () \<longleftrightarrow> list_all (\<lambda>p. \<not> has_forbidden_term p) ps"
  by (auto simp: reject_authorization_shaped_claim_paths_def find_None_iff list_all_iff
      split: option.splits) (metis find_None_iff option.distinct(1))

lemma audience_Inr:
  "normalize_audience v = Inr a \<longleftrightarrow>
     a \<noteq> [] \<and> list_all trimmed a \<and> (v = PList (map PStr a) \<or> (\<exists>s. v = PStr s \<and> a = [s]))"
proof -
  have m: "res_map audience_entry xs = Inr ys \<longleftrightarrow> xs = map PStr ys \<and> list_all trimmed ys" for xs ys
    by (rule res_map_strings) (simp add: audience_entry_def trimmed_string_Inr)
  show ?thesis unfolding normalize_audience_def m [symmetric]
    by (cases v) (auto simp: m Cons_eq_map_conv simp del: res_map.simps)
qed

lemma algorithms_Inr:
  "validate_allowed_algorithms v = Inr a \<longleftrightarrow>
     a \<noteq> [] \<and> v = PList (map PStr a) \<and> list_all (\<lambda>a. trimmed a \<and> asymmetric a) a"
proof -
  have m: "res_map (\<lambda>x. validate_algorithm_string x ''allowed_algorithms entry'') xs = Inr ys
      \<longleftrightarrow> xs = map PStr ys \<and> list_all (\<lambda>a. trimmed a \<and> asymmetric a) ys" for xs ys
    by (rule res_map_strings) (simp add: algorithm_string_Inr)
  show ?thesis unfolding validate_allowed_algorithms_def by (cases v) (auto simp: m)
qed

lemma required_claims_Inr:
  "validate_required_claims v = Inr a \<longleftrightarrow>
     a \<noteq> [] \<and> v = PList (map PStr a) \<and> list_all (\<lambda>p. trimmed p \<and> \<not> has_forbidden_term p) a"
proof -
  have m: "res_map required_claim_entry xs = Inr ys \<longleftrightarrow> xs = map PStr ys \<and> list_all trimmed ys" for xs ys
    by (rule res_map_strings) (simp add: required_claim_entry_def trimmed_string_Inr)
  show ?thesis unfolding validate_required_claims_def
    by (cases v) (auto simp: m claim_paths_ok list_all_iff)
qed

lemma make_trust_config_Inr:
  "make_trust_config i a ks al rc l = Inr tc \<longleftrightarrow> wf_trust tc
     \<and> i = PStr (tc_issuer tc)
     \<and> (a = PList (map PStr (tc_audience tc)) \<or> (\<exists>s. a = PStr s \<and> tc_audience tc = [s]))
     \<and> ks = PDict (map (\<lambda>(k, p). (k, PStr p)) (tc_public_keys_by_id tc))
     \<and> al = PList (map PStr (tc_allowed_algorithms tc))
     \<and> rc = PList (map PStr (tc_required_claims tc))
     \<and> l = PInt (tc_leeway_seconds tc)"
proof -
  have k: "validate_public_keys_by_id v = Inr d \<longleftrightarrow> d \<noteq> [] \<and> v = PDict (map (\<lambda>(k, p). (k, PStr p)) d)
      \<and> list_all (\<lambda>(kid, pem). trimmed kid \<and> \<not> blank pem \<and> \<not> contains ''PRIVATE KEY'' (upper pem)) d" for v d
    unfolding validate_public_keys_by_id_def by (cases v) (auto simp: public_keys_Inr)
  have l: "validate_leeway_seconds v = Inr n \<longleftrightarrow> v = PInt n \<and> 0 \<le> n" for v n
    by (auto simp: validate_leeway_seconds_def split: pyval.splits)
  show ?thesis
    unfolding make_trust_config_def res_bind_eq_Inr require_no_surrounding_whitespace_def
      trimmed_string_Inr audience_Inr k algorithms_Inr required_claims_Inr l wf_trust_def
    by (cases tc) (simp, blast)
qed

section \<open>Errors\<close>

text \<open>The errors of this module, and the two built-in errors a time stamp may raise.\<close>

definition local_token_error :: "exn \<Rightarrow> bool" where
  "local_token_error e \<longleftrightarrow> (case e of
      AuthenticationError (BasisLocalTokenConfigError m) \<Rightarrow> True
    | AuthenticationError (BasisLocalTokenHeaderError m) \<Rightarrow> True
    | AuthenticationError (BasisLocalTokenSignatureError m) \<Rightarrow> True
    | AuthenticationError (BasisLocalTokenVerificationError m) \<Rightarrow> True
    | AuthenticationError (BasisLocalTokenClaimsError m) \<Rightarrow> True
    | _ \<Rightarrow> False)"

definition timestamp_escape :: "exn \<Rightarrow> bool" where
  "timestamp_escape e \<longleftrightarrow> (case e of PyError (OverflowError m) \<Rightarrow> True | PyError (OSError m) \<Rightarrow> True | _ \<Rightarrow> False)"

lemma local_token_error_intros [simp]:
  "local_token_error (config_error m xs)" "local_token_error (claims_error m xs)"
  "local_token_error (header_error m xs)"
  "local_token_error (AuthenticationError (BasisLocalTokenClaimsError c))"
  by (simp_all add: local_token_error_def config_error_def claims_error_def header_error_def)

lemma fromtimestamp_error:
  "fromtimestamp_us us = Inl e \<Longrightarrow> timestamp_escape e \<or> (\<exists>m. e = PyError (ValueError m))"
  by (auto simp: fromtimestamp_us_def timestamp_escape_def Let_def split: if_splits)

lemma timestamp_error:
  "timestamp_to_datetime v f = Inl e \<Longrightarrow>
     local_token_error e \<or> timestamp_escape e \<or> (\<exists>m. e = PyError (ValueError m))"
  using fromtimestamp_error
  by (auto simp: timestamp_to_datetime_def fromtimestamp_int_def fromtimestamp_float_def
      timestamp_escape_def split: pyval.splits pyfloat.splits)

lemma claim_string_error: "claim_string l v = Inl e \<Longrightarrow> local_token_error e"
  by (auto simp: claim_string_def split: pyval.splits if_splits)

lemma audience_claim_error: "audience_claim v = Inl e \<Longrightarrow> local_token_error e"
  by (auto simp: audience_claim_def split: pyval.splits)

lemma getitem_error: "getitem d k = Inl e \<Longrightarrow> e = PyError (KeyError (k, []))"
  by (auto simp: getitem_def split: option.splits)

text \<open>What the errors of the \<^verbatim>\<open>try\<close> body become after the clauses.\<close>

definition wrapped_ok :: "exn \<Rightarrow> bool" where
  "wrapped_ok e \<longleftrightarrow> local_token_error (wrap_claims_error e) \<or> timestamp_escape (wrap_claims_error e)"

lemma wrapped_okI:
  "local_token_error e \<Longrightarrow> wrapped_ok e" "timestamp_escape e \<Longrightarrow> wrapped_ok e"
  "wrapped_ok (PyError (KeyError m))" "wrapped_ok (PyError (ValueError m))"
  by (auto simp: wrapped_ok_def wrap_claims_error_def local_token_error_def timestamp_escape_def
      claims_error_def split: exn.splits py_exn.splits auth_exn.splits)

definition errs_ok :: "'a res \<Rightarrow> bool" where
  "errs_ok m \<longleftrightarrow> (\<forall>e. m = Inl e \<longrightarrow> wrapped_ok e)"

lemma errs_ok_parts:
  "errs_ok (Inr x)" "errs_ok (Inl (claims_error m xs))"
  "errs_ok (getitem d k)" "errs_ok (claim_string l v)" "errs_ok (audience_claim v)"
  "errs_ok (timestamp_to_datetime v f)"
  unfolding errs_ok_def
  using getitem_error wrapped_okI claim_string_error audience_claim_error timestamp_error
  by (fastforce, fastforce, metis+)

lemma errs_ok_bind: "errs_ok m \<Longrightarrow> (\<And>x. errs_ok (f x)) \<Longrightarrow> errs_ok (res_bind m f)"
  by (auto simp: errs_ok_def res_bind_eq_Inl)

lemma errs_ok_dict:
  "(\<And>d. errs_ok (f d)) \<Longrightarrow> errs_ok (case v of PDict d \<Rightarrow> f d | _ \<Rightarrow> Inl (claims_error m xs))"
  by (cases v) (simp_all add: errs_ok_parts)

lemma claims_body_error: "errs_ok (claims_body payload)"
  unfolding claims_body_def by (intro errs_ok_bind errs_ok_dict errs_ok_parts)

lemma result_post_init_error: "result_post_init r = Inl e \<Longrightarrow> local_token_error e"
  by (auto simp: result_post_init_def res_bind_eq_Inl dest!: scan_error(1,2)
      split: option.splits prod.splits if_splits)

lemma accept_payload_error:
  "accept_payload tc payload = Inl e \<Longrightarrow> local_token_error e \<or> timestamp_escape e"
  using claims_body_error [of payload] result_post_init_error
  by (auto simp: accept_payload_def basis_local_claims_from_verified_payload_def res_bind_eq_Inl
      errs_ok_def wrapped_ok_def result_from_claims_def Let_def split: if_splits sum.splits)

lemma select_key_error: "select_key tc header = Inl e \<Longrightarrow> local_token_error e"
  by (auto simp: select_key_def header_string_def res_bind_eq_Inl
      split: if_splits pyval.splits option.splits)

lemma local_decode_error_ok: "is_InvalidTokenError e \<Longrightarrow> local_token_error (local_decode_error e)"
  by (cases e) (simp_all add: is_InvalidTokenError_def local_decode_error_def local_token_error_def
      claims_error_def)

section \<open>What acceptance implies\<close>

lemma select_key_Inr:
  "select_key tc header = Inr (kid, alg, pem) \<longleftrightarrow>
     (\<exists>k a. map_of header ''kid'' = Some (PStr k) \<and> map_of header ''alg'' = Some (PStr a)
        \<and> \<not> blank k \<and> \<not> blank a \<and> kid = strip k \<and> alg = strip a)
     \<and> asymmetric alg \<and> alg \<in> set (tc_allowed_algorithms tc)
     \<and> map_of (tc_public_keys_by_id tc) kid = Some pem"
proof -
  have h: "header_string n m header = Inr s \<longleftrightarrow>
      (\<exists>k. map_of header n = Some (PStr k) \<and> \<not> blank k \<and> s = strip k)" for n m s
    by (auto simp: header_string_def dict_get_def split: option.splits pyval.splits)
  show ?thesis
    by (auto simp: select_key_def h asymmetric_def UNSIGNED_ALGORITHM_def
        SYMMETRIC_ALGORITHM_PREFIX_def split: if_splits option.splits)
qed

lemma find_blank_None:
  "find (\<lambda>(name, v). blank v) xs = None \<longleftrightarrow> (\<forall>(name, v) \<in> set xs. \<not> blank v)"
  by (auto simp: find_None_iff)

lemma result_post_init_Inr:
  "result_post_init r = Inr r' \<longleftrightarrow> r' = r
     \<and> (\<forall>(name, v) \<in> set (result_strings r). \<not> blank v) \<and> br_audience r \<noteq> []
     \<and> (\<forall>k. has_key k (PDict (br_canonical_identity r)) \<longrightarrow> \<not> forbidden_key k)
     \<and> (\<forall>k. has_key k (PDict (br_claims r)) \<longrightarrow> \<not> forbidden_key k)"
  unfolding result_post_init_def find_blank_None [symmetric] scan_iff(1) [symmetric]
  by (auto split: option.splits)

lemma claims_body_Inr:
  assumes "claims_body payload = Inr c"
  shows "bc_raw_claims c = payload \<and> map_of payload ''sub'' = Some (PStr (bc_subject_id c))
    \<and> map_of payload ''iss'' = Some (PStr (bc_issuer c))
    \<and> map_of payload ''jti'' = Some (PStr (bc_token_id c))
    \<and> (\<exists>basis. map_of payload ''basis'' = Some (PDict basis)
        \<and> map_of basis ''canonical_identity'' = Some (PDict (bc_canonical_identity c))
        \<and> map_of basis ''session_id'' = Some (PStr (bc_session_id c)))"
proof -
  have g: "getitem d k = Inr v \<longleftrightarrow> map_of d k = Some v" for d k v
    by (auto simp: getitem_def split: option.splits)
  have s: "claim_string l v = Inr x \<longleftrightarrow> v = PStr x \<and> \<not> blank x" for l v x
    by (auto simp: claim_string_def split: pyval.splits if_splits)
  show ?thesis using assms
    unfolding claims_body_def res_bind_eq_Inr dict_case_eq_Inr g s by auto
qed

lemma accept_payload_Inr:
  assumes "accept_payload tc payload = Inr r"
  shows "list_all (claim_path_present payload) (tc_required_claims tc)"
    and "map_of payload ''typ'' = Some (PStr BASIS_LOCAL_IDENTITY_TOKEN_TYPE)"
    and "br_claims r = payload" and "map_of payload ''sub'' = Some (PStr (br_subject_id r))"
    and "map_of payload ''iss'' = Some (PStr (br_issuer r))"
    and "\<forall>k. has_key k (PDict payload) \<longrightarrow> \<not> forbidden_key k"
    and "\<not> blank (br_subject_id r)"
proof -
  obtain c where c: "claims_body payload = Inr c" "result_from_claims c = Inr r"
    and req: "filter (\<lambda>path. \<not> claim_path_present payload path) (tc_required_claims tc) = []"
    and ty: "dict_get payload ''typ'' = PStr BASIS_LOCAL_IDENTITY_TOKEN_TYPE"
    using assms
    by (auto simp: accept_payload_def basis_local_claims_from_verified_payload_def Let_def
        split: if_splits sum.splits)
  note body = claims_body_Inr [OF c(1)]
  have post: "\<forall>k. has_key k (PDict (bc_raw_claims c)) \<longrightarrow> \<not> forbidden_key k"
    and r: "br_claims r = bc_raw_claims c" "br_subject_id r = bc_subject_id c"
      "br_issuer r = bc_issuer c" "\<not> blank (br_subject_id r)"
    using c(2) by (auto simp: result_from_claims_def result_post_init_Inr result_strings_def)
  show "list_all (claim_path_present payload) (tc_required_claims tc)"
    using req by (auto simp: filter_empty_conv list_all_iff)
  show "map_of payload ''typ'' = Some (PStr BASIS_LOCAL_IDENTITY_TOKEN_TYPE)"
    using ty by (auto simp: dict_get_def split: option.splits)
  show "br_claims r = payload" "map_of payload ''sub'' = Some (PStr (br_subject_id r))"
    "map_of payload ''iss'' = Some (PStr (br_issuer r))"
    "\<forall>k. has_key k (PDict payload) \<longrightarrow> \<not> forbidden_key k" "\<not> blank (br_subject_id r)"
    using body post r by auto
qed

lemma verify_local_Inr:
  assumes "verify_basis_local_identity_token J tc token = Inr r"
  obtains header kid alg pem payload where "get_unverified_header J token = Inr header"
    and "select_key tc header = Inr (kid, alg, pem)"
    and "jwt_decode J (local_decode_args tc token pem alg) = Inr payload"
    and "accept_payload tc payload = Inr r"
  using assms
  by (auto simp: verify_basis_local_identity_token_def split: if_splits sum.split_asm)

lemma local_identity_wf:
  assumes "verify_basis_local_identity_token J tc token = Inr r"
  shows "wf_identity (basis_local_verification_result_to_gateway_identity r)"
proof -
  have "\<not> blank (br_subject_id r)"
    using assms accept_payload_Inr(7) by (rule verify_local_Inr) blast
  moreover have "sorted (local_roles v)" "distinct (local_roles v)" for v
    by (simp_all add: local_roles_def split: pyval.splits)
  ultimately show ?thesis
    by (auto simp: wf_identity_def basis_local_verification_result_to_gateway_identity_def Let_def)
qed

section \<open>Properties\<close>

text \<open>C24: The trust configuration admits exactly what it may: a constructed configuration
  has a trimmed issuer, at least one trimmed audience, at least one key, no
  PEM body that mentions a private key, only asymmetric algorithms, at least
  one required claim path and none that looks like an authorization claim,
  and a non-negative leeway; every configuration of that shape can be
  constructed, and construction never alters a field.\<close>

theorem trust_config_exact:
  "(make_trust_config i a ks al rc l = Inr tc \<longrightarrow> wf_trust tc
      \<and> i = PStr (tc_issuer tc) \<and> al = PList (map PStr (tc_allowed_algorithms tc))
      \<and> ks = PDict (map (\<lambda>(k, p). (k, PStr p)) (tc_public_keys_by_id tc)))
   \<and> (make_trust_config (PStr (tc_issuer tc)) (PList (map PStr (tc_audience tc)))
        (PDict (map (\<lambda>(k, p). (k, PStr p)) (tc_public_keys_by_id tc)))
        (PList (map PStr (tc_allowed_algorithms tc))) (PList (map PStr (tc_required_claims tc)))
        (PInt (tc_leeway_seconds tc)) = Inr tc \<longleftrightarrow> wf_trust tc)"
  by (simp add: make_trust_config_Inr)

definition stub_trust :: BasisLocalTokenTrustConfig where
  "stub_trust = \<lparr>tc_issuer = ''basis'', tc_audience = [''gw''], tc_public_keys_by_id = [(''k1'', ''PEM'')],
     tc_allowed_algorithms = [''RS256''], tc_required_claims = [''sub'', ''basis.session_id''],
     tc_leeway_seconds = 0\<rparr>"

lemmas string_eval = blank_def strip_def strip_by_def is_space_def lower_def lower_char_def
  upper_def upper_char_def

lemma stub_trust_wf: "wf_trust stub_trust"
  by (simp add: stub_trust_def wf_trust_def trimmed_def asymmetric_def has_forbidden_term_def
      FORBIDDEN_CLAIM_TERMS_def string_eval)

theorem trust_config_exact_witness:
  "make_trust_config (PStr ''basis'') (PList [PStr ''gw'']) (PDict [(''k1'', PStr ''PEM'')])
     (PList [PStr ''RS256'']) (PList [PStr ''sub'', PStr ''basis.session_id'']) (PInt 0) = Inr stub_trust"
  using trust_config_exact [of PNone PNone PNone PNone PNone PNone stub_trust] stub_trust_wf
  by (simp add: stub_trust_def)


definition stub_payload :: "pyval dict" where
  "stub_payload = [(''iss'', PStr ''basis''), (''sub'', PStr ''alice''), (''aud'', PStr ''gw''),
     (''iat'', PInt 1), (''exp'', PInt 2), (''jti'', PStr ''j''), (''typ'', PStr ''basis-local-identity''),
     (''basis'', PDict [(''session_id'', PStr ''s''), (''provider_id'', PStr ''p''),
        (''authority_mode'', PStr ''m''), (''authentication_protocol'', PStr ''oidc''),
        (''canonical_identity'', PDict [(''subject'', PDict [(''roles'', PList [PStr ''op''])])])])]"

definition stub_local_jwt :: "pyval dict \<Rightarrow> jwt_lib" where
  "stub_local_jwt payload = \<lparr>get_unverified_header = (\<lambda>_. Inr [(''alg'', PStr ''RS256''), (''kid'', PStr ''k1'')]),
     jwt_decode = (\<lambda>_. Inr payload), signing_key_from_jwt = (\<lambda>_ _. Inr ''key'')\<rparr>"

lemma stub_select: "select_key stub_trust [(''alg'', PStr ''RS256''), (''kid'', PStr ''k1'')] = Inr (''k1'', ''RS256'', ''PEM'')"
  by (simp add: select_key_def header_string_def dict_get_def string_eval stub_trust_def
      UNSIGNED_ALGORITHM_def SYMMETRIC_ALGORITHM_PREFIX_def)

lemma stub_verify_reduce:
  "verify_basis_local_identity_token (stub_local_jwt payload) stub_trust ''t'' = accept_payload stub_trust payload"
  by (simp add: verify_basis_local_identity_token_def stub_local_jwt_def stub_select)
    (simp add: string_eval)

lemma stub_claims: "claims_body stub_payload = Inr \<lparr>bc_issuer = ''basis'', bc_subject_id = ''alice'',
    bc_audience = [PStr ''gw''], bc_issued_at = Aware 1000000, bc_expires_at = Aware 2000000,
    bc_token_id = ''j'', bc_token_type = ''basis-local-identity'', bc_session_id = ''s'',
    bc_provider_id = ''p'', bc_authority_mode = ''m'', bc_authentication_protocol = ''oidc'',
    bc_canonical_identity = [(''subject'', PDict [(''roles'', PList [PStr ''op''])])],
    bc_raw_claims = stub_payload\<rparr>"
  by (simp add: claims_body_def stub_payload_def getitem_def claim_string_def audience_claim_def
      timestamp_to_datetime_def fromtimestamp_int_def fromtimestamp_us_def)
    (simp add: string_eval)

definition stub_result :: BasisLocalTokenVerificationResult where
  "stub_result = \<lparr>br_subject_id = ''alice'', br_issuer = ''basis'',
     br_audience = [PStr ''gw''], br_token_id = ''j'', br_token_type = ''basis-local-identity'',
     br_session_id = ''s'', br_provider_id = ''p'', br_authority_mode = ''m'',
     br_authentication_protocol = ''oidc'',
     br_canonical_identity = [(''subject'', PDict [(''roles'', PList [PStr ''op''])])],
     br_claims = stub_payload\<rparr>"

lemma stub_keys_ok:
  "assert_no_authorization_shaped_keys (PDict stub_payload) = Inr ()"
  by (simp add: stub_payload_def forbidden_key_def has_forbidden_term_def FORBIDDEN_CLAIM_TERMS_def
      lower_def lower_char_def)

lemma stub_accept: "accept_payload stub_trust stub_payload = Inr stub_result"
proof -
  have "filter (\<lambda>p. \<not> claim_path_present stub_payload p) (tc_required_claims stub_trust) = []"
    by (simp add: stub_trust_def stub_payload_def claim_path_present_def)
  moreover have "dict_get stub_payload ''typ'' = PStr BASIS_LOCAL_IDENTITY_TOKEN_TYPE"
    by (simp add: dict_get_def stub_payload_def BASIS_LOCAL_IDENTITY_TOKEN_TYPE_def)
  moreover have "result_post_init stub_result = Inr stub_result"
  proof -
    have "find (\<lambda>(n, v). blank v) (result_strings stub_result) = None"
      by (simp add: stub_result_def result_strings_def string_eval)
    moreover have "assert_no_authorization_shaped_keys (PDict (br_canonical_identity stub_result)) = Inr ()"
      by (simp add: stub_result_def forbidden_key_def has_forbidden_term_def FORBIDDEN_CLAIM_TERMS_def
          lower_def lower_char_def)
    ultimately show ?thesis unfolding result_post_init_def
      using stub_keys_ok by (simp add: stub_result_def)
  qed
  ultimately show ?thesis
    unfolding accept_payload_def basis_local_claims_from_verified_payload_def stub_claims
      result_from_claims_def by (simp add: stub_result_def)
qed


text \<open>C25: The authorization scan over a verified payload passes exactly when no dictionary
  key at any depth, other than the exempt \<^verbatim>\<open>allowed_algorithms\<close>, contains one of
  the nine forbidden words in any letter case; a failing scan is a claims error.\<close>

theorem authorization_scan_exact:
  "(assert_no_authorization_shaped_keys v = Inr () \<longleftrightarrow>
      (\<forall>k. has_key k v \<longrightarrow> k = ''allowed_algorithms'' \<or>
         \<not> (\<exists>term \<in> set FORBIDDEN_CLAIM_TERMS. \<exists>x y. lower k = x @ term @ y)))
   \<and> (\<forall>e. assert_no_authorization_shaped_keys v = Inl e \<longrightarrow>
        (\<exists>m. e = AuthenticationError (BasisLocalTokenClaimsError m)))"
  using scan_error(1) [of v]
  by (simp add: scan_iff(1) forbidden_key_def AUTHORIZATION_SCAN_EXEMPT_KEYS_def
      has_forbidden_term_def list_ex_iff contains_iff)

theorem authorization_scan_exact_witness:
  "\<exists>m. assert_no_authorization_shaped_keys (PList [PDict [(''PolicyId'', PNone)]])
     = Inl (AuthenticationError (BasisLocalTokenClaimsError m))"
proof -
  let ?v = "PList [PDict [(''PolicyId'', PNone)]]"
  have "has_key ''PolicyId'' ?v" by simp
  moreover have "lower ''PolicyId'' = [] @ ''policy'' @ ''id''" by code_simp
  moreover have "''policy'' \<in> set FORBIDDEN_CLAIM_TERMS" by (simp add: FORBIDDEN_CLAIM_TERMS_def)
  moreover have "''PolicyId'' \<noteq> ''allowed_algorithms''" by simp
  ultimately have "assert_no_authorization_shaped_keys ?v \<noteq> Inr ()"
    unfolding authorization_scan_exact [THEN conjunct1] by blast
  then show ?thesis using authorization_scan_exact [of ?v]
    by (cases "assert_no_authorization_shaped_keys ?v") auto
qed


definition overflow_payload :: "pyval dict" where
  "overflow_payload = dict_set stub_payload ''exp'' (PInt (10 ^ 30))"

lemma overflow_accept: "accept_payload stub_trust overflow_payload
    = Inl (PyError (OverflowError (''timestamp out of range'', [])))"
  by (simp add: accept_payload_def overflow_payload_def stub_payload_def stub_trust_def
      claim_path_present_def dict_get_def BASIS_LOCAL_IDENTITY_TOKEN_TYPE_def
      basis_local_claims_from_verified_payload_def claims_body_def getitem_def audience_claim_def
      timestamp_to_datetime_def fromtimestamp_int_def fromtimestamp_us_def wrap_claims_error_def)


section \<open>Printed forms\<close>

text \<open>The three \<^verbatim>\<open>__repr__\<close> methods; \<^verbatim>\<open>rep\<close> is Python's \<^verbatim>\<open>repr\<close> of a value.\<close>

definition repr_fields :: "(pyval \<Rightarrow> string) \<Rightarrow> string \<Rightarrow> pyval dict \<Rightarrow> string" where
  "repr_fields rep name entries =
     name @ ''('' @ joined '', '' (map (\<lambda>(k, v). k @ ''='' @ rep v) entries) @ '')''"

definition trust_config_repr :: "(pyval \<Rightarrow> string) \<Rightarrow> BasisLocalTokenTrustConfig \<Rightarrow> string" where
  "trust_config_repr rep tc = repr_fields rep ''BasisLocalTokenTrustConfig''
     [(''issuer'', PStr (tc_issuer tc)), (''audience'', PList (map PStr (tc_audience tc))),
      (''public_key_ids'', PList (map PStr (sort (map fst (tc_public_keys_by_id tc))))),
      (''public_key_count'', PInt (int (length (tc_public_keys_by_id tc)))),
      (''allowed_algorithms'', PList (map PStr (tc_allowed_algorithms tc))),
      (''required_claims'', PList (map PStr (tc_required_claims tc))),
      (''leeway_seconds'', PInt (tc_leeway_seconds tc))]"

definition claims_repr :: "(pyval \<Rightarrow> string) \<Rightarrow> BasisLocalTokenClaims \<Rightarrow> string" where
  "claims_repr rep bc = repr_fields rep ''BasisLocalTokenClaims''
     [(''token_id'', PStr (bc_token_id bc)), (''issuer'', PStr (bc_issuer bc)),
      (''subject_id'', PStr (bc_subject_id bc)), (''session_id'', PStr (bc_session_id bc)),
      (''provider_id'', PStr (bc_provider_id bc)), (''token_type'', PStr (bc_token_type bc))]"

definition result_repr :: "(pyval \<Rightarrow> string) \<Rightarrow> BasisLocalTokenVerificationResult \<Rightarrow> string" where
  "result_repr rep r = repr_fields rep ''BasisLocalTokenVerificationResult''
     [(''subject_id'', PStr (br_subject_id r)), (''issuer'', PStr (br_issuer r)),
      (''audience'', PList (br_audience r)), (''token_id'', PStr (br_token_id r)),
      (''token_type'', PStr (br_token_type r)), (''session_id'', PStr (br_session_id r)),
      (''provider_id'', PStr (br_provider_id r)), (''authority_mode'', PStr (br_authority_mode r)),
      (''authentication_protocol'', PStr (br_authentication_protocol r))]"

text \<open>Neither the serialized nor the printed form of a trust configuration depends on the key bodies:
  two configurations that agree on everything but the PEM text look the same.\<close>

theorem trust_config_hides_keys:
  "trust_config_to_dict (tc\<lparr>tc_public_keys_by_id := map (\<lambda>(k, p). (k, f k p)) (tc_public_keys_by_id tc)\<rparr>)
     = trust_config_to_dict tc
   \<and> trust_config_repr rep (tc\<lparr>tc_public_keys_by_id := map (\<lambda>(k, p). (k, f k p)) (tc_public_keys_by_id tc)\<rparr>)
     = trust_config_repr rep tc"
  by (simp add: trust_config_to_dict_def trust_config_repr_def comp_def case_prod_beta)

end
