(* ===== verification/GW_Auth_Runtime.thy ===== *)
theory GW_Auth_Runtime
  imports GW_Local_Token GW_Config
begin

text \<open>
  \<^verbatim>\<open>auth/runtime.py\<close>: dispatch of a token to the verifier of the configured
  authentication mode, and the trust configuration built at startup. The
  locale \<^verbatim>\<open>identity_source\<close> is what the request handlers rely on; both modes
  and the dispatcher itself are interpretations of it.
\<close>

section \<open>Operations\<close>

definition authenticate ::
    "jwt_lib \<Rightarrow> AuthMode \<Rightarrow> string \<Rightarrow> OIDCVerifier option \<Rightarrow> BasisLocalTokenTrustConfig option
     \<Rightarrow> (NormalizedSubject \<times> IdentityContext) res" where
  "authenticate J mode token oidc_verifier basis_local_trust_config = (case mode of
      OIDC \<Rightarrow> (case oidc_verifier of
          None \<Rightarrow> Inl (AuthenticationError (AuthNotConfiguredError (''OIDC verifier not initialized'', [])))
        | Some v \<Rightarrow> res_bind (OIDCVerifier_verify J v token) (\<lambda>claims.
            case map_claims claims of Inl e \<Rightarrow> Inl (AuthenticationError e) | Inr i \<Rightarrow> Inr i))
    | BASIS_LOCAL_TOKEN \<Rightarrow> (case basis_local_trust_config of
          None \<Rightarrow> Inl (AuthenticationError
            (AuthNotConfiguredError (''BASIS-local token trust config not initialized'', [])))
        | Some tc \<Rightarrow> res_bind (verify_basis_local_identity_token J tc token) (\<lambda>r.
            Inr (basis_local_verification_result_to_gateway_identity r))))"

definition split_csv :: "string \<Rightarrow> string list" where
  "split_csv v = csv_parts v"

definition build_basis_local_token_trust_config ::
    "(string \<Rightarrow> pyval option) \<Rightarrow> GatewayConfig \<Rightarrow> BasisLocalTokenTrustConfig res" where
  "build_basis_local_token_trust_config json_loads config =
     (case (basis_local_token_issuer config, basis_local_token_audience config,
            basis_local_token_public_keys_json config) of
        (issuer, audience, keys) \<Rightarrow>
          if \<not> truthy_opt issuer
          then Inl (EvaluationConfigError (''BASIS_LOCAL_TOKEN_ISSUER is required'', []))
          else if \<not> truthy_opt audience
          then Inl (EvaluationConfigError (''BASIS_LOCAL_TOKEN_AUDIENCE is required'', []))
          else if \<not> truthy_opt keys
          then Inl (EvaluationConfigError (''BASIS_LOCAL_TOKEN_PUBLIC_KEYS_JSON is required'', []))
          else case json_loads (opt_or keys []) of
            None \<Rightarrow> Inl (EvaluationConfigError (''BASIS_LOCAL_TOKEN_PUBLIC_KEYS_JSON is not valid JSON'', []))
          | Some (PDict d) \<Rightarrow>
              (if d = [] then Inl (EvaluationConfigError
                 (''BASIS_LOCAL_TOKEN_PUBLIC_KEYS_JSON must decode to a non-empty JSON object'', []))
               else make_trust_config (PStr (opt_or issuer []))
                 (PList (map PStr (split_csv (opt_or audience []))))
                 (PDict d)
                 (PList (map PStr (split_csv (basis_local_token_allowed_algorithms config))))
                 (PList (map PStr DEFAULT_REQUIRED_BASIS_TOKEN_CLAIMS))
                 (PInt (basis_local_token_leeway_seconds config)))
          | Some _ \<Rightarrow> Inl (EvaluationConfigError
                 (''BASIS_LOCAL_TOKEN_PUBLIC_KEYS_JSON must decode to a non-empty JSON object'', [])))"

section \<open>The contract of an identity source\<close>

text \<open>
  \<^verbatim>\<open>identify\<close> turns a token into an identity; \<^verbatim>\<open>verified token claims\<close> says that
  these claims came out of a successful cryptographic verification of that token.
\<close>

locale identity_source =
  fixes identify :: "string \<Rightarrow> (NormalizedSubject \<times> IdentityContext) res"
    and verified :: "string \<Rightarrow> pyval dict \<Rightarrow> bool"
  assumes identify_wf: "identify t = Inr i \<Longrightarrow> wf_identity i"
    and identify_verified: "identify t = Inr (s, c) \<Longrightarrow> verified t (ic_claims c)"
    and identify_sub: "identify t = Inr (s, c) \<Longrightarrow> map_of (ic_claims c) ''sub'' = Some (PStr (subject_id s))"
begin

lemma subject_nonempty: "identify t = Inr (s, c) \<Longrightarrow> subject_id s \<noteq> []"
  using identify_wf [of t "(s, c)"] by (simp add: wf_identity_def)

lemma subject_from_verified:
  "identify t = Inr (s, c) \<Longrightarrow>
     \<exists>claims. verified t claims \<and> map_of claims ''sub'' = Some (PStr (subject_id s))"
  using identify_verified identify_sub by blast

lemma unverified_rejected: "\<forall>claims. \<not> verified t claims \<Longrightarrow> \<exists>e. identify t = Inl e"
  using identify_verified by (cases "identify t") auto

end

text \<open>Verification in each mode, as the library's decoding call states it.\<close>

definition oidc_verified :: "jwt_lib \<Rightarrow> OIDCVerifier \<Rightarrow> string \<Rightarrow> pyval dict \<Rightarrow> bool" where
  "oidc_verified J v t claims \<longleftrightarrow>
     (\<exists>uri key. v_cache v = Some uri \<and> signing_key_from_jwt J uri t = Inr key
        \<and> jwt_decode J (oidc_decode_args v t key) = Inr claims)"

definition local_verified :: "jwt_lib \<Rightarrow> BasisLocalTokenTrustConfig \<Rightarrow> string \<Rightarrow> pyval dict \<Rightarrow> bool" where
  "local_verified J tc t claims \<longleftrightarrow>
     (\<exists>kid alg pem. map_of (tc_public_keys_by_id tc) kid = Some pem
        \<and> alg \<in> set (tc_allowed_algorithms tc) \<and> asymmetric alg
        \<and> jwt_decode J (local_decode_args tc t pem alg) = Inr claims)"

definition mode_verified ::
    "jwt_lib \<Rightarrow> AuthMode \<Rightarrow> OIDCVerifier option \<Rightarrow> BasisLocalTokenTrustConfig option
     \<Rightarrow> string \<Rightarrow> pyval dict \<Rightarrow> bool" where
  "mode_verified J mode ov tc t claims \<longleftrightarrow> (case mode of
      OIDC \<Rightarrow> (case ov of None \<Rightarrow> False | Some v \<Rightarrow> oidc_verified J v t claims)
    | BASIS_LOCAL_TOKEN \<Rightarrow> (case tc of None \<Rightarrow> False | Some c \<Rightarrow> local_verified J c t claims))"

definition oidc_identify :: "jwt_lib \<Rightarrow> OIDCVerifier \<Rightarrow> string \<Rightarrow> (NormalizedSubject \<times> IdentityContext) res" where
  "oidc_identify J v t = authenticate J OIDC t (Some v) None"

definition local_identify ::
    "jwt_lib \<Rightarrow> BasisLocalTokenTrustConfig \<Rightarrow> string \<Rightarrow> (NormalizedSubject \<times> IdentityContext) res" where
  "local_identify J tc t = authenticate J BASIS_LOCAL_TOKEN t None (Some tc)"

lemma authenticate_modes:
  "authenticate J OIDC t ov tc = (case ov of
      None \<Rightarrow> Inl (AuthenticationError (AuthNotConfiguredError (''OIDC verifier not initialized'', [])))
    | Some v \<Rightarrow> oidc_identify J v t)"
  "authenticate J BASIS_LOCAL_TOKEN t ov tc = (case tc of
      None \<Rightarrow> Inl (AuthenticationError
          (AuthNotConfiguredError (''BASIS-local token trust config not initialized'', [])))
    | Some c \<Rightarrow> local_identify J c t)"
  by (simp_all add: authenticate_def oidc_identify_def local_identify_def split: option.splits)

lemma map_claims_Inr:
  "map_claims c = Inr (s, ctx) \<Longrightarrow> ic_claims ctx = c \<and> map_of c ''sub'' = Some (PStr (subject_id s))"
  by (auto simp: map_claims_def dict_get_def split: pyval.splits option.splits if_splits)

lemma oidc_identify_Inr:
  assumes "oidc_identify J v t = Inr i"
  obtains claims where "OIDCVerifier_verify J v t = Inr claims" and "map_claims claims = Inr i"
  using assms by (auto simp: oidc_identify_def authenticate_def)

lemma local_identify_Inr:
  assumes "local_identify J tc t = Inr i"
  obtains r where "verify_basis_local_identity_token J tc t = Inr r"
    and "i = basis_local_verification_result_to_gateway_identity r"
  using assms by (auto simp: local_identify_def authenticate_def)

interpretation oidc_src: identity_source "oidc_identify J v" "oidc_verified J v" for J v
proof unfold_locales
  fix t i assume "oidc_identify J v t = Inr i"
  then show "wf_identity i" by (rule oidc_identify_Inr) (rule map_claims_wf)
next
  fix t s c assume "oidc_identify J v t = Inr (s, c)"
  then show "oidc_verified J v t (ic_claims c)"
    by (rule oidc_identify_Inr, elim verify_Inr) (auto simp: oidc_verified_def dest: map_claims_Inr)
next
  fix t s c assume "oidc_identify J v t = Inr (s, c)"
  then show "map_of (ic_claims c) ''sub'' = Some (PStr (subject_id s))"
    by (rule oidc_identify_Inr) (auto dest: map_claims_Inr)
qed

lemma to_identity_fields:
  "basis_local_verification_result_to_gateway_identity r = (s, c) \<Longrightarrow>
     subject_id s = br_subject_id r \<and> ic_claims c = br_claims r"
  by (auto simp: basis_local_verification_result_to_gateway_identity_def Let_def)

interpretation local_src: identity_source "local_identify J tc" "local_verified J tc" for J tc
proof unfold_locales
  fix t i assume "local_identify J tc t = Inr i"
  then show "wf_identity i" by (rule local_identify_Inr) (simp add: local_identity_wf)
next
  fix t s c assume "local_identify J tc t = Inr (s, c)"
  then show "local_verified J tc t (ic_claims c)"
  proof (rule local_identify_Inr)
    fix r assume r: "verify_basis_local_identity_token J tc t = Inr r"
      "(s, c) = basis_local_verification_result_to_gateway_identity r"
    then have cl: "ic_claims c = br_claims r" using to_identity_fields [of r s c] by simp
    show ?thesis
      using r(1) by (rule verify_local_Inr)
        (auto simp: local_verified_def cl select_key_Inr dest: accept_payload_Inr(3))
  qed
next
  fix t s c assume "local_identify J tc t = Inr (s, c)"
  then show "map_of (ic_claims c) ''sub'' = Some (PStr (subject_id s))"
  proof (rule local_identify_Inr)
    fix r assume r: "verify_basis_local_identity_token J tc t = Inr r"
      "(s, c) = basis_local_verification_result_to_gateway_identity r"
    then have f: "ic_claims c = br_claims r" "subject_id s = br_subject_id r"
      using to_identity_fields [of r s c] by simp_all
    show ?thesis using r(1) by (rule verify_local_Inr) (auto simp: f dest: accept_payload_Inr(3,4))
  qed
qed

interpretation auth_src: identity_source
  "\<lambda>t. authenticate J mode t ov tc" "mode_verified J mode ov tc" for J mode ov tc
proof unfold_locales
  fix t i assume "authenticate J mode t ov tc = Inr i"
  then show "wf_identity i"
    using oidc_src.identify_wf local_src.identify_wf
    by (cases mode) (auto simp: authenticate_modes split: option.splits)
next
  fix t s c assume "authenticate J mode t ov tc = Inr (s, c)"
  then show "mode_verified J mode ov tc t (ic_claims c)"
    using oidc_src.identify_verified local_src.identify_verified
    by (cases mode) (auto simp: authenticate_modes mode_verified_def split: option.splits)
next
  fix t s c assume "authenticate J mode t ov tc = Inr (s, c)"
  then show "map_of (ic_claims c) ''sub'' = Some (PStr (subject_id s))"
    using oidc_src.identify_sub local_src.identify_sub
    by (cases mode) (auto simp: authenticate_modes split: option.splits)
qed

section \<open>Properties\<close>

text \<open>Authentication in either mode yields an identity only from a token that the
  verifier of the configured mode verified cryptographically: the claims the
  identity context carries are exactly those the library returned for this
  token with this mode's keys, issuer and audience, the subject id is their
  \<^verbatim>\<open>sub\<close> and is not empty, and the roles are sorted and distinct.\<close>

theorem authenticate_sound:
  assumes "authenticate J mode token ov tc = Inr (s, c)"
  shows "mode_verified J mode ov tc token (ic_claims c)
    \<and> map_of (ic_claims c) ''sub'' = Some (PStr (subject_id s)) \<and> subject_id s \<noteq> []
    \<and> ic_subject_id c = subject_id s \<and> sorted (roles s) \<and> distinct (roles s)"
  using auth_src.identify_verified [OF assms] auth_src.identify_sub [OF assms]
    auth_src.identify_wf [OF assms] by (simp add: wf_identity_def)

theorem authenticate_sound_witness:
  "\<exists>s c. authenticate stub_jwt OIDC ''t'' (Some stub_verifier) None = Inr (s, c)
     \<and> mode_verified stub_jwt OIDC (Some stub_verifier) None ''t'' (ic_claims c) \<and> subject_id s \<noteq> []"
proof -
  obtain s c where a: "authenticate stub_jwt OIDC ''t'' (Some stub_verifier) None = Inr (s, c)"
    by (simp add: authenticate_def stub_verify map_claims_def dict_get_def)
  from authenticate_sound [OF a] a show ?thesis by blast
qed

text \<open>There is no fallback between modes: the result in one mode does not depend on the
  other mode's verifier, and a mode whose verifier was never initialized
  rejects every token as not configured.\<close>

theorem authenticate_no_fallback:
  "authenticate J OIDC token ov tc = authenticate J OIDC token ov tc'
   \<and> authenticate J BASIS_LOCAL_TOKEN token ov tc = authenticate J BASIS_LOCAL_TOKEN token ov' tc
   \<and> (\<exists>m. authenticate J OIDC token None tc = Inl (AuthenticationError (AuthNotConfiguredError m)))
   \<and> (\<exists>m. authenticate J BASIS_LOCAL_TOKEN token ov None = Inl (AuthenticationError (AuthNotConfiguredError m)))"
  by (simp add: authenticate_modes)

text \<open>A trust configuration built from the environment is well formed, requires every
  default claim path, carries the configured issuer, and its audience and
  algorithms are the comma-separated entries of their settings.\<close>

theorem build_trust_config_wf:
  assumes "build_basis_local_token_trust_config json_loads config = Inr tc"
  shows "wf_trust tc \<and> tc_required_claims tc = DEFAULT_REQUIRED_BASIS_TOKEN_CLAIMS
    \<and> basis_local_token_issuer config = Some (tc_issuer tc)
    \<and> (\<exists>a. basis_local_token_audience config = Some a \<and> tc_audience tc = csv_parts a)
    \<and> tc_allowed_algorithms tc = csv_parts (basis_local_token_allowed_algorithms config)"
proof -
  have inj: "map PStr xs = map PStr ys \<longleftrightarrow> xs = ys" for xs ys
    by (rule inj_map_eq_map) (simp add: inj_def)
  show ?thesis using assms
    by (auto simp: build_basis_local_token_trust_config_def make_trust_config_Inr split_csv_def inj
        truthy_opt_def opt_or_def split: if_splits option.splits pyval.splits)
qed

definition stub_local_config :: GatewayConfig where
  "stub_local_config = default_config\<lparr>auth_mode := BASIS_LOCAL_TOKEN,
     basis_local_token_issuer := Some ''basis'', basis_local_token_audience := Some ''gw'',
     basis_local_token_public_keys_json := Some ''keys''\<rparr>"

definition stub_local_trust :: BasisLocalTokenTrustConfig where
  "stub_local_trust = stub_trust\<lparr>tc_required_claims := DEFAULT_REQUIRED_BASIS_TOKEN_CLAIMS\<rparr>"

lemma default_claims_ok:
  "list_all (\<lambda>p. trimmed p \<and> \<not> has_forbidden_term p) DEFAULT_REQUIRED_BASIS_TOKEN_CLAIMS"
  by code_simp

lemma stub_local_trust_wf: "wf_trust stub_local_trust"
  using stub_trust_wf default_claims_ok
  by (simp add: wf_trust_def stub_local_trust_def DEFAULT_REQUIRED_BASIS_TOKEN_CLAIMS_def)

lemma stub_build:
  "build_basis_local_token_trust_config (\<lambda>_. Some (PDict [(''k1'', PStr ''PEM'')])) stub_local_config
     = Inr stub_local_trust"
proof -
  have "csv_parts ''gw'' = [''gw'']" "csv_parts ''RS256'' = [''RS256'']"
    by (rule csv_parts_single; simp add: strip_def strip_by_def is_space_def)+
  then show ?thesis
    using stub_local_trust_wf
    by (simp add: build_basis_local_token_trust_config_def stub_local_config_def default_config_def
        opt_or_def split_csv_def make_trust_config_Inr)
      (simp add: stub_local_trust_def stub_trust_def)
qed

theorem build_trust_config_wf_witness:
  "wf_trust stub_local_trust \<and> tc_audience stub_local_trust = csv_parts ''gw''"
  using build_trust_config_wf [OF stub_build]
  by (simp add: stub_local_config_def)

end
