(* ===== verification/GW_Routes.thy ===== *)
theory GW_Routes
  imports GW_OA_Audit GW_Auth_Runtime
begin

text \<open>
  \<^verbatim>\<open>api/routes.py\<close>, first part, and \<^verbatim>\<open>middleware/correlation.py\<close>: the probes, the
  response helpers, the strict-mode precheck and \<^verbatim>\<open>POST /v1/evaluate\<close>. A handler
  is a sequence of steps over the audit state (the optional writer and the
  readiness state); a step continues with a value or returns a response early
  (\<^verbatim>\<open>'r\<close> is what an early return delivers).
  What a request brings (body, headers, correlation id, clock readings) is the
  record \<^verbatim>\<open>http_request\<close>; the libraries are \<^verbatim>\<open>gateway_lib\<close>.
\<close>

section \<open>Requests, responses, application state\<close>

record ReadyResponse =
  ry_status :: string
  ry_service :: string
  ry_components :: "bool dict"
  ry_reason :: "msg option"
  ry_reasons :: "msg dict"
  ry_correlation_id :: "string option"

datatype response_body =
    ErrorBody ErrorResponse
  | EvaluateBody EvaluateResponse
  | OABody OperationAwareEvaluateResponse
  | ReadyBody ReadyResponse
  | HealthBody string string

record http_response =
  status_code :: nat
  content :: response_body

record http_request =
  hr_method :: string
  hr_path :: string
  hr_body :: "py_exn + string"
  hr_authorization :: "string option"
  hr_raw_headers :: "(string \<times> string) list"
  hr_correlation_id :: string
  hr_now :: datetime
  hr_compose_clock :: datetime
  hr_oa_call :: oa_call

record gateway_lib =
  gl_jwt :: jwt_lib
  gl_audit :: audit_lib
  gl_parse_json :: "string \<Rightarrow> pyval option"
  gl_nested :: nested
  gl_load_pem :: load_pem

text \<open>\<^verbatim>\<open>app.state\<close>, without the audit writer, which the handlers thread.\<close>

record app_state =
  as_config :: "GatewayConfig option"
  as_verifier :: "OIDCVerifier option"
  as_trust_config :: "BasisLocalTokenTrustConfig option"
  as_evaluator :: "GatewayEvaluator option"
  as_oa_evaluator :: "OperationAwareGatewayEvaluator option"

section \<open>Probes\<close>

definition SERVICE_NAME :: string where "SERVICE_NAME = ''basis-gateway''"

definition health :: http_response where
  "health = \<lparr>status_code = 200, content = HealthBody ''ok'' SERVICE_NAME\<rparr>"

definition ready :: "ReadinessState \<Rightarrow> string \<Rightarrow> http_response" where
  "ready state correlation_id =
     (if is_ready state
      then \<lparr>status_code = 200, content = ReadyBody \<lparr>ry_status = ''ready'', ry_service = SERVICE_NAME, ry_components = components state,
              ry_reason = None, ry_reasons = [], ry_correlation_id = None\<rparr>\<rparr>
      else \<lparr>status_code = 503, content = ReadyBody \<lparr>ry_status = ''not_ready'', ry_service = SERVICE_NAME, ry_components = components state,
              ry_reason = Some (case reason state of
                Some m \<Rightarrow> if m = ([], []) then (''application not initialized'', []) else m
              | None \<Rightarrow> (''application not initialized'', [])),
              ry_reasons = all_reasons state, ry_correlation_id = Some correlation_id\<rparr>\<rparr>)"

section \<open>Response helpers\<close>

definition error_response :: "nat \<Rightarrow> string \<Rightarrow> msg option \<Rightarrow> string \<Rightarrow> http_response" where
  "error_response code err message correlation_id =
     \<lparr>status_code = code, content = ErrorBody \<lparr>err_error = err, err_message = message,
        err_correlation_id = Some correlation_id\<rparr>\<rparr>"

definition authentication_required :: "msg \<Rightarrow> string \<Rightarrow> http_response" where
  "authentication_required message corr = error_response 401 ''authentication_required'' (Some message) corr"
definition authentication_failed :: "string \<Rightarrow> string \<Rightarrow> http_response" where
  "authentication_failed message corr = error_response 401 ''authentication_failed'' (Some (message, [])) corr"
definition validation_failed :: "msg \<Rightarrow> string \<Rightarrow> http_response" where
  "validation_failed message corr = error_response 400 ''validation_failed'' (Some message) corr"
definition producer_certificate_rejected :: "string \<Rightarrow> http_response" where
  "producer_certificate_rejected corr = error_response 400 ''producer_certificate_rejected''
     (Some (''Producer mTLS certificate assertion could not be established as trustworthy'', [])) corr"
definition evaluator_unavailable :: "string \<Rightarrow> http_response" where
  "evaluator_unavailable corr = error_response 503 ''evaluator_unavailable''
     (Some (''Evaluator not initialized'', [])) corr"
definition audit_fail_closed_response :: "string \<Rightarrow> http_response" where
  "audit_fail_closed_response corr = error_response 503 ''audit_fail_closed''
     (Some (''Audit pipeline degraded; evaluation suspended (fail-closed mode)'', [])) corr"
definition evaluation_failed_closed :: "string \<Rightarrow> http_response" where
  "evaluation_failed_closed corr = error_response 500 ''evaluation_failed_closed''
     (Some (''Evaluation failed; request denied (fail-closed)'', [])) corr"
definition internal_error_response :: "string \<Rightarrow> http_response" where
  "internal_error_response corr = error_response 500 ''internal_error'' None corr"

text \<open>\<^verbatim>\<open>"; ".join(f"{loc}: {msg}" for e in errors)\<close> as its interpolated parts.\<close>

definition errors_message :: "verr list \<Rightarrow> msg" where
  "errors_message es = (''; '', concat (map (\<lambda>e. e_loc e @ fst (e_msg e) # snd (e_msg e)) es))"

definition is_json_error :: "verr list \<Rightarrow> bool" where
  "is_json_error es \<longleftrightarrow> list_ex (\<lambda>e. e_type e = ''json_invalid'') es"

definition comp_exn_msg :: "comp_exn \<Rightarrow> msg" where
  "comp_exn_msg e = (case e of ActionCompositionError m \<Rightarrow> m | ResourceCompositionError m \<Rightarrow> m
    | UntrustedOperationProducerContextError fs \<Rightarrow>
        (''caller is not a classified operation producer and may not supply operation-producer-only field(s)'', fs)
    | ReservedContextKeyError ks \<Rightarrow> (''context keys use the reserved namespace'', ks)
    | CompositionInternalError m \<Rightarrow> m)"

definition auth_exn_msg :: "auth_exn \<Rightarrow> msg" where
  "auth_exn_msg e = (case e of TokenExtractionError m \<Rightarrow> m | OIDCDiscoveryError m \<Rightarrow> m | JWKSFetchError m \<Rightarrow> m
    | JWTVerificationError m \<Rightarrow> m | SubjectMappingError m \<Rightarrow> m | AuthNotConfiguredError m \<Rightarrow> m
    | UnsupportedAuthModeError m \<Rightarrow> m | BasisLocalTokenConfigError m \<Rightarrow> m | BasisLocalTokenHeaderError m \<Rightarrow> m
    | BasisLocalTokenSignatureError m \<Rightarrow> m | BasisLocalTokenVerificationError m \<Rightarrow> m
    | BasisLocalTokenClaimsError m \<Rightarrow> m)"

section \<open>Steps\<close>

type_synonym ('r, 'a) action = "audit_st \<Rightarrow> ('r + 'a) \<times> audit_st"
type_synonym 'a step = "(http_response, 'a) action"

definition step_return :: "'a \<Rightarrow> ('r, 'a) action" where
  "step_return x st = (Inr x, st)"

definition step_bind :: "('r, 'a) action \<Rightarrow> ('a \<Rightarrow> ('r, 'b) action) \<Rightarrow> ('r, 'b) action" where
  "step_bind m f st = (case m st of (Inl r, st') \<Rightarrow> (Inl r, st') | (Inr x, st') \<Rightarrow> f x st')"

text \<open>Emit an event and answer the request.\<close>

definition reject :: "audit_lib \<Rightarrow> AuditEvent \<Rightarrow> 'r \<Rightarrow> ('r, 'a) action" where
  "reject A ev r st = (Inl r, emit_event A ev st)"

definition emit_step :: "audit_lib \<Rightarrow> AuditEvent \<Rightarrow> ('r, unit) action" where
  "emit_step A ev st = (Inr (), emit_event A ev st)"

definition answer :: "('r + 'r) \<times> audit_st \<Rightarrow> 'r \<times> audit_st" where
  "answer p = (case p of (Inl r, st) \<Rightarrow> (r, st) | (Inr r, st) \<Rightarrow> (r, st))"

text \<open>The event \<^verbatim>\<open>emit_gateway_event\<close> builds for a request.\<close>

definition gw_event ::
    "http_request \<Rightarrow> string \<Rightarrow> string option \<Rightarrow> string option \<Rightarrow> string option \<Rightarrow> pyval dict \<Rightarrow> AuditEvent" where
  "gw_event req action event_reason pv sid detail =
     \<lparr>ev_event_type = SYSTEM_EVENT, ev_action = action, ev_outcome = None,
      ev_reason = event_reason, ev_correlation_id = Some (hr_correlation_id req), ev_subject_id = sid,
      ev_request_id = None, ev_policy_version = pv,
      ev_detail = gateway_event_detail (Some (hr_method req)) (Some (hr_path req)) detail\<rparr>"

lemma gw_event_emitted:
  "emit_event A (gw_event req action r pv sid detail) st =
     emit_gateway_event A action (Some (hr_correlation_id req)) (Some (hr_path req)) (Some (hr_method req))
       None r pv sid detail st"
  by (simp add: gw_event_def emit_gateway_event_def)

section \<open>The strict-mode precheck\<close>

definition resolve_audit_fail_closed_response ::
    "GatewayConfig option \<Rightarrow> string \<Rightarrow> (audit_st \<Rightarrow> audit_st) \<Rightarrow> unit step" where
  "resolve_audit_fail_closed_response config correlation_id emit_probe st =
     (if \<not> ((case config of None \<Rightarrow> False | Some c \<Rightarrow> audit_fail_closed c)
             \<and> fst st \<noteq> None \<and> st_degraded st)
      then (Inr (), st)
      else let st' = emit_probe st in
        if st_degraded st' then (Inl (audit_fail_closed_response correlation_id), st')
        else (Inr (), st'))"

section \<open>POST /v1/evaluate\<close>

text \<open>Step 1: \<^verbatim>\<open>model_validate_json\<close> and its exception clauses.\<close>

definition model_validate_json ::
    "(string \<Rightarrow> pyval option) \<Rightarrow> (pyval \<Rightarrow> 'a res) \<Rightarrow> py_exn + string \<Rightarrow> 'a res" where
  "model_validate_json parse validate body = (case body of
      Inl e \<Rightarrow> Inl (PyError e)
    | Inr text \<Rightarrow> (case parse text of
          None \<Rightarrow> Inl (ValidationError [Verr [] ''json_invalid'' (''Invalid JSON'', [])])
        | Some v \<Rightarrow> validate v))"

definition parse_body_step :: "gateway_lib \<Rightarrow> http_request \<Rightarrow> EvaluateRequest step" where
  "parse_body_step G req =
     (case model_validate_json (gl_parse_json G) EvaluateRequest_validate (hr_body req) of
        Inr r \<Rightarrow> step_return r
      | Inl (ValidationError es) \<Rightarrow>
          reject (gl_audit G)
            (gw_event req VALIDATION_FAILED
              (Some (if is_json_error es then REASON_MALFORMED_BODY else REASON_INVALID_FIELDS)) None None [])
            (validation_failed (errors_message es) (hr_correlation_id req))
      | Inl e \<Rightarrow>
          reject (gl_audit G) (gw_event req VALIDATION_FAILED (Some REASON_MALFORMED_BODY) None None [])
            (validation_failed (''Malformed request body'', []) (hr_correlation_id req)))"

text \<open>Steps 1b and 1c: the composition boundaries, as a pure function of the request; the
  result is the action, the resource id and the context the kernel will see.\<close>

definition effective_request :: "EvaluateRequest \<Rightarrow> comp_exn + (string \<times> string option \<times> string dict)" where
  "effective_request r =
     (case reserved_key_collisions (er_context r) of
        k # ks \<Rightarrow> Inl (ReservedContextKeyError (k # ks))
      | [] \<Rightarrow>
          (case compose_action (er_action r) (er_resource_type r) of
             Inl e \<Rightarrow> Inl e
           | Inr composed_action \<Rightarrow>
               (let c1 = (case er_resource_type r of None \<Rightarrow> er_context r
                    | Some rt \<Rightarrow> dict_update (er_context r)
                        (build_composition_evidence (er_action r) rt composed_action))
                in case compose_resource_id (er_resource_type r) (er_resource_id r) of
                  Inl e \<Rightarrow> Inl e
                | Inr rc \<Rightarrow>
                    Inr (composed_action, rc_resource_id rc,
                      if rc_composed rc
                      then dict_update c1 (build_resource_composition_evidence
                        (case rc_original_resource_id rc of Some x \<Rightarrow> x | None \<Rightarrow> [])
                        (case rc_resource_type rc of Some x \<Rightarrow> x | None \<Rightarrow> [])
                        (case rc_resource_id rc of Some x \<Rightarrow> x | None \<Rightarrow> []))
                      else c1))))"

definition compose_step ::
    "gateway_lib \<Rightarrow> http_request \<Rightarrow> EvaluateRequest \<Rightarrow> (string \<times> string option \<times> string dict) step" where
  "compose_step G req r = (case effective_request r of
      Inr x \<Rightarrow> step_return x
    | Inl e \<Rightarrow> reject (gl_audit G) (gw_event req VALIDATION_FAILED (Some REASON_INVALID_FIELDS) None None [])
                 (validation_failed (comp_exn_msg e) (hr_correlation_id req)))"

text \<open>Step 2.\<close>

definition bearer_step :: "gateway_lib \<Rightarrow> http_request \<Rightarrow> string step" where
  "bearer_step G req = (case extract_bearer_token (hr_authorization req) of
      Inr token \<Rightarrow> step_return token
    | Inl e \<Rightarrow> reject (gl_audit G) (gw_event req AUTHENTICATION_FAILED (Some REASON_MISSING_TOKEN) None None [])
                 (authentication_required (auth_exn_msg e) (hr_correlation_id req)))"

text \<open>Steps 3 and 4; the mode is OIDC when no configuration is loaded.\<close>

definition app_authenticate ::
    "gateway_lib \<Rightarrow> app_state \<Rightarrow> string \<Rightarrow> (NormalizedSubject \<times> IdentityContext) res" where
  "app_authenticate G app token =
     authenticate (gl_jwt G) (case as_config app of None \<Rightarrow> OIDC | Some c \<Rightarrow> auth_mode c) token
       (as_verifier app) (as_trust_config app)"

definition auth_failure_reason :: "exn \<Rightarrow> string" where
  "auth_failure_reason e = (case e of
      AuthenticationError (AuthNotConfiguredError m) \<Rightarrow> REASON_VERIFIER_NOT_CONFIGURED
    | AuthenticationError (SubjectMappingError m) \<Rightarrow> REASON_IDENTITY_NORMALIZATION_FAILED
    | _ \<Rightarrow> REASON_INVALID_TOKEN)"

definition auth_failure_message :: "exn \<Rightarrow> string" where
  "auth_failure_message e = (case e of
      AuthenticationError (AuthNotConfiguredError m) \<Rightarrow> ''Authentication not configured''
    | AuthenticationError (SubjectMappingError m) \<Rightarrow> ''Identity normalization failed''
    | _ \<Rightarrow> ''Token verification failed'')"

definition authenticate_step ::
    "gateway_lib \<Rightarrow> app_state \<Rightarrow> http_request \<Rightarrow> string \<Rightarrow> (NormalizedSubject \<times> IdentityContext) step" where
  "authenticate_step G app req token = (case app_authenticate G app token of
      Inr i \<Rightarrow> step_return i
    | Inl e \<Rightarrow> reject (gl_audit G) (gw_event req AUTHENTICATION_FAILED (Some (auth_failure_reason e)) None None [])
                 (authentication_failed (auth_failure_message e) (hr_correlation_id req)))"

text \<open>Step 5.\<close>

definition evaluator_step ::
    "gateway_lib \<Rightarrow> app_state \<Rightarrow> http_request \<Rightarrow> NormalizedSubject \<Rightarrow> GatewayEvaluator step" where
  "evaluator_step G app req subject = (case as_evaluator app of
      Some K \<Rightarrow> step_return K
    | None \<Rightarrow> reject (gl_audit G)
        (gw_event req EVALUATOR_UNAVAILABLE (Some REASON_EVALUATOR_NOT_INITIALIZED) None
          (Some (subject_id subject)) [])
        (evaluator_unavailable (hr_correlation_id req)))"

text \<open>Steps 8 and 9: the kernel call, its exception clauses and the response.\<close>

definition outcome_text :: "DecisionOutcome \<Rightarrow> string" where
  "outcome_text d = (case d of D_ALLOW \<Rightarrow> ''allow'' | D_DENY \<Rightarrow> ''deny'' | D_NOT_APPLICABLE \<Rightarrow> ''not_applicable'')"

definition decision_response :: "DecisionResponse \<Rightarrow> string \<Rightarrow> http_response" where
  "decision_response d corr =
     \<lparr>status_code = (if dr_outcome d = D_ALLOW then 200 else 403),
      content = EvaluateBody \<lparr>rs_request_id = dr_request_id d, rs_outcome = outcome_text (dr_outcome d),
        rs_reason = dr_reason d, rs_policy_version = dr_policy_version d, rs_correlation_id = Some corr\<rparr>\<rparr>"

definition kernel_step ::
    "gateway_lib \<Rightarrow> http_request \<Rightarrow> GatewayEvaluator \<Rightarrow> NormalizedSubject \<Rightarrow> IdentityContext \<Rightarrow> string
     \<Rightarrow> string \<Rightarrow> string option \<Rightarrow> string dict \<Rightarrow> string \<Rightarrow> http_response step" where
  "kernel_step G req K subject ctx token action resource_id context request_id st =
     (case GatewayEvaluator_evaluate (gl_audit G) K (hr_now req) subject token (ic_claims ctx) action
             resource_id request_id (Some (hr_correlation_id req)) context st of
        (Inr d, st') \<Rightarrow> step_return (decision_response d (hr_correlation_id req)) st'
      | (Inl (ValidationError es), st') \<Rightarrow>
          reject (gl_audit G)
            (gw_event req EVALUATION_FAILED_CLOSED (Some REASON_INVALID_DECISION_REQUEST)
              (ep_policy_version K) (Some (subject_id subject)) [])
            (validation_failed (errors_message es) (hr_correlation_id req)) st'
      | (Inl e, st') \<Rightarrow>
          reject (gl_audit G)
            (gw_event req EVALUATION_FAILED_CLOSED (Some REASON_EVALUATION_EXCEPTION)
              (ep_policy_version K) (Some (subject_id subject)) [])
            (evaluation_failed_closed (hr_correlation_id req)) st')"

definition request_id_of :: "string option \<Rightarrow> http_request \<Rightarrow> string" where
  "request_id_of rid req = opt_or rid (hr_correlation_id req)"

text \<open>Steps 5 to 9 for an authenticated request.\<close>

definition evaluate_authenticated ::
    "gateway_lib \<Rightarrow> app_state \<Rightarrow> http_request \<Rightarrow> EvaluateRequest \<Rightarrow> string \<times> string option \<times> string dict
     \<Rightarrow> string \<Rightarrow> NormalizedSubject \<times> IdentityContext \<Rightarrow> http_response step" where
  "evaluate_authenticated G app req r eff token = (\<lambda>(subject, ctx).
     case eff of (action, resource_id, context) \<Rightarrow>
     step_bind (evaluator_step G app req subject) (\<lambda>K.
       let request_id = request_id_of (er_request_id r) req in
       step_bind (emit_step (gl_audit G)
           (gw_event req EVALUATION_REQUESTED None (ep_policy_version K) (Some (subject_id subject))
             [(''request_id'', PStr request_id)])) (\<lambda>_.
         kernel_step G req K subject ctx token action resource_id context request_id)))"

definition evaluate_steps :: "gateway_lib \<Rightarrow> app_state \<Rightarrow> http_request \<Rightarrow> http_response step" where
  "evaluate_steps G app req =
     step_bind (parse_body_step G req) (\<lambda>r.
     step_bind (compose_step G req r) (\<lambda>eff.
     step_bind (bearer_step G req) (\<lambda>token.
     step_bind (authenticate_step G app req token) (\<lambda>i.
       evaluate_authenticated G app req r eff token i))))"

definition probe_event :: "http_request \<Rightarrow> AuditEvent" where
  "probe_event req = gw_event req AUDIT_RECOVERY_PROBE None None None []"

definition evaluate ::
    "gateway_lib \<Rightarrow> app_state \<Rightarrow> http_request \<Rightarrow> audit_st \<Rightarrow> http_response \<times> audit_st" where
  "evaluate G app req st = answer
     (step_bind
       (resolve_audit_fail_closed_response (as_config app) (hr_correlation_id req)
         (emit_event (gl_audit G) (probe_event req)))
       (\<lambda>_. evaluate_steps G app req) st)"

section \<open>The correlation middleware\<close>

text \<open>\<^verbatim>\<open>CorrelationMiddleware.dispatch\<close>: the fresh identifier replaces whatever the request
  brought, and goes on the response as a header.\<close>

definition dispatch ::
    "string \<Rightarrow> (http_request \<Rightarrow> audit_st \<Rightarrow> http_response \<times> audit_st) \<Rightarrow> http_request \<Rightarrow> audit_st
     \<Rightarrow> (http_response \<times> (string \<times> string) list) \<times> audit_st" where
  "dispatch fresh call_next req st =
     (let (r, st') = call_next (req\<lparr>hr_correlation_id := fresh\<rparr>) st
      in ((r, [(''X-Correlation-ID'', fresh)]), st'))"

section \<open>Relations every step keeps\<close>

lemma step_bind_return [simp]: "step_bind (step_return x) f = f x"
  by (simp add: step_bind_def step_return_def fun_eq_iff)

text \<open>
  What the handlers owe to the audit state, whatever the request: any reflexive
  and transitive relation that emission of an admissible event respects is
  respected by every handler built from the steps.
\<close>

locale step_relation =
  fixes A :: audit_lib
    and R :: "audit_st \<Rightarrow> audit_st \<Rightarrow> bool"
    and P :: "AuditEvent \<Rightarrow> bool"
  assumes R_refl: "R st st"
    and R_trans: "R st1 st2 \<Longrightarrow> R st2 st3 \<Longrightarrow> R st1 st3"
    and R_emit: "P ev \<Longrightarrow> R st (emit_event A ev st)"
    and R_kernel: "list_all P evs \<Longrightarrow> R st (kernel_writes A evs st)"
begin

lemma R_return: "R st (snd (step_return x st))"
  by (simp add: step_return_def R_refl)

lemma R_reject: "P ev \<Longrightarrow> R st (snd (reject A ev r st))"
  by (simp add: reject_def R_emit)

lemma R_emit_step: "P ev \<Longrightarrow> R st (snd (emit_step A ev st))"
  by (simp add: emit_step_def R_emit)

lemma R_bind:
  assumes "R st (snd (m st))" and "\<And>x st'. R st' (snd (f x st'))"
  shows "R st (snd (step_bind m f st))"
proof -
  obtain r st' where "m st = (r, st')" by (metis surj_pair)
  then show ?thesis
    using assms R_trans [of st st'] by (cases r) (simp_all add: step_bind_def)
qed

lemma R_precheck: "P ev \<Longrightarrow>
    R st (snd (resolve_audit_fail_closed_response cfg corr (emit_event A ev) st))"
  by (simp add: resolve_audit_fail_closed_response_def Let_def R_refl R_emit)

lemma R_answer: "R st (snd p) \<Longrightarrow> R st (snd (answer p))"
  by (cases p; cases "fst p") (auto simp: answer_def)

lemma R_kernel_step:
  assumes "A = gl_audit G"
    and "\<And>a r pv sid d. P (gw_event req a r pv sid d)"
    and "\<And>dq ks ic. list_all P (fst (ep_evaluate K dq ks ic (Some (hr_correlation_id req))))"
  shows "R st (snd (kernel_step G req K s i tok act rid ctx reqid st))"
proof -
  let ?c = "kernel_call K (hr_now req) s tok (ic_claims i) act rid reqid ctx"
  let ?out = "GatewayEvaluator_evaluate A K (hr_now req) s tok (ic_claims i) act rid reqid
    (Some (hr_correlation_id req)) ctx st"
  have "R st (snd ?out)"
    using assms(3) R_kernel
    by (cases ?c) (simp_all add: GatewayEvaluator_evaluate_def R_refl case_prod_beta)
  then show ?thesis
    using assms(2) R_trans [of st "snd ?out"]
    by (cases ?out) (simp add: assms(1) [symmetric] kernel_step_def step_return_def reject_def R_emit
        split: sum.split exn.split)
qed

text \<open>\<^verbatim>\<open>POST /v1/evaluate\<close>: the steps after the precheck, and the whole of it.\<close>

lemma R_evaluate_steps:
  assumes G: "A = gl_audit G"
    and P: "\<And>a r pv sid d. P (gw_event req a r pv sid d)"
    and K: "\<And>K dq ks ic. as_evaluator app = Some K \<Longrightarrow>
      list_all P (fst (ep_evaluate K dq ks ic (Some (hr_correlation_id req))))"
  shows "R st (snd (evaluate_steps G app req st))"
proof -
  note base = R_return R_reject [OF P] R_emit_step [OF P]
  have 1: "R st (snd (parse_body_step G req st))" for st
    by (simp add: parse_body_step_def base G [symmetric] split: sum.split exn.split)
  have 2: "R st (snd (compose_step G req r st))" for r st
    by (simp add: compose_step_def base G [symmetric] split: sum.split)
  have 3: "R st (snd (bearer_step G req st))" for st
    by (simp add: bearer_step_def base G [symmetric] split: sum.split)
  have 4: "R st (snd (authenticate_step G app req tok st))" for tok st
    by (simp add: authenticate_step_def base G [symmetric] split: sum.split)
  have 5: "R st (snd (evaluate_authenticated G app req r eff tok si st))" for r eff tok si st
  proof (cases "as_evaluator app")
    case None
    have "R st (snd (reject A (gw_event req a r pv sid d) x st))" for a r pv sid d and x :: http_response
      by (rule base(2))
    with None show ?thesis
      by (simp add: evaluate_authenticated_def evaluator_step_def step_bind_def case_prod_beta reject_def
          G [symmetric])
  next
    case (Some K)
    have "R st' (snd (kernel_step G req K s i tok act rid ctx reqid st'))" for s i act rid ctx reqid st'
      by (rule R_kernel_step [OF G P assms(3) [OF Some]])
    then show ?thesis
      by (simp add: evaluate_authenticated_def evaluator_step_def case_prod_beta Let_def Some base
          G [symmetric] R_bind)
  qed
  show ?thesis unfolding evaluate_steps_def by (intro R_bind 1 2 3 4 5)
qed

lemma R_evaluate:
  assumes G: "A = gl_audit G"
    and P: "\<And>a r pv sid d. P (gw_event req a r pv sid d)"
    and K: "\<And>K dq ks ic. as_evaluator app = Some K \<Longrightarrow>
      list_all P (fst (ep_evaluate K dq ks ic (Some (hr_correlation_id req))))"
  shows "R st (snd (evaluate G app req st))"
proof -
  have "R st (snd (evaluate_steps G app req st))" for st by (rule R_evaluate_steps [OF G P K])
  then show ?thesis
    unfolding evaluate_def by (intro R_answer R_bind) (simp_all add: G [symmetric] probe_event_def R_precheck [OF P])
qed

end


text \<open>The frame of a handler: the audit invariant, the other readiness components and the
  presence of a writer.\<close>

definition audit_frame_rel :: "audit_st \<Rightarrow> audit_st \<Rightarrow> bool" where
  "audit_frame_rel st st' \<longleftrightarrow> (st_inv st \<longrightarrow> st_inv st') \<and> (fst st' = None \<longleftrightarrow> fst st = None)
     \<and> (\<forall>c. c \<noteq> AUDIT_WRITER_COMPONENT \<longrightarrow> component_of (snd st') c = component_of (snd st) c)"

text \<open>The trail grows by events that satisfy a predicate.\<close>

definition trail_rel :: "(AuditEvent \<Rightarrow> bool) \<Rightarrow> audit_st \<Rightarrow> audit_st \<Rightarrow> bool" where
  "trail_rel P st st' \<longleftrightarrow> (\<exists>evs. st_trail st' = st_trail st @ evs \<and> list_all P evs)"

lemma trail_rel_refl: "trail_rel P st st"
  by (simp add: trail_rel_def)

lemma trail_rel_trans: "trail_rel P st1 st2 \<Longrightarrow> trail_rel P st2 st3 \<Longrightarrow> trail_rel P st1 st3"
  unfolding trail_rel_def by (elim exE) (rule_tac x = "evs @ evsa" in exI, simp)

lemma trail_rel_emit: "P ev \<Longrightarrow> trail_rel P st (emit_event A ev st)"
  by (auto simp: trail_rel_def st_trail_emit)

lemma trail_rel_kernel: "list_all P evs \<Longrightarrow> trail_rel P st (kernel_writes A evs st)"
  by (cases "fst st") (simp_all add: trail_rel_def st_trail_kernel_writes, simp add: st_trail_def)

interpretation framed: step_relation A audit_frame_rel "\<lambda>_. True" for A
  by unfold_locales
    (auto simp: audit_frame_rel_def st_inv_emit emit_other_components st_inv_kernel_writes
      kernel_writes_other_components)

interpretation trailed: step_relation A "trail_rel P" P for A P
  by unfold_locales (simp_all add: trail_rel_refl trail_rel_emit trail_rel_kernel, rule trail_rel_trans)

section \<open>What a step returns\<close>

text \<open>A step is oblivious when its result does not depend on the audit state, and it rejects
  with errors only.\<close>

definition oblivious :: "('r, 'a) action \<Rightarrow> bool" where
  "oblivious m \<longleftrightarrow> (\<forall>st st'. fst (m st) = fst (m st'))"

definition is_error :: "http_response \<Rightarrow> bool" where
  "is_error r \<longleftrightarrow> 400 \<le> status_code r \<and> (\<exists>e. content r = ErrorBody e)"

definition rejects_only :: "'a step \<Rightarrow> bool" where
  "rejects_only m \<longleftrightarrow> (\<forall>st r. fst (m st) = Inl r \<longrightarrow> is_error r)"

named_theorems step_rules \<open>how a step's result comes about\<close>

lemma fst_step_bind:
  "fst (step_bind m f st) = (case fst (m st) of Inl r \<Rightarrow> Inl r | Inr x \<Rightarrow> fst (f x (snd (m st))))"
  by (cases "m st"; cases "fst (m st)") (auto simp: step_bind_def)

lemma oblivious_bind:
  assumes "oblivious m" and "\<And>x. oblivious (f x)"
  shows "oblivious (step_bind m f)"
  unfolding oblivious_def
proof (intro allI)
  fix st st'
  have m: "fst (m st) = fst (m st')" using assms(1) by (simp only: oblivious_def)
  have f: "fst (f x (snd (m st))) = fst (f x (snd (m st')))" for x
    using assms(2) [of x] unfolding oblivious_def by blast
  show "fst (step_bind m f st) = fst (step_bind m f st')"
    unfolding fst_step_bind m f ..
qed

lemma rejects_only_bind:
  assumes "rejects_only m" and "\<And>x. rejects_only (f x)"
  shows "rejects_only (step_bind m f)"
  unfolding rejects_only_def
proof (intro allI impI)
  fix st r
  assume "fst (step_bind m f st) = Inl r"
  then consider "fst (m st) = Inl r" | x where "fst (f x (snd (m st))) = Inl r"
    by (auto simp: fst_step_bind split: sum.splits)
  then show "is_error r"
    using assms unfolding rejects_only_def by cases blast+
qed

lemma step_bind_Inr:
  "oblivious m \<Longrightarrow> (\<And>x. oblivious (f x)) \<Longrightarrow>
   fst (step_bind m f st) = Inr y \<longleftrightarrow> (\<exists>x. fst (m st) = Inr x \<and> fst (f x st) = Inr y)"
proof -
  assume "\<And>x. oblivious (f x)"
  then have "fst (f x (snd (m st))) = fst (f x st)" for x unfolding oblivious_def by blast
  then show ?thesis by (cases "fst (m st)") (simp_all add: fst_step_bind)
qed

lemma step_return_rules [step_rules]:
  "fst (step_return x st) = Inr x" "oblivious (step_return x)" "rejects_only (step_return x)"
  by (simp_all add: step_return_def oblivious_def rejects_only_def)

lemma reject_rules [step_rules]:
  "fst (reject A ev r st) = Inl r" "oblivious (reject A ev r)"
  "rejects_only (reject A ev r) \<longleftrightarrow> is_error r"
  by (simp_all add: reject_def oblivious_def rejects_only_def)

lemma emit_step_rules [step_rules]:
  "fst (emit_step A ev st) = Inr ()" "oblivious (emit_step A ev)" "rejects_only (emit_step A ev)"
  by (simp_all add: emit_step_def oblivious_def rejects_only_def)

lemma response_helper_status [step_rules]:
  "status_code (authentication_required m c) = 401" "status_code (authentication_failed t c) = 401"
  "status_code (validation_failed m c) = 400" "status_code (producer_certificate_rejected c) = 400"
  "status_code (evaluator_unavailable c) = 503" "status_code (audit_fail_closed_response c) = 503"
  "status_code (evaluation_failed_closed c) = 500" "status_code (internal_error_response c) = 500"
  by (simp_all add: authentication_required_def authentication_failed_def validation_failed_def
      producer_certificate_rejected_def evaluator_unavailable_def audit_fail_closed_response_def
      evaluation_failed_closed_def internal_error_response_def error_response_def)

lemma response_helper_errors [step_rules]:
  "is_error (authentication_required m c)" "is_error (authentication_failed t c)"
  "is_error (validation_failed m c)" "is_error (producer_certificate_rejected c)"
  "is_error (evaluator_unavailable c)" "is_error (audit_fail_closed_response c)"
  "is_error (evaluation_failed_closed c)" "is_error (internal_error_response c)"
  by (simp_all add: is_error_def authentication_required_def authentication_failed_def
      validation_failed_def producer_certificate_rejected_def evaluator_unavailable_def
      audit_fail_closed_response_def evaluation_failed_closed_def internal_error_response_def
      error_response_def)

lemma parse_body_rules [step_rules]:
  "fst (parse_body_step G req st) = Inr r \<longleftrightarrow>
     model_validate_json (gl_parse_json G) EvaluateRequest_validate (hr_body req) = Inr r"
  "oblivious (parse_body_step G req)" "rejects_only (parse_body_step G req)"
  by (simp_all add: parse_body_step_def step_rules split: sum.split exn.split)

lemma compose_step_rules [step_rules]:
  "fst (compose_step G req r st) = Inr x \<longleftrightarrow> effective_request r = Inr x"
  "oblivious (compose_step G req r)" "rejects_only (compose_step G req r)"
  by (simp_all add: compose_step_def step_rules split: sum.split)

lemma bearer_step_rules [step_rules]:
  "fst (bearer_step G req st) = Inr t \<longleftrightarrow> extract_bearer_token (hr_authorization req) = Inr t"
  "oblivious (bearer_step G req)" "rejects_only (bearer_step G req)"
  by (simp_all add: bearer_step_def step_rules split: sum.split)

lemma authenticate_step_rules [step_rules]:
  "fst (authenticate_step G app req t st) = Inr i \<longleftrightarrow> app_authenticate G app t = Inr i"
  "oblivious (authenticate_step G app req t)" "rejects_only (authenticate_step G app req t)"
  by (simp_all add: authenticate_step_def step_rules split: sum.split)

lemma evaluator_step_rules [step_rules]:
  "fst (evaluator_step G app req s st) = Inr K \<longleftrightarrow> as_evaluator app = Some K"
  "oblivious (evaluator_step G app req s)" "rejects_only (evaluator_step G app req s)"
  by (simp_all add: evaluator_step_def step_rules split: option.split)


lemma decision_response_status [step_rules]:
  "status_code (decision_response d c) = (if dr_outcome d = D_ALLOW then 200 else 403)"
  by (simp add: decision_response_def)

text \<open>The decision the kernel takes for an authenticated request.\<close>

definition kernel_decides ::
    "http_request \<Rightarrow> GatewayEvaluator \<Rightarrow> NormalizedSubject \<Rightarrow> IdentityContext \<Rightarrow> string
     \<Rightarrow> string \<times> string option \<times> string dict \<Rightarrow> string \<Rightarrow> DecisionResponse \<Rightarrow> bool" where
  "kernel_decides req K s i tok eff reqid d \<longleftrightarrow>
     (case kernel_call K (hr_now req) s tok (ic_claims i) (fst eff) (fst (snd eff)) reqid (snd (snd eff)) of
        Inl e \<Rightarrow> False
      | Inr (dq, ks, ic) \<Rightarrow> snd (ep_evaluate K dq ks ic (Some (hr_correlation_id req))) = Inr d)"

lemma evaluate_result:
  "fst (GatewayEvaluator_evaluate A K now s tok claims act rid reqid corr ctx st) =
     (case kernel_call K now s tok claims act rid reqid ctx of
        Inl e \<Rightarrow> Inl e | Inr (dq, ks, ic) \<Rightarrow> snd (ep_evaluate K dq ks ic corr))"
  by (simp add: GatewayEvaluator_evaluate_def case_prod_beta split: sum.split)

lemma fst_kernel_step:
  "fst (kernel_step G req K s i tok act rid ctx reqid st) =
     (case (case kernel_call K (hr_now req) s tok (ic_claims i) act rid reqid ctx of
        Inl e \<Rightarrow> Inl e | Inr (dq, ks, ic) \<Rightarrow> snd (ep_evaluate K dq ks ic (Some (hr_correlation_id req)))) of
        Inr d \<Rightarrow> Inr (decision_response d (hr_correlation_id req))
      | Inl (ValidationError es) \<Rightarrow> Inl (validation_failed (errors_message es) (hr_correlation_id req))
      | Inl e \<Rightarrow> Inl (evaluation_failed_closed (hr_correlation_id req)))"
proof -
  have "fst (kernel_step G req K s i tok act rid ctx reqid st) =
     (case fst (GatewayEvaluator_evaluate (gl_audit G) K (hr_now req) s tok (ic_claims i) act
        rid reqid (Some (hr_correlation_id req)) ctx st) of
        Inr d \<Rightarrow> Inr (decision_response d (hr_correlation_id req))
      | Inl (ValidationError es) \<Rightarrow> Inl (validation_failed (errors_message es) (hr_correlation_id req))
      | Inl e \<Rightarrow> Inl (evaluation_failed_closed (hr_correlation_id req)))"
    by (auto simp: kernel_step_def step_rules split: prod.split sum.split exn.split)
  then show ?thesis by (simp only: evaluate_result)
qed

lemma kernel_step_rules [step_rules]:
  "fst (kernel_step G req K s i tok act rid ctx reqid st) = Inr r \<longleftrightarrow>
     (\<exists>d. kernel_decides req K s i tok (act, rid, ctx) reqid d \<and> r = decision_response d (hr_correlation_id req))"
  "oblivious (kernel_step G req K s i tok act rid ctx reqid)"
  "rejects_only (kernel_step G req K s i tok act rid ctx reqid)"
  by (auto simp: fst_kernel_step kernel_decides_def oblivious_def rejects_only_def step_rules
      split: sum.splits exn.splits)

lemma evaluate_authenticated_rules [step_rules]:
  "fst (evaluate_authenticated G app req r eff tok si st) = Inr x \<longleftrightarrow>
     (\<exists>K d. as_evaluator app = Some K
        \<and> kernel_decides req K (fst si) (snd si) tok eff (request_id_of (er_request_id r) req) d
        \<and> x = decision_response d (hr_correlation_id req))"
  "oblivious (evaluate_authenticated G app req r eff tok si)"
  "rejects_only (evaluate_authenticated G app req r eff tok si)"
proof -
  note [simp] = evaluate_authenticated_def case_prod_beta Let_def
  show "fst (evaluate_authenticated G app req r eff tok si st) = Inr x \<longleftrightarrow>
     (\<exists>K d. as_evaluator app = Some K
        \<and> kernel_decides req K (fst si) (snd si) tok eff (request_id_of (er_request_id r) req) d
        \<and> x = decision_response d (hr_correlation_id req))"
    by (simp add: step_bind_Inr oblivious_bind step_rules)
  show "oblivious (evaluate_authenticated G app req r eff tok si)"
    by (simp add: oblivious_bind step_rules)
  show "rejects_only (evaluate_authenticated G app req r eff tok si)"
    by (simp add: rejects_only_bind step_rules)
qed

lemma evaluate_steps_rules [step_rules]:
  "fst (evaluate_steps G app req st) = Inr x \<longleftrightarrow>
     (\<exists>r eff tok si K d.
        model_validate_json (gl_parse_json G) EvaluateRequest_validate (hr_body req) = Inr r
        \<and> effective_request r = Inr eff \<and> extract_bearer_token (hr_authorization req) = Inr tok
        \<and> app_authenticate G app tok = Inr si \<and> as_evaluator app = Some K
        \<and> kernel_decides req K (fst si) (snd si) tok eff (request_id_of (er_request_id r) req) d
        \<and> x = decision_response d (hr_correlation_id req))"
  "oblivious (evaluate_steps G app req)"
  "rejects_only (evaluate_steps G app req)"
proof -
  show "fst (evaluate_steps G app req st) = Inr x \<longleftrightarrow>
     (\<exists>r eff tok si K d.
        model_validate_json (gl_parse_json G) EvaluateRequest_validate (hr_body req) = Inr r
        \<and> effective_request r = Inr eff \<and> extract_bearer_token (hr_authorization req) = Inr tok
        \<and> app_authenticate G app tok = Inr si \<and> as_evaluator app = Some K
        \<and> kernel_decides req K (fst si) (snd si) tok eff (request_id_of (er_request_id r) req) d
        \<and> x = decision_response d (hr_correlation_id req))"
    unfolding evaluate_steps_def
    by (simp add: step_bind_Inr oblivious_bind step_rules)
  show "oblivious (evaluate_steps G app req)" "rejects_only (evaluate_steps G app req)"
    by (simp_all add: evaluate_steps_def oblivious_bind rejects_only_bind step_rules)
qed

section \<open>The strict-mode gate\<close>

text \<open>A request is blocked when strict mode is on, the writer is degraded, and the recovery
  probe is not written.\<close>

definition audit_blocks :: "audit_lib \<Rightarrow> GatewayConfig option \<Rightarrow> AuditEvent \<Rightarrow> audit_st \<Rightarrow> bool" where
  "audit_blocks A config probe st \<longleftrightarrow>
     (\<exists>c. config = Some c \<and> audit_fail_closed c) \<and> st_degraded st
     \<and> \<not> (ae_accepts A probe \<and> inner_write A (st_trail st) probe)"

lemma st_degraded_emit:
  "st_degraded st \<Longrightarrow> st_degraded (emit_event A ev st) \<longleftrightarrow>
     \<not> (ae_accepts A ev \<and> inner_write A (st_trail st) ev)"
  by (cases st; cases "fst st")
    (auto simp: emit_event_Some st_degraded_def st_trail_def write_cases write_succeeded_def
      write_failed_def Let_def)

lemma precheck_cases:
  "resolve_audit_fail_closed_response cfg corr (emit_event A probe) st =
     (if audit_blocks A cfg probe st then (Inl (audit_fail_closed_response corr), emit_event A probe st)
      else if (\<exists>c. cfg = Some c \<and> audit_fail_closed c) \<and> st_degraded st then (Inr (), emit_event A probe st)
      else (Inr (), st))"
proof -
  have "st_degraded st \<Longrightarrow> fst st \<noteq> None" by (cases "fst st") (simp_all add: st_degraded_def)
  then show ?thesis
    by (auto simp: resolve_audit_fail_closed_response_def audit_blocks_def st_degraded_emit Let_def
        split: option.splits)
qed

lemma evaluate_cases:
  "evaluate G app req st =
     (if audit_blocks (gl_audit G) (as_config app) (probe_event req) st
      then (audit_fail_closed_response (hr_correlation_id req), emit_event (gl_audit G) (probe_event req) st)
      else answer (evaluate_steps G app req
        (if (\<exists>c. as_config app = Some c \<and> audit_fail_closed c) \<and> st_degraded st
         then emit_event (gl_audit G) (probe_event req) st else st)))"
  by (auto simp: evaluate_def step_bind_def precheck_cases answer_def)

lemma fst_answer: "fst (answer p) = (case fst p of Inl r \<Rightarrow> r | Inr r \<Rightarrow> r)"
  by (cases p; cases "fst p") (auto simp: answer_def)

lemma answer_200:
  assumes "rejects_only m"
  shows "status_code (fst (answer (m st))) = 200 \<longleftrightarrow> (\<exists>r. fst (m st) = Inr r \<and> status_code r = 200)"
proof (cases "fst (m st)")
  case (Inl r)
  then have "is_error r" using assms unfolding rejects_only_def by blast
  then have "400 \<le> status_code r" by (simp add: is_error_def)
  then show ?thesis using Inl by (simp add: fst_answer)
qed (simp add: fst_answer)


section \<open>Concrete requests for the witnesses\<close>

definition stub_gw :: gateway_lib where
  "stub_gw = \<lparr>gl_jwt = stub_jwt, gl_audit = stub_audit,
     gl_parse_json = (\<lambda>text. Some (PDict ((''action'', PStr ''read:ahu'')
       # (if text = ''device'' then [(''device'', PDict [])] else [])))),
     gl_nested = (\<lambda>_ _. Inr (PDict [])), gl_load_pem = (\<lambda>_. Inl (ValueError (''bad PEM'', [])))\<rparr>"

definition failing_gw :: gateway_lib where
  "failing_gw = stub_gw\<lparr>gl_audit := \<lparr>ae_accepts = (\<lambda>_. True), inner_write = (\<lambda>_ _. False)\<rparr>\<rparr>"

definition stub_kernel :: "DecisionOutcome \<Rightarrow> GatewayEvaluator" where
  "stub_kernel d = \<lparr>subject_error = (\<lambda>_. None), identity_error = (\<lambda>_. None), request_error = (\<lambda>_. None),
     ep_evaluate = (\<lambda>dq ks ic corr. ([sample_event\<lparr>ev_correlation_id := corr\<rparr>],
       Inr \<lparr>dr_request_id = dq_request_id dq, dr_outcome = d, dr_reason = ''r'', dr_policy_version = None\<rparr>)),
     ep_policy_version = None\<rparr>"

definition stub_app :: "bool \<Rightarrow> DecisionOutcome \<Rightarrow> app_state" where
  "stub_app strict d = \<lparr>as_config = Some (default_config\<lparr>audit_fail_closed := strict,
       operation_producer_subject_ids := {''alice''}\<rparr>),
     as_verifier = Some stub_verifier, as_trust_config = None, as_evaluator = Some (stub_kernel d),
     as_oa_evaluator = Some stub_oa\<rparr>"

definition stub_request :: http_request where
  "stub_request = \<lparr>hr_method = ''POST'', hr_path = ''/v1/evaluate'', hr_body = Inr ''body'',
     hr_authorization = Some ''Bearer t'', hr_raw_headers = [], hr_correlation_id = ''c-1'',
     hr_now = Aware 0, hr_compose_clock = Aware 0, hr_oa_call = stub_call\<rparr>"

definition degraded_st :: audit_st where
  "degraded_st = (Some ((GatewayAuditWriter_init True 1)\<lparr>w_degraded := True, w_failed_write_count := 1,
      w_consecutive_failure_count := 1, w_attempts := [sample_event]\<rparr>),
    mark_not_ready (threshold_message 1) AUDIT_WRITER_COMPONENT initial_readiness)"

lemma degraded_st_inv: "st_inv degraded_st"
  by (simp add: degraded_st_def st_inv_def audit_inv_def writer_inv_def writer_link_def)

definition stub_er :: EvaluateRequest where
  "stub_er = \<lparr>er_request_id = None, er_action = ''read:ahu'', er_resource_type = None,
     er_resource_id = None, er_context = []\<rparr>"

lemma stub_parse: "EvaluateRequest_validate (PDict [(''action'', PStr ''read:ahu'')]) = Inr stub_er"
  unfolding stub_er_def by code_simp

lemma stub_effective: "effective_request stub_er = Inr (''read:ahu'', None, [])"
  by code_simp

lemma stub_bearer: "extract_bearer_token (Some ''Bearer t'') = Inr ''t''"
  by code_simp

text \<open>Any application state with the concrete verifier authenticates the token.\<close>

definition stub_auth :: "app_state \<Rightarrow> bool" where
  "stub_auth app \<longleftrightarrow> (\<exists>c. as_config app = Some c \<and> auth_mode c = OIDC) \<and> as_verifier app = Some stub_verifier"

lemma stub_authenticated:
  assumes "stub_auth app"
  shows "\<exists>s i. app_authenticate stub_gw app ''t'' = Inr (s, i)
     \<and> ic_claims i = [(''sub'', PStr ''alice''), (''iss'', PStr ''https://idp'')] \<and> subject_id s = ''alice''"
  using assms
  by (auto simp: stub_auth_def app_authenticate_def stub_gw_def authenticate_def stub_verify
      map_claims_def dict_get_def)

lemma stub_app_auth: "stub_auth (stub_app b d)"
  by (simp add: stub_auth_def stub_app_def default_config_def)

lemma stub_decides:
  "\<exists>x. kernel_decides stub_request (stub_kernel d) s i tok eff reqid x \<and> dr_outcome x = d"
  if "ic_claims i = [(''sub'', PStr ''alice''), (''iss'', PStr ''https://idp'')]"
  using that
  by (simp add: kernel_decides_def kernel_call_def build_identity_context_def claim_time_def dict_get_def
      stub_kernel_def check_def)

text \<open>The concrete request gets the kernel's decision.\<close>

lemma stub_evaluate:
  "\<exists>x. fst (evaluate_steps stub_gw (stub_app b d) stub_request st) = Inr (decision_response x ''c-1'')
     \<and> dr_outcome x = d"
proof -
  obtain s i where si: "app_authenticate stub_gw (stub_app b d) ''t'' = Inr (s, i)"
    "ic_claims i = [(''sub'', PStr ''alice''), (''iss'', PStr ''https://idp'')]"
    using stub_authenticated [OF stub_app_auth] by blast
  obtain x where x: "kernel_decides stub_request (stub_kernel d) s i ''t'' (''read:ahu'', None, [])
      (request_id_of (er_request_id stub_er) stub_request) x" "dr_outcome x = d"
    using stub_decides [OF si(2)] by blast
  have "fst (evaluate_steps stub_gw (stub_app b d) stub_request st) =
      Inr (decision_response x (hr_correlation_id stub_request))"
    unfolding evaluate_steps_rules(1)
  proof (intro exI [of _ stub_er] exI [of _ "(''read:ahu'', None, [])"] exI [of _ "''t''"]
      exI [of _ "(s, i)"] exI [of _ "stub_kernel d"] exI [of _ x] conjI)
    show "model_validate_json (gl_parse_json stub_gw) EvaluateRequest_validate (hr_body stub_request) = Inr stub_er"
      by (simp add: model_validate_json_def stub_gw_def stub_request_def stub_parse)
    show "extract_bearer_token (hr_authorization stub_request) = Inr ''t''"
      by (simp add: stub_request_def stub_bearer)
  qed (use x si in \<open>simp_all add: stub_effective stub_app_def\<close>)
  with x(2) show ?thesis by (auto simp: stub_request_def)
qed

section \<open>Properties\<close>

text \<open>Soundness and completeness of \<^verbatim>\<open>POST /v1/evaluate\<close>: the gateway answers 200 exactly when
  strict audit mode does not block the request, the body is a valid request that
  composes, a bearer token is presented and authenticates, an evaluator is
  loaded, and the kernel, asked about the authenticated subject and the
  composed action, resource and context, allows. No other path gives 200.\<close>

theorem evaluate_allow_iff:
  "status_code (fst (evaluate G app req st)) = 200 \<longleftrightarrow>
     \<not> audit_blocks (gl_audit G) (as_config app) (probe_event req) st
     \<and> (\<exists>r eff tok s i K d.
          model_validate_json (gl_parse_json G) EvaluateRequest_validate (hr_body req) = Inr r
          \<and> effective_request r = Inr eff
          \<and> extract_bearer_token (hr_authorization req) = Inr tok
          \<and> app_authenticate G app tok = Inr (s, i)
          \<and> as_evaluator app = Some K
          \<and> kernel_decides req K s i tok eff (request_id_of (er_request_id r) req) d
          \<and> dr_outcome d = D_ALLOW)"
proof (cases "audit_blocks (gl_audit G) (as_config app) (probe_event req) st")
  case True
  then show ?thesis by (simp add: evaluate_cases step_rules)
next
  case False
  have allow: "status_code (decision_response d c) = 200 \<longleftrightarrow> dr_outcome d = D_ALLOW" for d c
    by (simp add: decision_response_status)
  have pull: "(\<exists>x. (\<exists>r eff tok si K d. Q r eff tok si K d \<and> x = f d) \<and> S x)
      \<longleftrightarrow> (\<exists>r eff tok s i K d. Q r eff tok (s, i) K d \<and> S (f d))"
    for Q :: "EvaluateRequest \<Rightarrow> string \<times> string option \<times> string dict \<Rightarrow> string
      \<Rightarrow> NormalizedSubject \<times> IdentityContext \<Rightarrow> GatewayEvaluator \<Rightarrow> DecisionResponse \<Rightarrow> bool"
      and S :: "http_response \<Rightarrow> bool" and f
    by (metis surj_pair)
  show ?thesis
    unfolding evaluate_cases if_not_P [OF False] answer_200 [OF evaluate_steps_rules(3)] evaluate_steps_rules(1)
    using False pull [of "\<lambda>r eff tok si K d.
        model_validate_json (gl_parse_json G) EvaluateRequest_validate (hr_body req) = Inr r
        \<and> effective_request r = Inr eff \<and> extract_bearer_token (hr_authorization req) = Inr tok
        \<and> app_authenticate G app tok = Inr si \<and> as_evaluator app = Some K
        \<and> kernel_decides req K (fst si) (snd si) tok eff (request_id_of (er_request_id r) req) d"
        "\<lambda>d. decision_response d (hr_correlation_id req)" "\<lambda>x. status_code x = 200"]
    by (simp add: conj_assoc allow)
qed

text \<open>The reference decision table of \<^verbatim>\<open>POST /v1/evaluate\<close>, without audit: the status of the first
  obstacle, or of the kernel's decision.\<close>

definition evaluate_status_spec :: "gateway_lib \<Rightarrow> app_state \<Rightarrow> http_request \<Rightarrow> nat" where
  "evaluate_status_spec G app req =
     (case model_validate_json (gl_parse_json G) EvaluateRequest_validate (hr_body req) of
        Inl e \<Rightarrow> 400
      | Inr r \<Rightarrow> (case effective_request r of
        Inl e \<Rightarrow> 400
      | Inr (action, resource_id, context) \<Rightarrow> (case extract_bearer_token (hr_authorization req) of
        Inl e \<Rightarrow> 401
      | Inr token \<Rightarrow> (case app_authenticate G app token of
        Inl e \<Rightarrow> 401
      | Inr (s, i) \<Rightarrow> (case as_evaluator app of
        None \<Rightarrow> 503
      | Some K \<Rightarrow> (case kernel_call K (hr_now req) s token (ic_claims i) action resource_id
                            (request_id_of (er_request_id r) req) context of
        Inl (ValidationError es) \<Rightarrow> 400
      | Inl e \<Rightarrow> 500
      | Inr (dq, ks, ic) \<Rightarrow> (case snd (ep_evaluate K dq ks ic (Some (hr_correlation_id req))) of
        Inl (ValidationError es) \<Rightarrow> 400
      | Inl e \<Rightarrow> 500
      | Inr d \<Rightarrow> (if dr_outcome d = D_ALLOW then 200 else 403))))))))"

lemma status_kernel_step:
  "status_code (case fst (kernel_step G req K s i tok act rid ctx reqid st) of Inl r \<Rightarrow> r | Inr r \<Rightarrow> r) =
     (case kernel_call K (hr_now req) s tok (ic_claims i) act rid reqid ctx of
        Inl (ValidationError es) \<Rightarrow> 400
      | Inl e \<Rightarrow> 500
      | Inr (dq, ks, ic) \<Rightarrow> (case snd (ep_evaluate K dq ks ic (Some (hr_correlation_id req))) of
        Inl (ValidationError es) \<Rightarrow> 400
      | Inl e \<Rightarrow> 500
      | Inr d \<Rightarrow> (if dr_outcome d = D_ALLOW then 200 else 403)))"
  by (simp add: fst_kernel_step response_helper_status decision_response_status split: sum.split exn.split prod.split)

lemma evaluate_steps_status:
  "status_code (fst (answer (evaluate_steps G app req st))) = evaluate_status_spec G app req"
proof -
  note steps = evaluate_steps_def evaluate_status_spec_def step_bind_def fst_answer response_helper_status
  show ?thesis
  proof (cases "model_validate_json (gl_parse_json G) EvaluateRequest_validate (hr_body req)")
    case (Inl e)
    then show ?thesis by (simp add: steps parse_body_step_def reject_def split: exn.split)
  next
    case r: (Inr r)
    note steps = steps r parse_body_step_def step_return_def
    show ?thesis
    proof (cases "effective_request r")
      case (Inl e)
      then show ?thesis by (simp add: steps compose_step_def reject_def)
    next
      case eff: (Inr eff)
      obtain act rid ctx where "eff = (act, rid, ctx)" by (cases eff)
      note steps = steps eff [unfolded this] compose_step_def
      show ?thesis
      proof (cases "extract_bearer_token (hr_authorization req)")
        case (Inl e)
        then show ?thesis by (simp add: steps bearer_step_def reject_def)
      next
        case tok: (Inr tok)
        note steps = steps tok bearer_step_def
        show ?thesis
        proof (cases "app_authenticate G app tok")
          case (Inl e)
          then show ?thesis by (simp add: steps authenticate_step_def reject_def)
        next
          case si: (Inr si)
          obtain s i where "si = (s, i)" by (cases si)
          note steps = steps si [unfolded this] authenticate_step_def evaluate_authenticated_def evaluator_step_def
          show ?thesis
            by (cases "as_evaluator app")
              (simp_all add: steps reject_def emit_step_def Let_def status_kernel_step)
        qed
      qed
    qed
  qed
qed

text \<open>C3: The whole decision table of \<^verbatim>\<open>POST /v1/evaluate\<close>: a request that strict mode blocks is
  answered 503; every other request gets the status of the reference table,
  which takes the steps in order and knows no audit state: so 400, 401, 403,
  500 and 503 are each given for exactly the failures they stand for.\<close>

theorem evaluate_status_exact:
  "status_code (fst (evaluate G app req st)) =
     (if audit_blocks (gl_audit G) (as_config app) (probe_event req) st then 503
      else evaluate_status_spec G app req)"
  by (simp add: evaluate_cases evaluate_steps_status response_helper_status)

text \<open>C13: Strict audit mode fails closed and recovers: a blocked request gets the 503 and hands
  the writer nothing but the probe, whatever its body, token or policy; the
  block ends with the first probe that is written, and then the answer is the
  one a healthy writer would have given.\<close>

theorem strict_mode_fails_closed:
  "(audit_blocks (gl_audit G) (as_config app) (probe_event req) st \<longrightarrow>
      evaluate G app req st =
        (audit_fail_closed_response (hr_correlation_id req), emit_event (gl_audit G) (probe_event req) st))
   \<and> (\<not> audit_blocks (gl_audit G) (as_config app) (probe_event req) st \<longrightarrow>
      fst (evaluate G app req st) = fst (evaluate G app req (None, rs)))"
proof -
  have "\<not> audit_blocks (gl_audit G) (as_config app) (probe_event req) (None, rs)"
    by (simp add: audit_blocks_def st_degraded_def)
  moreover obtain x where "\<And>s. fst (evaluate_steps G app req s) = x"
    using evaluate_steps_rules(2) [of G app req] unfolding oblivious_def by blast
  ultimately show ?thesis by (simp add: evaluate_cases fst_answer)
qed

theorem strict_mode_fails_closed_witness:
  "status_code (fst (evaluate failing_gw (stub_app True D_ALLOW) stub_request degraded_st)) = 503
   \<and> fst (evaluate stub_gw (stub_app True D_ALLOW) stub_request degraded_st)
     = fst (evaluate stub_gw (stub_app True D_ALLOW) stub_request (None, initial_readiness))"
proof -
  have "audit_blocks (gl_audit failing_gw) (as_config (stub_app True D_ALLOW)) (probe_event stub_request) degraded_st"
    by (simp add: audit_blocks_def failing_gw_def stub_app_def degraded_st_def st_degraded_def)
  then have "status_code (fst (evaluate failing_gw (stub_app True D_ALLOW) stub_request degraded_st)) = 503"
    using strict_mode_fails_closed [of failing_gw "stub_app True D_ALLOW" stub_request degraded_st]
    by (simp add: step_rules)
  moreover have "\<not> audit_blocks (gl_audit stub_gw) (as_config (stub_app True D_ALLOW))
      (probe_event stub_request) degraded_st"
    by (simp add: audit_blocks_def stub_gw_def stub_audit_def)
  ultimately show ?thesis
    using strict_mode_fails_closed [of stub_gw "stub_app True D_ALLOW" stub_request degraded_st initial_readiness]
    by blast
qed

text \<open>Serving a request keeps the audit subsystem consistent, whatever the request and however
  the writer and the kernel behave: the writer's invariant and its link to
  readiness survive, no other readiness component moves, and (when the kernel
  stamps its events with the correlation id it is given) every event handed
  to the writer carries this request's correlation id.\<close>

theorem evaluate_keeps_audit_consistent:
  assumes "st_inv st"
    and "\<And>K dq ks ic corr. as_evaluator app = Some K \<Longrightarrow>
      list_all (\<lambda>ev. ev_correlation_id ev = corr) (fst (ep_evaluate K dq ks ic corr))"
  shows "st_inv (snd (evaluate G app req st))
    \<and> (\<forall>c. c \<noteq> AUDIT_WRITER_COMPONENT \<longrightarrow>
         component_of (snd (snd (evaluate G app req st))) c = component_of (snd st) c)
    \<and> (\<exists>evs. st_trail (snd (evaluate G app req st)) = st_trail st @ evs
         \<and> list_all (\<lambda>ev. ev_correlation_id ev = Some (hr_correlation_id req)) evs)"
proof -
  have "audit_frame_rel st (snd (evaluate G app req st))"
    by (rule framed.R_evaluate) (simp_all add: list_all_iff)
  moreover have "trail_rel (\<lambda>ev. ev_correlation_id ev = Some (hr_correlation_id req)) st
      (snd (evaluate G app req st))"
    by (rule trailed.R_evaluate) (simp_all add: gw_event_def assms(2))
  ultimately show ?thesis using assms(1) unfolding audit_frame_rel_def trail_rel_def by blast
qed

theorem evaluate_keeps_audit_consistent_witness:
  "st_inv (snd (evaluate failing_gw (stub_app True D_DENY) stub_request degraded_st))
   \<and> (\<exists>evs. st_trail (snd (evaluate failing_gw (stub_app True D_DENY) stub_request degraded_st))
        = st_trail degraded_st @ evs \<and> list_all (\<lambda>ev. ev_correlation_id ev = Some ''c-1'') evs)"
proof -
  have "list_all (\<lambda>ev. ev_correlation_id ev = corr) (fst (ep_evaluate K dq ks ic corr))"
    if "as_evaluator (stub_app True D_DENY) = Some K" for K dq ks ic corr
    using that by (auto simp: stub_app_def stub_kernel_def)
  from evaluate_keeps_audit_consistent [OF degraded_st_inv this, where G = failing_gw and req = stub_request]
  show ?thesis by (simp add: stub_request_def)
qed


text \<open>The correlation id a response body shows.\<close>

definition body_correlation :: "response_body \<Rightarrow> string option" where
  "body_correlation b = (case b of ErrorBody e \<Rightarrow> err_correlation_id e | EvaluateBody e \<Rightarrow> rs_correlation_id e
    | OABody e \<Rightarrow> ob_correlation_id e | ReadyBody r \<Rightarrow> ry_correlation_id r | HealthBody s n \<Rightarrow> None)"

lemma helper_correlation [simp]:
  "body_correlation (content (authentication_required m c)) = Some c"
  "body_correlation (content (authentication_failed t c)) = Some c"
  "body_correlation (content (validation_failed m c)) = Some c"
  "body_correlation (content (evaluator_unavailable c)) = Some c"
  "body_correlation (content (audit_fail_closed_response c)) = Some c"
  "body_correlation (content (evaluation_failed_closed c)) = Some c"
  "body_correlation (content (decision_response d c)) = Some c"
  by (simp_all add: authentication_required_def authentication_failed_def validation_failed_def
      evaluator_unavailable_def audit_fail_closed_response_def evaluation_failed_closed_def
      error_response_def decision_response_def body_correlation_def)

text \<open>A step answers under a correlation id when every response it returns shows it.\<close>

definition answers_under :: "string \<Rightarrow> 'a step \<Rightarrow> bool" where
  "answers_under c m \<longleftrightarrow> (\<forall>st r. fst (m st) = Inl r \<longrightarrow> body_correlation (content r) = Some c)"

lemma answers_under_bind:
  assumes "answers_under c m" and "\<And>x. answers_under c (f x)"
  shows "answers_under c (step_bind m f)"
  unfolding answers_under_def
proof (intro allI impI)
  fix st r
  assume "fst (step_bind m f st) = Inl r"
  then consider "fst (m st) = Inl r" | x where "fst (f x (snd (m st))) = Inl r"
    by (auto simp: fst_step_bind split: sum.splits)
  then show "body_correlation (content r) = Some c"
    using assms unfolding answers_under_def by cases blast+
qed

lemma answers_under_steps:
  "answers_under c (step_return x)" "answers_under c (emit_step A ev)"
  "answers_under c (reject A ev r) \<longleftrightarrow> body_correlation (content r) = Some c"
  by (simp_all add: answers_under_def step_rules)

lemma answers_under_evaluate_steps: "answers_under (hr_correlation_id req) (evaluate_steps G app req)"
proof -
  note sr = answers_under_steps answers_under_bind
  have 1: "answers_under (hr_correlation_id req) (parse_body_step G req)"
    "answers_under (hr_correlation_id req) (compose_step G req r)"
    "answers_under (hr_correlation_id req) (bearer_step G req)"
    "answers_under (hr_correlation_id req) (authenticate_step G app req t)"
    "answers_under (hr_correlation_id req) (evaluator_step G app req s)" for r t s
    by (simp_all add: parse_body_step_def compose_step_def bearer_step_def authenticate_step_def
        evaluator_step_def sr split: sum.split exn.split option.split)
  have 2: "answers_under (hr_correlation_id req) (kernel_step G req K s i tok act rid ctx reqid)"
    for K s i tok act rid ctx reqid
    by (auto simp: answers_under_def fst_kernel_step split: sum.splits exn.splits)
  show ?thesis
    by (simp add: evaluate_steps_def evaluate_authenticated_def case_prod_beta Let_def sr 1 2)
qed

lemma evaluate_body_correlation:
  "body_correlation (content (fst (evaluate G app req st))) = Some (hr_correlation_id req)"
proof -
  have "body_correlation (content (fst (answer (evaluate_steps G app req s)))) = Some (hr_correlation_id req)" for s
  proof (cases "fst (evaluate_steps G app req s)")
    case (Inl r)
    then have "body_correlation (content r) = Some (hr_correlation_id req)"
      using answers_under_evaluate_steps [of req G app] unfolding answers_under_def by blast
    then show ?thesis using Inl by (simp add: fst_answer)
  next
    case (Inr r)
    then show ?thesis using evaluate_steps_rules(1) [of G app req s r] by (auto simp: fst_answer)
  qed
  then show ?thesis by (simp add: evaluate_cases)
qed


text \<open>The readiness probe is exact: in a well-formed readiness state it answers 200 exactly
  when some component is registered and none is down; a 503 names exactly
  the components that are down, each with the reason recorded for it.\<close>

theorem ready_exact:
  assumes "readiness_inv rs"
  shows "(status_code (ready rs corr) = 200 \<longleftrightarrow>
        (\<exists>c. component_of rs c \<noteq> None) \<and> (\<forall>c. component_of rs c \<noteq> Some False))
    \<and> (status_code (ready rs corr) \<noteq> 200 \<longrightarrow>
        (\<exists>b. content (ready rs corr) = ReadyBody b \<and> ry_reason b \<noteq> None \<and> ry_correlation_id b = Some corr
           \<and> fst ` set (ry_reasons b) = {c. component_of rs c = Some False}
           \<and> (\<forall>c m. (c, m) \<in> set (ry_reasons b) \<longrightarrow> map_of (reasons rs) c = Some m)))"
proof -
  have "fst ` set (all_reasons rs) = {c. component_of rs c = Some False}"
    using all_reasons_keys [OF assms] by blast
  then show ?thesis
    using all_reasons_recorded [OF assms] by (simp add: ready_def is_ready_iff [OF assms])
qed

theorem ready_exact_witness:
  "status_code (ready (mark_not_ready (threshold_message 1) AUDIT_WRITER_COMPONENT
     (mark_ready ''app'' initial_readiness)) ''c'') \<noteq> 200"
proof -
  let ?rs = "mark_not_ready (threshold_message 1) AUDIT_WRITER_COMPONENT (mark_ready ''app'' initial_readiness)"
  have "readiness_inv ?rs" by simp
  moreover have "component_of ?rs AUDIT_WRITER_COMPONENT = Some False" by simp
  ultimately show ?thesis using ready_exact [of ?rs "''c''"] by blast
qed


text \<open>When all steps up to the kernel pass, they leave the audit state alone: the receipt
  is the first event and the kernel's own events follow it.\<close>

definition receipt :: "http_request \<Rightarrow> GatewayEvaluator \<Rightarrow> NormalizedSubject \<Rightarrow> string \<Rightarrow> AuditEvent" where
  "receipt req K s request_id = gw_event req EVALUATION_REQUESTED None (ep_policy_version K)
     (Some (subject_id s)) [(''request_id'', PStr request_id)]"

lemma evaluate_steps_state:
  assumes "fst (evaluate_steps G app req st) = Inr x"
  obtains K s i tok reqid dq ks ic where
    "as_evaluator app = Some K" "app_authenticate G app tok = Inr (s, i)"
    "dq_subject_id dq = subject_id s" "dq_request_id dq = reqid"
    "snd (evaluate_steps G app req st) =
       kernel_writes (gl_audit G) (fst (ep_evaluate K dq ks ic (Some (hr_correlation_id req))))
         (emit_event (gl_audit G) (receipt req K s reqid) st)"
proof -
  obtain r eff tok si K d where
    p: "model_validate_json (gl_parse_json G) EvaluateRequest_validate (hr_body req) = Inr r"
      "effective_request r = Inr eff" "extract_bearer_token (hr_authorization req) = Inr tok"
      "app_authenticate G app tok = Inr si" "as_evaluator app = Some K"
    and k: "kernel_decides req K (fst si) (snd si) tok eff (request_id_of (er_request_id r) req) d"
    using assms unfolding evaluate_steps_rules(1) by blast
  let ?reqid = "request_id_of (er_request_id r) req"
  obtain dq ks ic where
    c: "kernel_call K (hr_now req) (fst si) tok (ic_claims (snd si)) (fst eff) (fst (snd eff)) ?reqid
          (snd (snd eff)) = Inr (dq, ks, ic)"
    and d: "snd (ep_evaluate K dq ks ic (Some (hr_correlation_id req))) = Inr d"
    using k by (auto simp: kernel_decides_def split: sum.splits)
  have "snd (evaluate_steps G app req st) =
      kernel_writes (gl_audit G) (fst (ep_evaluate K dq ks ic (Some (hr_correlation_id req))))
        (emit_event (gl_audit G) (receipt req K (fst si) ?reqid) st)"
    using p c d
    by (simp add: evaluate_steps_def evaluate_authenticated_def parse_body_step_def compose_step_def
        bearer_step_def authenticate_step_def evaluator_step_def case_prod_beta Let_def receipt_def
        step_bind_def [of "emit_step _ _"] emit_step_def kernel_step_def GatewayEvaluator_evaluate_def
        step_return_def)
  then show thesis
    using that [of K tok "fst si" "snd si" dq ?reqid ks ic] p(4,5) kernel_call_Inr [OF c] by simp
qed

text \<open>C21: Evidence precedes the decision: whenever the gateway returns a kernel decision, allow or
  deny, the audit writer was handed the receipt of the authenticated request
  first (after a recovery probe, if there was one) and the kernel's own
  events after it, for the same subject.\<close>

theorem receipt_precedes_kernel:
  assumes "fst st \<noteq> None" and "\<And>ev. ae_accepts (gl_audit G) ev"
    and "content (fst (evaluate G app req st)) = EvaluateBody b"
  shows "\<exists>K s i tok reqid dq ks ic pre. as_evaluator app = Some K
    \<and> app_authenticate G app tok = Inr (s, i) \<and> dq_subject_id dq = subject_id s \<and> dq_request_id dq = reqid
    \<and> pre \<in> {[], [probe_event req]}
    \<and> st_trail (snd (evaluate G app req st)) = st_trail st @ pre @ [receipt req K s reqid]
        @ fst (ep_evaluate K dq ks ic (Some (hr_correlation_id req)))"
proof -
  have nb: "\<not> audit_blocks (gl_audit G) (as_config app) (probe_event req) st"
    using assms(3) response_helper_errors(6) [of "hr_correlation_id req"] by (auto simp: evaluate_cases is_error_def)
  define pre where "pre = (if (\<exists>c. as_config app = Some c \<and> audit_fail_closed c) \<and> st_degraded st
    then [probe_event req] else [])"
  define s0 where "s0 = (if (\<exists>c. as_config app = Some c \<and> audit_fail_closed c) \<and> st_degraded st
    then emit_event (gl_audit G) (probe_event req) st else st)"
  have ev: "evaluate G app req st = answer (evaluate_steps G app req s0)"
    using nb by (simp only: evaluate_cases s0_def if_False)
  have s0: "fst s0 \<noteq> None" "st_trail s0 = st_trail st @ pre"
    using assms(1) fst_emit_event_None_iff [of "gl_audit G" "probe_event req" st]
    by (simp_all only: s0_def if_split simp_thms) (simp_all add: assms(1,2) pre_def st_trail_emit del: not_None_eq)
  have "\<exists>x. fst (evaluate_steps G app req s0) = Inr x"
  proof (cases "fst (evaluate_steps G app req s0)")
    case (Inl r)
    then have "is_error r" using evaluate_steps_rules(3) [of G app req] unfolding rejects_only_def by blast
    with Inl ev assms(3) show ?thesis by (auto simp: fst_answer is_error_def)
  qed simp
  then obtain x where x: "fst (evaluate_steps G app req s0) = Inr x" by blast
  have "snd (evaluate G app req st) = snd (evaluate_steps G app req s0)"
    by (simp add: ev answer_def case_prod_beta split: sum.split)
  then show ?thesis
    using s0 assms(2) by (rule_tac evaluate_steps_state [OF x])
      (force simp: st_trail_kernel_writes st_trail_emit pre_def)
qed



theorem receipt_precedes_kernel_witness:
  "\<exists>K s reqid dq ks ic pre. as_evaluator (stub_app False D_DENY) = Some K
    \<and> st_trail (snd (evaluate stub_gw (stub_app False D_DENY) stub_request sample_st))
      = st_trail sample_st @ pre @ [receipt stub_request K s reqid]
        @ fst (ep_evaluate K dq ks ic (Some (hr_correlation_id stub_request)))"
proof -
  obtain x where x: "fst (evaluate_steps stub_gw (stub_app False D_DENY) stub_request sample_st)
      = Inr (decision_response x ''c-1'')" using stub_evaluate by blast
  have "\<not> st_degraded sample_st" by (simp add: sample_st_def st_degraded_def)
  then have "fst (evaluate stub_gw (stub_app False D_DENY) stub_request sample_st) = decision_response x ''c-1''"
    using x by (simp add: evaluate_cases audit_blocks_def fst_answer)
  then have "\<exists>b. content (fst (evaluate stub_gw (stub_app False D_DENY) stub_request sample_st)) = EvaluateBody b"
    by (simp add: decision_response_def)
  then obtain b where b: "content (fst (evaluate stub_gw (stub_app False D_DENY) stub_request sample_st)) = EvaluateBody b"
    by blast
  have w: "fst sample_st \<noteq> None" by (simp add: sample_st_def)
  have a: "ae_accepts (gl_audit stub_gw) ev" for ev by (simp add: stub_gw_def stub_audit_def)
  from receipt_precedes_kernel [OF w a b] show ?thesis by blast
qed

end
