(* ===== verification/GW_OA_Routes.thy ===== *)
theory GW_OA_Routes
  imports GW_Routes
begin

text \<open>
  \<^verbatim>\<open>api/routes.py\<close>, second part: \<^verbatim>\<open>POST /v1/evaluate/operation-aware\<close>. The handler is a
  sequence of steps like the one of \<^verbatim>\<open>GW_Routes\<close>; its early returns are either a
  response or an exception the handler does not catch, so a step's left value is
  of type \<^verbatim>\<open>exn + http_response\<close>.
\<close>

section \<open>Early returns\<close>

type_synonym 'a oa_step = "(exn + http_response, 'a) action"

text \<open>An exception that no clause of the handler catches.\<close>

definition raise_exn :: "exn \<Rightarrow> 'a oa_step" where
  "raise_exn e st = (Inl (Inl e), st)"

definition oa_event ::
    "http_request \<Rightarrow> string \<Rightarrow> string option \<Rightarrow> nat option \<Rightarrow> string option \<Rightarrow> AuditEvent" where
  "oa_event req action event_reason http_status sid =
     oa_system_event action (Some (hr_correlation_id req)) (hr_path req) (hr_method req)
       event_reason http_status sid []"

definition oa_reject ::
    "gateway_lib \<Rightarrow> http_request \<Rightarrow> string \<Rightarrow> string \<Rightarrow> string option \<Rightarrow> http_response \<Rightarrow> 'a oa_step" where
  "oa_reject G req action event_reason sid r =
     reject (gl_audit G) (oa_event req action (Some event_reason) (Some (status_code r)) sid) (Inr r)"

section \<open>Steps\<close>

definition oa_parse_step :: "gateway_lib \<Rightarrow> http_request \<Rightarrow> OperationAwareEvaluateRequest oa_step" where
  "oa_parse_step G req =
     (case model_validate_json (gl_parse_json G) (OperationAwareEvaluateRequest_validate (gl_nested G))
             (hr_body req) of
        Inr r \<Rightarrow> step_return r
      | Inl (ValidationError es) \<Rightarrow>
          oa_reject G req OA_VALIDATION_FAILED
            (if is_json_error es then REASON_MALFORMED_BODY else REASON_INVALID_FIELDS) None
            (validation_failed (errors_message es) (hr_correlation_id req))
      | Inl e \<Rightarrow>
          oa_reject G req OA_VALIDATION_FAILED REASON_MALFORMED_BODY None
            (validation_failed (''Malformed request body'', []) (hr_correlation_id req)))"

definition oa_bearer_step :: "gateway_lib \<Rightarrow> http_request \<Rightarrow> string oa_step" where
  "oa_bearer_step G req = (case extract_bearer_token (hr_authorization req) of
      Inr token \<Rightarrow> step_return token
    | Inl e \<Rightarrow> oa_reject G req OA_AUTHENTICATION_FAILED REASON_MISSING_TOKEN None
                 (authentication_required (auth_exn_msg e) (hr_correlation_id req)))"

definition oa_authenticate_step ::
    "gateway_lib \<Rightarrow> app_state \<Rightarrow> http_request \<Rightarrow> string \<Rightarrow> (NormalizedSubject \<times> IdentityContext) oa_step" where
  "oa_authenticate_step G app req token = (case app_authenticate G app token of
      Inr i \<Rightarrow> step_return i
    | Inl e \<Rightarrow> oa_reject G req OA_AUTHENTICATION_FAILED (auth_failure_reason e) None
                 (authentication_failed (auth_failure_message e) (hr_correlation_id req)))"

definition producer_mtls_failure_reason :: "mtls_exn \<Rightarrow> string" where
  "producer_mtls_failure_reason e = (case e of
      MissingProducerCertificateAssertionError \<Rightarrow> REASON_PRODUCER_MTLS_MISSING_ASSERTION
    | DuplicateProducerCertificateAssertionError n \<Rightarrow> REASON_PRODUCER_MTLS_DUPLICATE_ASSERTION
    | OversizedProducerCertificateAssertionError \<Rightarrow> REASON_PRODUCER_MTLS_OVERSIZED_ASSERTION
    | CertificateAssertionDecodingError m \<Rightarrow> REASON_PRODUCER_MTLS_MALFORMED_ENCODING
    | CertificateParsingError m \<Rightarrow> REASON_PRODUCER_MTLS_MALFORMED_CERTIFICATE
    | NoEligibleUriSanError m \<Rightarrow> REASON_PRODUCER_MTLS_NO_ELIGIBLE_URI_SAN
    | MultipleEligibleUriSansError m \<Rightarrow> REASON_PRODUCER_MTLS_MULTIPLE_ELIGIBLE_URI_SANS)"

text \<open>Step 4: which trust the caller has; without a configuration nobody is a producer.\<close>

definition app_producer_trust ::
    "gateway_lib \<Rightarrow> app_state \<Rightarrow> http_request \<Rightarrow> NormalizedSubject \<Rightarrow> OperationProducerTrust res" where
  "app_producer_trust G app req subject = (case as_config app of
      None \<Rightarrow> Inr (classify_operation_producer subject {})
    | Some config \<Rightarrow> resolve_operation_producer_trust (gl_load_pem G) (hr_raw_headers req) subject config)"

definition oa_trust_step ::
    "gateway_lib \<Rightarrow> app_state \<Rightarrow> http_request \<Rightarrow> NormalizedSubject \<Rightarrow> OperationProducerTrust oa_step" where
  "oa_trust_step G app req subject = (case app_producer_trust G app req subject of
      Inr trust \<Rightarrow> step_return trust
    | Inl (ProducerTrustError e) \<Rightarrow>
        oa_reject G req PRODUCER_MTLS_TRUST_FAILED (producer_mtls_failure_reason e) (Some (subject_id subject))
          (producer_certificate_rejected (hr_correlation_id req))
    | Inl e \<Rightarrow> raise_exn e)"

definition composition_failure_reason :: "comp_exn \<Rightarrow> string" where
  "composition_failure_reason e = (case e of
      UntrustedOperationProducerContextError fs \<Rightarrow> REASON_PRODUCER_CONTEXT_REJECTED
    | ReservedContextKeyError ks \<Rightarrow> REASON_RESERVED_CONTEXT_KEY
    | ActionCompositionError m \<Rightarrow> REASON_ACTION_OR_RESOURCE_COMPOSITION_FAILED
    | ResourceCompositionError m \<Rightarrow> REASON_ACTION_OR_RESOURCE_COMPOSITION_FAILED
    | CompositionInternalError m \<Rightarrow> REASON_COMPOSITION_INTERNAL_ERROR)"

definition oa_compose_step ::
    "gateway_lib \<Rightarrow> http_request \<Rightarrow> OperationAwareEvaluateRequest \<Rightarrow> NormalizedSubject \<Rightarrow> IdentityContext
     \<Rightarrow> OperationProducerTrust \<Rightarrow> ComposedOperationAwareInput oa_step" where
  "oa_compose_step G req r subject ctx trust =
     (case compose_operation_aware_input r subject ctx trust (hr_correlation_id req) (hr_compose_clock req) of
        Inr composed \<Rightarrow> step_return composed
      | Inl (CompositionInternalError m) \<Rightarrow>
          oa_reject G req OA_EVALUATION_FAILED_CLOSED (composition_failure_reason (CompositionInternalError m))
            (Some (subject_id subject)) (internal_error_response (hr_correlation_id req))
      | Inl e \<Rightarrow>
          oa_reject G req COMPOSITION_REJECTED (composition_failure_reason e) (Some (subject_id subject))
            (validation_failed (comp_exn_msg e) (hr_correlation_id req)))"

definition oa_evaluator_step ::
    "gateway_lib \<Rightarrow> app_state \<Rightarrow> http_request \<Rightarrow> NormalizedSubject \<Rightarrow> OperationAwareGatewayEvaluator oa_step" where
  "oa_evaluator_step G app req subject = (case as_oa_evaluator app of
      Some E \<Rightarrow> step_return E
    | None \<Rightarrow> oa_reject G req OA_EVALUATOR_UNAVAILABLE REASON_EVALUATOR_NOT_INITIALIZED
        (Some (subject_id subject)) (evaluator_unavailable (hr_correlation_id req)))"

definition oa_kernel_step ::
    "gateway_lib \<Rightarrow> http_request \<Rightarrow> OperationAwareGatewayEvaluator \<Rightarrow> NormalizedSubject
     \<Rightarrow> ComposedOperationAwareInput \<Rightarrow> OAResult oa_step" where
  "oa_kernel_step G req E subject composed =
     (case OperationAwareGatewayEvaluator_evaluate E (hr_oa_call req) composed of
        Inr result \<Rightarrow> step_return result
      | Inl (OperationAwareRequestConstructionError m) \<Rightarrow>
          oa_reject G req COMPOSITION_REJECTED REASON_INVALID_DECISION_REQUEST (Some (subject_id subject))
            (validation_failed m (hr_correlation_id req))
      | Inl e \<Rightarrow>
          oa_reject G req OA_EVALUATION_FAILED_CLOSED REASON_EVALUATION_EXCEPTION (Some (subject_id subject))
            (evaluation_failed_closed (hr_correlation_id req)))"

text \<open>Steps 8 and 9: classification, the durable record, the response.\<close>

definition result_status :: "OAResult \<Rightarrow> nat" where
  "result_status result = classify_operation_aware_http_status
     (or_evaluation_status (rr_response result)) (or_outcome (rr_response result))
     (or_failure_reason (rr_response result))"

definition oa_result_response :: "OAResult \<Rightarrow> http_response" where
  "oa_result_response result = \<lparr>status_code = result_status result, content = OABody (from_result result)\<rparr>"

definition oa_respond_step ::
    "gateway_lib \<Rightarrow> http_request \<Rightarrow> ComposedOperationAwareInput \<Rightarrow> OAResult \<Rightarrow> http_response oa_step" where
  "oa_respond_step G req composed result st =
     (if rr_audit_evidence result \<noteq> None
      then (case emit_operation_aware_completed_event (gl_audit G) result composed (result_status result)
                   (hr_path req) (hr_method req) st of
              (Inl e, st') \<Rightarrow> raise_exn e st'
            | (Inr _, st') \<Rightarrow> step_return (oa_result_response result) st')
      else step_return (oa_result_response result)
             (emit_operation_aware_missing_evidence_event (gl_audit G) composed (result_status result)
               (hr_path req) (hr_method req) st))"

definition oa_authenticated ::
    "gateway_lib \<Rightarrow> app_state \<Rightarrow> http_request \<Rightarrow> OperationAwareEvaluateRequest
     \<Rightarrow> NormalizedSubject \<Rightarrow> IdentityContext \<Rightarrow> http_response oa_step" where
  "oa_authenticated G app req r subject ctx =
     step_bind (oa_trust_step G app req subject) (\<lambda>trust.
     step_bind (oa_compose_step G req r subject ctx trust) (\<lambda>composed.
     step_bind (oa_evaluator_step G app req subject) (\<lambda>E.
     step_bind (oa_kernel_step G req E subject composed) (\<lambda>result.
       oa_respond_step G req composed result))))"

definition oa_steps :: "gateway_lib \<Rightarrow> app_state \<Rightarrow> http_request \<Rightarrow> http_response oa_step" where
  "oa_steps G app req =
     step_bind (oa_parse_step G req) (\<lambda>r.
     step_bind (oa_bearer_step G req) (\<lambda>token.
     step_bind (oa_authenticate_step G app req token) (\<lambda>i.
       oa_authenticated G app req r (fst i) (snd i))))"

definition oa_probe_event :: "http_request \<Rightarrow> AuditEvent" where
  "oa_probe_event req = oa_event req OA_AUDIT_RECOVERY_PROBE None None None"

definition oa_answer :: "((exn + http_response) + http_response) \<times> audit_st \<Rightarrow> http_response res \<times> audit_st" where
  "oa_answer p = (case p of (Inl x, st) \<Rightarrow> (x, st) | (Inr r, st) \<Rightarrow> (Inr r, st))"

definition evaluate_operation_aware ::
    "gateway_lib \<Rightarrow> app_state \<Rightarrow> http_request \<Rightarrow> audit_st \<Rightarrow> http_response res \<times> audit_st" where
  "evaluate_operation_aware G app req st =
     (case resolve_audit_fail_closed_response (as_config app) (hr_correlation_id req)
             (emit_event (gl_audit G) (oa_probe_event req)) st of
        (Inl r, st') \<Rightarrow> (Inr r, st')
      | (Inr _, st') \<Rightarrow> oa_answer (oa_steps G app req st'))"

section \<open>How the handler ends\<close>

text \<open>The kernel was reached: every step before it passed, and it returned a result.\<close>

definition oa_reaches ::
    "gateway_lib \<Rightarrow> app_state \<Rightarrow> http_request \<Rightarrow> OperationAwareEvaluateRequest \<Rightarrow> NormalizedSubject
     \<Rightarrow> OperationProducerTrust \<Rightarrow> ComposedOperationAwareInput \<Rightarrow> OAResult \<Rightarrow> bool" where
  "oa_reaches G app req r s t c result \<longleftrightarrow> (\<exists>tok i E.
     model_validate_json (gl_parse_json G) (OperationAwareEvaluateRequest_validate (gl_nested G)) (hr_body req) = Inr r
     \<and> extract_bearer_token (hr_authorization req) = Inr tok
     \<and> app_authenticate G app tok = Inr (s, i)
     \<and> app_producer_trust G app req s = Inr t
     \<and> compose_operation_aware_input r s i t (hr_correlation_id req) (hr_compose_clock req) = Inr c
     \<and> as_oa_evaluator app = Some E
     \<and> OperationAwareGatewayEvaluator_evaluate E (hr_oa_call req) c = Inr result)"

text \<open>The trust resolution raised an exception the handler has no clause for.\<close>

definition oa_trust_raises :: "gateway_lib \<Rightarrow> app_state \<Rightarrow> http_request \<Rightarrow> exn \<Rightarrow> bool" where
  "oa_trust_raises G app req e \<longleftrightarrow> (\<exists>r tok s i.
     model_validate_json (gl_parse_json G) (OperationAwareEvaluateRequest_validate (gl_nested G)) (hr_body req) = Inr r
     \<and> extract_bearer_token (hr_authorization req) = Inr tok
     \<and> app_authenticate G app tok = Inr (s, i)
     \<and> app_producer_trust G app req s = Inl e \<and> (\<forall>x. e \<noteq> ProducerTrustError x))"

text \<open>An early return is an error response.\<close>

definition early_return :: "(exn + http_response) + 'a \<Rightarrow> bool" where
  "early_return x \<longleftrightarrow> (\<exists>r. x = Inl (Inr r) \<and> is_error r)"

named_theorems oa_step_rules \<open>what the steps of the operation-aware handler return\<close>

lemma oa_reject_rules [oa_step_rules]:
  "is_error r \<Longrightarrow> early_return (fst (oa_reject G req a re sid r st))"
  "oblivious (oa_reject G req a re sid r)"
  "fst (oa_reject G req a re sid r st) \<noteq> Inr x"
  by (simp_all add: early_return_def oa_reject_def reject_def oblivious_def)

lemma early_bind: "early_return (fst (m st)) \<Longrightarrow> early_return (fst (step_bind m f st))"
  by (auto simp: early_return_def fst_step_bind)

text \<open>Each step passes its value on in the unchanged state, or returns early.\<close>

lemma oa_step_cases:
  "model_validate_json (gl_parse_json G) (OperationAwareEvaluateRequest_validate (gl_nested G)) (hr_body req) = Inl e
    \<Longrightarrow> early_return (fst (oa_parse_step G req st))"
  "extract_bearer_token (hr_authorization req) = Inl e1 \<Longrightarrow> early_return (fst (oa_bearer_step G req st))"
  "app_authenticate G app tok = Inl e \<Longrightarrow> early_return (fst (oa_authenticate_step G app req tok st))"
  "app_producer_trust G app req s = Inl (ProducerTrustError x) \<Longrightarrow> early_return (fst (oa_trust_step G app req s st))"
  "compose_operation_aware_input r s i t (hr_correlation_id req) (hr_compose_clock req) = Inl e2
    \<Longrightarrow> early_return (fst (oa_compose_step G req r s i t st))"
  "as_oa_evaluator app = None \<Longrightarrow> early_return (fst (oa_evaluator_step G app req s st))"
  "OperationAwareGatewayEvaluator_evaluate E (hr_oa_call req) c = Inl e
    \<Longrightarrow> early_return (fst (oa_kernel_step G req E s c st))"
  by (simp_all add: oa_parse_step_def oa_bearer_step_def oa_authenticate_step_def oa_trust_step_def
      oa_compose_step_def oa_evaluator_step_def oa_kernel_step_def oa_step_rules response_helper_errors
      split: exn.split comp_exn.split)

lemmas oa_early =
  oa_step_cases(1) [THEN early_bind [where m = "oa_parse_step G req" for G req]]
  oa_step_cases(2) [THEN early_bind [where m = "oa_bearer_step G req" for G req]]
  oa_step_cases(3) [THEN early_bind [where m = "oa_authenticate_step G app req tok" for G app req tok]]
  oa_step_cases(4) [THEN early_bind [where m = "oa_trust_step G app req s" for G app req s]]
  oa_step_cases(5) [THEN early_bind [where m = "oa_compose_step G req r s i t" for G req r s i t]]
  oa_step_cases(6) [THEN early_bind [where m = "oa_evaluator_step G app req s" for G app req s]]
  oa_step_cases(7) [THEN early_bind [where m = "oa_kernel_step G req E s c" for G req E s c]]

lemma oa_steps_early:
  assumes "\<And>r s t c result. \<not> oa_reaches G app req r s t c result"
  and "\<And>e. \<not> oa_trust_raises G app req e"
  shows "early_return (fst (oa_steps G app req st))"
proof (rule ccontr)
  assume n: "\<not> early_return (fst (oa_steps G app req st))"
  obtain r where 1: "model_validate_json (gl_parse_json G) (OperationAwareEvaluateRequest_validate (gl_nested G))
      (hr_body req) = Inr r"
    using n
    by (cases "model_validate_json (gl_parse_json G) (OperationAwareEvaluateRequest_validate (gl_nested G))
      (hr_body req)") (auto simp: oa_steps_def oa_early(1))
  obtain tok where 2: "extract_bearer_token (hr_authorization req) = Inr tok"
    using n 1 by (cases "extract_bearer_token (hr_authorization req)")
      (auto simp: oa_steps_def oa_parse_step_def oa_early)
  obtain s i where 3: "app_authenticate G app tok = Inr (s, i)"
    using n 1 2 by (cases "app_authenticate G app tok")
      (auto simp: oa_steps_def oa_parse_step_def oa_bearer_step_def oa_early)
  have n: "\<not> early_return (fst (oa_authenticated G app req r s i st))"
    using n 1 2 3 by (simp add: oa_steps_def oa_parse_step_def oa_bearer_step_def oa_authenticate_step_def)
  have pte: "\<exists>x. e = ProducerTrustError x" if "app_producer_trust G app req s = Inl e" for e
    using assms(2) [of e] 1 2 3 that by (auto simp: oa_trust_raises_def)
  obtain t where 4: "app_producer_trust G app req s = Inr t"
    using n pte by (cases "app_producer_trust G app req s") (auto simp: oa_authenticated_def oa_early)
  obtain c where 5: "compose_operation_aware_input r s i t (hr_correlation_id req) (hr_compose_clock req) = Inr c"
    using n 4
    by (cases "compose_operation_aware_input r s i t (hr_correlation_id req) (hr_compose_clock req)")
      (auto simp: oa_authenticated_def oa_trust_step_def oa_early)
  obtain E where 6: "as_oa_evaluator app = Some E"
    using n 4 5 by (cases "as_oa_evaluator app")
      (auto simp: oa_authenticated_def oa_trust_step_def oa_compose_step_def oa_early)
  obtain result where 7: "OperationAwareGatewayEvaluator_evaluate E (hr_oa_call req) c = Inr result"
    using n 4 5 6
    by (cases "OperationAwareGatewayEvaluator_evaluate E (hr_oa_call req) c")
      (auto simp: oa_authenticated_def oa_trust_step_def oa_compose_step_def oa_evaluator_step_def oa_early)
  from assms(1) 1 2 3 4 5 6 7 show False unfolding oa_reaches_def by blast
qed

lemma oa_steps_raise:
  assumes "oa_trust_raises G app req e"
  shows "oa_steps G app req st = (Inl (Inl e), st)"
proof -
  obtain r tok s i where
    h: "model_validate_json (gl_parse_json G) (OperationAwareEvaluateRequest_validate (gl_nested G)) (hr_body req) = Inr r"
      "extract_bearer_token (hr_authorization req) = Inr tok" "app_authenticate G app tok = Inr (s, i)"
      "app_producer_trust G app req s = Inl e" "\<And>x. e \<noteq> ProducerTrustError x"
    using assms unfolding oa_trust_raises_def by blast
  have "oa_trust_step G app req s st = (Inl (Inl e), st)"
    using h(4,5) by (cases e) (auto simp: oa_trust_step_def raise_exn_def)
  then show ?thesis using h(1-3)
    by (simp add: oa_steps_def oa_authenticated_def oa_parse_step_def oa_bearer_step_def
        oa_authenticate_step_def step_bind_def [of "oa_trust_step _ _ _ _"])
qed

lemma oa_steps_cases:
  obtains (reached) r s t c result where "oa_reaches G app req r s t c result"
      "oa_steps G app req st = oa_respond_step G req c result st"
  | (raised) e where "oa_trust_raises G app req e" "oa_steps G app req st = (Inl (Inl e), st)"
      "\<And>r s t c result. \<not> oa_reaches G app req r s t c result"
  | (early) "early_return (fst (oa_steps G app req st))"
      "\<And>r s t c result. \<not> oa_reaches G app req r s t c result"
      "\<And>e. \<not> oa_trust_raises G app req e"
proof (cases "\<exists>r s t c result. oa_reaches G app req r s t c result")
  case True
  then obtain r s t c result tok i E where
    h: "oa_reaches G app req r s t c result"
      "model_validate_json (gl_parse_json G) (OperationAwareEvaluateRequest_validate (gl_nested G)) (hr_body req) = Inr r"
      "extract_bearer_token (hr_authorization req) = Inr tok" "app_authenticate G app tok = Inr (s, i)"
      "app_producer_trust G app req s = Inr t"
      "compose_operation_aware_input r s i t (hr_correlation_id req) (hr_compose_clock req) = Inr c"
      "as_oa_evaluator app = Some E" "OperationAwareGatewayEvaluator_evaluate E (hr_oa_call req) c = Inr result"
    unfolding oa_reaches_def by blast
  have "oa_steps G app req st = oa_respond_step G req c result st"
    using h(2-)
    by (simp add: oa_steps_def oa_authenticated_def oa_parse_step_def oa_bearer_step_def
        oa_authenticate_step_def oa_trust_step_def oa_compose_step_def oa_evaluator_step_def oa_kernel_step_def)
  with h(1) show ?thesis by (rule reached)
next
  case False
  show ?thesis
  proof (cases "\<exists>e. oa_trust_raises G app req e")
    case True
    then obtain e where e: "oa_trust_raises G app req e" by blast
    then have "oa_steps G app req st = (Inl (Inl e), st)" by (rule oa_steps_raise)
    then show ?thesis using False e by (intro raised) blast+
  next
    case nr: False
    have "early_return (fst (oa_steps G app req st))"
      by (rule oa_steps_early) (use False nr in blast)+
    then show ?thesis using False nr by (intro early) blast+
  qed
qed


text \<open>The completed record can be written: there is no writer, or no evidence, or the record
  passes the checks of its constructor.\<close>

definition record_ok :: "audit_st \<Rightarrow> OAResult \<Rightarrow> bool" where
  "record_ok st result \<longleftrightarrow> fst st = None \<or> rr_audit_evidence result = None
     \<or> (\<exists>ev. assemble_gateway_audit_event result = Inr (Some ev))"

text \<open>The one event that ends a request the kernel answered.\<close>

definition final_event :: "http_request \<Rightarrow> ComposedOperationAwareInput \<Rightarrow> OAResult \<Rightarrow> AuditEvent" where
  "final_event req c result =
     (case (rr_audit_evidence result, assemble_gateway_audit_event result) of
        (Some v, Inr (Some e)) \<Rightarrow> completed_event result e v c (result_status result) (hr_path req) (hr_method req)
      | _ \<Rightarrow> missing_evidence_event c (result_status result) (hr_path req) (hr_method req))"

lemma assemble_evidence:
  "rr_audit_evidence result = Some v \<Longrightarrow> assemble_gateway_audit_event result \<noteq> Inr None"
  "rr_audit_evidence result = None \<Longrightarrow> assemble_gateway_audit_event result = Inr None"
  by (auto simp: assemble_gateway_audit_event_def Let_def)

lemma emit_no_writer: "fst st = None \<Longrightarrow> emit_event A ev st = st"
  by (cases st) simp

lemma oa_respond_ok:
  assumes "record_ok st result"
  shows "oa_respond_step G req c result st =
    (Inr (oa_result_response result), emit_event (gl_audit G) (final_event req c result) st)"
proof (cases "rr_audit_evidence result")
  case None
  then show ?thesis
    by (simp add: oa_respond_step_def step_return_def emit_operation_aware_missing_evidence_event_def
        final_event_def)
next
  case (Some v)
  show ?thesis
  proof (cases "fst st")
    case None
    then show ?thesis using Some
      by (simp add: oa_respond_step_def step_return_def emit_operation_aware_completed_event_def emit_no_writer)
  next
    case (Some w)
    with assms \<open>rr_audit_evidence result = Some v\<close> obtain ev where "assemble_gateway_audit_event result = Inr (Some ev)"
      by (auto simp: record_ok_def)
    with Some \<open>rr_audit_evidence result = Some v\<close> show ?thesis
      by (simp add: oa_respond_step_def step_return_def emit_operation_aware_completed_event_def final_event_def)
  qed
qed

lemma oa_respond_raises:
  assumes "\<not> record_ok st result"
  obtains e where "assemble_gateway_audit_event result = Inl e"
    "oa_respond_step G req c result st = (Inl (Inl e), st)"
proof -
  obtain v w where v: "rr_audit_evidence result = Some v" "fst st = Some w" using assms by (auto simp: record_ok_def)
  moreover obtain e where "assemble_gateway_audit_event result = Inl e"
    using assms assemble_evidence(1) [OF v(1)]
    by (cases "assemble_gateway_audit_event result") (auto simp: record_ok_def)
  ultimately show thesis
    by (intro that [of e])
      (simp_all add: oa_respond_step_def raise_exn_def emit_operation_aware_completed_event_def)
qed

lemma oa_cases:
  "evaluate_operation_aware G app req st =
     (if audit_blocks (gl_audit G) (as_config app) (oa_probe_event req) st
      then (Inr (audit_fail_closed_response (hr_correlation_id req)), emit_event (gl_audit G) (oa_probe_event req) st)
      else oa_answer (oa_steps G app req
        (if (\<exists>c. as_config app = Some c \<and> audit_fail_closed c) \<and> st_degraded st
         then emit_event (gl_audit G) (oa_probe_event req) st else st)))"
  by (auto simp: evaluate_operation_aware_def precheck_cases)

lemma reaches_unique:
  assumes "oa_reaches G app req r s t c result" and "oa_reaches G app req r' s' t' c' result'"
  shows "r' = r \<and> s' = s \<and> t' = t \<and> c' = c \<and> result' = result"
  using assms by (auto simp: oa_reaches_def)

lemma result_status_200:
  "result_status result = 200 \<longleftrightarrow>
     or_evaluation_status (rr_response result) = COMPLETED \<and> or_outcome (rr_response result) = Some OA_ALLOW"
  by (simp add: result_status_def classify_operation_aware_http_status_def UNRECOGNIZED_STATE_HTTP_STATUS_def
      FAILURE_REASON_HTTP_STATUS_def split: eval_status.split option.split failure_reason.split)

lemma reaches_composed:
  assumes "oa_reaches G app req r s t c result"
  shows "ci_correlation_id c = hr_correlation_id req" "ci_authorization_subject c = s"
    "ci_operation_producer_trust c = t"
    "present_operation_producer_only_fields r \<noteq> [] \<Longrightarrow> ot_status t = TRUSTED"
proof -
  obtain i where i: "compose_operation_aware_input r s i t (hr_correlation_id req) (hr_compose_clock req) = Inr c"
    using assms by (auto simp: oa_reaches_def)
  show "ci_correlation_id c = hr_correlation_id req" "ci_authorization_subject c = s"
    "ci_operation_producer_trust c = t"
    using compose_Inr(5) [OF i] unfolding compose_accepted_Inr by auto
  show "present_operation_producer_only_fields r \<noteq> [] \<Longrightarrow> ot_status t = TRUSTED"
    by (rule compose_Inr(3) [OF i])
qed

section \<open>Relations the handler keeps\<close>

context step_relation
begin

lemma R_oa_answer: "R st (snd p) \<Longrightarrow> R st (snd (oa_answer p))"
  by (cases p; cases "fst p") (auto simp: oa_answer_def)

lemma R_oa_reject:
  assumes "A = gl_audit G" and "\<And>a re n sid. P (oa_event req a re n sid)"
  shows "R st (snd (oa_reject G req a re sid r st))"
  using R_reject [OF assms(2)] by (simp add: oa_reject_def assms(1) [symmetric])

text \<open>A bind may use what the first step established.\<close>

lemma R_bind_dep:
  assumes "R st (snd (m st))" and "\<And>x st'. m st = (Inr x, st') \<Longrightarrow> R st' (snd (f x st'))"
  shows "R st (snd (step_bind m f st))"
proof -
  obtain r st' where "m st = (r, st')" by (metis surj_pair)
  then show ?thesis
    using assms R_trans [of st st'] by (cases r) (simp_all add: step_bind_def)
qed

lemma R_respond:
  assumes "A = gl_audit G" and "P (final_event req c result)"
  shows "R st (snd (oa_respond_step G req c result st))"
proof (cases "record_ok st result")
  case True
  then show ?thesis using R_emit [OF assms(2)] by (simp add: oa_respond_ok assms(1) [symmetric])
next
  case False
  then obtain e where "oa_respond_step G req c result st = (Inl (Inl e), st)" by (rule oa_respond_raises)
  then show ?thesis by (simp add: R_refl)
qed

text \<open>\<^verbatim>\<open>POST /v1/evaluate/operation-aware\<close>: the steps after the precheck, and the whole of it.\<close>

lemma R_oa_steps:
  assumes G: "A = gl_audit G"
    and P: "\<And>a re n sid. P (oa_event req a re n sid)"
    and F: "\<And>c result. ci_correlation_id c = hr_correlation_id req \<Longrightarrow> P (final_event req c result)"
  shows "R st (snd (oa_answer (oa_steps G app req st)))"
proof -
  note base = R_return R_oa_reject [OF G P]
  have 1: "R st (snd (oa_parse_step G req st))" for st
    by (simp add: oa_parse_step_def base split: sum.split exn.split)
  have 2: "R st (snd (oa_bearer_step G req st))" for st
    by (simp add: oa_bearer_step_def base split: sum.split)
  have 3: "R st (snd (oa_authenticate_step G app req tok st))" for tok st
    by (simp add: oa_authenticate_step_def base split: sum.split)
  have 4: "R st (snd (oa_trust_step G app req s st))" for s st
    by (simp add: oa_trust_step_def base raise_exn_def R_refl split: sum.split exn.split)
  have 5: "R st (snd (oa_compose_step G req r s i t st))" for r s i t st
    by (simp add: oa_compose_step_def base split: sum.split comp_exn.split)
  have 6: "R st (snd (oa_evaluator_step G app req s st))" for s st
    by (simp add: oa_evaluator_step_def base split: option.split)
  have 7: "R st (snd (oa_kernel_step G req E s c st))" for E s c st
    by (simp add: oa_kernel_step_def base split: sum.split exn.split)
  have corr: "ci_correlation_id c = hr_correlation_id req"
    if "oa_compose_step G req r s i t st = (Inr c, st')" for r s i t st c st'
  proof -
    have "compose_operation_aware_input r s i t (hr_correlation_id req) (hr_compose_clock req) = Inr c"
      using that by (auto simp: oa_compose_step_def oa_reject_def reject_def step_return_def
          split: sum.splits comp_exn.splits)
    from compose_Inr(5) [OF this] show ?thesis unfolding compose_accepted_Inr by auto
  qed
  have 8: "R st (snd (oa_authenticated G app req r s i st))" for r s i st
    unfolding oa_authenticated_def
    by (intro R_bind_dep 4 5 6 7 R_respond [OF G] F) (rule corr)
  show ?thesis unfolding oa_steps_def by (intro R_oa_answer R_bind 1 2 3 8)
qed

lemma R_evaluate_operation_aware:
  assumes G: "A = gl_audit G"
    and P: "\<And>a re n sid. P (oa_event req a re n sid)"
    and F: "\<And>c result. ci_correlation_id c = hr_correlation_id req \<Longrightarrow> P (final_event req c result)"
  shows "R st (snd (evaluate_operation_aware G app req st))"
proof -
  have s: "R st (snd (oa_answer (oa_steps G app req st)))" for st by (rule R_oa_steps [OF G P F])
  have e: "R st (emit_event A (oa_probe_event req) st)" for st
    by (simp add: oa_probe_event_def R_emit P)
  show ?thesis using e [of st] s R_trans [OF e s] by (simp add: oa_cases G [symmetric])
qed

end

lemma final_event_correlation:
  "ev_correlation_id (final_event req c result) = Some (ci_correlation_id c)"
  "ev_subject_id (final_event req c result) = Some (subject_id (ci_authorization_subject c))"
  "map_of (ev_detail (final_event req c result)) ''http_status'' = Some (PInt (int (result_status result)))"
  by (simp_all add: final_event_def completed_event_def missing_evidence_event_def Let_def
      build_operation_aware_audit_detail_def split: option.split sum.split)

section \<open>Properties\<close>

text \<open>C5: Soundness and completeness of the operation-aware endpoint: it answers 200 exactly when
  strict audit mode does not block the request, every step before the kernel
  passes (body, token, authentication, producer trust, composition), the
  kernel's result is a completed ALLOW, and the record of it can be written.\<close>

theorem oa_allow_iff:
  "(\<exists>resp. fst (evaluate_operation_aware G app req st) = Inr resp \<and> status_code resp = 200) \<longleftrightarrow>
     \<not> audit_blocks (gl_audit G) (as_config app) (oa_probe_event req) st
     \<and> (\<exists>r s t c result. oa_reaches G app req r s t c result
          \<and> or_evaluation_status (rr_response result) = COMPLETED
          \<and> or_outcome (rr_response result) = Some OA_ALLOW
          \<and> record_ok st result)"
proof (cases "audit_blocks (gl_audit G) (as_config app) (oa_probe_event req) st")
  case True
  then show ?thesis by (simp add: oa_cases response_helper_status)
next
  case nb: False
  define s0 where "s0 = (if (\<exists>c. as_config app = Some c \<and> audit_fail_closed c) \<and> st_degraded st
    then emit_event (gl_audit G) (oa_probe_event req) st else st)"
  have s0: "record_ok s0 result = record_ok st result" for result
    by (simp add: s0_def record_ok_def)
  have ev: "evaluate_operation_aware G app req st = oa_answer (oa_steps G app req s0)"
    using nb by (simp only: oa_cases s0_def if_False)
  show ?thesis
  proof (cases rule: oa_steps_cases [of G app req s0])
    case (reached r s t c result)
    have rhs: "(\<exists>r s t c x. oa_reaches G app req r s t c x \<and> Q x) \<longleftrightarrow> Q result" for Q
      using reached(1) reaches_unique [OF reached(1)] by blast
    show ?thesis
    proof (cases "record_ok s0 result")
      case True
      then have "fst (evaluate_operation_aware G app req st) = Inr (oa_result_response result)"
        by (simp add: ev reached oa_respond_ok oa_answer_def)
      then show ?thesis using nb True unfolding rhs s0
        by (simp add: oa_result_response_def result_status_200)
    next
      case False
      then obtain e where "oa_respond_step G req c result s0 = (Inl (Inl e), s0)" by (rule oa_respond_raises)
      then have "fst (evaluate_operation_aware G app req st) = Inl e" by (simp add: ev reached oa_answer_def)
      then show ?thesis using False unfolding rhs s0 by simp
    qed
  next
    case (raised e)
    then show ?thesis by (simp add: ev oa_answer_def)
  next
    case early
    then show ?thesis by (auto simp: ev oa_answer_def early_return_def is_error_def split: prod.splits)
  qed
qed


text \<open>The reference decision table of the operation-aware endpoint, without audit state: the
  first obstacle decides. Its only input besides the request and the application is
  whether there is a writer; an exception that escapes is a left value.\<close>

definition oa_status_spec :: "gateway_lib \<Rightarrow> app_state \<Rightarrow> http_request \<Rightarrow> bool \<Rightarrow> exn + nat" where
  "oa_status_spec G app req writer =
     (case model_validate_json (gl_parse_json G) (OperationAwareEvaluateRequest_validate (gl_nested G)) (hr_body req) of
        Inl e \<Rightarrow> Inr 400
      | Inr r \<Rightarrow> (case extract_bearer_token (hr_authorization req) of
        Inl e \<Rightarrow> Inr 401
      | Inr token \<Rightarrow> (case app_authenticate G app token of
        Inl e \<Rightarrow> Inr 401
      | Inr (s, i) \<Rightarrow> (case app_producer_trust G app req s of
        Inl (ProducerTrustError x) \<Rightarrow> Inr 400
      | Inl e \<Rightarrow> Inl e
      | Inr t \<Rightarrow> (case compose_operation_aware_input r s i t (hr_correlation_id req) (hr_compose_clock req) of
        Inl (CompositionInternalError m) \<Rightarrow> Inr 500
      | Inl e \<Rightarrow> Inr 400
      | Inr c \<Rightarrow> (case as_oa_evaluator app of
        None \<Rightarrow> Inr 503
      | Some E \<Rightarrow> (case OperationAwareGatewayEvaluator_evaluate E (hr_oa_call req) c of
        Inl (OperationAwareRequestConstructionError m) \<Rightarrow> Inr 400
      | Inl e \<Rightarrow> Inr 500
      | Inr result \<Rightarrow> (case assemble_gateway_audit_event result of
        Inl e \<Rightarrow> (if writer then Inl e else Inr (result_status result))
      | Inr ev \<Rightarrow> Inr (result_status result)))))))))"

definition res_status :: "http_response res \<Rightarrow> exn + nat" where
  "res_status r = map_sum id status_code r"

lemma res_status_simps [simp]: "res_status (Inl e) = Inl e" "res_status (Inr r) = Inr (status_code r)"
  by (simp_all add: res_status_def)

lemma oa_answer_bind:
  "fst (oa_answer (step_bind m f st)) =
     (case fst (m st) of Inl x \<Rightarrow> x | Inr x \<Rightarrow> fst (oa_answer (f x (snd (m st)))))"
  by (cases "m st"; cases "fst (m st)") (auto simp: step_bind_def oa_answer_def)

lemma oa_reject_left: "fst (oa_reject G req a re sid r st) = Inl (Inr r)"
  by (simp add: oa_reject_def reject_def)

lemma oa_respond_status:
  "res_status (fst (oa_answer (oa_respond_step G req c result st))) =
     (case assemble_gateway_audit_event result of
        Inl e \<Rightarrow> (if fst st \<noteq> None then Inl e else Inr (result_status result))
      | Inr ev \<Rightarrow> Inr (result_status result))"
proof (cases "record_ok st result")
  case True
  have "fst st = None" if "assemble_gateway_audit_event result = Inl e" for e
    using True that assemble_evidence(2) [of result] by (auto simp: record_ok_def)
  then show ?thesis using True
    by (simp add: oa_respond_ok oa_answer_def oa_result_response_def split: sum.split)
next
  case False
  then obtain e where e: "assemble_gateway_audit_event result = Inl e"
    "oa_respond_step G req c result st = (Inl (Inl e), st)" by (rule oa_respond_raises)
  moreover have "fst st \<noteq> None" using False by (simp add: record_ok_def)
  ultimately show ?thesis by (simp add: oa_answer_def)
qed

lemma oa_steps_status:
  "res_status (fst (oa_answer (oa_steps G app req st))) = oa_status_spec G app req (fst st \<noteq> None)"
proof -
  note steps = oa_steps_def oa_status_spec_def oa_answer_bind oa_reject_left response_helper_status
  show ?thesis
  proof (cases "model_validate_json (gl_parse_json G) (OperationAwareEvaluateRequest_validate (gl_nested G)) (hr_body req)")
    case (Inl e)
    then show ?thesis by (simp add: steps oa_parse_step_def split: exn.split)
  next
    case r: (Inr r)
    note steps = steps r oa_parse_step_def
    show ?thesis
    proof (cases "extract_bearer_token (hr_authorization req)")
      case (Inl e)
      then show ?thesis by (simp add: steps oa_bearer_step_def)
    next
      case tok: (Inr tok)
      note steps = steps tok oa_bearer_step_def
      show ?thesis
      proof (cases "app_authenticate G app tok")
        case (Inl e)
        then show ?thesis by (simp add: steps oa_authenticate_step_def)
      next
        case si: (Inr si)
        obtain s i where "si = (s, i)" by (cases si)
        note steps = steps si [unfolded this] oa_authenticate_step_def oa_authenticated_def
        show ?thesis
        proof (cases "app_producer_trust G app req s")
          case (Inl e)
          then show ?thesis by (cases e) (simp_all add: steps oa_trust_step_def raise_exn_def)
        next
          case t: (Inr t)
          note steps = steps t oa_trust_step_def
          show ?thesis
          proof (cases "compose_operation_aware_input r s i t (hr_correlation_id req) (hr_compose_clock req)")
            case (Inl e)
            then show ?thesis by (cases e) (simp_all add: steps oa_compose_step_def)
          next
            case c: (Inr c)
            note steps = steps c oa_compose_step_def
            show ?thesis
            proof (cases "as_oa_evaluator app")
              case None
              then show ?thesis by (simp add: steps oa_evaluator_step_def)
            next
              case E: (Some E)
              note steps = steps E oa_evaluator_step_def
              show ?thesis
                by (cases "OperationAwareGatewayEvaluator_evaluate E (hr_oa_call req) c")
                  (simp_all add: steps oa_kernel_step_def oa_respond_status del: not_None_eq split: exn.split)
            qed
          qed
        qed
      qed
    qed
  qed
qed

text \<open>C4: The whole decision table of the operation-aware endpoint: a request that strict mode
  blocks is answered 503; every other request gets the status, or lets through the
  exception, of the reference table, which takes the steps in order and knows of
  the audit subsystem only whether there is a writer.\<close>

theorem oa_status_exact:
  "res_status (fst (evaluate_operation_aware G app req st)) =
     (if audit_blocks (gl_audit G) (as_config app) (oa_probe_event req) st then Inr 503
      else oa_status_spec G app req (fst st \<noteq> None))"
  by (simp add: oa_cases oa_steps_status response_helper_status fst_emit_event_None_iff del: not_None_eq)

text \<open>How the handler ends, as one case distinction over the whole of it.\<close>

definition probed :: "gateway_lib \<Rightarrow> app_state \<Rightarrow> http_request \<Rightarrow> audit_st \<Rightarrow> audit_st" where
  "probed G app req st = (if (\<exists>c. as_config app = Some c \<and> audit_fail_closed c) \<and> st_degraded st
     then emit_event (gl_audit G) (oa_probe_event req) st else st)"

lemma probed_writer [simp]: "fst (probed G app req st) = None \<longleftrightarrow> fst st = None"
  by (simp add: probed_def)

lemma probed_record [simp]: "record_ok (probed G app req st) result = record_ok st result"
  by (simp add: probed_def record_ok_def)

lemma oa_ends:
  assumes "\<not> audit_blocks (gl_audit G) (as_config app) (oa_probe_event req) st"
  obtains (answered) r s t c result where "oa_reaches G app req r s t c result" "record_ok st result"
      "evaluate_operation_aware G app req st = (Inr (oa_result_response result),
         emit_event (gl_audit G) (final_event req c result) (probed G app req st))"
  | (unrecorded) r s t c result e where "oa_reaches G app req r s t c result" "\<not> record_ok st result"
      "assemble_gateway_audit_event result = Inl e"
      "evaluate_operation_aware G app req st = (Inl e, probed G app req st)"
  | (raised) e where "oa_trust_raises G app req e" "\<And>r s t c result. \<not> oa_reaches G app req r s t c result"
      "evaluate_operation_aware G app req st = (Inl e, probed G app req st)"
  | (early) resp where "is_error resp" "\<And>r s t c result. \<not> oa_reaches G app req r s t c result"
      "\<And>e. \<not> oa_trust_raises G app req e" "fst (evaluate_operation_aware G app req st) = Inr resp"
proof -
  have ev: "evaluate_operation_aware G app req st = oa_answer (oa_steps G app req (probed G app req st))"
    using assms by (simp only: oa_cases probed_def if_False)
  show thesis
  proof (cases rule: oa_steps_cases [of G app req "probed G app req st"])
    case (reached r s t c result)
    show thesis
    proof (cases "record_ok st result")
      case True
      then show thesis using reached by (intro answered) (simp_all add: ev oa_respond_ok oa_answer_def)
    next
      case False
      then have "\<not> record_ok (probed G app req st) result" by simp
      then obtain e where "assemble_gateway_audit_event result = Inl e"
        "oa_respond_step G req c result (probed G app req st) = (Inl (Inl e), probed G app req st)"
        by (rule oa_respond_raises)
      then show thesis using reached False by (intro unrecorded) (simp_all add: ev oa_answer_def)
    qed
  next
    case (raised e)
    then show thesis using that(3) by (simp add: ev oa_answer_def)
  next
    case early
    then obtain resp where "is_error resp" "fst (oa_steps G app req (probed G app req st)) = Inl (Inr resp)"
      by (auto simp: early_return_def)
    then show thesis using early
      by (intro that(4) [of resp]) (auto simp: ev oa_answer_def split: prod.splits)
  qed
qed

text \<open>C20: Exactly one durable record per kernel answer: whenever the operation-aware endpoint
  returns a kernel result, the writer was handed one final event (after a
  recovery probe, if there was one). It names the authenticated subject and
  the request's correlation id, records the very status the caller sees,
  and with evidence it is the completed record holding the kernel's evidence
  unchanged; without evidence it is the missing-evidence event.\<close>

theorem oa_one_record_per_answer:
  assumes "fst st \<noteq> None" and "\<And>ev. ae_accepts (gl_audit G) ev"
    and "fst (evaluate_operation_aware G app req st) = Inr resp" and "content resp = OABody b"
  shows "\<exists>r s t c result ev pre. oa_reaches G app req r s t c result \<and> resp = oa_result_response result
    \<and> pre \<in> {[], [oa_probe_event req]}
    \<and> st_trail (snd (evaluate_operation_aware G app req st)) = st_trail st @ pre @ [ev]
    \<and> ev_subject_id ev = Some (subject_id s) \<and> ev_correlation_id ev = Some (hr_correlation_id req)
    \<and> map_of (ev_detail ev) ''http_status'' = Some (PInt (int (status_code resp)))
    \<and> ev_action ev = (if rr_audit_evidence result = None then EVIDENCE_MISSING else AUTHORIZATION_COMPLETED)
    \<and> map_of (ev_detail ev) ''audit_evidence''
        = map_option (\<lambda>v. PDict (evd_dump v)) (rr_audit_evidence result)"
proof -
  have nb: "\<not> audit_blocks (gl_audit G) (as_config app) (oa_probe_event req) st"
  proof
    assume "audit_blocks (gl_audit G) (as_config app) (oa_probe_event req) st"
    with assms(3) have "is_error resp" by (auto simp: oa_cases response_helper_errors)
    with assms(4) show False by (simp add: is_error_def)
  qed
  define pre where "pre = (if (\<exists>c. as_config app = Some c \<and> audit_fail_closed c) \<and> st_degraded st
    then [oa_probe_event req] else [])"
  have tr: "st_trail (probed G app req st) = st_trail st @ pre"
    using assms(1,2) by (simp add: probed_def pre_def st_trail_emit)
  show ?thesis
  proof (cases rule: oa_ends [OF nb])
    case (1 r s t c result)
    let ?ev = "final_event req c result"
    have resp: "resp = oa_result_response result" using assms(3) 1(3) by simp
    have rec: "rr_audit_evidence result = Some v \<Longrightarrow> \<exists>e. assemble_gateway_audit_event result = Inr (Some e)" for v
      using 1(2) assms(1) by (auto simp: record_ok_def)
    have act: "ev_action ?ev = (if rr_audit_evidence result = None then EVIDENCE_MISSING else AUTHORIZATION_COMPLETED)"
      "map_of (ev_detail ?ev) ''audit_evidence'' = map_option (\<lambda>v. PDict (evd_dump v)) (rr_audit_evidence result)"
      using rec by (cases "rr_audit_evidence result", auto simp: final_event_def completed_event_def
          missing_evidence_event_def Let_def build_operation_aware_audit_detail_def serialize_audit_evidence_def)+
    have "st_trail (snd (evaluate_operation_aware G app req st)) = st_trail st @ pre @ [?ev]"
      using 1(3) assms(1,2) by (simp add: st_trail_emit tr)
    moreover have "pre \<in> {[], [oa_probe_event req]}" by (simp add: pre_def)
    ultimately show ?thesis
      using 1(1) resp act final_event_correlation [of req c result] reaches_composed [OF 1(1)]
      by (intro exI conjI) (assumption | simp add: oa_result_response_def)+
  next
    case (4 r)
    then show ?thesis using assms(3,4) by (simp add: is_error_def)
  qed (use assms(3) in simp_all)
qed


text \<open>Concrete requests the kernel answers: without and with producer context.\<close>

definition stub_oq :: "bool \<Rightarrow> OperationAwareEvaluateRequest" where
  "stub_oq dev = \<lparr>oq_request_id = None, oq_action = ''read:ahu'', oq_resource_type = None,
     oq_resource_id = None, oq_context = [], oq_operation_intent = None,
     oq_location = None, oq_device = (if dev then Some (PDict []) else None), oq_protocol_context = None,
     oq_safety_context = None, oq_environment_context = None, oq_risk_context = None,
     oq_identity_evidence_reference = None, oq_adapter_evidence_reference = None\<rparr>"

definition stub_oa_request :: "bool \<Rightarrow> http_request" where
  "stub_oa_request dev = stub_request\<lparr>hr_body := Inr (if dev then ''device'' else ''body'')\<rparr>"

lemma stub_oa_parse:
  "model_validate_json (gl_parse_json stub_gw) (OperationAwareEvaluateRequest_validate (gl_nested stub_gw))
     (hr_body (stub_oa_request dev)) = Inr (stub_oq dev)"
proof -
  have "OperationAwareEvaluateRequest_validate (\<lambda>_ _. Inr (PDict [])) (PDict [(''action'', PStr ''read:ahu'')])
      = Inr (stub_oq False)"
    "OperationAwareEvaluateRequest_validate (\<lambda>_ _. Inr (PDict []))
       (PDict [(''action'', PStr ''read:ahu''), (''device'', PDict [])]) = Inr (stub_oq True)"
    unfolding stub_oq_def by code_simp+
  then show ?thesis by (cases dev) (simp_all add: model_validate_json_def stub_gw_def stub_oa_request_def)
qed

lemma stub_oa_compose:
  assumes "check_identity_consistency s i t = Inr ()" and "ot_status t = TRUSTED"
  shows "\<exists>c. compose_operation_aware_input (stub_oq dev) s i t ''c-1'' (Aware 0) = Inr c"
proof -
  have "compose_action ''read:ahu'' None = Inr ''read:ahu''" by code_simp
  moreover have "\<exists>rc. compose_resource_id None None = Inr rc" by (simp add: compose_resource_id_def)
  ultimately have "\<exists>c. compose_accepted (stub_oq dev) s i t ''c-1'' (Aware 0) = Inr c"
    by (auto simp: compose_accepted_Inr stub_oq_def)
  moreover have "reserved_key_collisions (oq_context (stub_oq dev)) = []"
    by (simp add: stub_oq_def reserved_key_collisions_def)
  ultimately show ?thesis
    by (simp add: compose_operation_aware_input_def assms not_blank_c1 Let_def)
qed

text \<open>Application states in which the concrete requests reach the kernel.\<close>

definition stub_serves :: "app_state \<Rightarrow> bool" where
  "stub_serves app \<longleftrightarrow> stub_auth app \<and> as_oa_evaluator app = Some stub_oa
     \<and> (\<exists>c. as_config app = Some c \<and> \<not> operation_producer_mtls_trusted_proxy_enabled c
          \<and> operation_producer_subject_ids c = {''alice''})"

lemma stub_app_serves: "stub_serves (stub_app b d)"
  using stub_app_auth by (simp add: stub_serves_def stub_app_def default_config_def)

lemma stub_reaches:
  assumes "stub_serves app"
  shows "\<exists>s t c. oa_reaches stub_gw app (stub_oa_request dev) (stub_oq dev) s t c (sample_oa_result OA_ALLOW)"
proof -
  obtain s i where si: "app_authenticate stub_gw app ''t'' = Inr (s, i)" "subject_id s = ''alice''"
    using stub_authenticated [of app] assms unfolding stub_serves_def by blast
  have wf: "wf_identity (s, i)" using si(1) unfolding app_authenticate_def by (rule auth_src.identify_wf)
  let ?t = "classify_operation_producer s {''alice''}"
  have t: "app_producer_trust stub_gw app (stub_oa_request dev) s = Inr ?t"
  proof -
    obtain cfg where "as_config app = Some cfg" "\<not> operation_producer_mtls_trusted_proxy_enabled cfg"
      "operation_producer_subject_ids cfg = {''alice''}"
      using assms unfolding stub_serves_def by blast
    then show ?thesis by (simp add: app_producer_trust_def resolve_operation_producer_trust_def)
  qed
  have "check_identity_consistency s i ?t = Inr ()"
    by (rule identity_consistent [OF wf])
      (rule legacy.resolve_consistent [OF refl], rule legacy.resolve_subject [OF refl],
        simp add: classify_operation_producer_def)
  then obtain c where c: "compose_operation_aware_input (stub_oq dev) s i ?t ''c-1'' (Aware 0) = Inr c"
    using stub_oa_compose si(2) by (fastforce simp: classify_operation_producer_def)
  have "OperationAwareGatewayEvaluator_evaluate stub_oa stub_call c = Inr (sample_oa_result OA_ALLOW)"
    by (rule stub_oa_evaluate [OF c]) (simp add: stub_oq_def)
  then have "oa_reaches stub_gw app (stub_oa_request dev) (stub_oq dev) s ?t c (sample_oa_result OA_ALLOW)"
    unfolding oa_reaches_def
    by (intro exI [of _ "''t''"] exI [of _ i] exI [of _ stub_oa] conjI stub_oa_parse)
      (use si t c assms in \<open>simp_all add: stub_oa_request_def stub_request_def stub_bearer stub_serves_def\<close>)
  then show ?thesis by blast
qed

lemma stub_oa_answer_in:
  assumes "stub_serves app" and "\<not> st_degraded st"
  shows "\<exists>s t c. oa_reaches stub_gw app (stub_oa_request dev) (stub_oq dev) s t c (sample_oa_result OA_ALLOW)
     \<and> fst (evaluate_operation_aware stub_gw app (stub_oa_request dev) st)
         = Inr (oa_result_response (sample_oa_result OA_ALLOW))"
proof -
  obtain s t c where
    r: "oa_reaches stub_gw app (stub_oa_request dev) (stub_oq dev) s t c (sample_oa_result OA_ALLOW)"
    using stub_reaches [OF assms(1)] by blast
  have nb: "\<not> audit_blocks (gl_audit stub_gw) (as_config app) (oa_probe_event (stub_oa_request dev)) st"
    using assms(2) by (simp add: audit_blocks_def)
  have ok: "record_ok st (sample_oa_result OA_ALLOW)"
    unfolding record_ok_def assemble_ok_iff
    by (simp add: sample_oa_result_def sample_oa_response_def kernel_result_ok_def blank_iff is_space_def)
  show ?thesis
  proof (cases rule: oa_ends [OF nb])
    case (1 r' s' t' c' result)
    then show ?thesis using r reaches_unique [OF r 1(1)] by auto
  next
    case (2 r' s' t' c' result e)
    then show ?thesis using ok reaches_unique [OF r 2(1)] by auto
  qed (use r in blast)+
qed

lemma stub_oa_answer:
  "\<exists>s t c. oa_reaches stub_gw (stub_app b d) (stub_oa_request dev) (stub_oq dev) s t c (sample_oa_result OA_ALLOW)
     \<and> fst (evaluate_operation_aware stub_gw (stub_app b d) (stub_oa_request dev) sample_st)
         = Inr (oa_result_response (sample_oa_result OA_ALLOW))"
  by (rule stub_oa_answer_in [OF stub_app_serves]) (simp add: sample_st_def st_degraded_def)

theorem oa_one_record_per_answer_witness:
  "\<exists>r s t c result ev pre. oa_reaches stub_gw (stub_app True D_ALLOW) (stub_oa_request True) r s t c result
     \<and> st_trail (snd (evaluate_operation_aware stub_gw (stub_app True D_ALLOW) (stub_oa_request True) sample_st))
         = st_trail sample_st @ pre @ [ev] \<and> ev_correlation_id ev = Some (hr_correlation_id (stub_oa_request True))"
proof -
  have a: "fst (evaluate_operation_aware stub_gw (stub_app True D_ALLOW) (stub_oa_request True) sample_st)
         = Inr (oa_result_response (sample_oa_result OA_ALLOW))" using stub_oa_answer by blast
  have "\<exists>r s t c result ev pre. oa_reaches stub_gw (stub_app True D_ALLOW) (stub_oa_request True) r s t c result
    \<and> oa_result_response (sample_oa_result OA_ALLOW) = oa_result_response result
    \<and> pre \<in> {[], [oa_probe_event (stub_oa_request True)]}
    \<and> st_trail (snd (evaluate_operation_aware stub_gw (stub_app True D_ALLOW) (stub_oa_request True) sample_st))
        = st_trail sample_st @ pre @ [ev]
    \<and> ev_subject_id ev = Some (subject_id s) \<and> ev_correlation_id ev = Some (hr_correlation_id (stub_oa_request True))
    \<and> map_of (ev_detail ev) ''http_status''
        = Some (PInt (int (status_code (oa_result_response (sample_oa_result OA_ALLOW)))))
    \<and> ev_action ev = (if rr_audit_evidence result = None then EVIDENCE_MISSING else AUTHORIZATION_COMPLETED)
    \<and> map_of (ev_detail ev) ''audit_evidence''
        = map_option (\<lambda>v. PDict (evd_dump v)) (rr_audit_evidence result)"
    by (rule oa_one_record_per_answer [OF _ _ a])
      (simp_all add: sample_st_def stub_gw_def stub_audit_def oa_result_response_def)
  then show ?thesis by blast
qed

text \<open>The operation-aware handler keeps the audit subsystem consistent for every request,
  including those that end in an escaping exception: invariant and readiness
  link survive, no other component moves, and every event handed to the
  writer carries this request's correlation id.\<close>

theorem oa_keeps_audit_consistent:
  assumes "st_inv st"
  shows "st_inv (snd (evaluate_operation_aware G app req st))
    \<and> (\<forall>c. c \<noteq> AUDIT_WRITER_COMPONENT \<longrightarrow>
         component_of (snd (snd (evaluate_operation_aware G app req st))) c = component_of (snd st) c)
    \<and> (\<exists>evs. st_trail (snd (evaluate_operation_aware G app req st)) = st_trail st @ evs
         \<and> list_all (\<lambda>ev. ev_correlation_id ev = Some (hr_correlation_id req)) evs)"
proof -
  have "audit_frame_rel st (snd (evaluate_operation_aware G app req st))"
    by (rule framed.R_evaluate_operation_aware) simp_all
  moreover have "trail_rel (\<lambda>ev. ev_correlation_id ev = Some (hr_correlation_id req)) st
      (snd (evaluate_operation_aware G app req st))"
    by (rule trailed.R_evaluate_operation_aware)
      (simp_all add: oa_event_def oa_system_event_def final_event_correlation)
  ultimately show ?thesis using assms unfolding audit_frame_rel_def trail_rel_def by blast
qed

theorem oa_keeps_audit_consistent_witness:
  "st_inv (snd (evaluate_operation_aware failing_gw (stub_app True D_DENY) stub_request degraded_st))"
  using oa_keeps_audit_consistent [OF degraded_st_inv] by blast

text \<open>C8: Operation context never reaches the kernel from an untrusted caller: whenever the
  endpoint returns a kernel result for a request with producer-only fields, a
  configuration is loaded and the caller is trusted on that configuration's
  own ground: in trusted-proxy mode one certificate assertion with an admitted
  URI identity, otherwise the authenticated subject's id on the allowlist.\<close>

theorem oa_context_needs_producer_trust:
  assumes "fst (evaluate_operation_aware G app req st) = Inr resp" and "content resp = OABody b"
  shows "\<exists>r s t c result. oa_reaches G app req r s t c result
    \<and> (present_operation_producer_only_fields r \<noteq> [] \<longrightarrow>
        (\<exists>cfg. as_config app = Some cfg
           \<and> (if operation_producer_mtls_trusted_proxy_enabled cfg
              then \<exists>uri \<in> operation_producer_mtls_admitted_uris cfg.
                     presented_identity (gl_load_pem G) (hr_raw_headers req) = Inr uri
              else subject_id s \<in> operation_producer_subject_ids cfg)))"
proof -
  have ground: "\<exists>cfg. as_config app = Some cfg
           \<and> (if operation_producer_mtls_trusted_proxy_enabled cfg
              then \<exists>uri \<in> operation_producer_mtls_admitted_uris cfg.
                     presented_identity (gl_load_pem G) (hr_raw_headers req) = Inr uri
              else subject_id s \<in> operation_producer_subject_ids cfg)"
    if "app_producer_trust G app req s = Inr t" "ot_status t = TRUSTED" for s t
    using that
    by (auto simp: app_producer_trust_def resolve_operation_producer_trust_def resolve_mtls_eq
        classify_operation_producer_def split: option.splits if_splits)
  have nb: "\<not> audit_blocks (gl_audit G) (as_config app) (oa_probe_event req) st"
  proof
    assume "audit_blocks (gl_audit G) (as_config app) (oa_probe_event req) st"
    with assms(1) have "is_error resp" by (auto simp: oa_cases response_helper_errors)
    with assms(2) show False by (simp add: is_error_def)
  qed
  show ?thesis
  proof (cases rule: oa_ends [OF nb])
    case (1 r s t c result)
    have "app_producer_trust G app req s = Inr t" using 1(1) by (auto simp: oa_reaches_def)
    then show ?thesis using 1(1) reaches_composed(4) [OF 1(1)] ground by blast
  next
    case (4 r)
    then show ?thesis using assms by (simp add: is_error_def)
  qed (use assms(1) in simp_all)
qed

theorem oa_context_needs_producer_trust_witness:
  "\<exists>r s t c result. oa_reaches stub_gw (stub_app False D_ALLOW) (stub_oa_request True) r s t c result
     \<and> present_operation_producer_only_fields r \<noteq> [] \<and> subject_id s \<in> {''alice''}"
proof -
  let ?app = "stub_app False D_ALLOW" and ?req = "stub_oa_request True"
  obtain s t c where
    r: "oa_reaches stub_gw ?app ?req (stub_oq True) s t c (sample_oa_result OA_ALLOW)"
    and a: "fst (evaluate_operation_aware stub_gw ?app ?req sample_st) = Inr (oa_result_response (sample_oa_result OA_ALLOW))"
    using stub_oa_answer by blast
  have p: "present_operation_producer_only_fields (stub_oq True) \<noteq> []"
    by (simp add: present_operation_producer_only_fields_def OPERATION_PRODUCER_ONLY_FIELDS_def stub_oq_def)
  have cfg: "as_config ?app = Some cfg \<Longrightarrow> \<not> operation_producer_mtls_trusted_proxy_enabled cfg
      \<and> operation_producer_subject_ids cfg = {''alice''}" for cfg
    by (auto simp: stub_app_def default_config_def)
  from oa_context_needs_producer_trust [OF a, of "from_result (sample_oa_result OA_ALLOW)"]
  have "subject_id s \<in> {''alice''}"
    using reaches_unique [OF r] p cfg by (auto simp: oa_result_response_def)
  with r p show ?thesis by blast
qed

text \<open>Which exceptions escape the operation-aware handler: exactly those the trust resolution
  raises outside its seven documented classes, and those of the constructor of
  the completed record when there is a writer; every other failure is answered.\<close>

theorem oa_escaping_exceptions:
  "fst (evaluate_operation_aware G app req st) = Inl e \<longleftrightarrow>
     \<not> audit_blocks (gl_audit G) (as_config app) (oa_probe_event req) st
     \<and> (oa_trust_raises G app req e
        \<or> (\<exists>r s t c result. oa_reaches G app req r s t c result \<and> fst st \<noteq> None
             \<and> assemble_gateway_audit_event result = Inl e))"
proof (cases "audit_blocks (gl_audit G) (as_config app) (oa_probe_event req) st")
  case True
  then show ?thesis by (simp add: oa_cases)
next
  case nb: False
  have excl: "\<not> oa_trust_raises G app req e'" if "oa_reaches G app req r s t c result" for e' r s t c result
    using that by (auto simp: oa_reaches_def oa_trust_raises_def)
  have tu: "oa_trust_raises G app req e1 \<Longrightarrow> oa_trust_raises G app req e2 \<Longrightarrow> e1 = e2" for e1 e2
    by (auto simp: oa_trust_raises_def)
  show ?thesis
  proof (cases rule: oa_ends [OF nb])
    case (1 r s t c result)
    have rhs: "(\<exists>r s t c x. oa_reaches G app req r s t c x \<and> Q x) \<longleftrightarrow> Q result" for Q
      using 1(1) reaches_unique [OF 1(1)] by blast
    have "\<not> (fst st \<noteq> None \<and> assemble_gateway_audit_event result = Inl e)"
      using 1(2) assemble_evidence(2) [of result] by (auto simp: record_ok_def)
    then show ?thesis using 1(3) excl [OF 1(1)] unfolding rhs by simp
  next
    case (2 r s t c result e')
    have rhs: "(\<exists>r s t c x. oa_reaches G app req r s t c x \<and> Q x) \<longleftrightarrow> Q result" for Q
      using 2(1) reaches_unique [OF 2(1)] by blast
    have "fst st \<noteq> None" using 2(2) by (auto simp: record_ok_def)
    then show ?thesis using nb 2(3,4) excl [OF 2(1)] unfolding rhs by auto
  next
    case (3 e')
    then show ?thesis using nb tu by auto
  next
    case (4 resp)
    then show ?thesis by auto
  qed
qed

end
