(* ===== verification/GW_Startup.thy ===== *)
theory GW_Startup
  imports GW_OA_Routes
begin

text \<open>
  \<^verbatim>\<open>main.py\<close>: the lifespan. A gateway state is \<^verbatim>\<open>app.state\<close> with the readiness singleton,
  the audit writer and the flag of the registered operation-aware router. A
  startup stage is a function from state to a result and a state; an
  exception leaves through the handler at the end of \<^verbatim>\<open>lifespan\<close>. What startup reads
  from outside (environment, network, files, the constructors of basis-core,
  the clock) is the record \<^verbatim>\<open>startup_lib\<close>.
\<close>

section \<open>State and environment\<close>

record gateway_state =
  g_app :: app_state
  g_readiness :: ReadinessState
  g_writer :: "GatewayAuditWriter option"
  g_router :: bool

record startup_lib =
  sl_load_config :: "exn + GatewayConfig"
  sl_net :: oidc_net
  sl_json_loads :: "string \<Rightarrow> pyval option"
  sl_fs :: fs_lib
  sl_policy :: policy_lib
  sl_enforcement_point :: "RolePolicyRule list \<Rightarrow> string option \<Rightarrow> exn + GatewayEvaluator"
  sl_for_bundle :: for_bundle
  sl_now :: datetime

definition empty_app :: app_state where
  "empty_app = \<lparr>as_config = None, as_verifier = None, as_trust_config = None, as_evaluator = None,
     as_oa_evaluator = None\<rparr>"

definition create_app :: gateway_state where
  "create_app = \<lparr>g_app = empty_app, g_readiness = initial_readiness, g_writer = None, g_router = False\<rparr>"

type_synonym 'a stage = "gateway_state \<Rightarrow> 'a res \<times> gateway_state"

definition stage_bind :: "'a stage \<Rightarrow> ('a \<Rightarrow> 'b stage) \<Rightarrow> 'b stage" where
  "stage_bind m f g = (case m g of (Inl e, g') \<Rightarrow> (Inl e, g') | (Inr x, g') \<Rightarrow> f x g')"

definition stage_done :: "'a \<Rightarrow> 'a stage" where
  "stage_done x g = (Inr x, g)"

definition modify :: "(gateway_state \<Rightarrow> gateway_state) \<Rightarrow> unit stage" where
  "modify f g = (Inr (), f g)"

definition set_ready :: "string \<Rightarrow> gateway_state \<Rightarrow> gateway_state" where
  "set_ready c g = g\<lparr>g_readiness := mark_ready c (g_readiness g)\<rparr>"

definition set_not_ready :: "msg \<Rightarrow> string \<Rightarrow> gateway_state \<Rightarrow> gateway_state" where
  "set_not_ready m c g = g\<lparr>g_readiness := mark_not_ready m c (g_readiness g)\<rparr>"

text \<open>\<^verbatim>\<open>str(exc)\<close>.\<close>

definition exn_msg :: "exn \<Rightarrow> msg" where
  "exn_msg e = (case e of
      AuthenticationError a \<Rightarrow> auth_exn_msg a
    | CompositionError c \<Rightarrow> comp_exn_msg c
    | OperationAwareRequestConstructionError m \<Rightarrow> m
    | OperationAwareEvaluatorInternalError m \<Rightarrow> m
    | OperationAwarePreflightError s f \<Rightarrow> (''startup semantic preflight failed'',
        [status_value s, case f of None \<Rightarrow> ''None'' | Some x \<Rightarrow> failure_value x])
    | PolicyLoadError m \<Rightarrow> m
    | OperationAwarePolicyLoadError s m \<Rightarrow> m
    | EvaluationConfigError m \<Rightarrow> m
    | OperationAwareConfigError m \<Rightarrow> m
    | ProducerTrustError m \<Rightarrow> (''producer certificate rejected'', [])
    | ProducerAdmissionConfigurationError \<Rightarrow> (''producer admission configuration'', [])
    | ValidationError es \<Rightarrow> errors_message es
    | PyError p \<Rightarrow> (case p of ValueError m \<Rightarrow> m | TypeError m \<Rightarrow> m | KeyError m \<Rightarrow> m | OverflowError m \<Rightarrow> m
        | OSError m \<Rightarrow> m | OtherException m \<Rightarrow> m))"

text \<open>\<^verbatim>\<open>except X as exc: state.mark_not_ready(str(exc), component); raise\<close>: the clause names a
  component for some of the exceptions, the others pass through.\<close>

definition attributed :: "(exn \<Rightarrow> string option) \<Rightarrow> 'a res \<Rightarrow> 'a stage" where
  "attributed clause r g = (case r of
      Inr x \<Rightarrow> (Inr x, g)
    | Inl e \<Rightarrow> (Inl e, case clause e of Some c \<Rightarrow> set_not_ready (exn_msg e) c g | None \<Rightarrow> g))"

section \<open>Stages\<close>

text \<open>1. Configuration.\<close>

definition load_config_stage :: "startup_lib \<Rightarrow> GatewayConfig stage" where
  "load_config_stage L g = (case sl_load_config L of
      Inl e \<Rightarrow> (Inl e, g)
    | Inr config \<Rightarrow> (Inr config, set_ready ''configuration_loaded''
        (g\<lparr>g_app := empty_app\<lparr>as_config := Some config\<rparr>, g_writer := None\<rparr>)))"

text \<open>1a. Router registration.\<close>

definition register_router_stage :: "GatewayConfig \<Rightarrow> unit stage" where
  "register_router_stage config = modify (\<lambda>g.
     if operation_aware_enabled config \<and> \<not> g_router g then g\<lparr>g_router := True\<rparr> else g)"

text \<open>1b. The shared audit writer.\<close>

definition audit_writer_stage :: "GatewayConfig \<Rightarrow> unit stage" where
  "audit_writer_stage config = modify (\<lambda>g.
     if truthy_opt (policy_path config) \<or> operation_aware_enabled config
     then set_ready AUDIT_WRITER_COMPONENT
            (g\<lparr>g_writer := Some (build_audit_writer True (audit_failure_threshold config))\<rparr>)
     else g)"

text \<open>1c. Operation-aware readiness registration.\<close>

definition OA_MODE :: string where "OA_MODE = ''operation_aware_mode_enabled''"
definition OA_BUNDLE :: string where "OA_BUNDLE = ''operation_aware_bundle_loaded''"
definition OA_EVALUATOR :: string where "OA_EVALUATOR = ''operation_aware_evaluator_initialized''"
definition OA_SEMANTIC :: string where "OA_SEMANTIC = ''operation_aware_policy_semantically_valid''"

definition oa_readiness_stage :: "GatewayConfig \<Rightarrow> unit stage" where
  "oa_readiness_stage config = modify (\<lambda>g.
     if operation_aware_enabled config
     then set_ready OA_MODE
       (set_not_ready (''Operation-aware startup semantic preflight not yet run'', []) OA_SEMANTIC
       (set_not_ready (''Operation-aware evaluator not yet constructed'', []) OA_EVALUATOR
       (set_not_ready (''Operation-aware policy bundle not yet loaded'', []) OA_BUNDLE g)))
     else g)"

text \<open>2. Fail-early validation.\<close>

definition validate_stage :: "GatewayConfig \<Rightarrow> unit stage" where
  "validate_stage config = attributed
     (\<lambda>e. case e of EvaluationConfigError m \<Rightarrow> Some ''configuration_loaded'' | _ \<Rightarrow> None)
     (validate_evaluation_config config)"

text \<open>3. Authentication.\<close>

definition oidc_clause :: "exn \<Rightarrow> string option" where
  "oidc_clause e = (case e of
      AuthenticationError (OIDCDiscoveryError m) \<Rightarrow> Some ''oidc_configured''
    | AuthenticationError (JWKSFetchError m) \<Rightarrow> Some ''jwks_available''
    | _ \<Rightarrow> None)"

definition oidc_stage :: "startup_lib \<Rightarrow> GatewayConfig \<Rightarrow> unit stage" where
  "oidc_stage L config = (case oidc_issuer config of
      Some issuer \<Rightarrow>
        (if issuer = [] then stage_done ()
         else stage_bind
           (attributed oidc_clause (OIDCVerifier_initialize (sl_net L)
             (OIDCVerifier_from_config issuer (oidc_audience config) (oidc_jwks_uri config)
               (jwks_cache_ttl_seconds config))))
           (\<lambda>verifier. modify (\<lambda>g. set_ready ''jwks_available'' (set_ready ''oidc_configured''
              (g\<lparr>g_app := (g_app g)\<lparr>as_verifier := Some verifier\<rparr>\<rparr>)))))
    | None \<Rightarrow> stage_done ())"

definition local_clause :: "exn \<Rightarrow> string option" where
  "local_clause e = (case e of
      EvaluationConfigError m \<Rightarrow> Some ''basis_local_token_configured''
    | AuthenticationError (BasisLocalTokenConfigError m) \<Rightarrow> Some ''basis_local_token_configured''
    | _ \<Rightarrow> None)"

definition local_token_stage :: "startup_lib \<Rightarrow> GatewayConfig \<Rightarrow> unit stage" where
  "local_token_stage L config = stage_bind
     (attributed local_clause (build_basis_local_token_trust_config (sl_json_loads L) config))
     (\<lambda>trust_config. modify (\<lambda>g. set_ready ''basis_local_token_configured''
        (g\<lparr>g_app := (g_app g)\<lparr>as_trust_config := Some trust_config\<rparr>\<rparr>)))"

definition auth_stage :: "startup_lib \<Rightarrow> GatewayConfig \<Rightarrow> unit stage" where
  "auth_stage L config = (case auth_mode config of
      OIDC \<Rightarrow> oidc_stage L config
    | BASIS_LOCAL_TOKEN \<Rightarrow> local_token_stage L config)"

text \<open>4. and 5. Policy and evaluator; the result of the policy stage is \<^verbatim>\<open>engine\<close>.\<close>

definition policy_stage :: "startup_lib \<Rightarrow> GatewayConfig \<Rightarrow> RolePolicyRule list option stage" where
  "policy_stage L config =
     (if truthy_opt (policy_path config)
      then stage_bind
        (attributed (\<lambda>e. case e of PolicyLoadError m \<Rightarrow> Some ''policy_loaded'' | _ \<Rightarrow> None)
          (load_policy_engine (sl_fs L) (sl_policy L) (opt_or (policy_path config) [])))
        (\<lambda>engine. stage_bind (modify (set_ready ''policy_loaded'')) (\<lambda>_. stage_done (Some engine)))
      else stage_done None)"

definition build_evaluator ::
    "startup_lib \<Rightarrow> RolePolicyRule list \<Rightarrow> string option \<Rightarrow> GatewayEvaluator res" where
  "build_evaluator L engine version = sl_enforcement_point L engine version"

text \<open>\<^verbatim>\<open>build_null_evaluator\<close>, used by tests: \<^verbatim>\<open>actions\<close> gives the value of a constant of
  \<^verbatim>\<open>basis_core.domain.action\<close>; a repeated key of the table keeps its last entry.\<close>

definition null_role_table :: "(string \<Rightarrow> string) \<Rightarrow> string set dict" where
  "null_role_table actions =
     (let viewers = {''viewer'', ''operator'', ''admin''}; operators = {''operator'', ''admin''}; admins = {''admin''}
      in fold (\<lambda>(constant, role_names) d. dict_set d (actions constant) role_names)
       [(''READ_SENSOR_TELEMETRY'', viewers), (''READ_HVAC_STATE'', viewers), (''READ_ZONE_STATE'', viewers),
        (''READ_DEVICE_STATE'', viewers), (''READ_AUDIT_LOG'', admins), (''READ_POLICY'', admins),
        (''READ_RESOURCES'', viewers), (''WRITE_HVAC_SETPOINT'', operators), (''WRITE_HVAC_MODE'', operators),
        (''WRITE_DEVICE_SETPOINT'', operators), (''WRITE_POLICY'', admins), (''EXECUTE_DEVICE_COMMAND'', operators),
        (''SUBSCRIBE_TELEMETRY'', viewers), (''DISCONNECT_TELEMETRY'', operators)] [])"

definition build_null_evaluator :: "startup_lib \<Rightarrow> (string \<Rightarrow> string) \<Rightarrow> GatewayEvaluator res" where
  "build_null_evaluator L actions =
     (let rule = \<lparr>pr_role_table = null_role_table actions, pr_rule_name = ''test-rbac''\<rparr> in
      res_bind (check (rule_error (sl_policy L) rule) rule) (\<lambda>rule.
      res_bind (check (engine_error (sl_policy L) [rule]) [rule]) (\<lambda>engine.
        build_evaluator L engine (Some ''test''))))"

definition evaluator_stage :: "startup_lib \<Rightarrow> GatewayConfig \<Rightarrow> RolePolicyRule list option \<Rightarrow> unit stage" where
  "evaluator_stage L config engine = (case engine of
      None \<Rightarrow> stage_done ()
    | Some rules \<Rightarrow> stage_bind
        (attributed (\<lambda>_. None) (build_evaluator L rules (policy_version config)))
        (\<lambda>K. modify (\<lambda>g. set_ready ''evaluator_initialized''
           (g\<lparr>g_app := (g_app g)\<lparr>as_evaluator := Some K\<rparr>\<rparr>))))"

text \<open>6. The operation-aware bundle, evaluator and preflight.\<close>

definition oa_bundle_stage :: "startup_lib \<Rightarrow> GatewayConfig \<Rightarrow> pyval stage" where
  "oa_bundle_stage L config = stage_bind
     (attributed (\<lambda>e. case e of OperationAwareConfigError m \<Rightarrow> Some OA_BUNDLE | _ \<Rightarrow> None)
       (validate_operation_aware_config config))
     (\<lambda>_. stage_bind
       (attributed (\<lambda>e. case e of OperationAwarePolicyLoadError s m \<Rightarrow> Some OA_BUNDLE | _ \<Rightarrow> None)
         (load_operation_aware_policy_bundle (sl_fs L) (sl_policy L)
           (opt_or (operation_aware_policy_bundle_path config) [])))
       (\<lambda>bundle. stage_bind (modify (set_ready OA_BUNDLE)) (\<lambda>_. stage_done bundle)))"

definition oa_construct_stage :: "startup_lib \<Rightarrow> pyval \<Rightarrow> OperationAwareGatewayEvaluator stage" where
  "oa_construct_stage L bundle = stage_bind
     (attributed (\<lambda>_. Some OA_EVALUATOR) (construct_operation_aware_evaluator (sl_for_bundle L) bundle))
     (\<lambda>E. stage_bind (modify (set_ready OA_EVALUATOR)) (\<lambda>_. stage_done E))"

definition oa_preflight_stage :: "startup_lib \<Rightarrow> OperationAwareGatewayEvaluator \<Rightarrow> unit stage" where
  "oa_preflight_stage L E = stage_bind
     (attributed (\<lambda>e. case e of OperationAwarePreflightError s f \<Rightarrow> Some OA_SEMANTIC | _ \<Rightarrow> None)
       (preflight_operation_aware_evaluator E (sl_now L)))
     (\<lambda>_. modify (\<lambda>g. let g' = set_ready OA_SEMANTIC g
        in g'\<lparr>g_app := (g_app g')\<lparr>as_oa_evaluator := Some E\<rparr>\<rparr>))"

definition oa_stage :: "startup_lib \<Rightarrow> GatewayConfig \<Rightarrow> unit stage" where
  "oa_stage L config =
     (if operation_aware_enabled config
      then stage_bind (oa_bundle_stage L config) (\<lambda>bundle.
           stage_bind (oa_construct_stage L bundle) (oa_preflight_stage L))
      else stage_done ())"

section \<open>The lifespan\<close>

text \<open>The stages that may fail once the configuration is loaded, and those before them.\<close>

definition fallible_stages :: "startup_lib \<Rightarrow> GatewayConfig \<Rightarrow> unit stage" where
  "fallible_stages L config =
     stage_bind (validate_stage config) (\<lambda>_.
     stage_bind (auth_stage L config) (\<lambda>_.
     stage_bind (policy_stage L config) (\<lambda>engine.
     stage_bind (evaluator_stage L config engine) (\<lambda>_.
       oa_stage L config))))"

definition early_stages :: "GatewayConfig \<Rightarrow> unit stage" where
  "early_stages config =
     stage_bind (register_router_stage config) (\<lambda>_.
     stage_bind (audit_writer_stage config) (\<lambda>_. oa_readiness_stage config))"

definition startup_stages :: "startup_lib \<Rightarrow> unit stage" where
  "startup_stages L = stage_bind (load_config_stage L) (\<lambda>config.
     stage_bind (early_stages config) (\<lambda>_. fallible_stages L config))"

text \<open>\<^verbatim>\<open>except Exception as exc\<close>: \<^verbatim>\<open>app\<close> is marked only if no component is down.\<close>

definition startup_failed :: "exn \<Rightarrow> gateway_state \<Rightarrow> gateway_state" where
  "startup_failed e g =
     (if \<not> list_ex (\<lambda>(c, v). \<not> v) (components (g_readiness g))
      then set_not_ready (exn_msg e) ''app'' g else g)"

definition lifespan_startup :: "startup_lib \<Rightarrow> gateway_state \<Rightarrow> gateway_state" where
  "lifespan_startup L g = (case startup_stages L g of
      (Inl e, g') \<Rightarrow> startup_failed e g'
    | (Inr _, g') \<Rightarrow> g')"

definition lifespan_shutdown :: "gateway_state \<Rightarrow> gateway_state" where
  "lifespan_shutdown g = set_not_ready (''application shutting down'', []) ''app'' g"

text \<open>\<^verbatim>\<open>validation_error_handler\<close>.\<close>

definition validation_error_handler :: "verr list \<Rightarrow> string option \<Rightarrow> http_response" where
  "validation_error_handler errors correlation_id =
     \<lparr>status_code = 400, content = ErrorBody \<lparr>err_error = ''validation_failed'',
        err_message = Some (errors_message errors), err_correlation_id = correlation_id\<rparr>\<rparr>"

section \<open>Success of a stage\<close>

text \<open>A stage that succeeds is an equation on states; the collection turns the success of the
  whole startup into the list of what each stage did.\<close>

named_theorems stage_simps \<open>success of the startup stages\<close>

lemma stage_bind_Inr [stage_simps]:
  "stage_bind m f g = (Inr y, g'') \<longleftrightarrow> (\<exists>x g'. m g = (Inr x, g') \<and> f x g' = (Inr y, g''))"
  by (auto simp: stage_bind_def split: prod.splits sum.splits)

lemma attributed_Inr [stage_simps]: "attributed cl r g = (Inr x, g') \<longleftrightarrow> r = Inr x \<and> g' = g"
  by (auto simp: attributed_def split: sum.splits)

lemma modify_Inr [stage_simps]: "modify f g = (Inr u, g') \<longleftrightarrow> g' = f g"
  by (auto simp: modify_def)

lemma stage_done_Inr [stage_simps]: "stage_done x g = (Inr y, g') \<longleftrightarrow> y = x \<and> g' = g"
  by (auto simp: stage_done_def)

lemma set_ready_simps [simp]:
  "g_app (set_ready c g) = g_app g" "g_writer (set_ready c g) = g_writer g"
  "g_router (set_ready c g) = g_router g"
  "g_readiness (set_ready c g) = mark_ready c (g_readiness g)"
  "g_app (set_not_ready m c g) = g_app g" "g_writer (set_not_ready m c g) = g_writer g"
  "g_router (set_not_ready m c g) = g_router g"
  "g_readiness (set_not_ready m c g) = mark_not_ready m c (g_readiness g)"
  by (simp_all add: set_ready_def set_not_ready_def)

text \<open>The components that are down.\<close>

definition down :: "gateway_state \<Rightarrow> string set" where
  "down g = {c. component_of (g_readiness g) c = Some False}"

lemma down_simps [simp]:
  "down (set_ready c g) = down g - {c}" "down (set_not_ready m c g) = insert c (down g)"
  "down (g\<lparr>g_app := a\<rparr>) = down g" "down (g\<lparr>g_writer := w\<rparr>) = down g" "down (g\<lparr>g_router := b\<rparr>) = down g"
  by (auto simp: down_def)

definition registered :: "gateway_state \<Rightarrow> string \<Rightarrow> bool" where
  "registered g c \<longleftrightarrow> component_of (g_readiness g) c \<noteq> None"

lemma registered_simps [simp]:
  "registered (set_ready d g) c \<longleftrightarrow> c = d \<or> registered g c"
  "registered (set_not_ready m d g) c \<longleftrightarrow> c = d \<or> registered g c"
  "registered (g\<lparr>g_app := a\<rparr>) c = registered g c" "registered (g\<lparr>g_writer := w\<rparr>) c = registered g c"
  "registered (g\<lparr>g_router := b\<rparr>) c = registered g c"
  by (simp_all only: registered_def) auto

section \<open>What every stage leaves alone\<close>

definition STAGE_COMPONENTS :: "string set" where
  "STAGE_COMPONENTS = {''configuration_loaded'', ''oidc_configured'', ''jwks_available'',
     ''basis_local_token_configured'', ''policy_loaded'', ''evaluator_initialized'',
     OA_MODE, OA_BUNDLE, OA_EVALUATOR, OA_SEMANTIC}"

lemma owned_components [simp]:
  "''configuration_loaded'' \<in> STAGE_COMPONENTS" "''oidc_configured'' \<in> STAGE_COMPONENTS"
  "''jwks_available'' \<in> STAGE_COMPONENTS" "''basis_local_token_configured'' \<in> STAGE_COMPONENTS"
  "''policy_loaded'' \<in> STAGE_COMPONENTS" "''evaluator_initialized'' \<in> STAGE_COMPONENTS"
  "OA_MODE \<in> STAGE_COMPONENTS" "OA_BUNDLE \<in> STAGE_COMPONENTS" "OA_EVALUATOR \<in> STAGE_COMPONENTS"
  "OA_SEMANTIC \<in> STAGE_COMPONENTS"
  by (simp_all add: STAGE_COMPONENTS_def)

lemma not_owned: "AUDIT_WRITER_COMPONENT \<notin> STAGE_COMPONENTS" "''app'' \<notin> STAGE_COMPONENTS"
  by (simp_all add: STAGE_COMPONENTS_def AUDIT_WRITER_COMPONENT_def OA_MODE_def OA_BUNDLE_def OA_EVALUATOR_def
      OA_SEMANTIC_def)

text \<open>
  A relation between states that the stages keep: reflexive, transitive,
  insensitive to marking a component the stages own, and to installing a
  verifier, a trust configuration or a v0.1 evaluator. Such a relation holds
  across every stage but the last installation, and across every failure.
\<close>

locale stage_relation =
  fixes Q :: "gateway_state \<Rightarrow> gateway_state \<Rightarrow> bool"
  assumes Q_refl: "Q g g"
    and Q_trans: "Q g1 g2 \<Longrightarrow> Q g2 g3 \<Longrightarrow> Q g1 g3"
    and Q_ready: "c \<in> STAGE_COMPONENTS \<Longrightarrow> Q g (set_ready c g)"
    and Q_not_ready: "c \<in> STAGE_COMPONENTS \<Longrightarrow> Q g (set_not_ready m c g)"
    and Q_verifier: "Q g (g\<lparr>g_app := (g_app g)\<lparr>as_verifier := v\<rparr>\<rparr>)"
    and Q_trust: "Q g (g\<lparr>g_app := (g_app g)\<lparr>as_trust_config := t\<rparr>\<rparr>)"
    and Q_evaluator: "Q g (g\<lparr>g_app := (g_app g)\<lparr>as_evaluator := k\<rparr>\<rparr>)"
begin

definition keeps :: "'a stage \<Rightarrow> bool" where
  "keeps m \<longleftrightarrow> (\<forall>g. Q g (snd (m g)))"

definition fail_keeps :: "'a stage \<Rightarrow> bool" where
  "fail_keeps m \<longleftrightarrow> (\<forall>g e g'. m g = (Inl e, g') \<longrightarrow> Q g g')"

lemma keeps_bind: "keeps m \<Longrightarrow> (\<And>x. keeps (f x)) \<Longrightarrow> keeps (stage_bind m f)"
  unfolding keeps_def stage_bind_def
  by (auto split: prod.split sum.split intro: Q_trans) (metis Q_trans snd_conv)+

lemma keeps_imp_fail: "keeps m \<Longrightarrow> fail_keeps m"
  unfolding keeps_def fail_keeps_def by (metis snd_conv)

lemma fail_keeps_bind:
  assumes "keeps m" and "\<And>x. fail_keeps (f x)"
  shows "fail_keeps (stage_bind m f)"
  unfolding fail_keeps_def
proof (intro allI impI)
  fix g e g'
  assume h: "stage_bind m f g = (Inl e, g')"
  obtain r g1 where r: "m g = (r, g1)" by (metis surj_pair)
  have "Q g g1" using assms(1) r unfolding keeps_def by (metis snd_conv)
  then show "Q g g'"
    using h r assms(2) Q_trans unfolding fail_keeps_def by (cases r) (auto simp: stage_bind_def)
qed

lemma keeps_done: "keeps (stage_done x)"
  by (simp add: keeps_def stage_done_def Q_refl)

lemma keeps_attributed:
  assumes "\<And>e c. cl e = Some c \<Longrightarrow> c \<in> STAGE_COMPONENTS"
  shows "keeps (attributed cl r)"
  using assms by (auto simp: keeps_def attributed_def Q_refl Q_not_ready split: sum.split option.split)

lemma keeps_modify: "(\<And>g. Q g (f g)) \<Longrightarrow> keeps (modify f)"
  by (simp add: keeps_def modify_def)

lemma Q_set_ready: "c \<in> STAGE_COMPONENTS \<Longrightarrow> Q g h \<Longrightarrow> Q g (set_ready c h)"
  using Q_trans Q_ready by blast

lemmas keep_rules = keeps_bind keeps_done keeps_attributed keeps_modify Q_set_ready Q_verifier Q_trust Q_evaluator Q_refl

lemma keeps_stages:
  "keeps (validate_stage config)" "keeps (auth_stage L config)" "keeps (policy_stage L config)"
  "keeps (evaluator_stage L config engine)" "keeps (oa_bundle_stage L config)" "keeps (oa_construct_stage L bundle)"
proof -
  show "keeps (validate_stage config)"
    unfolding validate_stage_def by (auto intro!: keep_rules split: exn.splits)
  show "keeps (auth_stage L config)"
    unfolding auth_stage_def oidc_stage_def local_token_stage_def oidc_clause_def local_clause_def
    by (auto intro!: keep_rules split: AuthMode.split option.split exn.splits auth_exn.splits)
  show "keeps (policy_stage L config)"
    unfolding policy_stage_def by (auto intro!: keep_rules split: exn.splits)
  show "keeps (evaluator_stage L config engine)"
    unfolding evaluator_stage_def by (auto intro!: keep_rules split: option.split)
  show "keeps (oa_bundle_stage L config)"
    unfolding oa_bundle_stage_def by (auto intro!: keep_rules split: exn.splits)
  show "keeps (oa_construct_stage L bundle)"
    unfolding oa_construct_stage_def by (auto intro!: keep_rules)
qed

lemma fail_keeps_preflight: "fail_keeps (oa_preflight_stage L E)"
  unfolding fail_keeps_def oa_preflight_stage_def
  by (auto simp: stage_bind_def attributed_def modify_def Let_def Q_refl Q_not_ready
      split: sum.splits exn.splits prod.splits option.splits)

lemma fail_keeps_fallible: "fail_keeps (fallible_stages L config)"
proof -
  have "fail_keeps (oa_stage L config)"
    by (cases "operation_aware_enabled config")
      (simp_all add: oa_stage_def fail_keeps_bind keeps_stages fail_keeps_preflight keeps_imp_fail keeps_done)
  then show ?thesis unfolding fallible_stages_def by (intro fail_keeps_bind keeps_stages)
qed

end

text \<open>A relation that does not look at the operation-aware evaluator holds across the whole
  of the fallible stages.\<close>

locale full_stage_relation = stage_relation +
  assumes Q_oa: "Q g (g\<lparr>g_app := (g_app g)\<lparr>as_oa_evaluator := e\<rparr>\<rparr>)"
begin

lemma keeps_preflight: "keeps (oa_preflight_stage L E)"
proof -
  have "Q g ((set_ready OA_SEMANTIC g)\<lparr>g_app := (g_app g)\<lparr>as_oa_evaluator := Some E\<rparr>\<rparr>)" for g
    using Q_trans [OF Q_ready Q_oa, of OA_SEMANTIC g "Some E"] by simp
  then show ?thesis
    unfolding oa_preflight_stage_def Let_def by (auto intro!: keep_rules split: exn.splits)
qed

lemma keeps_fallible: "keeps (fallible_stages L config)"
  unfolding fallible_stages_def oa_stage_def
  by (auto intro!: keeps_bind keeps_stages keeps_preflight keeps_done)

end

definition later_frame :: "gateway_state \<Rightarrow> gateway_state \<Rightarrow> bool" where
  "later_frame g g' \<longleftrightarrow> g_writer g' = g_writer g \<and> g_router g' = g_router g
     \<and> as_config (g_app g') = as_config (g_app g)
     \<and> component_of (g_readiness g') AUDIT_WRITER_COMPONENT = component_of (g_readiness g) AUDIT_WRITER_COMPONENT
     \<and> (readiness_inv (g_readiness g) \<longrightarrow> readiness_inv (g_readiness g'))"

interpretation later: full_stage_relation later_frame
  using not_owned(1) by unfold_locales (auto simp: later_frame_def)

interpretation same_oa: stage_relation "\<lambda>g g'. as_oa_evaluator (g_app g') = as_oa_evaluator (g_app g)"
  by unfold_locales auto

text \<open>Once \<^verbatim>\<open>app\<close> is down, no stage brings it back.\<close>

definition app_stays_down :: "gateway_state \<Rightarrow> gateway_state \<Rightarrow> bool" where
  "app_stays_down g g' \<longleftrightarrow> (''app'' \<in> down g \<longrightarrow> ''app'' \<in> down g')
     \<and> (readiness_inv (g_readiness g) \<longrightarrow> readiness_inv (g_readiness g'))"

interpretation app_down: full_stage_relation app_stays_down
  using not_owned(2) by unfold_locales (auto simp: app_stays_down_def)

section \<open>Success and failure of the whole startup\<close>

text \<open>What a successful startup has done: the configuration is loaded and every stage it
  selects has passed.\<close>

definition auth_installed ::
    "startup_lib \<Rightarrow> GatewayConfig \<Rightarrow> OIDCVerifier option \<Rightarrow> BasisLocalTokenTrustConfig option \<Rightarrow> bool" where
  "auth_installed L config v t \<longleftrightarrow> (case auth_mode config of
      OIDC \<Rightarrow> t = None \<and>
        (if truthy_opt (oidc_issuer config)
         then \<exists>w. v = Some w \<and> OIDCVerifier_initialize (sl_net L)
           (OIDCVerifier_from_config (opt_or (oidc_issuer config) []) (oidc_audience config)
             (oidc_jwks_uri config) (jwks_cache_ttl_seconds config)) = Inr w
         else v = None)
    | BASIS_LOCAL_TOKEN \<Rightarrow> v = None \<and>
        (\<exists>w. t = Some w \<and> build_basis_local_token_trust_config (sl_json_loads L) config = Inr w))"

definition policy_installed :: "startup_lib \<Rightarrow> GatewayConfig \<Rightarrow> GatewayEvaluator option \<Rightarrow> bool" where
  "policy_installed L config k \<longleftrightarrow>
     (if truthy_opt (policy_path config)
      then \<exists>rules K. load_policy_engine (sl_fs L) (sl_policy L) (opt_or (policy_path config) []) = Inr rules
             \<and> build_evaluator L rules (policy_version config) = Inr K \<and> k = Some K
      else k = None)"

definition oa_installed :: "startup_lib \<Rightarrow> GatewayConfig \<Rightarrow> OperationAwareGatewayEvaluator option \<Rightarrow> bool" where
  "oa_installed L config e \<longleftrightarrow>
     (if operation_aware_enabled config
      then \<exists>E. e = Some E
             \<and> load_and_build_operation_aware_evaluator (sl_fs L) (sl_policy L) (sl_for_bundle L) (sl_now L)
                 (opt_or (operation_aware_policy_bundle_path config) []) = Inr E
      else e = None)"

definition started :: "startup_lib \<Rightarrow> GatewayConfig \<Rightarrow> gateway_state \<Rightarrow> bool" where
  "started L config g \<longleftrightarrow> sl_load_config L = Inr config \<and> as_config (g_app g) = Some config
     \<and> validate_evaluation_config config = Inr ()
     \<and> auth_installed L config (as_verifier (g_app g)) (as_trust_config (g_app g))
     \<and> policy_installed L config (as_evaluator (g_app g))
     \<and> oa_installed L config (as_oa_evaluator (g_app g))"

lemma auth_stage_Inr:
  assumes "auth_stage L config g = (Inr u, g')"
  shows "down g' \<subseteq> down g" "registered g c \<longrightarrow> registered g' c"
    "as_config (g_app g') = as_config (g_app g)" "as_evaluator (g_app g') = as_evaluator (g_app g)"
    "as_oa_evaluator (g_app g') = as_oa_evaluator (g_app g)"
    "as_verifier (g_app g) = None \<Longrightarrow> as_trust_config (g_app g) = None \<Longrightarrow>
     auth_installed L config (as_verifier (g_app g')) (as_trust_config (g_app g'))"
  using assms
  by (auto simp: auth_installed_def auth_stage_def oidc_stage_def local_token_stage_def stage_simps truthy_opt_def opt_or_def
      split: AuthMode.splits option.splits if_splits)

lemma policy_stages_Inr:
  assumes "policy_stage L config g = (Inr engine, g1)" and "evaluator_stage L config engine g1 = (Inr u, g')"
  shows "down g' \<subseteq> down g" "registered g c \<longrightarrow> registered g' c"
    "as_config (g_app g') = as_config (g_app g)" "as_verifier (g_app g') = as_verifier (g_app g)"
    "as_trust_config (g_app g') = as_trust_config (g_app g)"
    "as_oa_evaluator (g_app g') = as_oa_evaluator (g_app g)"
    "as_evaluator (g_app g) = None \<Longrightarrow> policy_installed L config (as_evaluator (g_app g'))"
  using assms
  by (auto simp: policy_installed_def policy_stage_def evaluator_stage_def stage_simps split: if_splits)

lemma oa_stage_Inr:
  assumes "oa_stage L config g = (Inr u, g')"
  shows "down g' \<subseteq> (if operation_aware_enabled config then down g - {OA_BUNDLE, OA_EVALUATOR, OA_SEMANTIC} else down g)"
    "registered g c \<longrightarrow> registered g' c"
    "as_config (g_app g') = as_config (g_app g)" "as_verifier (g_app g') = as_verifier (g_app g)"
    "as_trust_config (g_app g') = as_trust_config (g_app g)" "as_evaluator (g_app g') = as_evaluator (g_app g)"
    "as_oa_evaluator (g_app g) = None \<Longrightarrow> oa_installed L config (as_oa_evaluator (g_app g'))"
  using assms
  by (auto simp: oa_installed_def oa_stage_def oa_bundle_stage_def oa_construct_stage_def oa_preflight_stage_def stage_simps Let_def
      load_and_build_operation_aware_evaluator_def build_operation_aware_evaluator_def split: if_splits)


definition fresh :: "gateway_state \<Rightarrow> bool" where
  "fresh g \<longleftrightarrow> readiness_inv (g_readiness g) \<and> down g = {}"

text \<open>The state once the stages that cannot fail are done.\<close>

definition prepared :: "GatewayConfig \<Rightarrow> gateway_state \<Rightarrow> gateway_state" where
  "prepared config g = snd (early_stages config
     (set_ready ''configuration_loaded'' (g\<lparr>g_app := empty_app\<lparr>as_config := Some config\<rparr>, g_writer := None\<rparr>)))"

lemma early_stages_Inr: "early_stages config g = (Inr (), snd (early_stages config g))"
  by (simp add: early_stages_def stage_bind_def modify_def register_router_stage_def audit_writer_stage_def
      oa_readiness_stage_def)

lemma startup_stages_eq:
  "startup_stages L g = (case sl_load_config L of Inl e \<Rightarrow> (Inl e, g)
     | Inr config \<Rightarrow> fallible_stages L config (prepared config g))"
proof -
  have early: "stage_bind (early_stages config) f = (\<lambda>h. f () (snd (early_stages config h)))" for config
    and f :: "unit \<Rightarrow> unit stage"
    by (rule ext, subst stage_bind_def, subst early_stages_Inr) simp
  show ?thesis
    by (simp only: startup_stages_def early prepared_def)
      (simp add: stage_bind_def load_config_stage_def split: sum.split)
qed

lemma prepared_simps:
  "g_app (prepared config g) = empty_app\<lparr>as_config := Some config\<rparr>"
  "g_router (prepared config g) \<longleftrightarrow> g_router g \<or> operation_aware_enabled config"
  "g_writer (prepared config g) =
     (if truthy_opt (policy_path config) \<or> operation_aware_enabled config
      then Some (build_audit_writer True (audit_failure_threshold config)) else None)"
  "down (prepared config g) \<subseteq> down g \<union> (if operation_aware_enabled config then {OA_BUNDLE, OA_EVALUATOR, OA_SEMANTIC} else {})"
  "registered (prepared config g) ''configuration_loaded''"
  by (auto simp: prepared_def early_stages_def stage_bind_def modify_def register_router_stage_def
      audit_writer_stage_def oa_readiness_stage_def)

lemma prepared_inv:
  assumes "readiness_inv (g_readiness g)"
  shows "st_inv (g_writer (prepared config g), g_readiness (prepared config g))"
proof -
  have "OA_MODE \<noteq> AUDIT_WRITER_COMPONENT" "OA_BUNDLE \<noteq> AUDIT_WRITER_COMPONENT"
    "OA_EVALUATOR \<noteq> AUDIT_WRITER_COMPONENT" "OA_SEMANTIC \<noteq> AUDIT_WRITER_COMPONENT"
    using not_owned(1) by (metis owned_components)+
  then show ?thesis using assms
    by (auto simp: st_inv_def audit_inv_def writer_link_def build_audit_writer_def prepared_def early_stages_def
        stage_bind_def modify_def register_router_stage_def audit_writer_stage_def oa_readiness_stage_def)
qed

lemma later_st_inv:
  assumes "later_frame g g'" and "st_inv (g_writer g, g_readiness g)"
  shows "st_inv (g_writer g', g_readiness g')"
  using assms by (auto simp: later_frame_def st_inv_def audit_inv_def writer_link_def split: option.splits)

lemma startup_failed_simps:
  "g_app (startup_failed e g) = g_app g" "g_writer (startup_failed e g) = g_writer g"
  "g_router (startup_failed e g) = g_router g" "later_frame g (startup_failed e g)"
  by (simp_all add: startup_failed_def later.Q_refl) (simp add: later_frame_def AUDIT_WRITER_COMPONENT_def)

lemma startup_failed_down:
  assumes "readiness_inv (g_readiness g)"
  shows "down (startup_failed e g) \<noteq> {}"
proof -
  have "list_ex (\<lambda>(c, v). \<not> v) (components (g_readiness g)) \<Longrightarrow> down g \<noteq> {}"
    using all_ready_iff [OF assms] by (auto simp: down_def list_ex_iff)
  then show ?thesis by (auto simp: startup_failed_def)
qed

text \<open>The writer and the frame after startup, whatever happened.\<close>

lemma lifespan_later:
  assumes "sl_load_config L = Inr config"
  shows "later_frame (prepared config g) (lifespan_startup L g)"
proof -
  obtain r g' where r: "fallible_stages L config (prepared config g) = (r, g')" by (metis surj_pair)
  have "later_frame (prepared config g) g'"
    using later.keeps_fallible [of L config] r unfolding later.keeps_def by (metis snd_conv)
  then show ?thesis using r startup_failed_simps(4) later.Q_trans assms
    by (cases r) (auto simp: lifespan_startup_def startup_stages_eq)
qed

lemma lifespan_no_config:
  assumes "sl_load_config L = Inl e"
  shows "lifespan_startup L g = startup_failed e g"
  using assms by (simp add: lifespan_startup_def startup_stages_eq)

lemma startup_success:
  assumes "startup_stages L g = (Inr u, g')"
  shows "\<exists>config. started L config g'" "down g' \<subseteq> down g" "registered g' ''configuration_loaded''"
proof -
  obtain config g1 g2 g3 g4 engine where
    c: "sl_load_config L = Inr config" and
    s: "validate_evaluation_config config = Inr ()"
      "auth_stage L config (prepared config g) = (Inr (), g2)"
      "policy_stage L config g2 = (Inr engine, g3)" "evaluator_stage L config engine g3 = (Inr (), g4)"
      "oa_stage L config g4 = (Inr (), g')"
    using assms
    by (auto simp: startup_stages_eq fallible_stages_def validate_stage_def stage_simps split: sum.splits)
  note A = auth_stage_Inr [OF s(2)] and P = policy_stages_Inr [OF s(3,4)] and O = oa_stage_Inr [OF s(5)]
  have "started L config g'"
    using c s(1) A(3-6) P(3-7) O(3-7) prepared_simps(1) [of config g]
    by (simp add: started_def empty_app_def)
  then show "\<exists>config. started L config g'" ..
  show "down g' \<subseteq> down g"
    using A(1) P(1) O(1) prepared_simps(4) [of config g] by (cases "operation_aware_enabled config") auto
  show "registered g' ''configuration_loaded''"
    using A(2) P(2) O(2) prepared_simps(5) [of config g] by blast
qed


lemma startup_failure:
  assumes "startup_stages L g = (Inl e, g')"
  shows "lifespan_startup L g = startup_failed e g'"
    "as_oa_evaluator (g_app g') = (if \<exists>c. sl_load_config L = Inr c then None else as_oa_evaluator (g_app g))"
    "readiness_inv (g_readiness g) \<Longrightarrow> readiness_inv (g_readiness g')"
proof -
  show "lifespan_startup L g = startup_failed e g'" using assms by (simp add: lifespan_startup_def)
  show "as_oa_evaluator (g_app g') = (if \<exists>c. sl_load_config L = Inr c then None else as_oa_evaluator (g_app g))"
  proof (cases "sl_load_config L")
    case (Inr config)
    then have "fallible_stages L config (prepared config g) = (Inl e, g')"
      using assms by (simp add: startup_stages_eq)
    then have "as_oa_evaluator (g_app g') = as_oa_evaluator (g_app (prepared config g))"
      using same_oa.fail_keeps_fallible unfolding same_oa.fail_keeps_def by blast
    then show ?thesis using Inr by (simp add: prepared_simps(1) empty_app_def)
  qed (use assms in \<open>simp add: startup_stages_eq\<close>)
  show "readiness_inv (g_readiness g')" if i: "readiness_inv (g_readiness g)"
  proof (cases "sl_load_config L")
    case (Inr config)
    then have "fallible_stages L config (prepared config g) = (Inl e, g')"
      using assms by (simp add: startup_stages_eq)
    then have "later_frame (prepared config g) g'"
      using later.keeps_fallible [of L config] unfolding later.keeps_def by (metis snd_conv)
    moreover have "readiness_inv (g_readiness (prepared config g))"
      using prepared_inv [OF i, of config] by (auto simp: st_inv_def audit_inv_def split: option.splits)
    ultimately show ?thesis by (simp add: later_frame_def)
  qed (use assms i in \<open>simp add: startup_stages_eq\<close>)
qed

lemma lifespan_readiness_inv:
  assumes "readiness_inv (g_readiness g)"
  shows "readiness_inv (g_readiness (lifespan_startup L g))"
proof (cases "sl_load_config L")
  case (Inl e)
  show ?thesis
    using startup_failed_simps(4) [of g e] assms by (simp add: lifespan_no_config [OF Inl] later_frame_def)
next
  case (Inr config)
  have "readiness_inv (g_readiness (prepared config g))"
    using prepared_inv [OF assms, of config] by (auto simp: st_inv_def audit_inv_def split: option.splits)
  then show ?thesis using lifespan_later [OF Inr, of g] by (simp add: later_frame_def)
qed

lemma lifespan_inv:
  assumes "st_inv (g_writer g, g_readiness g)"
  shows "st_inv (g_writer (lifespan_startup L g), g_readiness (lifespan_startup L g))"
proof (cases "sl_load_config L")
  case (Inl e)
  show ?thesis
    using later_st_inv [OF startup_failed_simps(4) assms] by (simp add: lifespan_no_config [OF Inl])
next
  case (Inr config)
  have "readiness_inv (g_readiness g)" using assms by (auto simp: st_inv_def audit_inv_def split: option.splits)
  then show ?thesis using later_st_inv [OF lifespan_later [OF Inr] prepared_inv] by blast
qed

section \<open>Properties\<close>

text \<open>C18: The readiness probe tells the truth about startup: starting from a state with no
  component down, the gateway is ready exactly when every stage succeeded; and
  then everything the configuration asks for is installed (the verifier of
  the configured mode, the evaluator of the loaded policy, the preflighted
  operation-aware evaluator) and nothing else.\<close>

theorem startup_ready_iff:
  assumes "fresh g"
  shows "(is_ready (g_readiness (lifespan_startup L g)) \<longleftrightarrow> (\<exists>g'. startup_stages L g = (Inr (), g')))
    \<and> (is_ready (g_readiness (lifespan_startup L g)) \<longrightarrow> (\<exists>config. started L config (lifespan_startup L g)))"
proof -
  have i: "readiness_inv (g_readiness g)" and d: "down g = {}" using assms by (simp_all add: fresh_def)
  obtain r g' where r: "startup_stages L g = (r, g')" by (metis surj_pair)
  show ?thesis
  proof (cases r)
    case (Inl e)
    have "down (lifespan_startup L g) \<noteq> {}"
      using startup_failed_down startup_failure [OF r [unfolded Inl]] i by simp
    then have "\<not> is_ready (g_readiness (lifespan_startup L g))"
      using rdy.status_False_blocks [OF lifespan_readiness_inv [OF i]] by (auto simp: down_def)
    then show ?thesis using r Inl by simp
  next
    case (Inr u)
    then have eq: "lifespan_startup L g = g'" using r by (simp add: lifespan_startup_def)
    have s: "startup_stages L g = (Inr (), g')" using r Inr by simp
    note ok = startup_success [OF s]
    have "readiness_inv (g_readiness g')" using lifespan_readiness_inv [OF i, of L] eq by simp
    then have "is_ready (g_readiness g')"
      using ok(2,3) d by (auto simp: is_ready_iff down_def registered_def)
    then show ?thesis using s eq ok(1) by auto
  qed
qed


lemma fresh_create_app: "fresh create_app"
  by (simp add: fresh_def create_app_def down_def)

text \<open>The test policy grants to administrators everything it names, and is a well-formed rule like the
  loaded ones.\<close>

lemma fold_dict_set_all:
  "(\<forall>(k, v) \<in> set d. P k v) \<Longrightarrow> (\<forall>(c, v) \<in> set xs. P (f c) v)
     \<Longrightarrow> \<forall>(k, v) \<in> set (fold (\<lambda>(c, v) d. dict_set d (f c) v) xs d). P k v"
proof (induction xs arbitrary: d)
  case (Cons x xs)
  obtain c v where x: "x = (c, v)" by (cases x)
  have "\<forall>(k, u) \<in> set (dict_set d (f c) v). P k u"
    using Cons.prems unfolding x by (induction d "f c" v rule: dict_set.induct) auto
  then show ?case using Cons.IH Cons.prems(2) by (simp add: x)
qed simp

lemma null_policy_wf:
  assumes "\<And>c. \<not> blank (actions c)"
  shows "wf_rule \<lparr>pr_role_table = null_role_table actions, pr_rule_name = ''test-rbac''\<rparr>"
    "(k, role_names) \<in> set (null_role_table actions) \<Longrightarrow> ''admin'' \<in> role_names"
proof -
  have b: "\<not> blank ''viewer''" "\<not> blank ''operator''" "\<not> blank ''admin''" "\<not> blank ''test-rbac''" by code_simp+
  have "\<forall>(k, v) \<in> set (null_role_table actions). \<not> blank k \<and> (\<forall>x \<in> v. \<not> blank x) \<and> ''admin'' \<in> v"
    unfolding null_role_table_def Let_def
    by (rule fold_dict_set_all [where P = "\<lambda>k v. \<not> blank k \<and> (\<forall>x \<in> v. \<not> blank x) \<and> ''admin'' \<in> v"])
      (simp_all add: assms b)
  then show "wf_rule \<lparr>pr_role_table = null_role_table actions, pr_rule_name = ''test-rbac''\<rparr>"
    "(k, role_names) \<in> set (null_role_table actions) \<Longrightarrow> ''admin'' \<in> role_names"
    by (auto simp: wf_rule_def wf_table_def b)
qed

text \<open>A concrete environment: the configuration is a parameter.\<close>

definition stub_lib :: "exn + GatewayConfig \<Rightarrow> startup_lib" where
  "stub_lib c = \<lparr>sl_load_config = c, sl_net = stub_net, sl_json_loads = (\<lambda>_. None), sl_fs = ok_fs,
     sl_policy = stub_policy, sl_enforcement_point = (\<lambda>_ _. Inr (stub_kernel D_DENY)),
     sl_for_bundle = (\<lambda>_. Inr stub_oa), sl_now = Aware 0\<rparr>"

definition oa_config :: GatewayConfig where
  "oa_config = default_config\<lparr>operation_aware_enabled := True,
     operation_aware_policy_bundle_path := Some ''bundle.json''\<rparr>"

lemma stub_startup: "\<exists>g'. startup_stages (stub_lib (Inr oa_config)) create_app = (Inr (), g')"
proof -
  have "validate_evaluation_config oa_config = Inr ()" "validate_operation_aware_config oa_config = Inr ()"
    "operation_aware_enabled oa_config" "auth_mode oa_config = OIDC" "oidc_issuer oa_config = None"
    "policy_path oa_config = None" "operation_aware_policy_bundle_path oa_config = Some ''bundle.json''"
    by (simp_all add: oa_config_def default_config_def validate_evaluation_config_def
        validate_operation_aware_config_def)
  moreover have "load_operation_aware_policy_bundle ok_fs stub_policy p = Inr (PDict [])" for p
    by (simp add: load_operation_aware_policy_bundle_def ok_fs_def stub_policy_def)
  moreover have "preflight_operation_aware_evaluator stub_oa (Aware 0) = Inr (sample_oa_result OA_ALLOW)"
    by (simp add: preflight_operation_aware_evaluator_def evaluate_with_metadata_def stub_oa_def
        sample_oa_result_def sample_oa_response_def)
  ultimately show ?thesis
    by (simp add: startup_stages_eq stub_lib_def fallible_stages_def validate_stage_def auth_stage_def
        oidc_stage_def policy_stage_def evaluator_stage_def oa_stage_def oa_bundle_stage_def oa_construct_stage_def
        oa_preflight_stage_def construct_operation_aware_evaluator_def stage_simps)
qed

theorem startup_ready_iff_witness:
  "is_ready (g_readiness (lifespan_startup (stub_lib (Inr oa_config)) create_app))
   \<and> \<not> is_ready (g_readiness (lifespan_startup (stub_lib (Inl (PyError (ValueError (''bad'', []))))) create_app))"
proof -
  have "startup_stages (stub_lib (Inl (PyError (ValueError (''bad'', []))))) create_app \<noteq> (Inr (), g)" for g
    by (simp add: startup_stages_eq stub_lib_def)
  then show ?thesis
    using startup_ready_iff [OF fresh_create_app, of "stub_lib (Inr oa_config)"] stub_startup
      startup_ready_iff [OF fresh_create_app, of "stub_lib (Inl (PyError (ValueError (''bad'', []))))"]
    by blast
qed

text \<open>Whatever fails later, the audit writer and the route are in place: after every startup
  the audit invariant holds; once the configuration is loaded, there is a
  writer exactly when a policy path or the operation-aware mode is
  configured, and the operation-aware route is registered exactly when the
  mode is enabled (or it was registered before); failures of later stages
  have no influence.\<close>

theorem startup_audit_and_route:
  assumes "st_inv (g_writer g, g_readiness g)"
  shows "st_inv (g_writer (lifespan_startup L g), g_readiness (lifespan_startup L g))
    \<and> (\<forall>config. sl_load_config L = Inr config \<longrightarrow>
         as_config (g_app (lifespan_startup L g)) = Some config
         \<and> g_writer (lifespan_startup L g) =
             (if truthy_opt (policy_path config) \<or> operation_aware_enabled config
              then Some (GatewayAuditWriter_init True (audit_failure_threshold config)) else None)
         \<and> (g_router (lifespan_startup L g) \<longleftrightarrow> g_router g \<or> operation_aware_enabled config))"
proof (intro conjI allI impI)
  show "st_inv (g_writer (lifespan_startup L g), g_readiness (lifespan_startup L g))"
    by (rule lifespan_inv [OF assms])
  fix config
  assume c: "sl_load_config L = Inr config"
  note l = lifespan_later [OF c, of g, unfolded later_frame_def]
  show "as_config (g_app (lifespan_startup L g)) = Some config"
    "g_writer (lifespan_startup L g) =
             (if truthy_opt (policy_path config) \<or> operation_aware_enabled config
              then Some (GatewayAuditWriter_init True (audit_failure_threshold config)) else None)"
    "g_router (lifespan_startup L g) \<longleftrightarrow> g_router g \<or> operation_aware_enabled config"
    using l by (simp_all add: prepared_simps(1-3) build_audit_writer_def)
qed

theorem startup_audit_and_route_witness:
  "g_router (lifespan_startup (stub_lib (Inr (oa_config\<lparr>operation_aware_policy_bundle_path := None\<rparr>))) create_app)
   \<and> g_writer (lifespan_startup (stub_lib (Inr (oa_config\<lparr>operation_aware_policy_bundle_path := None\<rparr>))) create_app) \<noteq> None"
proof -
  have "st_inv (g_writer create_app, g_readiness create_app)" by (simp add: create_app_def st_inv_def)
  from startup_audit_and_route [OF this, of "stub_lib (Inr (oa_config\<lparr>operation_aware_policy_bundle_path := None\<rparr>))"]
  show ?thesis by (simp add: stub_lib_def oa_config_def)
qed

text \<open>An operation-aware evaluator that requests can reach has passed its preflight: after any
  startup of a fresh application, an installed evaluator came from the
  configured bundle, its preflight evaluation through its own enforcement point
  completed, and every stage succeeded; after a failed startup none is installed.\<close>

theorem oa_evaluator_only_preflighted:
  "case as_oa_evaluator (g_app (lifespan_startup L create_app)) of
     None \<Rightarrow> \<forall>config g'. sl_load_config L = Inr config \<and> startup_stages L create_app = (Inr (), g')
        \<longrightarrow> \<not> operation_aware_enabled config
   | Some E \<Rightarrow> is_ready (g_readiness (lifespan_startup L create_app))
       \<and> (\<exists>bundle result. sl_for_bundle L bundle = Inr E
          \<and> oa_ep_evaluate E (build_preflight_request (sl_now L)) PREFLIGHT_TRACE_ID PREFLIGHT_EVIDENCE_ID (sl_now L)
              = Inr result
          \<and> or_evaluation_status (rr_response result) = COMPLETED)"
proof -
  obtain r g' where r: "startup_stages L create_app = (r, g')" by (metis surj_pair)
  show ?thesis
  proof (cases r)
    case (Inl e)
    have "as_oa_evaluator (g_app (lifespan_startup L create_app)) = None"
      using startup_failure(1,2) [OF r [unfolded Inl]]
      by (simp add: startup_failed_simps create_app_def empty_app_def)
    then show ?thesis using r Inl by simp
  next
    case (Inr u)
    then have s: "startup_stages L create_app = (Inr (), g')" and eq: "lifespan_startup L create_app = g'"
      using r by (simp_all add: lifespan_startup_def)
    obtain config where c: "started L config g'" using startup_success(1) [OF s] by blast
    have i: "readiness_inv (g_readiness g')"
      using lifespan_readiness_inv [of create_app L] eq by (simp add: create_app_def)
    have "is_ready (g_readiness g')"
      using startup_success(2,3) [OF s] fresh_create_app by (auto simp: is_ready_iff [OF i] fresh_def down_def registered_def)
    with c show ?thesis unfolding eq
      by (cases "as_oa_evaluator (g_app g')")
        (auto simp: started_def oa_installed_def load_and_build_operation_aware_evaluator_def
          build_operation_aware_evaluator_def construct_operation_aware_evaluator_def
          preflight_operation_aware_evaluator_def evaluate_with_metadata_def check_Inr Let_def s split: if_splits)
  qed
qed


theorem oa_evaluator_only_preflighted_witness:
  "as_oa_evaluator (g_app (lifespan_startup (stub_lib (Inr oa_config)) create_app)) \<noteq> None"
proof
  assume n: "as_oa_evaluator (g_app (lifespan_startup (stub_lib (Inr oa_config)) create_app)) = None"
  obtain g' where "startup_stages (stub_lib (Inr oa_config)) create_app = (Inr (), g')" using stub_startup by blast
  moreover have "sl_load_config (stub_lib (Inr oa_config)) = Inr oa_config" by (simp add: stub_lib_def)
  moreover have "operation_aware_enabled oa_config" by (simp add: oa_config_def)
  ultimately show False
    using oa_evaluator_only_preflighted [of "stub_lib (Inr oa_config)"] n by auto
qed

text \<open>C36: A lifespan that is entered again can never become ready: shutdown marks the component
  \<^verbatim>\<open>app\<close> as down, no stage of a later startup marks it ready, and the readiness
  state outlives the lifespan, whatever the environment of the restart.\<close>

theorem restart_never_ready:
  assumes "readiness_inv (g_readiness g)"
  shows "\<not> is_ready (g_readiness (lifespan_startup L (lifespan_shutdown g)))"
proof -
  let ?g = "lifespan_shutdown g"
  have i: "readiness_inv (g_readiness ?g)" using assms by (simp add: lifespan_shutdown_def)
  have a: "''app'' \<in> down ?g" by (simp add: lifespan_shutdown_def)
  have "''app'' \<in> down (lifespan_startup L ?g)"
  proof (cases "sl_load_config L")
    case (Inl e)
    then show ?thesis using a by (auto simp: lifespan_no_config startup_failed_def)
  next
    case (Inr config)
    have ne: "''app'' \<noteq> c" if "c \<in> STAGE_COMPONENTS \<union> {AUDIT_WRITER_COMPONENT}" for c
      using that not_owned(2) by (auto simp: AUDIT_WRITER_COMPONENT_def)
    have "''app'' \<in> down (prepared config ?g)"
      using a ne by (simp add: prepared_def early_stages_def stage_bind_def modify_def register_router_stage_def
          audit_writer_stage_def oa_readiness_stage_def)
    moreover obtain r g' where r: "fallible_stages L config (prepared config ?g) = (r, g')" by (metis surj_pair)
    ultimately have "''app'' \<in> down g'"
      using app_down.keeps_fallible [of L config] unfolding app_down.keeps_def app_stays_down_def by (metis snd_conv)
    then show ?thesis using r Inr
      by (cases r) (auto simp: lifespan_startup_def startup_stages_eq startup_failed_def)
  qed
  then show ?thesis
    using rdy.status_False_blocks [OF lifespan_readiness_inv [OF i]] by (auto simp: down_def)
qed

theorem restart_never_ready_witness:
  "\<not> is_ready (g_readiness (lifespan_startup (stub_lib (Inr oa_config))
     (lifespan_shutdown (lifespan_startup (stub_lib (Inr oa_config)) create_app))))"
  by (rule restart_never_ready, rule lifespan_readiness_inv) (simp add: create_app_def)

end
