(* ===== verification/GW_Process.thy ===== *)
theory GW_Process
  imports GW_Startup
begin

text \<open>
  A running process: lifespan events and requests as steps, first one whole request per
  step, then with the handlers suspended at \<^verbatim>\<open>await request.body()\<close> and interleaved; the
  invariant of the reachable states, and lemmas that span the components.
\<close>

section \<open>A running gateway\<close>

text \<open>The part of the state the handlers thread.\<close>

definition audit_of :: "gateway_state \<Rightarrow> audit_st" where
  "audit_of g = (g_writer g, g_readiness g)"

definition with_audit :: "audit_st \<Rightarrow> gateway_state \<Rightarrow> gateway_state" where
  "with_audit st g = g\<lparr>g_writer := fst st, g_readiness := snd st\<rparr>"

text \<open>A request to \<^verbatim>\<open>/v1/evaluate\<close>, through the correlation middleware.\<close>

definition serve_evaluate ::
    "gateway_lib \<Rightarrow> string \<Rightarrow> http_request \<Rightarrow> gateway_state
     \<Rightarrow> (http_response \<times> (string \<times> string) list) \<times> gateway_state" where
  "serve_evaluate G cid req g =
     (let (resp, st) = dispatch cid (evaluate G (g_app g)) req (audit_of g) in (resp, with_audit st g))"

text \<open>A request to \<^verbatim>\<open>/v1/evaluate/operation-aware\<close>: \<^term>\<open>None\<close> is the framework's 404 for a route
  that was never registered.\<close>

definition serve_operation_aware ::
    "gateway_lib \<Rightarrow> string \<Rightarrow> http_request \<Rightarrow> gateway_state \<Rightarrow> http_response res option \<times> gateway_state" where
  "serve_operation_aware G cid req g =
     (if g_router g
      then let (r, st) = evaluate_operation_aware G (g_app g) (req\<lparr>hr_correlation_id := cid\<rparr>) (audit_of g)
           in (Some r, with_audit st g)
      else (None, g))"

text \<open>The steps of a process: the lifespan events and the requests, in any order and with any
  environment.\<close>

inductive gw_step :: "gateway_state \<Rightarrow> gateway_state \<Rightarrow> bool" where
  startup: "gw_step g (lifespan_startup L g)"
| shutdown: "gw_step g (lifespan_shutdown g)"
| evaluated: "gw_step g (snd (serve_evaluate G cid req g))"
| operation_aware_evaluated: "gw_step g (snd (serve_operation_aware G cid req g))"

inductive reachable :: "gateway_state \<Rightarrow> bool" where
  created: "reachable create_app"
| stepped: "reachable g \<Longrightarrow> gw_step g g' \<Longrightarrow> reachable g'"

section \<open>The invariant of a running gateway\<close>

text \<open>The flag that ties the writer to the readiness state survives every handler.\<close>

definition flag_rel :: "audit_st \<Rightarrow> audit_st \<Rightarrow> bool" where
  "flag_rel st st' \<longleftrightarrow> map_option w_readiness_state (fst st') = map_option w_readiness_state (fst st)"

text \<open>While every write succeeds, a writer that is not degraded stays so.\<close>

definition healthy_rel :: "audit_lib \<Rightarrow> audit_st \<Rightarrow> audit_st \<Rightarrow> bool" where
  "healthy_rel A st st' \<longleftrightarrow> (\<forall>h e. inner_write A h e) \<longrightarrow> \<not> st_degraded st \<longrightarrow> \<not> st_degraded st'"

lemma flag_rel_emit: "flag_rel st (emit_event A ev st)"
  by (cases st; cases "fst st") (auto simp: flag_rel_def emit_event_Some write_fixed_fields)

lemma flag_rel_kernel: "flag_rel st (kernel_writes A evs st)"
  by (cases st; cases "fst st") (auto simp: flag_rel_def kernel_writes_def case_prod_beta readiness_flag_fold)

lemma healthy_write: "inner (w_attempts (fst s)) e \<Longrightarrow> \<not> w_degraded (fst (audit_write inner e s))"
  by (cases s) (simp add: write_cases write_succeeded_def Let_def)

lemma healthy_fold:
  "(\<forall>h e. inner h e) \<Longrightarrow> \<not> w_degraded (fst s) \<Longrightarrow> \<not> w_degraded (fst (fold (audit_write inner) es s))"
  by (induction es arbitrary: s) (simp_all add: healthy_write)

lemma healthy_rel_emit: "healthy_rel A st (emit_event A ev st)"
  by (cases st; cases "fst st") (auto simp: healthy_rel_def st_degraded_def emit_event_Some healthy_write)

lemma healthy_rel_kernel: "healthy_rel A st (kernel_writes A evs st)"
  by (cases st; cases "fst st")
    (auto simp: healthy_rel_def st_degraded_def kernel_writes_def case_prod_beta healthy_fold)

text \<open>While no write succeeds, a degraded writer stays so.\<close>

definition stuck_rel :: "audit_lib \<Rightarrow> audit_st \<Rightarrow> audit_st \<Rightarrow> bool" where
  "stuck_rel A st st' \<longleftrightarrow> (\<forall>h e. \<not> inner_write A h e) \<longrightarrow> st_degraded st \<longrightarrow> st_degraded st'"

lemma stuck_rel_emit: "stuck_rel A st (emit_event A ev st)"
  by (simp add: stuck_rel_def st_degraded_emit)

lemma stuck_fold:
  "(\<forall>h e. \<not> inner h e) \<Longrightarrow> w_degraded (fst s) \<Longrightarrow> w_degraded (fst (fold (audit_write inner) es s))"
proof (induction es arbitrary: s)
  case (Cons e es)
  have "w_degraded (fst (audit_write inner e s))"
    using Cons.prems by (cases s) (simp add: write_cases write_failed_def Let_def)
  then show ?case using Cons.IH [OF Cons.prems(1)] by simp
qed simp

lemma stuck_rel_kernel: "stuck_rel A st (kernel_writes A evs st)"
  by (cases st; cases "fst st")
    (auto simp: stuck_rel_def st_degraded_def kernel_writes_def case_prod_beta stuck_fold)

interpretation stuck: step_relation A "stuck_rel A" "\<lambda>_. True" for A
  by unfold_locales (simp_all add: stuck_rel_emit stuck_rel_kernel, auto simp: stuck_rel_def)

interpretation flagged: step_relation A flag_rel "\<lambda>_. True" for A
  by unfold_locales (simp_all add: flag_rel_emit flag_rel_kernel, simp_all add: flag_rel_def)

interpretation healthy: step_relation A "healthy_rel A" "\<lambda>_. True" for A
  by unfold_locales (simp_all add: healthy_rel_emit healthy_rel_kernel, auto simp: healthy_rel_def)


text \<open>An evaluator that went through the preflight of some startup.\<close>

definition preflighted :: "OperationAwareGatewayEvaluator \<Rightarrow> bool" where
  "preflighted E \<longleftrightarrow> (\<exists>now result.
     oa_ep_evaluate E (build_preflight_request now) PREFLIGHT_TRACE_ID PREFLIGHT_EVIDENCE_ID now = Inr result
     \<and> or_evaluation_status (rr_response result) = COMPLETED)"

definition gw_inv :: "gateway_state \<Rightarrow> bool" where
  "gw_inv g \<longleftrightarrow> st_inv (audit_of g) \<and> (\<forall>w. g_writer g = Some w \<longrightarrow> w_readiness_state w)
     \<and> (\<forall>E. as_oa_evaluator (g_app g) = Some E \<longrightarrow> preflighted E)"

lemma oa_installed_preflighted: "oa_installed L config (Some E) \<Longrightarrow> preflighted E"
  by (auto simp: oa_installed_def preflighted_def load_and_build_operation_aware_evaluator_def
      build_operation_aware_evaluator_def preflight_operation_aware_evaluator_def evaluate_with_metadata_def
      check_Inr Let_def split: if_splits)

lemma startup_oa_evaluator:
  assumes "as_oa_evaluator (g_app (lifespan_startup L g)) = Some E"
  shows "as_oa_evaluator (g_app g) = Some E \<or> preflighted E"
proof -
  obtain r g' where r: "startup_stages L g = (r, g')" by (metis surj_pair)
  show ?thesis
  proof (cases r)
    case (Inl e)
    then show ?thesis using startup_failure(1,2) [of L g e g'] r assms
      by (auto simp: startup_failed_simps split: if_splits)
  next
    case (Inr u)
    then have eq: "lifespan_startup L g = g'" using r by (simp add: lifespan_startup_def)
    obtain config where "started L config g'" using startup_success(1) [of L g u g'] r Inr by auto
    then have "oa_installed L config (Some E)" using assms eq by (simp add: started_def)
    then show ?thesis by (simp add: oa_installed_preflighted)
  qed
qed

lemma gw_inv_startup:
  assumes "gw_inv g"
  shows "gw_inv (lifespan_startup L g)"
proof -
  have i: "st_inv (g_writer g, g_readiness g)" using assms by (simp add: gw_inv_def audit_of_def)
  have "w_readiness_state w" if w: "g_writer (lifespan_startup L g) = Some w" for w
  proof (cases "sl_load_config L")
    case (Inl e)
    then show ?thesis using w assms by (simp add: lifespan_no_config startup_failed_simps gw_inv_def)
  next
    case (Inr config)
    then have "g_writer (lifespan_startup L g) = g_writer (prepared config g)"
      using lifespan_later [OF Inr, of g] by (simp add: later_frame_def)
    then show ?thesis using w by (auto simp: prepared_simps build_audit_writer_def split: if_splits)
  qed
  then show ?thesis
    using lifespan_inv [OF i, of L] startup_oa_evaluator [of L g] assms
    by (auto simp: gw_inv_def audit_of_def)
qed

lemma gw_inv_with_audit:
  assumes "gw_inv g" and "audit_frame_rel (audit_of g) st" and "flag_rel (audit_of g) st"
  shows "gw_inv (with_audit st g)"
proof -
  have "map_option w_readiness_state (fst st) = map_option w_readiness_state (g_writer g)"
    using assms(3) by (simp add: flag_rel_def audit_of_def)
  then have "\<forall>w. fst st = Some w \<longrightarrow> w_readiness_state w"
    using assms(1) by (cases "g_writer g") (auto simp: gw_inv_def)
  then show ?thesis using assms(1,2) by (simp add: gw_inv_def with_audit_def audit_of_def audit_frame_rel_def)
qed

lemma evaluate_rels:
  "audit_frame_rel st (snd (evaluate G app req st))" "flag_rel st (snd (evaluate G app req st))"
  "healthy_rel (gl_audit G) st (snd (evaluate G app req st))"
  by (rule framed.R_evaluate flagged.R_evaluate healthy.R_evaluate; simp add: list_all_iff)+

lemma oa_rels:
  "audit_frame_rel st (snd (evaluate_operation_aware G app req st))"
  "flag_rel st (snd (evaluate_operation_aware G app req st))"
  by (rule framed.R_evaluate_operation_aware flagged.R_evaluate_operation_aware; simp)+

lemma serve_evaluate_state:
  "snd (serve_evaluate G cid req g) =
     with_audit (snd (evaluate G (g_app g) (req\<lparr>hr_correlation_id := cid\<rparr>) (audit_of g))) g"
  by (simp add: serve_evaluate_def dispatch_def case_prod_beta)

lemma serve_operation_aware_state:
  "snd (serve_operation_aware G cid req g) = (if g_router g
     then with_audit (snd (evaluate_operation_aware G (g_app g) (req\<lparr>hr_correlation_id := cid\<rparr>) (audit_of g))) g else g)"
  by (simp add: serve_operation_aware_def case_prod_beta)

lemma gw_inv_step: "gw_step g g' \<Longrightarrow> gw_inv g \<Longrightarrow> gw_inv g'"
proof (induction rule: gw_step.induct)
  case (startup g L)
  then show ?case by (rule gw_inv_startup)
next
  case (shutdown g)
  then have "st_inv (g_writer (lifespan_shutdown g), g_readiness (lifespan_shutdown g))"
    using not_owned later_st_inv [of g "lifespan_shutdown g"]
    by (simp add: gw_inv_def audit_of_def lifespan_shutdown_def later_frame_def AUDIT_WRITER_COMPONENT_def)
  then show ?case using shutdown by (simp add: gw_inv_def audit_of_def lifespan_shutdown_def)
next
  case (evaluated g G cid req)
  then show ?case unfolding serve_evaluate_state by (intro gw_inv_with_audit evaluate_rels)
next
  case (operation_aware_evaluated g G cid req)
  then show ?case
    by (simp add: serve_operation_aware_state gw_inv_with_audit oa_rels)
qed

lemma gw_inv_reachable: "reachable g \<Longrightarrow> gw_inv g"
proof (induction rule: reachable.induct)
  case created
  then show ?case by (simp add: gw_inv_def audit_of_def create_app_def empty_app_def st_inv_def)
next
  case (stepped g g')
  then show ?case using gw_inv_step by blast
qed


text \<open>What the invariant says of readiness.\<close>

lemma gw_inv_consistent:
  assumes inv: "gw_inv g"
  shows "readiness_inv (g_readiness g)
    \<and> (\<forall>w. g_writer g = Some w \<longrightarrow> writer_inv w
         \<and> component_of (g_readiness g) AUDIT_WRITER_COMPONENT = Some (\<not> w_degraded w)
         \<and> (w_degraded w \<longrightarrow> status_code (ready (g_readiness g) cid) = 503))
    \<and> (\<forall>E. as_oa_evaluator (g_app g) = Some E \<longrightarrow> preflighted E)"
proof -
  have r: "readiness_inv (g_readiness g)"
    using inv by (auto simp: gw_inv_def st_inv_def audit_of_def audit_inv_def split: option.splits)
  have w: "writer_inv w \<and> component_of (g_readiness g) AUDIT_WRITER_COMPONENT = Some (\<not> w_degraded w)"
    if "g_writer g = Some w" for w
    using inv that by (auto simp: gw_inv_def st_inv_def audit_of_def audit_inv_def writer_link_def)
  have "status_code (ready (g_readiness g) cid) = 503"
    if "g_writer g = Some w" "w_degraded w" for w
    using w [OF that(1)] that(2) rdy.status_False_blocks [OF r] by (auto simp: ready_def)
  then show ?thesis using r w inv unfolding gw_inv_def by blast
qed

section \<open>Lemmas across the components\<close>

definition auth_mode_of :: "app_state \<Rightarrow> AuthMode" where
  "auth_mode_of app = (case as_config app of None \<Rightarrow> OIDC | Some c \<Rightarrow> auth_mode c)"

lemma app_authenticate_verified:
  assumes "app_authenticate G app tok = Inr (s, i)"
  shows "mode_verified (gl_jwt G) (auth_mode_of app) (as_verifier app) (as_trust_config app) tok (ic_claims i)"
    "map_of (ic_claims i) ''sub'' = Some (PStr (subject_id s))" "wf_identity (s, i)"
  using auth_src.identify_verified auth_src.identify_sub auth_src.identify_wf assms
  unfolding app_authenticate_def auth_mode_of_def by blast+

lemma evaluate_200:
  assumes "status_code (fst (evaluate G app req st)) = 200"
  obtains tok s i K dq ks ic d where
    "extract_bearer_token (hr_authorization req) = Inr tok" "app_authenticate G app tok = Inr (s, i)"
    "as_evaluator app = Some K" "dq_subject_id dq = subject_id s" "dq_subject_roles dq = roles s"
    "ki_token ic = tok" "snd (ep_evaluate K dq ks ic (Some (hr_correlation_id req))) = Inr d" "dr_outcome d = D_ALLOW"
proof -
  have nb: "\<not> audit_blocks (gl_audit G) (as_config app) (probe_event req) st"
    using assms by (auto simp: evaluate_cases response_helper_status)
  obtain st' where ev: "fst (evaluate G app req st) = fst (answer (evaluate_steps G app req st'))"
    using nb by (simp only: evaluate_cases if_False)
  obtain x where x: "fst (evaluate_steps G app req st') = Inr x" "status_code x = 200"
    using assms ev answer_200 [OF evaluate_steps_rules(3), of G app req st'] by auto
  obtain r :: EvaluateRequest and eff tok si K d where
    h: "extract_bearer_token (hr_authorization req) = Inr tok" "app_authenticate G app tok = Inr si"
      "as_evaluator app = Some K"
    and k: "kernel_decides req K (fst si) (snd si) tok eff (request_id_of (er_request_id r) req) d"
    and d: "x = decision_response d (hr_correlation_id req)"
    using x(1) unfolding evaluate_steps_rules(1) by (elim exE conjE) (rule that)
  obtain dq ks ic where
    c: "kernel_call K (hr_now req) (fst si) tok (ic_claims (snd si)) (fst eff) (fst (snd eff))
          (request_id_of (er_request_id r) req) (snd (snd eff)) = Inr (dq, ks, ic)"
    and e: "snd (ep_evaluate K dq ks ic (Some (hr_correlation_id req))) = Inr d"
    using k by (auto simp: kernel_decides_def split: sum.splits)
  have "dr_outcome d = D_ALLOW" using x(2) d by (simp add: decision_response_def split: if_splits)
  then show thesis
    using that [of tok "fst si" "snd si" K dq ic ks d] h kernel_call_Inr [OF c] e by simp
qed

lemma oa_kernel_result:
  "OperationAwareGatewayEvaluator_evaluate E call c = Inr result \<Longrightarrow>
   oa_ep_evaluate E (oa_request_of c) (trace_id_factory call) (evidence_id_factory call) (call_clock call) = Inr result"
  by (auto simp: OperationAwareGatewayEvaluator_evaluate_def build_operation_aware_decision_request_def
      evaluate_with_metadata_def split: option.splits exn.splits)

text \<open>The internal-error response is told apart from every other one.\<close>

lemma not_internal:
  "authentication_required m c \<noteq> internal_error_response c'" "authentication_failed t c \<noteq> internal_error_response c'"
  "validation_failed m c \<noteq> internal_error_response c'" "producer_certificate_rejected c \<noteq> internal_error_response c'"
  "evaluator_unavailable c \<noteq> internal_error_response c'" "audit_fail_closed_response c \<noteq> internal_error_response c'"
  "evaluation_failed_closed c \<noteq> internal_error_response c'" "oa_result_response x \<noteq> internal_error_response c'"
  by (simp_all add: authentication_required_def authentication_failed_def validation_failed_def
      producer_certificate_rejected_def evaluator_unavailable_def audit_fail_closed_response_def
      evaluation_failed_closed_def internal_error_response_def error_response_def oa_result_response_def)

lemma never_bind:
  assumes "fst (m st) \<noteq> Inl r" and "\<And>x st'. fst (m st) = Inr x \<Longrightarrow> fst (f x st') \<noteq> Inl r"
  shows "fst (step_bind m f st) \<noteq> Inl r"
  using assms by (cases "fst (m st)") (auto simp: fst_step_bind)

lemma oa_reject_result: "fst (oa_reject G req a re sid r st) = Inl (Inr r)"
  by (simp add: oa_reject_def reject_def)

lemma oa_steps_no_internal:
  assumes "\<And>r s i t m tok. app_authenticate G app tok = Inr (s, i) \<Longrightarrow> app_producer_trust G app req s = Inr t \<Longrightarrow>
    compose_operation_aware_input r s i t (hr_correlation_id req) (hr_compose_clock req)
      \<noteq> Inl (CompositionInternalError m)"
  shows "fst (oa_steps G app req st) \<noteq> Inl (Inr (internal_error_response (hr_correlation_id req)))"
proof -
  note sr = oa_reject_result step_return_rules not_internal raise_exn_def
  let ?x = "Inr (internal_error_response (hr_correlation_id req)) :: exn + http_response"
  have 1: "fst (oa_parse_step G req st) \<noteq> Inl ?x" "fst (oa_bearer_step G req st) \<noteq> Inl ?x"
    "fst (oa_authenticate_step G app req tok st) \<noteq> Inl ?x" "fst (oa_trust_step G app req s st) \<noteq> Inl ?x"
    "fst (oa_evaluator_step G app req s st) \<noteq> Inl ?x" "fst (oa_kernel_step G req E s c st) \<noteq> Inl ?x"
    for st tok s E c
    by (simp_all add: oa_parse_step_def oa_bearer_step_def oa_authenticate_step_def oa_trust_step_def
        oa_evaluator_step_def oa_kernel_step_def sr split: sum.split exn.split option.split)
  have 2: "fst (oa_respond_step G req c result st) \<noteq> Inl ?x" for c result st
    by (simp add: oa_respond_step_def sr case_prod_beta split: sum.split prod.split)
  have 3: "fst (oa_compose_step G req r s i t st) \<noteq> Inl ?x"
    if "app_authenticate G app tok = Inr (s, i)" "app_producer_trust G app req s = Inr t" for r s i t tok st
    using assms [OF that, of r] by (auto simp: oa_compose_step_def sr split: sum.splits comp_exn.splits)
  have pass: "fst (oa_authenticate_step G app req tok st) = Inr i \<Longrightarrow> app_authenticate G app tok = Inr i"
    "fst (oa_trust_step G app req s st) = Inr t \<Longrightarrow> app_producer_trust G app req s = Inr t" for tok i s t st
    by (auto simp: oa_authenticate_step_def oa_trust_step_def sr split: sum.splits exn.splits)
  have 4: "fst (oa_authenticated G app req r s i st) \<noteq> Inl ?x" if "app_authenticate G app tok = Inr (s, i)"
    for r s i tok st
    unfolding oa_authenticated_def
    by (intro never_bind 1 2 3 [OF that]) (erule pass(2))
  show ?thesis unfolding oa_steps_def
  proof (intro never_bind 1)
    fix r st1 tok st2 i st3
    assume "fst (oa_authenticate_step G app req tok st2) = Inr i"
    then have "app_authenticate G app tok = Inr (fst i, snd i)" by (simp add: pass(1))
    then show "fst (oa_authenticated G app req r (fst i) (snd i) st3) \<noteq> Inl ?x" by (rule 4)
  qed
qed

end
