(* ===== verification/GW_Interleaving.thy ===== *)
theory GW_Interleaving
  imports GW_Process
begin

text \<open>
  Concurrent requests. Both handlers of \<^verbatim>\<open>api/routes.py\<close> are coroutines of one event loop and
  suspend at one point only, \<^verbatim>\<open>await request.body()\<close>, after the strict-mode precheck and
  before step 1. A handler is therefore two atomic halves, and between the halves of one
  request any number of halves of other requests may run. The steps of such a process are
  \<^verbatim>\<open>p_step\<close>; an observation is the response of a request. Lifespan events occur while no
  request is suspended. A task keeps the state in which its request arrived, which no
  step reads; it says which sequential execution a response belongs to.
\<close>

section \<open>The two halves of a handler\<close>

datatype endpoint = EVALUATE | EVALUATE_OPERATION_AWARE

record task =
  t_endpoint :: endpoint
  t_lib :: gateway_lib
  t_request :: http_request
  t_arrival :: gateway_state

text \<open>Up to the \<^verbatim>\<open>await\<close>: the precheck, with the probe of the endpoint.\<close>

definition task_probe :: "task \<Rightarrow> AuditEvent" where
  "task_probe t = (case t_endpoint t of
      EVALUATE \<Rightarrow> probe_event (t_request t)
    | EVALUATE_OPERATION_AWARE \<Rightarrow> oa_probe_event (t_request t))"

definition task_begin :: "task \<Rightarrow> app_state \<Rightarrow> unit step" where
  "task_begin t app = resolve_audit_fail_closed_response (as_config app) (hr_correlation_id (t_request t))
     (emit_event (gl_audit (t_lib t)) (task_probe t))"

text \<open>From the \<^verbatim>\<open>await\<close> to the end.\<close>

definition task_finish :: "task \<Rightarrow> app_state \<Rightarrow> audit_st \<Rightarrow> http_response res \<times> audit_st" where
  "task_finish t app st = (case t_endpoint t of
      EVALUATE \<Rightarrow> (let (r, st') = answer (evaluate_steps (t_lib t) app (t_request t) st) in (Inr r, st'))
    | EVALUATE_OPERATION_AWARE \<Rightarrow> oa_answer (oa_steps (t_lib t) app (t_request t) st))"

text \<open>The whole handler, run without suspension.\<close>

definition task_atomic :: "task \<Rightarrow> app_state \<Rightarrow> audit_st \<Rightarrow> http_response res \<times> audit_st" where
  "task_atomic t app st = (case t_endpoint t of
      EVALUATE \<Rightarrow> (let (r, st') = evaluate (t_lib t) app (t_request t) st in (Inr r, st'))
    | EVALUATE_OPERATION_AWARE \<Rightarrow> evaluate_operation_aware (t_lib t) app (t_request t) st)"

text \<open>A request that arrives in a state, under the correlation id of the middleware; the
  operation-aware route has to be registered.\<close>

definition new_task :: "endpoint \<Rightarrow> gateway_lib \<Rightarrow> string \<Rightarrow> http_request \<Rightarrow> gateway_state \<Rightarrow> task" where
  "new_task e G cid req g =
     \<lparr>t_endpoint = e, t_lib = G, t_request = req\<lparr>hr_correlation_id := cid\<rparr>, t_arrival = g\<rparr>"

definition routed :: "endpoint \<Rightarrow> gateway_state \<Rightarrow> bool" where
  "routed e g \<longleftrightarrow> e = EVALUATE_OPERATION_AWARE \<longrightarrow> g_router g"

section \<open>The interleaved process\<close>

record process =
  p_state :: gateway_state
  p_tasks :: "task list"

datatype observation = Silent | Answered task "http_response res"

definition without_nth :: "nat \<Rightarrow> 'a list \<Rightarrow> 'a list" where
  "without_nth i xs = take i xs @ drop (Suc i) xs"

inductive p_step :: "process \<Rightarrow> observation \<Rightarrow> process \<Rightarrow> bool" where
  p_startup: "p_tasks p = [] \<Longrightarrow> p_step p Silent (p\<lparr>p_state := lifespan_startup L (p_state p)\<rparr>)"
| p_shutdown: "p_tasks p = [] \<Longrightarrow> p_step p Silent (p\<lparr>p_state := lifespan_shutdown (p_state p)\<rparr>)"
| p_refused: "routed e (p_state p) \<Longrightarrow> t = new_task e G cid req (p_state p) \<Longrightarrow>
    task_begin t (g_app (p_state p)) (audit_of (p_state p)) = (Inl r, st) \<Longrightarrow>
    p_step p (Answered t (Inr r)) (p\<lparr>p_state := with_audit st (p_state p)\<rparr>)"
| p_suspended: "routed e (p_state p) \<Longrightarrow> t = new_task e G cid req (p_state p) \<Longrightarrow>
    task_begin t (g_app (p_state p)) (audit_of (p_state p)) = (Inr (), st) \<Longrightarrow>
    p_step p Silent (p\<lparr>p_state := with_audit st (p_state p), p_tasks := p_tasks p @ [t]\<rparr>)"
| p_resumed: "i < length (p_tasks p) \<Longrightarrow> t = p_tasks p ! i \<Longrightarrow>
    task_finish t (g_app (p_state p)) (audit_of (p_state p)) = (r, st) \<Longrightarrow>
    p_step p (Answered t r) (p\<lparr>p_state := with_audit st (p_state p), p_tasks := without_nth i (p_tasks p)\<rparr>)"

inductive p_reachable :: "process \<Rightarrow> bool" where
  p_created: "p_reachable \<lparr>p_state = create_app, p_tasks = []\<rparr>"
| p_stepped: "p_reachable p \<Longrightarrow> p_step p obs p' \<Longrightarrow> p_reachable p'"

inductive_cases p_answered: "p_step p (Answered t r) p'"

section \<open>The halves make the whole\<close>

lemma task_split:
  "task_atomic t app st = (case task_begin t app st of
      (Inl r, st') \<Rightarrow> (Inr r, st')
    | (Inr _, st') \<Rightarrow> task_finish t app st')"
proof (cases "t_endpoint t")
  case EVALUATE
  then show ?thesis
    by (cases "task_begin t app st"; cases "fst (task_begin t app st)")
      (simp_all add: task_atomic_def task_begin_def task_finish_def task_probe_def evaluate_def
        step_bind_def answer_def)
next
  case EVALUATE_OPERATION_AWARE
  then show ?thesis
    by (cases "task_begin t app st"; cases "fst (task_begin t app st)")
      (simp_all add: task_atomic_def task_begin_def task_finish_def task_probe_def evaluate_operation_aware_def)
qed

text \<open>What a half leaves of the audit state.\<close>

lemma task_begin_rels:
  "audit_frame_rel st (snd (task_begin t app st))" "flag_rel st (snd (task_begin t app st))"
  unfolding task_begin_def by (rule framed.R_precheck flagged.R_precheck; simp)+

lemma task_finish_state:
  "snd (task_finish t app st) = (case t_endpoint t of
      EVALUATE \<Rightarrow> snd (answer (evaluate_steps (t_lib t) app (t_request t) st))
    | EVALUATE_OPERATION_AWARE \<Rightarrow> snd (oa_answer (oa_steps (t_lib t) app (t_request t) st)))"
  by (simp add: task_finish_def case_prod_beta split: endpoint.split)

lemma task_finish_rels:
  "audit_frame_rel st (snd (task_finish t app st))" "flag_rel st (snd (task_finish t app st))"
  unfolding task_finish_state
  by (cases "t_endpoint t";
      simp add: framed.R_answer flagged.R_answer framed.R_evaluate_steps flagged.R_evaluate_steps
        framed.R_oa_steps flagged.R_oa_steps list_all_iff)+

section \<open>Responses do not see the audit state\<close>

text \<open>A step of the operation-aware handler may ask whether there is a writer, and nothing else.\<close>

definition writer_only :: "('r, 'a) action \<Rightarrow> bool" where
  "writer_only m \<longleftrightarrow> (\<forall>st st'. (fst st = None \<longleftrightarrow> fst st' = None) \<longrightarrow> fst (m st) = fst (m st'))
     \<and> (\<forall>st. fst (snd (m st)) = None \<longleftrightarrow> fst st = None)"

lemma writer_onlyD:
  assumes "writer_only m"
  shows "(fst st = None \<longleftrightarrow> fst st' = None) \<Longrightarrow> fst (m st) = fst (m st')"
    "fst (snd (m st)) = None \<longleftrightarrow> fst st = None"
  by (rule assms [unfolded writer_only_def, THEN conjunct1, rule_format], assumption)
    (rule assms [unfolded writer_only_def, THEN conjunct2, rule_format])

lemma writer_only_bind:
  assumes "writer_only m" and "\<And>x. writer_only (f x)"
  shows "writer_only (step_bind m f)"
proof -
  note m = writer_onlyD [OF assms(1)] and f = writer_onlyD [OF assms(2)]
  have 1: "fst (step_bind m f st) = fst (step_bind m f st')" if "fst st = None \<longleftrightarrow> fst st' = None" for st st'
    unfolding fst_step_bind m(1) [OF that] using f(1) [of "snd (m st)" "snd (m st')"] m(2) that
    by (simp split: sum.split)
  have 2: "fst (snd (step_bind m f st)) = None \<longleftrightarrow> fst st = None" for st
    using m(2) [of st] f(2) by (cases "m st"; cases "fst (m st)") (auto simp: step_bind_def)
  show ?thesis unfolding writer_only_def by (intro conjI allI impI 1 2)
qed

lemma writer_only_steps:
  "writer_only (step_return x)" "writer_only (oa_reject G req a re sid r)" "writer_only (raise_exn e)"
  by (simp_all add: writer_only_def step_return_def oa_reject_def reject_def raise_exn_def)

lemma writer_only_respond: "writer_only (oa_respond_step G req c result)"
  unfolding writer_only_def
proof (intro conjI allI impI)
  fix st st' :: audit_st
  assume w: "fst st = None \<longleftrightarrow> fst st' = None"
  then have ro: "record_ok st result \<longleftrightarrow> record_ok st' result" by (simp add: record_ok_def)
  show "fst (oa_respond_step G req c result st) = fst (oa_respond_step G req c result st')"
  proof (cases "record_ok st result")
    case True
    then show ?thesis using ro by (simp add: oa_respond_ok)
  next
    case False
    then show ?thesis using ro oa_respond_raises [where G = G and req = req and c = c]
      by (metis Inl_inject fst_conv)
  qed
next
  fix st :: audit_st
  show "fst (snd (oa_respond_step G req c result st)) = None \<longleftrightarrow> fst st = None"
    using framed.R_respond [where A = "gl_audit G" and G = G and st = st and req = req and c = c and result = result]
    by (simp add: audit_frame_rel_def)
qed

lemma writer_only_oa_steps: "writer_only (oa_steps G app req)"
proof -
  note base = writer_only_steps
  have 1: "writer_only (oa_parse_step G req)" "writer_only (oa_bearer_step G req)"
    "writer_only (oa_authenticate_step G app req tok)" "writer_only (oa_trust_step G app req s)"
    "writer_only (oa_compose_step G req r s i t)" "writer_only (oa_evaluator_step G app req s)"
    "writer_only (oa_kernel_step G req E s c)" for tok s r i t E c
    by (simp_all add: oa_parse_step_def oa_bearer_step_def oa_authenticate_step_def oa_trust_step_def
        oa_compose_step_def oa_evaluator_step_def oa_kernel_step_def base
        split: sum.split exn.split comp_exn.split option.split)
  show ?thesis unfolding oa_steps_def oa_authenticated_def
    by (intro writer_only_bind 1 writer_only_respond)
qed

lemma fst_oa_answer: "fst (oa_answer p) = (case fst p of Inl x \<Rightarrow> x | Inr r \<Rightarrow> Inr r)"
  by (simp add: oa_answer_def case_prod_beta split: sum.split)

lemma task_finish_result:
  assumes "fst st = None \<longleftrightarrow> fst st' = None"
  shows "fst (task_finish t app st) = fst (task_finish t app st')"
proof (cases "t_endpoint t")
  case EVALUATE
  have "fst (evaluate_steps (t_lib t) app (t_request t) st) = fst (evaluate_steps (t_lib t) app (t_request t) st')"
    using evaluate_steps_rules(2) [of "t_lib t" app "t_request t"] unfolding oblivious_def by blast
  with EVALUATE show ?thesis by (simp add: task_finish_def case_prod_beta fst_answer)
next
  case EVALUATE_OPERATION_AWARE
  have "fst (oa_steps (t_lib t) app (t_request t) st) = fst (oa_steps (t_lib t) app (t_request t) st')"
    by (rule writer_onlyD(1) [OF writer_only_oa_steps assms])
  with EVALUATE_OPERATION_AWARE show ?thesis by (simp add: task_finish_def fst_oa_answer)
qed

section \<open>The invariant of an interleaved process\<close>

text \<open>A suspended request passed its precheck in the state it arrived in, and the parts of
  that state its second half depends on are still there.\<close>

definition task_inv :: "gateway_state \<Rightarrow> task \<Rightarrow> bool" where
  "task_inv g t \<longleftrightarrow> gw_inv (t_arrival t) \<and> routed (t_endpoint t) (t_arrival t)
     \<and> g_app g = g_app (t_arrival t) \<and> (g_writer g = None \<longleftrightarrow> g_writer (t_arrival t) = None)
     \<and> fst (task_begin t (g_app (t_arrival t)) (audit_of (t_arrival t))) = Inr ()"

definition p_inv :: "process \<Rightarrow> bool" where
  "p_inv p \<longleftrightarrow> gw_inv (p_state p) \<and> (\<forall>t \<in> set (p_tasks p). task_inv (p_state p) t)"

lemma with_audit_simps [simp]:
  "g_app (with_audit st g) = g_app g" "g_writer (with_audit st g) = fst st" "audit_of (with_audit st g) = st"
  by (simp_all add: with_audit_def audit_of_def)

lemma task_inv_with_audit:
  assumes "task_inv g t" and "audit_frame_rel (audit_of g) st"
  shows "task_inv (with_audit st g) t"
  using assms by (simp add: task_inv_def audit_frame_rel_def audit_of_def)

lemma gw_inv_begin:
  "gw_inv g \<Longrightarrow> task_begin t app (audit_of g) = (x, st) \<Longrightarrow> gw_inv (with_audit st g)"
  using task_begin_rels [of "audit_of g" t app] by (auto intro: gw_inv_with_audit)

lemma gw_inv_finish:
  "gw_inv g \<Longrightarrow> task_finish t app (audit_of g) = (x, st) \<Longrightarrow> gw_inv (with_audit st g)"
  using task_finish_rels [of "audit_of g" t app] by (auto intro: gw_inv_with_audit)

lemma set_without_nth: "set (without_nth i xs) \<subseteq> set xs"
  by (auto simp: without_nth_def dest: in_set_takeD in_set_dropD)

lemma p_inv_step: "p_step p obs p' \<Longrightarrow> p_inv p \<Longrightarrow> p_inv p'"
proof (induction rule: p_step.induct)
  case (p_startup p L)
  then show ?case using gw_inv_startup by (simp add: p_inv_def)
next
  case (p_shutdown p)
  then show ?case using gw_inv_step [OF gw_step.shutdown] by (simp add: p_inv_def)
next
  case (p_refused e p t G cid req r st)
  have "audit_frame_rel (audit_of (p_state p)) st"
    using task_begin_rels(1) [of "audit_of (p_state p)" t "g_app (p_state p)"] p_refused(3) by simp
  then show ?case using p_refused.prems gw_inv_begin [OF _ p_refused.hyps(3)] task_inv_with_audit
    by (simp add: p_inv_def)
next
  case (p_suspended e p t G cid req st)
  have f: "audit_frame_rel (audit_of (p_state p)) st"
    using task_begin_rels(1) [of "audit_of (p_state p)" t "g_app (p_state p)"] p_suspended(3) by simp
  have "t_arrival t = p_state p" "t_endpoint t = e" using p_suspended(2) by (simp_all add: new_task_def)
  then have "task_inv (p_state p) t" using p_suspended by (simp add: task_inv_def p_inv_def)
  then show ?case using p_suspended.prems f gw_inv_begin [OF _ p_suspended.hyps(3)] task_inv_with_audit
    by (simp add: p_inv_def)
next
  case (p_resumed i p t r st)
  have "audit_frame_rel (audit_of (p_state p)) st"
    using task_finish_rels(1) [of "audit_of (p_state p)" t "g_app (p_state p)"] p_resumed(3) by simp
  then show ?case using p_resumed.prems gw_inv_finish [OF _ p_resumed.hyps(3)] task_inv_with_audit
      set_without_nth [of i "p_tasks p"]
    by (simp add: p_inv_def subset_iff)
qed

lemma p_inv_reachable: "p_reachable p \<Longrightarrow> p_inv p"
proof (induction rule: p_reachable.induct)
  case p_created
  then show ?case using gw_inv_reachable [OF reachable.created] by (simp add: p_inv_def)
next
  case (p_stepped p obs p')
  then show ?case using p_inv_step by blast
qed

text \<open>Every response is the one of an atomic execution in the state of arrival.\<close>

lemma answered_atomic:
  assumes "p_inv p" and "p_step p (Answered t r) p'"
  shows "r = fst (task_atomic t (g_app (t_arrival t)) (audit_of (t_arrival t)))"
    "gw_inv (t_arrival t)" "routed (t_endpoint t) (t_arrival t)" "g_app (t_arrival t) = g_app (p_state p)"
proof -
  have "r = fst (task_atomic t (g_app (t_arrival t)) (audit_of (t_arrival t)))
    \<and> gw_inv (t_arrival t) \<and> routed (t_endpoint t) (t_arrival t) \<and> g_app (t_arrival t) = g_app (p_state p)"
    using assms(2)
  proof (rule p_answered)
    fix e G cid req r' st
    assume h: "routed e (p_state p)" "t = new_task e G cid req (p_state p)" "r = Inr r'"
      "task_begin (new_task e G cid req (p_state p)) (g_app (p_state p)) (audit_of (p_state p)) = (Inl r', st)"
    then have "t_arrival t = p_state p" "t_endpoint t = e" by (simp_all add: new_task_def)
    then show ?thesis using h assms(1) by (simp add: task_split p_inv_def)
  next
    fix i st
    assume h: "t = p_tasks p ! i" "i < length (p_tasks p)"
      "task_finish (p_tasks p ! i) (g_app (p_state p)) (audit_of (p_state p)) = (r, st)"
    then have ti: "task_inv (p_state p) t" using assms(1) by (simp add: p_inv_def)
    let ?b = "task_begin t (g_app (t_arrival t)) (audit_of (t_arrival t))"
    have "fst (snd ?b) = None \<longleftrightarrow> fst (audit_of (p_state p)) = None"
      using task_begin_rels(1) [of "audit_of (t_arrival t)" t "g_app (t_arrival t)"] ti
      by (simp add: task_inv_def audit_frame_rel_def audit_of_def)
    then have "fst (task_finish t (g_app (t_arrival t)) (snd ?b)) = r"
      using h ti task_finish_result [of "snd ?b" "audit_of (p_state p)"] by (simp add: task_inv_def)
    then show ?thesis using ti by (auto simp: task_split task_inv_def split: prod.split sum.split)
  qed
  then show "r = fst (task_atomic t (g_app (t_arrival t)) (audit_of (t_arrival t)))"
    "gw_inv (t_arrival t)" "routed (t_endpoint t) (t_arrival t)" "g_app (t_arrival t) = g_app (p_state p)" by blast+
qed

end
