(* ===== verification/GW_Probe.thy ===== *)
theory GW_Probe
  imports GW_Interleaving
begin

text \<open>
  The readiness probe beside the event loop. \<^verbatim>\<open>ready\<close> of \<^verbatim>\<open>api/routes.py\<close> is a plain function, so the
  framework runs it in a worker thread while the coroutines of the other handlers go on. It takes the
  lock of the tracker four times: for the components, for \<^verbatim>\<open>is_ready\<close>, for \<^verbatim>\<open>all_reasons\<close> and
  for \<^verbatim>\<open>reason\<close>. Between two of these reads the audit writer may mark its component.
  \<^verbatim>\<open>probing\<close> is a probe served by a process of \<^verbatim>\<open>GW_Interleaving\<close>: each half of a handler changes the tracker
  by a sequence of tracker operations, and the probe may read before and after each of them.
\<close>

section \<open>The probe, read by read\<close>

datatype probe =
    Arrived
  | Listed "bool dict"
  | Unready "bool dict"
  | Reasoned "bool dict" "msg dict"
  | Replied http_response

definition ready_response :: "bool dict \<Rightarrow> http_response" where
  "ready_response cs = \<lparr>status_code = 200, content = ReadyBody
     \<lparr>ry_status = ''ready'', ry_service = SERVICE_NAME, ry_components = cs, ry_reason = None, ry_reasons = [],
      ry_correlation_id = None\<rparr>\<rparr>"

definition not_ready_response :: "bool dict \<Rightarrow> msg dict \<Rightarrow> msg option \<Rightarrow> string \<Rightarrow> http_response" where
  "not_ready_response cs ms r cid = \<lparr>status_code = 503, content = ReadyBody
     \<lparr>ry_status = ''not_ready'', ry_service = SERVICE_NAME, ry_components = cs,
      ry_reason = Some (case r of
          Some m \<Rightarrow> if m = ([], []) then (''application not initialized'', []) else m
        | None \<Rightarrow> (''application not initialized'', [])),
      ry_reasons = ms, ry_correlation_id = Some cid\<rparr>\<rparr>"

text \<open>One read: one acquisition of the lock.\<close>

fun probe_read :: "string \<Rightarrow> ReadinessState \<Rightarrow> probe \<Rightarrow> probe" where
  "probe_read cid rs Arrived = Listed (components rs)"
| "probe_read cid rs (Listed cs) = (if is_ready rs then Replied (ready_response cs) else Unready cs)"
| "probe_read cid rs (Unready cs) = Reasoned cs (all_reasons rs)"
| "probe_read cid rs (Reasoned cs ms) = Replied (not_ready_response cs ms (reason rs) cid)"
| "probe_read cid rs (Replied r) = Replied r"

text \<open>Undisturbed, the reads are the handler.\<close>

lemma undisturbed:
  "(probe_read cid rs ^^ 4) Arrived = Replied (ready rs cid)"
  by (simp add: eval_nat_numeral ready_def ready_response_def not_ready_response_def)

section \<open>What the other handlers do to the tracker\<close>

datatype tracker_op = Mark_ready string | Mark_not_ready msg string

fun apply_op :: "tracker_op \<Rightarrow> ReadinessState \<Rightarrow> ReadinessState" where
  "apply_op (Mark_ready c) rs = mark_ready c rs"
| "apply_op (Mark_not_ready m c) rs = mark_not_ready m c rs"

fun of_writer :: "tracker_op \<Rightarrow> bool" where
  "of_writer (Mark_ready c) \<longleftrightarrow> c = AUDIT_WRITER_COMPONENT"
| "of_writer (Mark_not_ready m c) \<longleftrightarrow> c = AUDIT_WRITER_COMPONENT"

definition writer_moves :: "ReadinessState \<Rightarrow> ReadinessState \<Rightarrow> bool" where
  "writer_moves rs rs' \<longleftrightarrow> (\<exists>ops. list_all of_writer ops \<and> rs' = fold apply_op ops rs)"

lemma writer_moves_refl: "writer_moves rs rs"
  unfolding writer_moves_def by (rule exI [of _ "[]"]) simp

lemma writer_moves_trans: "writer_moves rs1 rs2 \<Longrightarrow> writer_moves rs2 rs3 \<Longrightarrow> writer_moves rs1 rs3"
  unfolding writer_moves_def by (elim exE conjE) (rule_tac x = "ops @ opsa" in exI, simp)

lemma writer_moves_op: "of_writer op \<Longrightarrow> writer_moves rs (apply_op op rs)"
  unfolding writer_moves_def by (rule exI [of _ "[op]"]) simp

lemma writer_moves_write: "writer_moves (snd s) (snd (audit_write inner e s))"
proof -
  have "\<exists>op. of_writer op \<and> snd (audit_write inner e s) = apply_op op (snd s)"
    if "snd (audit_write inner e s) \<noteq> snd s"
    using that
    by (cases s)
      (auto simp: write_cases write_failed_def write_succeeded_def Let_def split: if_splits
        intro: exI [of _ "Mark_ready AUDIT_WRITER_COMPONENT"] exI [of _ "Mark_not_ready m AUDIT_WRITER_COMPONENT" for m])
  then show ?thesis using writer_moves_refl writer_moves_op by metis
qed

lemma writer_moves_fold: "writer_moves (snd s) (snd (fold (audit_write inner) es s))"
proof (induction es arbitrary: s)
  case (Cons e es)
  show ?case using writer_moves_trans [OF writer_moves_write Cons.IH] by simp
qed (simp add: writer_moves_refl)

lemma writer_moves_emit: "writer_moves (snd st) (snd (emit_event A ev st))"
proof (cases st)
  case (Pair w rs)
  then show ?thesis
    using writer_moves_write [of "(the w, rs)"]
    by (cases w) (auto simp: emit_event_Some writer_moves_refl split: if_splits prod.splits)
qed

lemma writer_moves_kernel: "writer_moves (snd st) (snd (kernel_writes A evs st))"
proof (cases st)
  case (Pair w rs)
  then show ?thesis
    using writer_moves_fold [of "(the w, rs)"]
    by (cases w) (auto simp: kernel_writes_def writer_moves_refl case_prod_beta)
qed

interpretation moved: step_relation A "\<lambda>st st'. writer_moves (snd st) (snd st')" "\<lambda>_. True" for A
  by unfold_locales (simp_all add: writer_moves_refl writer_moves_emit writer_moves_kernel, rule writer_moves_trans)

section \<open>A probe beside a running process\<close>

text \<open>A step of a request, as opposed to a lifespan event.\<close>

definition request_step :: "process \<Rightarrow> process \<Rightarrow> bool" where
  "request_step p p' \<longleftrightarrow> (\<exists>obs. p_step p obs p' \<and> (obs = Silent \<longrightarrow> p_tasks p' \<noteq> []))"

definition p_readiness :: "process \<Rightarrow> ReadinessState" where
  "p_readiness p = g_readiness (p_state p)"

lemma request_step_moves: "request_step p p' \<Longrightarrow> writer_moves (p_readiness p) (p_readiness p')"
proof -
  have begin_moves: "writer_moves (g_readiness g) (snd st)" if "task_begin t app (audit_of g) = (r, st)" for t app g r st
  proof -
    have "writer_moves (snd (audit_of g)) (snd (snd (task_begin t app (audit_of g))))"
      unfolding task_begin_def by (rule moved.R_precheck) simp
    then show ?thesis using that by (simp add: audit_of_def)
  qed
  have finish_moves: "writer_moves (g_readiness g) (snd st)" if "task_finish t app (audit_of g) = (r, st)" for t app g r st
  proof -
    have "writer_moves (snd (audit_of g)) (snd (snd (task_finish t app (audit_of g))))"
      unfolding task_finish_state
      by (cases "t_endpoint t"; simp add: moved.R_answer moved.R_evaluate_steps moved.R_oa_steps list_all_iff)
    then show ?thesis using that by (simp add: audit_of_def)
  qed
  assume "request_step p p'"
  then obtain obs where s: "p_step p obs p'" "obs = Silent \<longrightarrow> p_tasks p' \<noteq> []" by (auto simp: request_step_def)
  then show ?thesis
    by (cases rule: p_step.cases)
      (auto simp: p_readiness_def with_audit_def intro: begin_moves finish_moves)
qed

text \<open>\<^verbatim>\<open>probing cid p ops rs history probe\<close>: the process is at \<^verbatim>\<open>p\<close>, whose step still has the tracker
  operations \<^verbatim>\<open>ops\<close> ahead; the tracker shows \<^verbatim>\<open>rs\<close>, and has shown \<^verbatim>\<open>history\<close> since the probe arrived. The operations
  of a step are any that lead to its result; the actual ones are among them.\<close>

inductive probing ::
    "string \<Rightarrow> process \<Rightarrow> tracker_op list \<Rightarrow> ReadinessState \<Rightarrow> ReadinessState list \<Rightarrow> probe \<Rightarrow> bool" for cid where
  arrives: "p_reachable p \<Longrightarrow> probing cid p [] (p_readiness p) [p_readiness p] Arrived"
| steps: "probing cid p [] rs history probe \<Longrightarrow> request_step p p' \<Longrightarrow> list_all of_writer ops \<Longrightarrow>
    p_readiness p' = fold apply_op ops rs \<Longrightarrow> probing cid p' ops rs history probe"
| moves: "probing cid p (op # ops) rs history probe \<Longrightarrow>
    probing cid p ops (apply_op op rs) (history @ [apply_op op rs]) probe"
| reads: "probing cid p ops rs history probe \<Longrightarrow> probing cid p ops rs history (probe_read cid rs probe)"

text \<open>Nothing blocks a step of the process: its operations exist.\<close>

lemma probing_view:
  "probing cid p ops rs history probe \<Longrightarrow>
     p_reachable p \<and> p_readiness p = fold apply_op ops rs \<and> list_all of_writer ops \<and> rs \<in> set history"
proof (induction rule: probing.induct)
  case (steps p rs history probe p' ops)
  then show ?case using p_stepped by (auto simp: request_step_def)
qed auto

lemma probing_steps:
  assumes "probing cid p [] rs history probe" and "request_step p p'"
  shows "\<exists>ops. probing cid p' ops rs history probe"
  using probing_view [OF assms(1)] request_step_moves [OF assms(2)] steps [OF assms]
  by (auto simp: writer_moves_def)

lemma probing_runs:
  "probing cid p ops rs history probe \<Longrightarrow> \<exists>history'. probing cid p [] (p_readiness p) history' probe"
proof (induction ops arbitrary: rs history)
  case Nil
  then show ?case using probing_view [OF Nil] by auto
next
  case (Cons op ops)
  show ?case by (rule Cons.IH [OF moves [OF Cons.prems]])
qed

text \<open>What the probe has seen, it has seen at some moment since it arrived.\<close>

definition seen :: "string \<Rightarrow> ReadinessState list \<Rightarrow> probe \<Rightarrow> bool" where
  "seen cid history probe \<longleftrightarrow> (case probe of
      Arrived \<Rightarrow> True
    | Listed cs \<Rightarrow> \<exists>s \<in> set history. cs = components s
    | Unready cs \<Rightarrow> (\<exists>s \<in> set history. cs = components s) \<and> (\<exists>s \<in> set history. \<not> is_ready s)
    | Reasoned cs ms \<Rightarrow> (\<exists>s \<in> set history. cs = components s) \<and> (\<exists>s \<in> set history. \<not> is_ready s)
        \<and> (\<exists>s \<in> set history. ms = all_reasons s)
    | Replied r \<Rightarrow> (\<exists>s \<in> set history. \<exists>u \<in> set history. is_ready u \<and> r = ready_response (components s))
        \<or> (\<exists>s \<in> set history. \<exists>u \<in> set history. \<exists>v \<in> set history. \<exists>w \<in> set history. \<not> is_ready u
             \<and> r = not_ready_response (components s) (all_reasons v) (reason w) cid))"

lemma seen_mono: "seen cid history probe \<Longrightarrow> set history \<subseteq> set history' \<Longrightarrow> seen cid history' probe"
  unfolding seen_def by (cases probe) (simp_all, blast+)

lemma seen_read: "seen cid history probe \<Longrightarrow> rs \<in> set history \<Longrightarrow> seen cid history (probe_read cid rs probe)"
  unfolding seen_def by (cases probe) (auto split: if_splits)

lemma probing_seen: "probing cid p ops rs history probe \<Longrightarrow> seen cid history probe"
proof (induction rule: probing.induct)
  case (arrives p)
  then show ?case by (simp add: seen_def)
next
  case (moves p op ops rs history probe)
  show ?case by (rule seen_mono [OF moves.IH]) auto
next
  case (reads p ops rs history probe)
  then show ?case using seen_read probing_view by blast
qed

text \<open>The components that are not the writer's stay as they are, and the tracker stays well formed.\<close>

lemma apply_op_keeps:
  "of_writer op \<Longrightarrow> c \<noteq> AUDIT_WRITER_COMPONENT \<Longrightarrow> component_of (apply_op op rs) c = component_of rs c"
  by (cases op) simp_all

lemma apply_op_inv: "readiness_inv rs \<Longrightarrow> readiness_inv (apply_op op rs)"
  by (cases op) simp_all

definition served_from :: "ReadinessState \<Rightarrow> ReadinessState \<Rightarrow> bool" where
  "served_from s0 s \<longleftrightarrow> readiness_inv s
     \<and> (\<forall>c. c \<noteq> AUDIT_WRITER_COMPONENT \<longrightarrow> component_of s c = component_of s0 c)"

lemma served_from_op: "served_from s0 rs \<Longrightarrow> of_writer op \<Longrightarrow> served_from s0 (apply_op op rs)"
  by (simp add: served_from_def apply_op_inv apply_op_keeps)

lemma probing_history:
  "probing cid p ops rs history probe \<Longrightarrow> history \<noteq> [] \<and> list_all (served_from (hd history)) history"
proof (induction rule: probing.induct)
  case (arrives p)
  then show ?case using p_inv_reachable [OF arrives] gw_inv_consistent by (auto simp: p_readiness_def p_inv_def served_from_def)
next
  case (moves p op ops rs history probe)
  have v: "rs \<in> set history" "of_writer op" using probing_view [OF moves.hyps] by simp_all
  then have "served_from (hd history) (apply_op op rs)" using moves.IH served_from_op by (simp add: list_all_iff)
  then show ?case using moves.IH by simp
qed simp_all

end
