(* ===== verification/GW_Settings.thy ===== *)
theory GW_Settings
  imports GW_Config
begin

text \<open>
  \<^verbatim>\<open>config.py\<close>: \<^verbatim>\<open>load_config\<close>, that is the construction of \<^verbatim>\<open>GatewayConfig\<close> from the
  environment. The declared fields with their defaults, bounds and validators are the
  source's; how pydantic reads a number or a Boolean from a string (\<^verbatim>\<open>lax\<close> mode) is the
  record \<^verbatim>\<open>settings_lib\<close>. The environment is given by lower-cased names, as
  \<^verbatim>\<open>case_sensitive=False\<close> looks variables up; every alias is the upper-cased field name.
  A variable that is set to the empty string is set. pydantic-settings validates
  defaults as well, and all defaults of the source pass unchanged. The errors of
  all fields are collected in one \<^verbatim>\<open>ValidationError\<close>; a \<^verbatim>\<open>ValueError\<close> of a field validator
  becomes an entry of it. Infinite or undefined numbers in
  \<^verbatim>\<open>JWKS_CACHE_TTL_SECONDS\<close> are not represented.
\<close>

section \<open>Fields\<close>

type_synonym environment = "string \<Rightarrow> string option"

record settings_lib =
  st_int :: "string \<Rightarrow> int option"
  st_float :: "string \<Rightarrow> rat option"
  st_bool :: "string \<Rightarrow> bool option"
  st_json :: "string \<Rightarrow> pyval option"
  st_str :: "pyval \<Rightarrow> string"

type_synonym 'a field = "verr list + 'a"

text \<open>A declared field: the default when its variable is not set, its parser otherwise.\<close>

definition env_field :: "environment \<Rightarrow> string \<Rightarrow> (string \<Rightarrow> (string \<times> msg) + 'a) \<Rightarrow> 'a \<Rightarrow> 'a field" where
  "env_field env name parse dflt = (case env name of
      None \<Rightarrow> Inr dflt
    | Some s \<Rightarrow> (case parse s of Inr x \<Rightarrow> Inr x | Inl (t, m) \<Rightarrow> Inl [Verr [upper name] t m]))"

definition field_errors :: "'a field \<Rightarrow> verr list" where
  "field_errors f = (case f of Inl es \<Rightarrow> es | Inr x \<Rightarrow> [])"

definition parsed :: "string \<Rightarrow> 'a option \<Rightarrow> (string \<times> msg) + 'a" where
  "parsed t x = (case x of None \<Rightarrow> Inl (t, (''Input should be valid'', [])) | Some y \<Rightarrow> Inr y)"

text \<open>\<^verbatim>\<open>Field(ge=..., le=...)\<close> and \<^verbatim>\<open>Field(gt=...)\<close>.\<close>

definition constrained :: "string \<Rightarrow> ('a \<Rightarrow> bool) \<Rightarrow> (string \<times> msg) + 'a \<Rightarrow> (string \<times> msg) + 'a" where
  "constrained t ok r = (case r of
      Inl e \<Rightarrow> Inl e
    | Inr x \<Rightarrow> if ok x then Inr x else Inl (t, (''Input is out of range'', [])))"

text \<open>A \<^verbatim>\<open>field_validator\<close>: its \<^verbatim>\<open>ValueError\<close> is an error entry; the \<^verbatim>\<open>TypeError\<close>s of the
  two parsers need a value that is not a string and cannot occur here.\<close>

definition by_validator :: "'a res \<Rightarrow> (string \<times> msg) + 'a" where
  "by_validator r = (case r of
      Inr x \<Rightarrow> Inr x
    | Inl (PyError (ValueError m)) \<Rightarrow> Inl (''value_error'', m)
    | Inl e \<Rightarrow> Inl (''value_error'', (''unexpected'', [])))"

definition string_field :: "environment \<Rightarrow> string \<Rightarrow> string \<Rightarrow> string field" where
  "string_field env name dflt = env_field env name Inr dflt"

definition optional_field :: "environment \<Rightarrow> string \<Rightarrow> string option field" where
  "optional_field env name = env_field env name (\<lambda>s. Inr (Some s)) None"

definition bool_field :: "settings_lib \<Rightarrow> environment \<Rightarrow> string \<Rightarrow> bool field" where
  "bool_field S env name = env_field env name (\<lambda>s. parsed ''bool_parsing'' (st_bool S s)) False"

definition int_field ::
    "settings_lib \<Rightarrow> environment \<Rightarrow> string \<Rightarrow> (int \<Rightarrow> bool) \<Rightarrow> int \<Rightarrow> int field" where
  "int_field S env name ok dflt =
     env_field env name (\<lambda>s. constrained ''int_range'' ok (parsed ''int_parsing'' (st_int S s))) dflt"

definition ENVIRONMENTS :: "string list" where
  "ENVIRONMENTS = [''local'', ''development'', ''staging'', ''production'']"

definition AuthMode_of :: "string \<Rightarrow> AuthMode option" where
  "AuthMode_of s = (if s = ''oidc'' then Some OIDC else if s = ''basis_local_token'' then Some BASIS_LOCAL_TOKEN
     else None)"

section \<open>The declared fields with a check\<close>

definition f_port :: "settings_lib \<Rightarrow> environment \<Rightarrow> int field" where
  "f_port S env = int_field S env ''port'' (\<lambda>n. 1 \<le> n \<and> n \<le> 65535) 8000"

definition f_log_level :: "environment \<Rightarrow> string field" where
  "f_log_level env = env_field env ''log_level'' (\<lambda>s. by_validator (validate_log_level s)) ''INFO''"

definition f_environment :: "environment \<Rightarrow> string field" where
  "f_environment env = env_field env ''environment''
     (\<lambda>s. constrained ''literal_error'' (\<lambda>v. v \<in> set ENVIRONMENTS) (Inr s)) ''local''"

definition f_auth_mode :: "environment \<Rightarrow> AuthMode field" where
  "f_auth_mode env = env_field env ''auth_mode'' (\<lambda>s. parsed ''enum'' (AuthMode_of s)) OIDC"

definition f_jwks_cache_ttl :: "settings_lib \<Rightarrow> environment \<Rightarrow> rat field" where
  "f_jwks_cache_ttl S env = env_field env ''jwks_cache_ttl_seconds''
     (\<lambda>s. constrained ''greater_than'' (\<lambda>x. 0 < x) (parsed ''float_parsing'' (st_float S s))) 300"

definition f_leeway :: "settings_lib \<Rightarrow> environment \<Rightarrow> int field" where
  "f_leeway S env = int_field S env ''basis_local_token_leeway_seconds'' (\<lambda>n. 0 \<le> n) 0"

definition f_threshold :: "settings_lib \<Rightarrow> environment \<Rightarrow> int field" where
  "f_threshold S env = int_field S env ''audit_failure_threshold'' (\<lambda>n. 1 \<le> n) 10"

definition f_subject_ids :: "settings_lib \<Rightarrow> environment \<Rightarrow> string set field" where
  "f_subject_ids S env = env_field env ''operation_producer_subject_ids''
     (\<lambda>s. by_validator (parse_operation_producer_subject_ids (st_str S) (PStr s))) {}"

definition f_admitted_uris :: "settings_lib \<Rightarrow> environment \<Rightarrow> string set field" where
  "f_admitted_uris S env = env_field env ''operation_producer_mtls_admitted_uris''
     (\<lambda>s. by_validator (parse_operation_producer_mtls_admitted_uris (st_json S) (PStr s))) {}"

section \<open>Loading\<close>

text \<open>All fields that can fail, in the order of the class.\<close>

definition config_errors :: "settings_lib \<Rightarrow> environment \<Rightarrow> verr list" where
  "config_errors S env = concat
     [field_errors (f_port S env), field_errors (f_log_level env), field_errors (f_environment env),
      field_errors (f_auth_mode env), field_errors (f_jwks_cache_ttl S env), field_errors (f_leeway S env),
      field_errors (f_threshold S env), field_errors (bool_field S env ''audit_fail_closed''),
      field_errors (f_subject_ids S env), field_errors (bool_field S env ''operation_aware_enabled''),
      field_errors (bool_field S env ''operation_producer_mtls_trusted_proxy_enabled''),
      field_errors (f_admitted_uris S env)]"

definition config_of_fields :: "settings_lib \<Rightarrow> environment \<Rightarrow> GatewayConfig" where
  "config_of_fields S env = \<lparr>
     service_name = projr (string_field env ''service_name'' ''basis-gateway''),
     host = projr (string_field env ''host'' ''0.0.0.0''),
     port = projr (f_port S env),
     log_level = projr (f_log_level env),
     environment = projr (f_environment env),
     auth_mode = projr (f_auth_mode env),
     oidc_issuer = projr (optional_field env ''oidc_issuer''),
     oidc_audience = projr (optional_field env ''oidc_audience''),
     oidc_jwks_uri = projr (optional_field env ''oidc_jwks_uri''),
     jwks_cache_ttl_seconds = projr (f_jwks_cache_ttl S env),
     basis_local_token_issuer = projr (optional_field env ''basis_local_token_issuer''),
     basis_local_token_audience = projr (optional_field env ''basis_local_token_audience''),
     basis_local_token_public_keys_json = projr (optional_field env ''basis_local_token_public_keys_json''),
     basis_local_token_allowed_algorithms =
       projr (string_field env ''basis_local_token_allowed_algorithms'' ''RS256''),
     basis_local_token_leeway_seconds = projr (f_leeway S env),
     policy_version = projr (optional_field env ''policy_version''),
     policy_path = projr (optional_field env ''policy_path''),
     audit_failure_threshold = projr (f_threshold S env),
     audit_fail_closed = projr (bool_field S env ''audit_fail_closed''),
     operation_producer_subject_ids = projr (f_subject_ids S env),
     operation_aware_enabled = projr (bool_field S env ''operation_aware_enabled''),
     operation_aware_policy_bundle_path = projr (optional_field env ''operation_aware_policy_bundle_path''),
     operation_producer_mtls_trusted_proxy_enabled =
       projr (bool_field S env ''operation_producer_mtls_trusted_proxy_enabled''),
     operation_producer_mtls_admitted_uris = projr (f_admitted_uris S env)\<rparr>"

definition load_config :: "settings_lib \<Rightarrow> environment \<Rightarrow> GatewayConfig res" where
  "load_config S env = (case config_errors S env of
      [] \<Rightarrow> Inr (config_of_fields S env)
    | e # es \<Rightarrow> Inl (ValidationError (e # es)))"

section \<open>Lemmas\<close>

named_theorems field_simps \<open>when a field is loaded, and with which value\<close>

lemma env_field_ok [field_simps]:
  "field_errors (env_field env name parse d) = [] \<longleftrightarrow> (\<forall>s. env name = Some s \<longrightarrow> (\<exists>x. parse s = Inr x))"
  by (auto simp: env_field_def field_errors_def split: option.splits sum.splits)

lemma set_field:
  "env name = Some s \<Longrightarrow> field_errors (env_field env name parse d) = [] \<longleftrightarrow>
    parse s = Inr (projr (env_field env name parse d))"
  by (auto simp: env_field_def field_errors_def split: sum.splits)

text \<open>A property of the default and of every parsed value holds of the loaded one.\<close>

lemma env_field_holds:
  assumes "field_errors (env_field env name parse d) = []" and "P d" and "\<And>s x. parse s = Inr x \<Longrightarrow> P x"
  shows "P (projr (env_field env name parse d))"
  using assms by (auto simp: env_field_def field_errors_def split: option.splits sum.splits)

lemma constrained_Inr [field_simps]: "constrained t ok r = Inr x \<longleftrightarrow> r = Inr x \<and> ok x"
  by (auto simp: constrained_def split: sum.splits)

lemma parsed_Inr [field_simps]: "parsed t v = Inr x \<longleftrightarrow> v = Some x"
  by (auto simp: parsed_def split: option.splits)

lemma by_validator_Inr [field_simps]: "by_validator r = Inr x \<longleftrightarrow> r = Inr x"
  by (auto simp: by_validator_def split: sum.splits exn.splits py_exn.splits)

lemma validate_log_level_Inr: "validate_log_level v = Inr u \<longleftrightarrow> u = upper v \<and> u \<in> set VALID_LOG_LEVELS"
  by (auto simp: validate_log_level_def Let_def)

lemma load_config_Inr:
  "load_config S env = Inr c \<longleftrightarrow> config_errors S env = [] \<and> c = config_of_fields S env"
  by (auto simp: load_config_def split: list.split)

text \<open>What each checked field is once it is loaded.\<close>

lemma checked_fields:
  "field_errors (f_port S env) = [] \<Longrightarrow> 1 \<le> projr (f_port S env) \<and> projr (f_port S env) \<le> 65535"
  "field_errors (f_leeway S env) = [] \<Longrightarrow> 0 \<le> projr (f_leeway S env)"
  "field_errors (f_threshold S env) = [] \<Longrightarrow> 1 \<le> projr (f_threshold S env)"
  "field_errors (f_jwks_cache_ttl S env) = [] \<Longrightarrow> 0 < projr (f_jwks_cache_ttl S env)"
  "field_errors (f_log_level env) = [] \<Longrightarrow> projr (f_log_level env) \<in> set VALID_LOG_LEVELS"
  "field_errors (f_environment env) = [] \<Longrightarrow> projr (f_environment env) \<in> set ENVIRONMENTS"
  unfolding f_port_def f_leeway_def f_threshold_def f_jwks_cache_ttl_def int_field_def f_log_level_def
    f_environment_def
  by (erule env_field_holds;
      simp add: constrained_Inr by_validator_Inr validate_log_level_Inr VALID_LOG_LEVELS_def ENVIRONMENTS_def)+

lemma checked_allowlists:
  "field_errors (f_subject_ids S env) = [] \<Longrightarrow>
    \<forall>p \<in> projr (f_subject_ids S env). p \<noteq> [] \<and> strip p = p \<and> CHR '','' \<notin> set p"
  "field_errors (f_admitted_uris S env) = [] \<Longrightarrow> [] \<notin> projr (f_admitted_uris S env)"
proof -
  show "\<forall>p \<in> projr (f_subject_ids S env). p \<noteq> [] \<and> strip p = p \<and> CHR '','' \<notin> set p"
    if "field_errors (f_subject_ids S env) = []"
    using that unfolding f_subject_ids_def
    by (rule env_field_holds)
      (use csv_parts_entry in \<open>auto simp: by_validator_Inr parse_operation_producer_subject_ids_def\<close>)
  show "[] \<notin> projr (f_admitted_uris S env)" if "field_errors (f_admitted_uris S env) = []"
    using that unfolding f_admitted_uris_def
    by (rule env_field_holds) (auto simp: by_validator_Inr parse_operation_producer_mtls_admitted_uris_def
        uri_entries_Inr split: option.splits pyval.splits)
qed

lemma loaded_uris: "load_config S env = Inr c \<Longrightarrow> [] \<notin> operation_producer_mtls_admitted_uris c"
  using checked_allowlists(2) by (simp add: load_config_Inr config_errors_def config_of_fields_def)

section \<open>Properties\<close>


definition stub_settings :: settings_lib where
  "stub_settings = \<lparr>st_int = (\<lambda>_. None), st_float = (\<lambda>_. None), st_bool = (\<lambda>_. None), st_json = (\<lambda>_. None),
     st_str = (\<lambda>_. [])\<rparr>"


end
