(* ===== verification/GW_Demo.thy ===== *)
theory GW_Demo
  imports GW_Process GW_Settings
begin

text \<open>
  \<^verbatim>\<open>demo/operation-aware/run_demo.py\<close>: the offline demonstration, a driver that starts the
  gateway under an environment of its own, sends requests with tokens it signed itself and
  compares what comes back with an expected summary. It is modelled over the
  gateway of the other theories: \<^verbatim>\<open>build_demo_app\<close> is a startup, a client call is a step of
  that gateway. Key generation, signing, JSON, \<^verbatim>\<open>str\<close> and \<^verbatim>\<open>repr\<close> are the record
  \<^verbatim>\<open>demo_lib\<close>. The capturing sink stores every event handed to the writer and never fails,
  so its list is the trail of the writer. Printed text is a list of lines.
\<close>

section \<open>Constants\<close>

definition ISSUER :: string where "ISSUER = ''https://identity.demo.basis.invalid''"
definition AUDIENCE :: string where "AUDIENCE = ''basis-gateway-demo''"
definition KID :: string where "KID = ''demo-key-1''"
definition TRUSTED_PRODUCER_SUBJECT :: string where "TRUSTED_PRODUCER_SUBJECT = ''adapter-demo-1''"
definition OPERATOR_SUBJECT :: string where "OPERATOR_SUBJECT = ''operator-demo-1''"

definition VALID_BUNDLE_PATH :: "string \<Rightarrow> string" where
  "VALID_BUNDLE_PATH demo_dir = demo_dir @ ''/policy-bundles/operation-aware-demo-bundle.json''"
definition INVALID_BUNDLE_PATH :: "string \<Rightarrow> string" where
  "INVALID_BUNDLE_PATH demo_dir = demo_dir @ ''/policy-bundles/operation-aware-invalid-bundle.json''"
definition EXPECTED_SUMMARY_PATH :: "string \<Rightarrow> string" where
  "EXPECTED_SUMMARY_PATH demo_dir = demo_dir @ ''/expected/scenario-summary.json''"

definition OA_PATH :: string where "OA_PATH = ''/v1/evaluate/operation-aware''"

definition SCENARIO_ORDER :: "string list" where
  "SCENARIO_ORDER = [''allow'', ''explicit-deny'', ''default-deny'', ''not-applicable'',
     ''untrusted-producer'', ''semantic-startup-failure'']"

definition READINESS_COMPONENTS_TO_SHOW :: "string list" where
  "READINESS_COMPONENTS_TO_SHOW = [''configuration_loaded'', ''basis_local_token_configured'', ''audit_writer'',
     ''operation_aware_mode_enabled'', ''operation_aware_bundle_loaded'',
     ''operation_aware_evaluator_initialized'', ''operation_aware_policy_semantically_valid'']"

definition OPERATION_AWARE_COMPONENTS :: "string list" where
  "OPERATION_AWARE_COMPONENTS = [''operation_aware_mode_enabled'', ''operation_aware_bundle_loaded'',
     ''operation_aware_evaluator_initialized'', ''operation_aware_policy_semantically_valid'']"

definition DISPLAYED_PROVENANCE_KEYS :: "string list" where
  "DISPLAYED_PROVENANCE_KEYS = [''action'', ''resource_id'', ''resource_type'',
     ''operation_producer_subject_id'', ''operation_producer_trust'']"

section \<open>Libraries and tokens\<close>

text \<open>\<^verbatim>\<open>dl_encode claims key algorithm kid\<close> is \<^verbatim>\<open>jwt.encode\<close>; a key is a handle.\<close>

record demo_lib =
  dl_encode :: "pyval dict \<Rightarrow> string \<Rightarrow> string \<Rightarrow> string \<Rightarrow> string"
  dl_public_pem :: "string \<Rightarrow> string"
  dl_dumps :: "pyval \<Rightarrow> string"
  dl_dumps_indented :: "pyval \<Rightarrow> string"
  dl_str :: "pyval \<Rightarrow> string"
  dl_repr :: "pyval \<Rightarrow> string"
  dl_text :: "msg \<Rightarrow> string"

definition demo_claims :: "int \<Rightarrow> string \<Rightarrow> string \<Rightarrow> string list \<Rightarrow> pyval dict" where
  "demo_claims now uuid sid role_names =
     [(''iss'', PStr ISSUER), (''sub'', PStr sid), (''aud'', PList [PStr AUDIENCE]),
      (''iat'', PInt now), (''exp'', PInt (now + 600)), (''jti'', PStr (''demo-'' @ uuid)),
      (''typ'', PStr ''basis-local-identity''),
      (''basis'', PDict
        [(''session_id'', PStr (''demo-session-'' @ sid)),
         (''provider_id'', PStr ''basis-identity-demo''),
         (''authority_mode'', PStr ''standalone''),
         (''authentication_protocol'', PStr ''demo-local''),
         (''canonical_identity'', PDict
           [(''subject'', PDict
             [(''subject_id'', PStr sid), (''roles'', PList (map PStr role_names)),
              (''display_name'', PStr sid)])])])]"

definition issue_demo_token :: "demo_lib \<Rightarrow> string \<Rightarrow> int \<Rightarrow> string \<Rightarrow> string \<Rightarrow> string list \<Rightarrow> string" where
  "issue_demo_token D private_key now uuid sid role_names =
     dl_encode D (demo_claims now uuid sid role_names) private_key ''RS256'' KID"

definition redact_token :: "string \<Rightarrow> string" where
  "redact_token token = (if length token \<le> 16 then ''<redacted>''
     else take 6 token @ ''...'' @ drop (length token - 6) token @ '' (redacted)'')"

section \<open>The environment\<close>

definition ENV_KEYS :: "string list" where
  "ENV_KEYS = [''AUTH_MODE'', ''OIDC_ISSUER'', ''LOG_LEVEL'', ''BASIS_LOCAL_TOKEN_ISSUER'',
     ''BASIS_LOCAL_TOKEN_AUDIENCE'', ''BASIS_LOCAL_TOKEN_PUBLIC_KEYS_JSON'',
     ''BASIS_LOCAL_TOKEN_ALLOWED_ALGORITHMS'', ''POLICY_PATH'', ''OPERATION_AWARE_ENABLED'',
     ''OPERATION_AWARE_POLICY_BUNDLE_PATH'', ''OPERATION_PRODUCER_SUBJECT_IDS'']"

text \<open>\<^verbatim>\<open>os.environ\<close> is a dictionary; \<^verbatim>\<open>_demo_environment\<close> is what it does before and after the block.\<close>

definition setdefault :: "string dict \<Rightarrow> string \<Rightarrow> string \<Rightarrow> string dict" where
  "setdefault d k v = (if map_of d k = None then dict_set d k v else d)"

definition saved_environment :: "string dict \<Rightarrow> (string \<times> string option) list" where
  "saved_environment environ = map (\<lambda>key. (key, map_of environ key)) ENV_KEYS"

definition demo_environment_enter ::
    "demo_lib \<Rightarrow> string \<Rightarrow> string \<Rightarrow> string \<Rightarrow> string dict \<Rightarrow> string dict" where
  "demo_environment_enter D bundle_path v01_policy_path public_key_pem environ =
     (let e = dict_set environ ''AUTH_MODE'' ''basis_local_token'';
          e = dict_pop e ''OIDC_ISSUER'';
          e = setdefault e ''LOG_LEVEL'' ''WARNING'';
          e = dict_set e ''BASIS_LOCAL_TOKEN_ISSUER'' ISSUER;
          e = dict_set e ''BASIS_LOCAL_TOKEN_AUDIENCE'' AUDIENCE;
          e = dict_set e ''BASIS_LOCAL_TOKEN_PUBLIC_KEYS_JSON'' (dl_dumps D (PDict [(KID, PStr public_key_pem)]));
          e = dict_set e ''BASIS_LOCAL_TOKEN_ALLOWED_ALGORITHMS'' ''RS256'';
          e = dict_set e ''POLICY_PATH'' v01_policy_path;
          e = dict_set e ''OPERATION_AWARE_ENABLED'' ''true'';
          e = dict_set e ''OPERATION_AWARE_POLICY_BUNDLE_PATH'' bundle_path
      in dict_set e ''OPERATION_PRODUCER_SUBJECT_IDS'' TRUSTED_PRODUCER_SUBJECT)"

definition demo_environment_exit :: "(string \<times> string option) list \<Rightarrow> string dict \<Rightarrow> string dict" where
  "demo_environment_exit saved environ =
     fold (\<lambda>(key, v) e. case v of None \<Rightarrow> dict_pop e key | Some x \<Rightarrow> dict_set e key x) saved environ"

text \<open>The lower-cased view of pydantic-settings: the last variable of a name wins.\<close>

definition lowered :: "string dict \<Rightarrow> environment" where
  "lowered environ = map_of (rev (map (\<lambda>(k, v). (lower k, v)) environ))"

section \<open>The application and its client\<close>

record DemoApp =
  da_state :: gateway_state

definition sink_events :: "DemoApp \<Rightarrow> AuditEvent list" where
  "sink_events app = st_trail (audit_of (da_state app))"

text \<open>The writer's inner delegate is replaced by a sink that stores every event.\<close>

definition capturing :: "gateway_lib \<Rightarrow> gateway_lib" where
  "capturing G = G\<lparr>gl_audit := (gl_audit G)\<lparr>inner_write := \<lambda>_ _. True\<rparr>\<rparr>"

definition build_demo_app ::
    "demo_lib \<Rightarrow> settings_lib \<Rightarrow> startup_lib \<Rightarrow> string \<Rightarrow> string \<Rightarrow> string \<Rightarrow> string dict
     \<Rightarrow> DemoApp \<times> string dict" where
  "build_demo_app D S L bundle_path v01_policy_path public_key_pem environ =
     (let inside = demo_environment_enter D bundle_path v01_policy_path public_key_pem environ;
          state = lifespan_startup (L\<lparr>sl_load_config := load_config S (lowered inside)\<rparr>) create_app
      in (\<lparr>da_state = state\<rparr>, demo_environment_exit (saved_environment environ) inside))"

definition v01_policy :: pyval where
  "v01_policy = PDict [(''rules'', PList [PDict
     [(''rule_name'', PStr ''demo-unused-v01-policy''),
      (''role_table'', PDict [(''read:sensor:telemetry'', PList [PStr ''operator''])])]])]"

text \<open>\<^verbatim>\<open>DemoApp.close\<close> leaves the lifespan; a run closes its applications after their reports and does
  not look at them again.\<close>

definition close_demo_app :: "DemoApp \<Rightarrow> DemoApp" where
  "close_demo_app app = \<lparr>da_state = lifespan_shutdown (da_state app)\<rparr>"

text \<open>\<^verbatim>\<open>_write_v01_policy\<close>: the path and the text written there.\<close>

definition write_v01_policy :: "demo_lib \<Rightarrow> string \<Rightarrow> string \<times> string" where
  "write_v01_policy D tmp_dir = (tmp_dir @ ''/v01-role-table.json'', dl_dumps D v01_policy)"

text \<open>What a request meets apart from its content: the generated correlation id, clocks, the
  values of the kernel call, and further headers.\<close>

record client_call =
  cc_correlation_id :: string
  cc_now :: datetime
  cc_compose_clock :: datetime
  cc_oa_call :: oa_call
  cc_headers :: "(string \<times> string) list"

text \<open>A response as the client sees it: the status and the decoded body (\<^verbatim>\<open>_decode_json\<close>
  gives the empty dictionary for a body that is not JSON).\<close>

record http_reply =
  rp_status :: nat
  rp_json :: "pyval dict"

definition some_entry :: "string \<Rightarrow> string option \<Rightarrow> pyval dict" where
  "some_entry k v = (case v of None \<Rightarrow> [] | Some s \<Rightarrow> [(k, PStr s)])"

definition body_json :: "demo_lib \<Rightarrow> response_body \<Rightarrow> pyval dict" where
  "body_json D b = (case b of
      ErrorBody e \<Rightarrow> [(''error'', PStr (err_error e))]
        @ some_entry ''message'' (map_option (dl_text D) (err_message e))
        @ some_entry ''correlation_id'' (err_correlation_id e)
    | EvaluateBody e \<Rightarrow> [(''request_id'', PStr (rs_request_id e)), (''outcome'', PStr (rs_outcome e)),
          (''reason'', PStr (rs_reason e))]
        @ some_entry ''policy_version'' (rs_policy_version e) @ some_entry ''correlation_id'' (rs_correlation_id e)
    | OABody r \<Rightarrow> [(''request_id'', PStr (ob_request_id r))]
        @ some_entry ''correlation_id'' (ob_correlation_id r)
        @ [(''evaluation_status'', PStr (ob_evaluation_status r))]
        @ some_entry ''outcome'' (ob_outcome r) @ some_entry ''failure_reason'' (ob_failure_reason r)
        @ some_entry ''bundle_id'' (ob_bundle_id r) @ some_entry ''bundle_version'' (ob_bundle_version r)
        @ some_entry ''trace_id'' (ob_trace_id r) @ some_entry ''evidence_id'' (ob_evidence_id r)
        @ some_entry ''reason_code'' (ob_reason_code r) @ some_entry ''explanation'' (ob_explanation r)
        @ [(''disposition'', PStr (ob_disposition r))]
        @ (case ob_evaluation_trace r of None \<Rightarrow> [] | Some t \<Rightarrow> [(''evaluation_trace'', PDict t)])
    | ReadyBody r \<Rightarrow> [(''status'', PStr (ry_status r)), (''service'', PStr (ry_service r))]
        @ (if ry_components r = [] then []
           else [(''components'', PDict (map (\<lambda>(c, v). (c, PBool v)) (ry_components r)))])
        @ some_entry ''reason'' (map_option (dl_text D) (ry_reason r))
        @ (if ry_reasons r = [] then []
           else [(''reasons'', PDict (map (\<lambda>(c, m). (c, PStr (dl_text D m))) (ry_reasons r)))])
        @ some_entry ''correlation_id'' (ry_correlation_id r)
    | HealthBody s n \<Rightarrow> [(''status'', PStr s), (''service'', PStr n)])"

definition reply_of :: "demo_lib \<Rightarrow> http_response \<Rightarrow> http_reply" where
  "reply_of D r = \<lparr>rp_status = status_code r, rp_json = body_json D (content r)\<rparr>"

text \<open>The framework's answers: 404 for a route that is not registered, and (with
  \<^verbatim>\<open>raise_server_exceptions=False\<close>) a plain-text 500 for an escaped exception.\<close>

definition client_reply :: "demo_lib \<Rightarrow> http_response res option \<Rightarrow> http_reply" where
  "client_reply D r = (case r of
      None \<Rightarrow> \<lparr>rp_status = 404, rp_json = [(''detail'', PStr ''Not Found'')]\<rparr>
    | Some (Inl e) \<Rightarrow> \<lparr>rp_status = 500, rp_json = []\<rparr>
    | Some (Inr resp) \<Rightarrow> reply_of D resp)"

definition get_health :: "demo_lib \<Rightarrow> http_reply" where
  "get_health D = reply_of D health"

definition get_ready :: "demo_lib \<Rightarrow> client_call \<Rightarrow> DemoApp \<Rightarrow> http_reply" where
  "get_ready D call app = reply_of D (ready (g_readiness (da_state app)) (cc_correlation_id call))"

definition demo_request :: "demo_lib \<Rightarrow> client_call \<Rightarrow> string \<Rightarrow> pyval dict \<Rightarrow> http_request" where
  "demo_request D call token body =
     \<lparr>hr_method = ''POST'', hr_path = OA_PATH, hr_body = Inr (dl_dumps D (PDict body)),
      hr_authorization = Some (''Bearer '' @ token), hr_raw_headers = cc_headers call, hr_correlation_id = [],
      hr_now = cc_now call, hr_compose_clock = cc_compose_clock call, hr_oa_call = cc_oa_call call\<rparr>"

definition post_oa ::
    "demo_lib \<Rightarrow> gateway_lib \<Rightarrow> client_call \<Rightarrow> DemoApp \<Rightarrow> string \<Rightarrow> pyval dict \<Rightarrow> http_reply \<times> DemoApp" where
  "post_oa D G call app token body =
     (let (r, state) = serve_operation_aware (capturing G) (cc_correlation_id call) (demo_request D call token body)
            (da_state app)
      in (client_reply D r, \<lparr>da_state = state\<rparr>))"

section \<open>Reports\<close>

record ScenarioReport =
  sr_name :: string
  sr_passed :: bool
  sr_lines :: "string list"
  sr_details :: "pyval dict"
  sr_mismatches :: "string list"

text \<open>\<^verbatim>\<open>==\<close> where the left side is a scalar: Booleans are the numbers 0 and 1.\<close>

definition number_of :: "pyval \<Rightarrow> rat option" where
  "number_of v = (case v of PBool b \<Rightarrow> Some (if b then 1 else 0) | PInt n \<Rightarrow> Some (of_int n)
    | PFloat (Finite q) \<Rightarrow> Some q | _ \<Rightarrow> None)"

definition scalar_eq :: "pyval \<Rightarrow> pyval \<Rightarrow> bool" where
  "scalar_eq a e = (case a of PNone \<Rightarrow> e = PNone | PStr s \<Rightarrow> e = PStr s
    | _ \<Rightarrow> number_of a \<noteq> None \<and> number_of a = number_of e)"

definition compare :: "demo_lib \<Rightarrow> pyval dict \<Rightarrow> pyval dict \<Rightarrow> string list" where
  "compare D actual expected =
     map (\<lambda>(key, expected_value). key @ '': expected '' @ dl_repr D expected_value @ '', got ''
            @ dl_repr D (dict_get actual key))
       (filter (\<lambda>(key, expected_value). \<not> scalar_eq (dict_get actual key) expected_value) expected)"

text \<open>\<^verbatim>\<open>str(v)\<close>.\<close>

definition shown :: "demo_lib \<Rightarrow> pyval \<Rightarrow> string" where
  "shown D v = py_str (dl_str D) v"

definition bundle_label :: "demo_lib \<Rightarrow> pyval \<Rightarrow> pyval \<Rightarrow> string" where
  "bundle_label D bundle_id bundle_version =
     (if bundle_id = PNone then ''(none)''
      else if bundle_version = PNone then shown D bundle_id
      else shown D bundle_id @ ''@'' @ shown D bundle_version)"

definition display_provenance :: "demo_lib \<Rightarrow> pyval dict \<Rightarrow> string" where
  "display_provenance D provenance =
     (if provenance = [] then ''(none)''
      else (let parts = map (\<lambda>key. key @ ''='' @ shown D (dict_get provenance key))
              (filter (\<lambda>key. map_of provenance key \<noteq> None) DISPLAYED_PROVENANCE_KEYS)
            in if parts = [] then ''(none)'' else joined '', '' parts))"

definition ljust :: "nat \<Rightarrow> string \<Rightarrow> string" where
  "ljust n s = s @ replicate (n - length s) (CHR '' '')"

definition format_block :: "string \<Rightarrow> (string \<times> string) list \<Rightarrow> string list" where
  "format_block title rows = title # map (\<lambda>(label, v). ''  '' @ ljust 22 label @ v) rows"

definition rule_line :: "char \<Rightarrow> string" where
  "rule_line c = replicate 64 c"

definition headline :: "string \<Rightarrow> string list" where
  "headline title = [rule_line (CHR ''=''), title, rule_line (CHR ''='')]"

definition explained :: "string list \<Rightarrow> string list" where
  "explained notes = [''Explanation''] @ map (\<lambda>note. ''  - '' @ note) notes @ [[]]"

definition new_events :: "DemoApp \<Rightarrow> DemoApp \<Rightarrow> AuditEvent list" where
  "new_events before after = drop (length (sink_events before)) (sink_events after)"

definition completed_events :: "AuditEvent list \<Rightarrow> AuditEvent list" where
  "completed_events events = filter (\<lambda>e. ev_action e = AUTHORIZATION_COMPLETED) events"

section \<open>Completed scenarios\<close>

text \<open>\<^verbatim>\<open>(d or {})\<close> for an entry of the record, and \<^verbatim>\<open>", ".join(ids or [])\<close>, which raises for
  elements that are not strings.\<close>

definition or_empty :: "pyval \<Rightarrow> pyval dict" where
  "or_empty v = (case v of PDict d \<Rightarrow> d | _ \<Rightarrow> [])"

fun all_strings :: "pyval list \<Rightarrow> string list option" where
  "all_strings [] = Some []"
| "all_strings (PStr s # xs) = map_option (\<lambda>ss. s # ss) (all_strings xs)"
| "all_strings _ = None"

definition join_ids :: "pyval \<Rightarrow> string res" where
  "join_ids v = (let bad = PyError (TypeError (''can only join an iterable of str'', [])) in case v of
      PNone \<Rightarrow> Inr []
    | PBool b \<Rightarrow> if b then Inl bad else Inr []
    | PInt n \<Rightarrow> if n = 0 then Inr [] else Inl bad
    | PFloat f \<Rightarrow> if f = Finite 0 then Inr [] else Inl bad
    | PStr s \<Rightarrow> Inr (joined '', '' (map (\<lambda>c. [c]) s))
    | PList xs \<Rightarrow> (case all_strings xs of None \<Rightarrow> Inl bad | Some ss \<Rightarrow> Inr (joined '', '' ss))
    | PDict d \<Rightarrow> Inr (joined '', '' (map fst d)))"

text \<open>The record's three entries: the mismatches they give, the gateway event, the evidence and
  the provenance.\<close>

definition completed_record ::
    "AuditEvent list \<Rightarrow> string list \<times> pyval \<times> pyval \<times> pyval" where
  "completed_record completed = (case completed of
      [e] \<Rightarrow>
        (let gateway_event = dict_get (ev_detail e) ''gateway_audit_event'';
             evidence = dict_get (ev_detail e) ''audit_evidence'';
             provenance = dict_get (ev_detail e) ''provenance''
         in (if gateway_event = PNone \<or> evidence = PNone
             then [''completed audit record is missing gateway_audit_event/audit_evidence'']
             else if \<not> scalar_eq (dict_get (or_empty gateway_event) ''audit_evidence_id'')
                        (dict_get (or_empty evidence) ''evidence_id'')
             then [''gateway_audit_event.audit_evidence_id != audit_evidence.evidence_id'']
             else [], gateway_event, evidence, provenance))
    | _ \<Rightarrow> ([''expected exactly one completed audit record, got '' @ nat_str (length completed)],
        PNone, PNone, PNone))"

definition completed_body :: "string \<Rightarrow> string \<Rightarrow> string \<Rightarrow> pyval dict" where
  "completed_body action_verb resource_type resource_id =
     [(''action'', PStr action_verb), (''resource_type'', PStr resource_type), (''resource_id'', PStr resource_id)]"

definition completed_details ::
    "http_reply \<Rightarrow> pyval \<Rightarrow> pyval \<Rightarrow> pyval \<Rightarrow> string \<Rightarrow> string \<Rightarrow> string \<Rightarrow> pyval dict" where
  "completed_details resp gateway_event evidence provenance sid composed_action composed_resource =
     (let payload = rp_json resp in
      [(''http_status'', PInt (int (rp_status resp)))]
      @ map (\<lambda>k. (k, dict_get payload k))
          [''evaluation_status'', ''outcome'', ''failure_reason'', ''disposition'', ''request_id'',
           ''correlation_id'', ''trace_id'', ''bundle_id'', ''bundle_version'']
      @ [(''matched_rule_ids'', dict_get (or_empty evidence) ''matched_rule_ids''),
         (''evidence_id'', dict_get (or_empty evidence) ''evidence_id''),
         (''audit_evidence_id'', dict_get (or_empty gateway_event) ''audit_evidence_id''),
         (''enforcement_action'', dict_get (or_empty gateway_event) ''enforcement_action''),
         (''authorization_subject'', PStr sid),
         (''operation_producer_subject_id'', PNone),
         (''composed_action'', PStr composed_action),
         (''composed_resource'', PStr composed_resource),
         (''provenance'', provenance)])"

definition completed_lines ::
    "demo_lib \<Rightarrow> string \<Rightarrow> http_reply \<Rightarrow> string \<Rightarrow> pyval \<Rightarrow> pyval \<Rightarrow> string \<Rightarrow> string \<Rightarrow> string \<Rightarrow> string
     \<Rightarrow> string \<Rightarrow> string \<Rightarrow> string list \<Rightarrow> string list" where
  "completed_lines D name resp matched evidence provenance sid action_verb resource_type resource_id
       composed_action composed_resource explanation =
     (let payload = rp_json resp; entry = (\<lambda>k. shown D (dict_get payload k)) in
      headline (''Scenario: '' @ upper name)
      @ format_block ''Request''
          [(''Subject:'', sid), (''Producer:'', ''(not a classified operation producer)''),
           (''Action supplied:'', action_verb), (''Resource type:'', resource_type),
           (''Resource supplied:'', resource_id)]
      @ [[]]
      @ format_block ''Gateway result''
          [(''HTTP status:'', nat_str (rp_status resp)), (''Evaluation status:'', entry ''evaluation_status''),
           (''Kernel outcome:'', entry ''outcome''), (''Enforcement:'', entry ''disposition'')]
      @ [[]]
      @ format_block ''Composition''
          [(''Composed action:'', composed_action), (''Composed resource:'', composed_resource)]
      @ [[]]
      @ format_block ''Evidence''
          [(''Request ID:'', entry ''request_id''), (''Correlation ID:'', entry ''correlation_id''),
           (''Trace ID:'', entry ''trace_id''),
           (''Evidence ID:'', shown D (dict_get (or_empty evidence) ''evidence_id'')),
           (''Bundle:'', bundle_label D (dict_get payload ''bundle_id'') (dict_get payload ''bundle_version'')),
           (''Matched rules:'', if matched = [] then ''(none)'' else matched),
           (''Provenance:'', display_provenance D (or_empty provenance))]
      @ [[]]
      @ explained explanation)"

definition run_completed_scenario ::
    "demo_lib \<Rightarrow> gateway_lib \<Rightarrow> client_call \<Rightarrow> string \<Rightarrow> DemoApp \<Rightarrow> string \<Rightarrow> string \<Rightarrow> string \<Rightarrow> string
     \<Rightarrow> string \<Rightarrow> pyval dict \<Rightarrow> string list \<Rightarrow> ScenarioReport res \<times> DemoApp" where
  "run_completed_scenario D G call name app sid token action_verb resource_type resource_id expected
       explanation =
     (let (resp, app') = post_oa D G call app token (completed_body action_verb resource_type resource_id);
          payload = rp_json resp;
          actual = [(''http_status'', PInt (int (rp_status resp))),
            (''evaluation_status'', dict_get payload ''evaluation_status''),
            (''outcome'', dict_get payload ''outcome''), (''disposition'', dict_get payload ''disposition'')];
          (found, gateway_event, evidence, provenance) = completed_record (completed_events (new_events app app'));
          mismatches = compare D actual expected @ found;
          composed_action = action_verb @ '':'' @ resource_type;
          composed_resource = resource_type @ '':'' @ resource_id
      in (res_bind (join_ids (dict_get (or_empty evidence) ''matched_rule_ids'')) (\<lambda>matched.
            Inr \<lparr>sr_name = name, sr_passed = (mismatches = []),
                 sr_lines = completed_lines D name resp matched evidence provenance sid action_verb resource_type
                   resource_id composed_action composed_resource explanation,
                 sr_details = completed_details resp gateway_event evidence provenance sid composed_action
                   composed_resource,
                 sr_mismatches = mismatches\<rparr>), app'))"

section \<open>The two other scenarios\<close>

definition untrusted_body :: "pyval dict" where
  "untrusted_body = [(''action'', PStr ''read:ahu''), (''operation_intent'', PStr ''read_only'')]"

definition untrusted_lines :: "demo_lib \<Rightarrow> http_reply \<Rightarrow> string \<Rightarrow> AuditEvent option \<Rightarrow> string list" where
  "untrusted_lines D resp sid system_event =
     headline ''Scenario: UNTRUSTED-PRODUCER''
     @ format_block ''Request''
         [(''Subject:'', sid), (''Producer:'', ''untrusted (not in OPERATION_PRODUCER_SUBJECT_IDS)''),
          (''Action supplied:'', ''read:ahu''), (''Producer-only field:'', ''operation_intent=read_only'')]
     @ [[]]
     @ format_block ''Gateway result''
         [(''HTTP status:'', nat_str (rp_status resp)), (''Kernel invoked:'', ''no''),
          (''GatewayAuditEvent:'', ''absent''), (''AuditEvidence:'', ''absent''),
          (''Gateway system audit event:'', if system_event \<noteq> None then ''present'' else ''absent''),
          (''System event action:'', shown D (opt_pyval (map_option ev_action system_event))),
          (''System event reason:'', shown D (opt_pyval (Option.bind system_event ev_reason)))]
     @ [[]]
     @ explained
         [''Authentication succeeded -- the token verified and the subject is known.'',
          ''Producer trust did not: this subject is not in OPERATION_PRODUCER_SUBJECT_IDS.'',
          ''Producer-only context was rejected before authorization evaluation; the kernel never ran.'',
          ''Roles do not create producer trust -- only the exact, configured subject-ID allowlist does.'',
          ''The gateway did not fabricate kernel evidence for this rejection.'']"

definition run_untrusted_producer_scenario ::
    "demo_lib \<Rightarrow> gateway_lib \<Rightarrow> client_call \<Rightarrow> DemoApp \<Rightarrow> string \<Rightarrow> string \<Rightarrow> pyval dict
     \<Rightarrow> ScenarioReport \<times> DemoApp" where
  "run_untrusted_producer_scenario D G call app sid token expected =
     (let (resp, app') = post_oa D G call app token untrusted_body;
          system_events = new_events app app';
          completed = completed_events system_events;
          system_event = (if length system_events = 1 then Some (hd system_events) else None);
          mismatches = compare D [(''http_status'', PInt (int (rp_status resp)))] expected
            @ (if completed \<noteq> []
               then [''kernel was invoked (a completed audit record was written) for a request that should have been rejected before the kernel ran'']
               else [])
            @ (if length system_events \<noteq> 1
               then [''expected exactly one gateway system audit event, got '' @ nat_str (length system_events)]
               else [])
      in (\<lparr>sr_name = ''untrusted-producer'', sr_passed = (mismatches = []),
           sr_lines = untrusted_lines D resp sid system_event,
           sr_details =
             [(''http_status'', PInt (int (rp_status resp))), (''kernel_invoked'', PBool (completed \<noteq> [])),
              (''gateway_audit_event_present'', PBool False), (''audit_evidence_present'', PBool False),
              (''gateway_system_audit_event_present'', PBool (system_event \<noteq> None)),
              (''system_event_action'', opt_pyval (map_option ev_action system_event)),
              (''system_event_reason'', opt_pyval (Option.bind system_event ev_reason)),
              (''authorization_subject'', PStr sid), (''operation_producer_subject_id'', PNone),
              (''message'', dict_get (rp_json resp) ''message'')],
           sr_mismatches = mismatches\<rparr>, app'))"

definition semantic_mismatches :: "demo_lib \<Rightarrow> pyval dict \<Rightarrow> nat \<Rightarrow> string list" where
  "semantic_mismatches D ready_components route_status =
     map (\<lambda>c. ''expected '' @ c @ '' to be ready, got '' @ dl_repr D (dict_get ready_components c))
       (filter (\<lambda>c. dict_get ready_components c \<noteq> PBool True) (butlast OPERATION_AWARE_COMPONENTS))
     @ (if dict_get ready_components ''operation_aware_policy_semantically_valid'' \<noteq> PBool False
        then [''expected operation_aware_policy_semantically_valid to be not-ready, got ''
              @ dl_repr D (dict_get ready_components ''operation_aware_policy_semantically_valid'')]
        else [])
     @ (if route_status = 404
        then [''operation-aware route returned 404 (unregistered) instead of a governed failure''] else [])"

text \<open>The components of a readiness answer are Booleans.\<close>

definition ready_word :: "pyval dict \<Rightarrow> string \<Rightarrow> string" where
  "ready_word ready_components c = (if dict_get ready_components c = PBool True then ''ready'' else ''not ready'')"

definition semantic_lines ::
    "demo_lib \<Rightarrow> nat \<Rightarrow> nat \<Rightarrow> pyval dict \<Rightarrow> http_reply \<Rightarrow> string list" where
  "semantic_lines D health_status ready_status ready_components oa_resp =
     headline ''Scenario: SEMANTIC-STARTUP-FAILURE''
     @ format_block ''Startup''
         [(''Bundle:'', ''policy-bundles/operation-aware-invalid-bundle.json (duplicate rule_id)''),
          (''GET /health:'', nat_str health_status), (''GET /ready:'', nat_str ready_status)]
     @ [[]]
     @ format_block ''Readiness components''
         (map (\<lambda>c. (c @ '':'', ready_word ready_components c)) OPERATION_AWARE_COMPONENTS)
     @ [[]]
     @ format_block ''Operation-aware route''
         [(''POST '' @ OA_PATH @ '':'', nat_str (rp_status oa_resp) @ '' (registered, governed failure)''),
          (''Error:'', shown D (dict_get (rp_json oa_resp) ''error''))]
     @ [[]]
     @ explained
         [''The process is alive: GET /health still returns 200.'',
          ''The policy is not ready: GET /ready returns 503.'',
          ''The route remains registered because the feature (OPERATION_AWARE_ENABLED) was enabled at startup -- a request to it returns a governed 503, never FastAPI's ordinary 404.'',
          ''Semantic readiness failed before serving authorization: the bundle structurally loaded and the evaluator constructed, but the startup semantic preflight rejected it (duplicate rule_id across the bundle's rules).'']"

text \<open>What a run of the script finds outside: the libraries, a startup environment for each of
  the two applications, the keys, and per scenario (or readiness request) the call's values and
  the time and identifier of its token.\<close>

record demo_world =
  dw_lib :: demo_lib
  dw_settings :: settings_lib
  dw_startup :: "string \<Rightarrow> startup_lib"
  dw_gateway :: gateway_lib
  dw_call :: "string \<Rightarrow> client_call"
  dw_token :: "string \<Rightarrow> int \<times> string"
  dw_demo_dir :: string
  dw_tmp_dir :: string
  dw_private_key :: string
  dw_expected :: "pyval dict res"

definition demo_token :: "demo_world \<Rightarrow> string \<Rightarrow> string" where
  "demo_token W use = (case dw_token W use of (now, uuid) \<Rightarrow>
     issue_demo_token (dw_lib W) (dw_private_key W) now uuid OPERATOR_SUBJECT [''operator''])"

definition demo_app :: "demo_world \<Rightarrow> string \<Rightarrow> string dict \<Rightarrow> DemoApp \<times> string dict" where
  "demo_app W bundle_path environ =
     build_demo_app (dw_lib W) (dw_settings W) (dw_startup W bundle_path) bundle_path
       (fst (write_v01_policy (dw_lib W) (dw_tmp_dir W)))
       (dl_public_pem (dw_lib W) (dw_private_key W)) environ"

definition run_semantic_startup_failure_scenario ::
    "demo_world \<Rightarrow> pyval dict \<Rightarrow> string dict \<Rightarrow> ScenarioReport \<times> string dict" where
  "run_semantic_startup_failure_scenario W expected environ =
     (let D = dw_lib W;
          call = dw_call W ''semantic-startup-failure'';
          (app, environ') = demo_app W (INVALID_BUNDLE_PATH (dw_demo_dir W)) environ;
          health_resp = get_health D;
          ready_resp = get_ready D call app;
          ready_components = or_empty (dict_get (rp_json ready_resp) ''components'');
          (oa_resp, app') = post_oa D (dw_gateway W) call app (demo_token W ''semantic-startup-failure'')
            [(''action'', PStr ''read:ahu'')];
          mismatches = compare D
            [(''health_status'', PInt (int (rp_status health_resp))),
             (''ready_status'', PInt (int (rp_status ready_resp))),
             (''operation_aware_route_status'', PInt (int (rp_status oa_resp)))] expected
            @ semantic_mismatches D ready_components (rp_status oa_resp)
      in (\<lparr>sr_name = ''semantic-startup-failure'', sr_passed = (mismatches = []),
           sr_lines = semantic_lines D (rp_status health_resp) (rp_status ready_resp) ready_components oa_resp,
           sr_details =
             [(''health_status'', PInt (int (rp_status health_resp))),
              (''ready_status'', PInt (int (rp_status ready_resp))),
              (''components'', PDict (map (\<lambda>c. (c, dict_get ready_components c)) OPERATION_AWARE_COMPONENTS)),
              (''operation_aware_route_status'', PInt (int (rp_status oa_resp))),
              (''operation_aware_route_error'', dict_get (rp_json oa_resp) ''error'')],
           sr_mismatches = mismatches\<rparr>, environ'))"

section \<open>The run\<close>

definition readiness_summary :: "demo_lib \<Rightarrow> client_call \<Rightarrow> DemoApp \<Rightarrow> string list" where
  "readiness_summary D call app =
     (let resp = get_ready D call app;
          ready_components = or_empty (dict_get (rp_json resp) ''components'')
      in headline ''Readiness''
         @ map (\<lambda>c. ''  '' @ ljust 45 c
             @ (if map_of ready_components c \<noteq> None then ready_word ready_components c else ''(not registered)''))
             READINESS_COMPONENTS_TO_SHOW
         @ [''  '' @ ljust 45 ''overall /ready status'' @ nat_str (rp_status resp), []])"

definition expected_for :: "pyval dict \<Rightarrow> string \<Rightarrow> pyval dict res" where
  "expected_for expected name = (case map_of expected name of
      None \<Rightarrow> Inl (PyError (KeyError (name, [])))
    | Some (PDict d) \<Rightarrow> Inr d
    | Some v \<Rightarrow> Inl (PyError (OtherException (''AttributeError'', []))))"

text \<open>The arguments of the four calls of \<^verbatim>\<open>run_completed_scenario\<close>: name, verb, resource type,
  resource id, explanation.\<close>

definition completed_scenarios :: "(string \<times> string \<times> string \<times> string \<times> string list) list" where
  "completed_scenarios =
     [(''allow'', ''read'', ''ahu'', ''rooftop-1'',
        [''The allow-read-ahu rule matches any authenticated caller reading an AHU.'',
         ''The kernel outcome (allow) and the gateway's enforcement (allow) agree.'']),
      (''explicit-deny'', ''write'', ''ahu'', ''protected-1'',
        [''Both allow-write-ahu (operator role) and deny-write-protected-ahu (this resource) match.'',
         ''The explicit deny rule wins -- matched_rule_ids names both rules, distinguishing this from a default deny.'']),
      (''default-deny'', ''execute'', ''ahu'', ''rooftop-1'',
        [''execute:ahu is within the bundle's governed scope, but no allow or deny rule matches it.'',
         ''This is the kernel's default-deny result -- matched_rule_ids is empty, and no deny rule was fabricated.'']),
      (''not-applicable'', ''read'', ''lighting'', ''lobby-1'',
        [''read:lighting is outside the bundle's governed scope entirely (scope.actions does not include it).'',
         ''not_applicable is the KERNEL OUTCOME; deny is the GATEWAY ENFORCEMENT DISPOSITION -- these are two different facts.'',
         ''not_applicable is never the same thing as deny, even though both HTTP statuses are 403.''])]"

text \<open>The scenarios served by the application with the valid bundle, in order; an exception
  ends the run.\<close>

fun run_completed_all ::
    "demo_world \<Rightarrow> pyval dict \<Rightarrow> string \<Rightarrow> (string \<times> string \<times> string \<times> string \<times> string list) list \<Rightarrow> DemoApp
     \<Rightarrow> ScenarioReport list res \<times> DemoApp" where
  "run_completed_all W expected token [] app = (Inr [], app)"
| "run_completed_all W expected token ((name, action_verb, resource_type, resource_id, explanation) # rest) app =
     (case expected_for expected name of
        Inl e \<Rightarrow> (Inl e, app)
      | Inr ex \<Rightarrow>
          (case run_completed_scenario (dw_lib W) (dw_gateway W) (dw_call W name) name app OPERATOR_SUBJECT token
                  action_verb resource_type resource_id ex explanation of
             (Inl e, app') \<Rightarrow> (Inl e, app')
           | (Inr report, app') \<Rightarrow>
               (let (r, app'') = run_completed_all W expected token rest app'
                in (res_bind r (\<lambda>reports. Inr (report # reports)), app''))))"

definition run_valid_scenarios ::
    "demo_world \<Rightarrow> pyval dict \<Rightarrow> string list \<Rightarrow> string \<Rightarrow> DemoApp \<Rightarrow> ScenarioReport list res" where
  "run_valid_scenarios W expected selected token app =
     (case run_completed_all W expected token (filter (\<lambda>(name, _). name \<in> set selected) completed_scenarios) app of
        (Inl e, app') \<Rightarrow> Inl e
      | (Inr reports, app') \<Rightarrow>
          (if ''untrusted-producer'' \<in> set selected
           then res_bind (expected_for expected ''untrusted-producer'') (\<lambda>ex.
             Inr (reports @ [fst (run_untrusted_producer_scenario (dw_lib W) (dw_gateway W)
               (dw_call W ''untrusted-producer'') app' OPERATOR_SUBJECT token ex)]))
           else Inr reports))"

definition semantic_reports ::
    "demo_world \<Rightarrow> pyval dict \<Rightarrow> string list \<Rightarrow> string dict \<Rightarrow> ScenarioReport list res" where
  "semantic_reports W expected selected environ =
     (if ''semantic-startup-failure'' \<in> set selected
      then res_bind (expected_for expected ''semantic-startup-failure'') (\<lambda>ex.
        Inr [fst (run_semantic_startup_failure_scenario W ex environ)])
      else Inr [])"

definition summary_json :: "ScenarioReport list \<Rightarrow> nat \<Rightarrow> nat \<Rightarrow> nat \<Rightarrow> pyval" where
  "summary_json reports n_passed n_total exit_code = PDict
     [(''scenarios'', PDict (fold (\<lambda>r d. dict_set d (sr_name r) (PDict
          [(''passed'', PBool (sr_passed r)), (''mismatches'', PList (map PStr (sr_mismatches r))),
           (''details'', PDict (sr_details r))])) reports [])),
      (''passed'', PInt (int n_passed)), (''total'', PInt (int n_total)), (''success'', PBool (exit_code = 0))]"

definition closing_lines :: "ScenarioReport list \<Rightarrow> nat \<Rightarrow> nat \<Rightarrow> nat \<Rightarrow> string list" where
  "closing_lines reports n_passed n_total exit_code =
     rule_line (CHR ''-'') #
     (if exit_code = 0
      then [nat_str n_passed @ '' scenario(s) passed'',
            ''Operation-aware gateway demonstration completed successfully'']
      else (nat_str n_passed @ ''/'' @ nat_str n_total @ '' scenario(s) passed'')
        # concat (map (\<lambda>r. (''FAILED: '' @ sr_name r) # map (\<lambda>m. ''  - '' @ m) (sr_mismatches r))
            (filter (\<lambda>r. \<not> sr_passed r) reports))
        @ [''Operation-aware gateway demonstration FAILED''])"

definition selection :: "string option \<Rightarrow> string list" where
  "selection scenario = (if truthy_opt scenario then [the scenario] else SCENARIO_ORDER)"

text \<open>\<^verbatim>\<open>SystemExit\<close> for a name that is not a scenario.\<close>

definition check_selected :: "string list \<Rightarrow> unit res" where
  "check_selected selected = (case filter (\<lambda>name. name \<notin> set SCENARIO_ORDER) selected of
      [] \<Rightarrow> Inr ()
    | name # _ \<Rightarrow> Inl (PyError (OtherException (''Unknown scenario'', [name, joined '', '' SCENARIO_ORDER]))))"

text \<open>The reports and the readiness lines of the application with the valid bundle, which is
  built only when a scenario needs it; the environment is threaded through both applications.\<close>

definition collect_reports ::
    "demo_world \<Rightarrow> pyval dict \<Rightarrow> string list \<Rightarrow> bool \<Rightarrow> string dict \<Rightarrow> (ScenarioReport list \<times> string list) res" where
  "collect_reports W expected selected json_output environ =
     (if \<exists>name\<in>set selected. name \<noteq> ''semantic-startup-failure''
      then (let (app, environ') = demo_app W (VALID_BUNDLE_PATH (dw_demo_dir W)) environ;
                output_lines = (if json_output then []
                  else readiness_summary (dw_lib W) (dw_call W ''readiness'') app);
                operator_token = demo_token W ''operator''
            in res_bind (run_valid_scenarios W expected selected operator_token app) (\<lambda>reports.
               res_bind (semantic_reports W expected selected environ') (\<lambda>more.
               Inr (reports @ more, output_lines))))
      else res_bind (semantic_reports W expected selected environ) (\<lambda>more. Inr (more, [])))"

text \<open>The exit code, the reports, and what is printed.\<close>

definition run_demo ::
    "demo_world \<Rightarrow> string option \<Rightarrow> bool \<Rightarrow> string dict \<Rightarrow> (nat \<times> ScenarioReport list \<times> string list) res" where
  "run_demo W scenario json_output environ =
     res_bind (dw_expected W) (\<lambda>expected.
     (let selected = selection scenario in
      res_bind (check_selected selected) (\<lambda>_.
      res_bind (collect_reports W expected selected json_output environ) (\<lambda>(reports, output_lines).
      (let n_passed = length (filter sr_passed reports);
           n_total = length reports;
           exit_code = (if n_passed = n_total then 0 else 1)
       in Inr (exit_code, reports,
            if json_output then [dl_dumps_indented (dw_lib W) (summary_json reports n_passed n_total exit_code)]
            else output_lines @ concat (map sr_lines reports) @ closing_lines reports n_passed n_total exit_code))))))"

text \<open>\<^verbatim>\<open>main\<close>, after \<^verbatim>\<open>argparse\<close> has read the options: it ends the process with status 2 for a scenario
  that is not among its \<^verbatim>\<open>choices\<close>.\<close>

definition main :: "demo_world \<Rightarrow> string option \<Rightarrow> bool \<Rightarrow> string dict \<Rightarrow> nat res" where
  "main W scenario json_output environ =
     (if \<exists>name. scenario = Some name \<and> name \<notin> set SCENARIO_ORDER
      then Inl (PyError (OtherException (''SystemExit'', [''2''])))
      else res_bind (run_demo W scenario json_output environ) (\<lambda>(exit_code, _). Inr exit_code))"

section \<open>The environment of the demonstration\<close>

lemma exit_lookup:
  "map_of (demo_environment_exit (map (\<lambda>k. (k, m k)) keys) e) x = (if x \<in> set keys then m x else map_of e x)"
proof (induction keys arbitrary: e)
  case (Cons k keys)
  then show ?case
    by (cases "m k") (auto simp: demo_environment_exit_def)
qed (simp add: demo_environment_exit_def)

lemma setdefault_lookup: "map_of (setdefault d k v) x = (if x = k \<and> map_of d k = None then Some v else map_of d x)"
  by (simp add: setdefault_def)

lemma enter_lookup:
  "x \<notin> set ENV_KEYS \<Longrightarrow> map_of (demo_environment_enter D b p pem e) x = map_of e x"
  by (simp add: demo_environment_enter_def ENV_KEYS_def setdefault_lookup Let_def map_of_dict_set_apply
      del: map_of_dict_set)

text \<open>The lower-cased names of the variables \<^verbatim>\<open>GatewayConfig\<close> reads.\<close>

definition CONFIG_VARIABLES :: "string list" where
  "CONFIG_VARIABLES = [''service_name'', ''host'', ''port'', ''log_level'', ''environment'', ''auth_mode'',
     ''oidc_issuer'', ''oidc_audience'', ''oidc_jwks_uri'', ''jwks_cache_ttl_seconds'',
     ''basis_local_token_issuer'', ''basis_local_token_audience'', ''basis_local_token_public_keys_json'',
     ''basis_local_token_allowed_algorithms'', ''basis_local_token_leeway_seconds'', ''policy_version'',
     ''policy_path'', ''audit_failure_threshold'', ''audit_fail_closed'', ''operation_producer_subject_ids'',
     ''operation_aware_enabled'', ''operation_aware_policy_bundle_path'',
     ''operation_producer_mtls_trusted_proxy_enabled'', ''operation_producer_mtls_admitted_uris'']"

definition clean_environment :: "string dict \<Rightarrow> bool" where
  "clean_environment environ \<longleftrightarrow> (\<forall>k \<in> fst ` set environ. lower k \<notin> set CONFIG_VARIABLES)"

definition demo_config :: "demo_lib \<Rightarrow> string \<Rightarrow> string \<Rightarrow> string \<Rightarrow> GatewayConfig" where
  "demo_config D bundle_path v01_policy_path public_key_pem = default_config\<lparr>
     log_level := ''WARNING'', auth_mode := BASIS_LOCAL_TOKEN,
     basis_local_token_issuer := Some ISSUER, basis_local_token_audience := Some AUDIENCE,
     basis_local_token_public_keys_json := Some (dl_dumps D (PDict [(KID, PStr public_key_pem)])),
     policy_path := Some v01_policy_path, operation_producer_subject_ids := {TRUSTED_PRODUCER_SUBJECT},
     operation_aware_enabled := True, operation_aware_policy_bundle_path := Some bundle_path\<rparr>"

definition demo_settings :: "demo_lib \<Rightarrow> string \<Rightarrow> string \<Rightarrow> string \<Rightarrow> string dict" where
  "demo_settings D bundle_path v01_policy_path public_key_pem =
     [(''AUTH_MODE'', ''basis_local_token''), (''LOG_LEVEL'', ''WARNING''),
      (''BASIS_LOCAL_TOKEN_ISSUER'', ISSUER), (''BASIS_LOCAL_TOKEN_AUDIENCE'', AUDIENCE),
      (''BASIS_LOCAL_TOKEN_PUBLIC_KEYS_JSON'', dl_dumps D (PDict [(KID, PStr public_key_pem)])),
      (''BASIS_LOCAL_TOKEN_ALLOWED_ALGORITHMS'', ''RS256''), (''POLICY_PATH'', v01_policy_path),
      (''OPERATION_AWARE_ENABLED'', ''true''), (''OPERATION_AWARE_POLICY_BUNDLE_PATH'', bundle_path),
      (''OPERATION_PRODUCER_SUBJECT_IDS'', TRUSTED_PRODUCER_SUBJECT)]"

lemma dict_set_new: "k \<notin> fst ` set d \<Longrightarrow> dict_set d k v = d @ [(k, v)]"
  by (induction d k v rule: dict_set.induct) auto

lemma dict_pop_absent: "k \<notin> fst ` set d \<Longrightarrow> dict_pop d k = d"
  unfolding dict_pop_def by (induction d) auto

lemma lower_names:
  "lower ''AUTH_MODE'' = ''auth_mode''"
  "lower ''LOG_LEVEL'' = ''log_level''"
  "lower ''BASIS_LOCAL_TOKEN_ISSUER'' = ''basis_local_token_issuer''"
  "lower ''BASIS_LOCAL_TOKEN_AUDIENCE'' = ''basis_local_token_audience''"
  "lower ''BASIS_LOCAL_TOKEN_PUBLIC_KEYS_JSON'' = ''basis_local_token_public_keys_json''"
  "lower ''BASIS_LOCAL_TOKEN_ALLOWED_ALGORITHMS'' = ''basis_local_token_allowed_algorithms''"
  "lower ''POLICY_PATH'' = ''policy_path''"
  "lower ''OPERATION_AWARE_ENABLED'' = ''operation_aware_enabled''"
  "lower ''OPERATION_AWARE_POLICY_BUNDLE_PATH'' = ''operation_aware_policy_bundle_path''"
  "lower ''OPERATION_PRODUCER_SUBJECT_IDS'' = ''operation_producer_subject_ids''"
  "lower ''OIDC_ISSUER'' = ''oidc_issuer''"
  by (simp_all add: lower_def lower_char_def char_of_def bit_Suc_0_iff)

lemma lower_env_keys: "k \<in> set ENV_KEYS \<Longrightarrow> lower k \<in> set CONFIG_VARIABLES"
  unfolding ENV_KEYS_def CONFIG_VARIABLES_def by (auto simp: lower_names)

lemma dict_update_disjoint:
  "distinct (map fst e) \<Longrightarrow> fst ` set e \<inter> fst ` set d = {} \<Longrightarrow> dict_update d e = d @ e"
proof (induction e arbitrary: d)
  case (Cons x e)
  obtain k v where x: "x = (k, v)" by (cases x)
  have "fst ` set e \<inter> fst ` set (d @ [(k, v)]) = {}" using Cons.prems x by auto
  then show ?case using Cons.IH [of "d @ [(k, v)]"] Cons.prems x by (simp add: dict_set_new)
qed simp

lemma settings_keys:
  "distinct (map fst (demo_settings D b p pem))" "fst ` set (demo_settings D b p pem) \<subseteq> set ENV_KEYS"
  by (simp_all add: demo_settings_def ENV_KEYS_def)

lemma enter_clean:
  assumes "clean_environment environ"
  shows "demo_environment_enter D b p pem environ = environ @ demo_settings D b p pem"
proof -
  have absent: "k \<notin> fst ` set environ" if "k \<in> set ENV_KEYS" for k
    using assms lower_env_keys [OF that] by (auto simp: clean_environment_def)
  have pop: "dict_pop (dict_set environ ''AUTH_MODE'' x) ''OIDC_ISSUER'' = dict_set environ ''AUTH_MODE'' x" for x
    by (rule dict_pop_absent) (use absent [of "''OIDC_ISSUER''"] in \<open>simp add: keys_dict_set ENV_KEYS_def\<close>)
  have "map_of environ ''LOG_LEVEL'' = None"
    using absent [of "''LOG_LEVEL''"] by (simp add: map_of_eq_None_iff ENV_KEYS_def)
  then have log: "setdefault (dict_set environ ''AUTH_MODE'' x) ''LOG_LEVEL'' v
      = dict_set (dict_set environ ''AUTH_MODE'' x) ''LOG_LEVEL'' v" for x v
    by (simp add: setdefault_def)
  have "demo_environment_enter D b p pem environ = dict_update environ (demo_settings D b p pem)"
    by (simp only: demo_environment_enter_def Let_def pop log demo_settings_def dict_update_Cons dict_update_Nil)
  moreover have "fst ` set (demo_settings D b p pem) \<inter> fst ` set environ = {}"
    using absent settings_keys(2) by blast
  ultimately show ?thesis by (simp only: dict_update_disjoint [OF settings_keys(1)])
qed

lemma lowered_append:
  "lowered (d @ e) n = (case lowered e n of None \<Rightarrow> lowered d n | Some v \<Rightarrow> Some v)"
  unfolding lowered_def by (simp add: map_of_append map_add_def)

lemma lowered_clean:
  assumes "clean_environment environ" and "n \<in> set CONFIG_VARIABLES"
  shows "lowered environ n = None"
proof -
  have "n \<notin> fst ` set (rev (map (\<lambda>(k, v). (lower k, v)) environ))"
    using assms by (force simp: clean_environment_def)
  then show ?thesis by (simp only: lowered_def map_of_eq_None_iff not_False_eq_True)
qed

lemma lowered_settings:
  "lowered (demo_settings D b p pem) = map_of (rev
     [(''auth_mode'', ''basis_local_token''), (''log_level'', ''WARNING''),
      (''basis_local_token_issuer'', ISSUER), (''basis_local_token_audience'', AUDIENCE),
      (''basis_local_token_public_keys_json'', dl_dumps D (PDict [(KID, PStr pem)])),
      (''basis_local_token_allowed_algorithms'', ''RS256''), (''policy_path'', p),
      (''operation_aware_enabled'', ''true''), (''operation_aware_policy_bundle_path'', b),
      (''operation_producer_subject_ids'', TRUSTED_PRODUCER_SUBJECT)])"
  by (simp add: lowered_def demo_settings_def lower_names)

lemma validate_log_level_WARNING: "validate_log_level ''WARNING'' = Inr ''WARNING''"
  by code_simp

lemma parse_trusted_producer:
  "parse_operation_producer_subject_ids str_of (PStr TRUSTED_PRODUCER_SUBJECT) = Inr {TRUSTED_PRODUCER_SUBJECT}"
proof -
  have "csv_parts TRUSTED_PRODUCER_SUBJECT = [TRUSTED_PRODUCER_SUBJECT]" by code_simp
  then show ?thesis by (simp add: parse_operation_producer_subject_ids_def)
qed

lemma demo_configuration_loaded:
  assumes "clean_environment environ" and "st_bool S ''true'' = Some True"
  shows "load_config S (lowered (demo_environment_enter D b p pem environ)) = Inr (demo_config D b p pem)"
proof -
  let ?env = "lowered (demo_environment_enter D b p pem environ)"
  have env: "?env n = lowered (demo_settings D b p pem) n" if "n \<in> set CONFIG_VARIABLES" for n
    using lowered_clean [OF assms(1) that] by (simp add: enter_clean [OF assms(1)] lowered_append split: option.split)
  note vals = env [unfolded CONFIG_VARIABLES_def lowered_settings]
  show ?thesis
    by (simp add: load_config_def config_errors_def config_of_fields_def default_config_def demo_config_def
        env_field_def field_errors_def f_port_def f_leeway_def f_threshold_def f_jwks_cache_ttl_def int_field_def
        f_log_level_def f_environment_def f_auth_mode_def f_subject_ids_def f_admitted_uris_def bool_field_def
        optional_field_def string_field_def vals validate_log_level_WARNING parse_trusted_producer by_validator_def
        parsed_def AuthMode_of_def assms(2))
qed

section \<open>Properties\<close>

text \<open>The demonstration leaves the environment of its caller as it found it: after the block,
  every variable, among them the eleven it sets, deletes or defaults, has the value, or
  lack of one, it had before, whatever the environment was.\<close>

theorem demo_environment_restored:
  "map_of (demo_environment_exit (saved_environment environ)
     (demo_environment_enter D bundle_path v01_policy_path public_key_pem environ)) = map_of environ"
  by (rule ext) (simp add: saved_environment_def exit_lookup enter_lookup)

end
