(* ===== verification/GW_Demo_Runs.thy ===== *)
theory GW_Demo_Runs
  imports GW_Demo
begin

text \<open>
  \<^verbatim>\<open>demo/operation-aware/run_demo.py\<close>, first part of what it shows: the tokens of the script
  authenticate, its environment starts the gateway, and the scenarios that never reach
  the kernel (untrusted producer, semantic startup failure) pass. What the libraries are relied
  on for is stated in \<^verbatim>\<open>jwt_round_trip\<close>, \<^verbatim>\<open>startup_ok\<close> and \<^verbatim>\<open>call_ok\<close>; everything between is
  computed by the models of the gateway.
\<close>

section \<open>Tokens\<close>

definition demo_trust :: "string \<Rightarrow> BasisLocalTokenTrustConfig" where
  "demo_trust public_key_pem =
     \<lparr>tc_issuer = ISSUER, tc_audience = [AUDIENCE], tc_public_keys_by_id = [(KID, public_key_pem)],
      tc_allowed_algorithms = [''RS256''], tc_required_claims = DEFAULT_REQUIRED_BASIS_TOKEN_CLAIMS,
      tc_leeway_seconds = 0\<rparr>"

definition public_pem_ok :: "string \<Rightarrow> bool" where
  "public_pem_ok pem \<longleftrightarrow> \<not> blank pem \<and> \<not> contains ''PRIVATE KEY'' (upper pem)"

lemma demo_names_trimmed:
  "trimmed ISSUER" "trimmed AUDIENCE" "trimmed KID" "trimmed ''RS256''" "asymmetric ''RS256''"
  by code_simp+

lemma demo_trust_wf: "public_pem_ok pem \<Longrightarrow> wf_trust (demo_trust pem)"
  using default_claims_ok demo_names_trimmed
  by (simp add: wf_trust_def demo_trust_def public_pem_ok_def DEFAULT_REQUIRED_BASIS_TOKEN_CLAIMS_def)

lemma demo_csv: "csv_parts AUDIENCE = [AUDIENCE]" "csv_parts ''RS256'' = [''RS256'']"
  by code_simp+

lemma demo_trust_built:
  assumes "public_pem_ok pem" and "dl_dumps D (PDict [(KID, PStr pem)]) \<noteq> []"
    and "loads (dl_dumps D (PDict [(KID, PStr pem)])) = Some (PDict [(KID, PStr pem)])"
  shows "build_basis_local_token_trust_config loads (demo_config D b p pem) = Inr (demo_trust pem)"
proof -
  have t: "truthy_opt (Some ISSUER)" "truthy_opt (Some AUDIENCE)"
    by (simp_all add: ISSUER_def AUDIENCE_def)
  show ?thesis using demo_trust_wf [OF assms(1)] assms(2,3) t
    by (simp add: build_basis_local_token_trust_config_def demo_config_def default_config_def
        opt_or_def split_csv_def make_trust_config_Inr demo_csv)
      (simp add: demo_trust_def)
qed

definition demo_canonical :: "string \<Rightarrow> string list \<Rightarrow> pyval dict" where
  "demo_canonical sid role_names = [(''subject'', PDict
     [(''subject_id'', PStr sid), (''roles'', PList (map PStr role_names)), (''display_name'', PStr sid)])]"

definition demo_result :: "int \<Rightarrow> string \<Rightarrow> string \<Rightarrow> string list \<Rightarrow> BasisLocalTokenVerificationResult" where
  "demo_result now uuid sid role_names =
     \<lparr>br_subject_id = sid, br_issuer = ISSUER, br_audience = [PStr AUDIENCE], br_token_id = ''demo-'' @ uuid,
      br_token_type = ''basis-local-identity'', br_session_id = ''demo-session-'' @ sid,
      br_provider_id = ''basis-identity-demo'', br_authority_mode = ''standalone'',
      br_authentication_protocol = ''demo-local'', br_canonical_identity = demo_canonical sid role_names,
      br_claims = demo_claims now uuid sid role_names\<rparr>"

lemma not_blank_prefix: "\<not> blank s \<Longrightarrow> \<not> blank (s @ t)"
  by (auto simp: blank_iff)

lemma demo_not_blank:
  "\<not> blank ISSUER" "\<not> blank (''demo-'' @ uuid)" "\<not> blank ''basis-local-identity''"
  "\<not> blank (''demo-session-'' @ sid)" "\<not> blank ''basis-identity-demo''" "\<not> blank ''standalone''"
  "\<not> blank ''demo-local''"
  by (code_simp, rule not_blank_prefix, code_simp, code_simp, rule not_blank_prefix, code_simp+)

definition clock_ok :: "int \<Rightarrow> bool" where
  "clock_ok now \<longleftrightarrow> 0 \<le> now \<and> now + 600 < 253402300800"

lemma clock_times:
  "clock_ok now \<Longrightarrow> fromtimestamp_int now = Inr (Aware (now * 1000000))"
  "clock_ok now \<Longrightarrow> fromtimestamp_int (now + 600) = Inr (Aware ((now + 600) * 1000000))"
  by (simp_all add: clock_ok_def fromtimestamp_int_def fromtimestamp_us_def)

lemma demo_claims_body:
  assumes "\<not> blank sid" and "clock_ok now"
  shows "claims_body (demo_claims now uuid sid rs) = Inr
     \<lparr>bc_issuer = ISSUER, bc_subject_id = sid, bc_audience = [PStr AUDIENCE],
      bc_issued_at = Aware (now * 1000000), bc_expires_at = Aware ((now + 600) * 1000000),
      bc_token_id = ''demo-'' @ uuid, bc_token_type = ''basis-local-identity'',
      bc_session_id = ''demo-session-'' @ sid, bc_provider_id = ''basis-identity-demo'',
      bc_authority_mode = ''standalone'', bc_authentication_protocol = ''demo-local'',
      bc_canonical_identity = demo_canonical sid rs, bc_raw_claims = demo_claims now uuid sid rs\<rparr>"
  using assms demo_not_blank [simplified]
  by (simp add: claims_body_def demo_claims_def getitem_def claim_string_def audience_claim_def
      timestamp_to_datetime_def clock_times demo_canonical_def)

lemma demo_keys_ok:
  "assert_no_authorization_shaped_keys (PDict (demo_claims now uuid sid rs)) = Inr ()"
  "assert_no_authorization_shaped_keys (PDict (demo_canonical sid rs)) = Inr ()"
proof -
  have strings: "scan_list (map PStr rs) = Inr ()" by (induction rs) simp_all
  have keys: "list_all (\<lambda>k. \<not> forbidden_key k) [''iss'', ''sub'', ''aud'', ''iat'', ''exp'', ''jti'', ''typ'',
      ''basis'', ''session_id'', ''provider_id'', ''authority_mode'', ''authentication_protocol'',
      ''canonical_identity'', ''subject'', ''subject_id'', ''roles'', ''display_name'']" by code_simp
  show "assert_no_authorization_shaped_keys (PDict (demo_claims now uuid sid rs)) = Inr ()"
    "assert_no_authorization_shaped_keys (PDict (demo_canonical sid rs)) = Inr ()"
    using keys by (simp_all add: demo_claims_def demo_canonical_def strings)
qed

lemma demo_claims_present:
  "list_all (claim_path_present (demo_claims now uuid sid rs)) DEFAULT_REQUIRED_BASIS_TOKEN_CLAIMS"
  by (simp add: DEFAULT_REQUIRED_BASIS_TOKEN_CLAIMS_def claim_path_present_def demo_claims_def)

lemma demo_payload_accepted:
  assumes "\<not> blank sid" and "clock_ok now"
  shows "accept_payload (demo_trust pem) (demo_claims now uuid sid rs) = Inr (demo_result now uuid sid rs)"
proof -
  have m: "filter (\<lambda>path. \<not> claim_path_present (demo_claims now uuid sid rs) path)
      (tc_required_claims (demo_trust pem)) = []"
    using demo_claims_present by (simp add: demo_trust_def filter_empty_conv list_all_iff)
  have t: "dict_get (demo_claims now uuid sid rs) ''typ'' = PStr BASIS_LOCAL_IDENTITY_TOKEN_TYPE"
    by (simp add: dict_get_def demo_claims_def BASIS_LOCAL_IDENTITY_TOKEN_TYPE_def)
  have r: "result_post_init (demo_result now uuid sid rs) = Inr (demo_result now uuid sid rs)"
    unfolding result_post_init_Inr scan_iff(1) [symmetric]
    using demo_keys_ok assms(1) demo_not_blank [simplified]
    by (simp add: demo_result_def result_strings_def)
  show ?thesis using r
    by (simp add: accept_payload_def m t basis_local_claims_from_verified_payload_def
        demo_claims_body [OF assms] result_from_claims_def demo_result_def)
qed


text \<open>What the run asks of the JWT library: the token it signed has the header and, under the
  demonstration's key, audience and issuer, the claims that went in.\<close>

definition jwt_round_trip :: "demo_lib \<Rightarrow> jwt_lib \<Rightarrow> string \<Rightarrow> string \<Rightarrow> pyval dict \<Rightarrow> bool" where
  "jwt_round_trip D J private_key pem claims \<longleftrightarrow>
     (let token = dl_encode D claims private_key ''RS256'' KID in
      \<not> blank token
      \<and> (\<exists>h. get_unverified_header J token = Inr h \<and> map_of h ''alg'' = Some (PStr ''RS256'')
            \<and> map_of h ''kid'' = Some (PStr KID))
      \<and> jwt_decode J (local_decode_args (demo_trust pem) token pem ''RS256'') = Inr claims)"

lemma demo_select:
  "map_of h ''alg'' = Some (PStr ''RS256'') \<Longrightarrow> map_of h ''kid'' = Some (PStr KID) \<Longrightarrow>
   select_key (demo_trust pem) h = Inr (KID, ''RS256'', pem)"
  using demo_names_trimmed by (simp add: select_key_Inr trimmed_def demo_trust_def)

definition demo_identity :: "int \<Rightarrow> string \<Rightarrow> string \<Rightarrow> string list \<Rightarrow> NormalizedSubject \<times> IdentityContext" where
  "demo_identity now uuid sid role_names =
     (\<lparr>subject_id = sid, subject_name = sid, roles = sorted_set role_names, attributes = []\<rparr>,
      \<lparr>ic_issuer = ISSUER, ic_subject_id = sid, ic_claims = demo_claims now uuid sid role_names\<rparr>)"

lemma demo_identity_of_result:
  "\<not> blank sid \<Longrightarrow>
   basis_local_verification_result_to_gateway_identity (demo_result now uuid sid rs) = demo_identity now uuid sid rs"
proof -
  have "str_entries (map PStr rs) = rs" by (induction rs) (simp_all add: str_entries_def)
  then show "\<not> blank sid \<Longrightarrow> ?thesis"
    by (simp add: basis_local_verification_result_to_gateway_identity_def demo_result_def demo_canonical_def
        demo_identity_def local_display_name_def local_roles_def local_attributes_def dict_get_def Let_def)
qed

lemma demo_token_identity:
  assumes "jwt_round_trip D J private_key pem (demo_claims now uuid sid role_names)"
    and "\<not> blank sid" and "clock_ok now"
  shows "authenticate J BASIS_LOCAL_TOKEN (issue_demo_token D private_key now uuid sid role_names) ov
      (Some (demo_trust pem)) = Inr (demo_identity now uuid sid role_names)"
proof -
  have "verify_basis_local_identity_token J (demo_trust pem) (issue_demo_token D private_key now uuid sid role_names)
      = Inr (demo_result now uuid sid role_names)"
    using assms
    by (auto simp: jwt_round_trip_def verify_basis_local_identity_token_def issue_demo_token_def demo_select
        demo_payload_accepted Let_def)
  then show ?thesis by (simp add: authenticate_def demo_identity_of_result [OF assms(2)])
qed

section \<open>Startup\<close>

text \<open>The policy the script writes, as a document of the loader.\<close>

definition demo_rule :: RolePolicyRule where
  "demo_rule = \<lparr>pr_role_table = [(''read:sensor:telemetry'', {''operator''})], pr_rule_name = ''demo-unused-v01-policy''\<rparr>"

text \<open>What a startup under the demonstration's environment meets outside: the text of the key map and
  the policy file read back as written, the kernel accepts the policy's rule, the bundle loads, and
  both evaluators can be built.\<close>

definition startup_ok ::
    "demo_lib \<Rightarrow> startup_lib \<Rightarrow> string \<Rightarrow> string \<Rightarrow> string \<Rightarrow> OperationAwareGatewayEvaluator \<Rightarrow> bool" where
  "startup_ok D L bundle_path tmp_dir pem E \<longleftrightarrow>
     bundle_path \<noteq> [] \<and> public_pem_ok pem
     \<and> (let text = dl_dumps D (PDict [(KID, PStr pem)]) in
        text \<noteq> [] \<and> sl_json_loads L text = Some (PDict [(KID, PStr pem)]))
     \<and> (case write_v01_policy D tmp_dir of (path, text) \<Rightarrow>
          path_exists (sl_fs L) path \<and> path_is_file (sl_fs L) path \<and> read_text (sl_fs L) path = Inr text
          \<and> json_loads (sl_fs L) text = Some v01_policy)
     \<and> rule_error (sl_policy L) demo_rule = None \<and> engine_error (sl_policy L) [demo_rule] = None
     \<and> (\<exists>K. sl_enforcement_point L [demo_rule] None = Inr K)
     \<and> (\<exists>bndl. load_operation_aware_policy_bundle (sl_fs L) (sl_policy L) bundle_path = Inr bndl
          \<and> construct_operation_aware_evaluator (sl_for_bundle L) bndl = Inr E)"

lemma demo_policy_loaded:
  assumes "startup_ok D L b tmp pem E"
  shows "load_policy_engine (sl_fs L) (sl_policy L) (fst (write_v01_policy D tmp)) = Inr [demo_rule]"
proof -
  let ?doc = "[(''demo-unused-v01-policy'', [(''read:sensor:telemetry'', [''operator''])])]"
  have d: "v01_policy = policy_json ?doc" by (simp add: v01_policy_def policy_json_def rule_json_def)
  have r: "doc_rule (hd ?doc) = demo_rule" by (simp add: doc_rule_def demo_rule_def)
  have "\<not> blank ''demo-unused-v01-policy''" "\<not> blank ''read:sensor:telemetry''" "\<not> blank ''operator''" by code_simp+
  then have "wf_rule demo_rule" by (simp add: wf_rule_def demo_rule_def)
  then have "parse_rules (sl_policy L) 0 (map rule_json ?doc) = Inr [demo_rule]"
    using assms r parse_rules_json [of ?doc "sl_policy L" 0] by (simp add: startup_ok_def)
  then have "engine_from_data (sl_policy L) p v01_policy = Inr [demo_rule]" for p
    using assms by (simp add: d engine_from_data_def policy_json_def dict_get_def startup_ok_def)
  then show ?thesis using assms by (auto simp: load_policy_engine_def startup_ok_def split: prod.splits)
qed

text \<open>The state of a demonstration application: the route is there, there is a writer, and
  authentication is set up; the evaluator is installed or not.\<close>

definition demo_state ::
    "demo_lib \<Rightarrow> string \<Rightarrow> string \<Rightarrow> string \<Rightarrow> OperationAwareGatewayEvaluator option \<Rightarrow> gateway_state \<Rightarrow> bool" where
  "demo_state D bundle_path v01_path pem e g \<longleftrightarrow>
     g_router g \<and> g_writer g \<noteq> None \<and> st_inv (audit_of g)
     \<and> as_config (g_app g) = Some (demo_config D bundle_path v01_path pem)
     \<and> as_trust_config (g_app g) = Some (demo_trust pem) \<and> as_oa_evaluator (g_app g) = e
     \<and> component_of (g_readiness g) OA_MODE = Some True
     \<and> component_of (g_readiness g) OA_BUNDLE = Some True
     \<and> component_of (g_readiness g) OA_EVALUATOR = Some True
     \<and> component_of (g_readiness g) OA_SEMANTIC = Some (e \<noteq> None)"

lemma demo_config_simps [simp]:
  "operation_aware_enabled (demo_config D b p pem)" "auth_mode (demo_config D b p pem) = BASIS_LOCAL_TOKEN"
  "policy_path (demo_config D b p pem) = Some p" "policy_version (demo_config D b p pem) = None"
  "operation_aware_policy_bundle_path (demo_config D b p pem) = Some b"
  "\<not> audit_fail_closed (demo_config D b p pem)" "audit_failure_threshold (demo_config D b p pem) = 10"
  "\<not> operation_producer_mtls_trusted_proxy_enabled (demo_config D b p pem)"
  "operation_producer_subject_ids (demo_config D b p pem) = {TRUSTED_PRODUCER_SUBJECT}"
  by (simp_all add: demo_config_def default_config_def)

lemma demo_config_valid:
  assumes "startup_ok D L b tmp pem E" and "p \<noteq> []"
  shows "validate_evaluation_config (demo_config D b p pem) = Inr ()"
    "validate_operation_aware_config (demo_config D b p pem) = Inr ()"
  using assms
  by (simp_all add: startup_ok_def validate_evaluation_config_def validate_operation_aware_config_def
      missing_local_settings_def demo_config_def default_config_def ISSUER_def AUDIENCE_def Let_def)

lemma demo_trust_started:
  assumes "startup_ok D L b tmp pem E"
  shows "build_basis_local_token_trust_config (sl_json_loads L) (demo_config D b p pem) = Inr (demo_trust pem)"
  using assms by (intro demo_trust_built) (simp_all add: startup_ok_def Let_def)

text \<open>Every stage before the preflight passes.\<close>

definition before_preflight :: "GatewayConfig \<Rightarrow> BasisLocalTokenTrustConfig \<Rightarrow> GatewayEvaluator \<Rightarrow> gateway_state" where
  "before_preflight config tc K =
     (set_ready OA_EVALUATOR (set_ready OA_BUNDLE (set_ready ''evaluator_initialized''
       (set_ready ''policy_loaded'' (set_ready ''basis_local_token_configured'' (prepared config create_app))))))
       \<lparr>g_app := empty_app\<lparr>as_config := Some config, as_trust_config := Some tc, as_evaluator := Some K\<rparr>\<rparr>"

lemma set_ready_app: "set_ready c (g\<lparr>g_app := a\<rparr>) = (set_ready c g)\<lparr>g_app := a\<rparr>"
  by (simp add: set_ready_def)

lemma g_app_twice: "g\<lparr>g_app := a, g_app := a'\<rparr> = (g :: gateway_state)\<lparr>g_app := a'\<rparr>"
  by simp

lemma demo_stages:
  assumes "startup_ok D L b tmp pem E" and "p = fst (write_v01_policy D tmp)"
  obtains K where "fallible_stages L (demo_config D b p pem) (prepared (demo_config D b p pem) create_app)
    = oa_preflight_stage L E (before_preflight (demo_config D b p pem) (demo_trust pem) K)"
proof -
  let ?c = "demo_config D b p pem"
  have p: "p \<noteq> []" by (simp add: assms(2) write_v01_policy_def)
  obtain K bndl where h: "sl_enforcement_point L [demo_rule] None = Inr K"
    "load_operation_aware_policy_bundle (sl_fs L) (sl_policy L) b = Inr bndl"
    "construct_operation_aware_evaluator (sl_for_bundle L) bndl = Inr E"
    using assms(1) unfolding startup_ok_def by blast
  have "fallible_stages L ?c (prepared ?c create_app) = oa_preflight_stage L E
      (before_preflight ?c (demo_trust pem) K)"
    using h p demo_config_valid [OF assms(1) p] demo_trust_started [OF assms(1)]
      demo_policy_loaded [OF assms(1), folded assms(2)]
    by (simp add: fallible_stages_def validate_stage_def auth_stage_def local_token_stage_def policy_stage_def
        evaluator_stage_def build_evaluator_def oa_stage_def oa_bundle_stage_def oa_construct_stage_def
        stage_bind_def attributed_def modify_def stage_done_def opt_or_def before_preflight_def set_ready_app
        prepared_simps(1))
  then show thesis by (rule that)
qed

text \<open>The preflight's verdict, as the code distinguishes it.\<close>

definition preflight_passes :: "OperationAwareGatewayEvaluator \<Rightarrow> datetime \<Rightarrow> bool" where
  "preflight_passes E now \<longleftrightarrow> (\<exists>result. preflight_operation_aware_evaluator E now = Inr result)"

definition preflight_rejects :: "OperationAwareGatewayEvaluator \<Rightarrow> datetime \<Rightarrow> bool" where
  "preflight_rejects E now \<longleftrightarrow> (\<exists>s f. preflight_operation_aware_evaluator E now = Inl (OperationAwarePreflightError s f))"

lemma oa_component_names:
  "OA_MODE \<noteq> OA_BUNDLE" "OA_MODE \<noteq> OA_EVALUATOR" "OA_MODE \<noteq> OA_SEMANTIC" "OA_BUNDLE \<noteq> OA_EVALUATOR"
  "OA_BUNDLE \<noteq> OA_SEMANTIC" "OA_EVALUATOR \<noteq> OA_SEMANTIC"
  "OA_MODE \<notin> {''configuration_loaded'', ''basis_local_token_configured'', ''policy_loaded'', ''evaluator_initialized'',
     ''app''}"
  "OA_BUNDLE \<notin> {''configuration_loaded'', ''basis_local_token_configured'', ''policy_loaded'', ''evaluator_initialized'',
     ''app''}"
  "OA_EVALUATOR \<notin> {''configuration_loaded'', ''basis_local_token_configured'', ''policy_loaded'', ''evaluator_initialized'',
     ''app''}"
  "OA_SEMANTIC \<notin> {''configuration_loaded'', ''basis_local_token_configured'', ''policy_loaded'', ''evaluator_initialized'',
     ''app''}"
  by (simp_all add: OA_MODE_def OA_BUNDLE_def OA_EVALUATOR_def OA_SEMANTIC_def)

lemma prepared_oa:
  assumes "operation_aware_enabled config"
  shows "component_of (g_readiness (prepared config g)) OA_MODE = Some True"
    "component_of (g_readiness (prepared config g)) OA_SEMANTIC = Some False"
  using assms oa_component_names
  by (simp_all add: prepared_def early_stages_def stage_bind_def modify_def register_router_stage_def
      audit_writer_stage_def oa_readiness_stage_def)

lemma demo_started:
  assumes "startup_ok D L b tmp pem E" and "sl_load_config L = Inr (demo_config D b p pem)"
    and "p = fst (write_v01_policy D tmp)" and "preflight_passes E (sl_now L) \<or> preflight_rejects E (sl_now L)"
  shows "demo_state D b p pem (if preflight_passes E (sl_now L) then Some E else None) (lifespan_startup L create_app)"
proof -
  let ?c = "demo_config D b p pem"
  have inv: "st_inv (audit_of (lifespan_startup L create_app))"
    unfolding audit_of_def by (rule lifespan_inv) (simp add: create_app_def st_inv_def)
  obtain K where "fallible_stages L ?c (prepared ?c create_app) = oa_preflight_stage L E (before_preflight ?c (demo_trust pem) K)"
    by (rule demo_stages [OF assms(1,3)])
  then have K: "startup_stages L create_app = oa_preflight_stage L E (before_preflight ?c (demo_trust pem) K)"
    by (simp only: startup_stages_eq assms(2) sum.case(2))
  note state = demo_state_def before_preflight_def prepared_simps(2,3) prepared_oa build_audit_writer_def
    oa_component_names [simplified]
  show ?thesis
  proof (cases "preflight_passes E (sl_now L)")
    case True
    then obtain result where "preflight_operation_aware_evaluator E (sl_now L) = Inr result"
      by (auto simp: preflight_passes_def)
    then have "lifespan_startup L create_app = (let g' = set_ready OA_SEMANTIC (before_preflight ?c (demo_trust pem) K)
        in g'\<lparr>g_app := (g_app g')\<lparr>as_oa_evaluator := Some E\<rparr>\<rparr>)"
      by (simp add: lifespan_startup_def K oa_preflight_stage_def attributed_def stage_bind_def modify_def Let_def)
    then show ?thesis using inv True by (simp add: state Let_def)
  next
    case False
    then obtain s f where "preflight_operation_aware_evaluator E (sl_now L) = Inl (OperationAwarePreflightError s f)"
      using assms(4) by (auto simp: preflight_rejects_def)
    then have l: "\<exists>m. lifespan_startup L create_app
        = startup_failed m (set_not_ready (exn_msg m) OA_SEMANTIC (before_preflight ?c (demo_trust pem) K))"
      by (auto simp: lifespan_startup_def K oa_preflight_stage_def attributed_def stage_bind_def)
    obtain m where m: "lifespan_startup L create_app
        = startup_failed m (set_not_ready (exn_msg m) OA_SEMANTIC (before_preflight ?c (demo_trust pem) K))"
      using l by blast
    have "component_of (g_readiness (startup_failed m g)) c = component_of (g_readiness g) c"
      if "c \<noteq> ''app''" for c g using that by (simp add: startup_failed_def)
    then show ?thesis using inv False unfolding m
      by (simp add: state startup_failed_simps empty_app_def)
  qed
qed

section \<open>Requests of the demonstration\<close>

definition demo_user :: "int \<Rightarrow> string \<Rightarrow> NormalizedSubject \<times> IdentityContext" where
  "demo_user now uuid = demo_identity now uuid OPERATOR_SUBJECT [''operator'']"

definition user_trust :: OperationProducerTrust where
  "user_trust = \<lparr>ot_status = UNTRUSTED, ot_source = SUBJECT_ID_NOT_ALLOWED,
     ot_authorization_subject_id = OPERATOR_SUBJECT, ot_operation_producer_subject_id = None,
     ot_producer_workload_identity = None\<rparr>"

text \<open>What a call relies on: the token reads back and is one word, the JSON body reads back, the
  correlation id is not blank, the clock is aware, and events can be constructed.\<close>

definition call_ok ::
    "demo_lib \<Rightarrow> gateway_lib \<Rightarrow> client_call \<Rightarrow> string \<Rightarrow> string \<Rightarrow> int \<Rightarrow> string \<Rightarrow> pyval dict \<Rightarrow> bool" where
  "call_ok D G call private_key pem now uuid body \<longleftrightarrow>
     jwt_round_trip D (gl_jwt G) private_key pem (demo_claims now uuid OPERATOR_SUBJECT [''operator''])
     \<and> clock_ok now
     \<and> (let token = issue_demo_token D private_key now uuid OPERATOR_SUBJECT [''operator''] in
        CHR '' '' \<notin> set token \<and> CHR 0x09 \<notin> set token)
     \<and> gl_parse_json G (dl_dumps D (PDict body)) = Some (PDict body)
     \<and> \<not> blank (cc_correlation_id call) \<and> is_aware (cc_compose_clock call)
     \<and> (\<forall>ev. ae_accepts (gl_audit G) ev)"

lemma operator_not_blank: "\<not> blank OPERATOR_SUBJECT"
  by code_simp

lemma demo_call_authenticated:
  assumes "demo_state D b p pem e g" and "call_ok D G call key pem now uuid body"
  shows "app_authenticate (capturing G) (g_app g) (issue_demo_token D key now uuid OPERATOR_SUBJECT [''operator''])
    = Inr (demo_user now uuid)"
  using assms demo_token_identity [of D "gl_jwt G" key pem now uuid OPERATOR_SUBJECT "[''operator'']"]
  by (simp add: app_authenticate_def demo_state_def call_ok_def capturing_def demo_user_def operator_not_blank)

lemma demo_call_bearer:
  assumes "call_ok D G call key pem now uuid body"
  shows "extract_bearer_token (Some (''Bearer '' @ issue_demo_token D key now uuid OPERATOR_SUBJECT [''operator'']))
    = Inr (issue_demo_token D key now uuid OPERATOR_SUBJECT [''operator''])"
proof -
  have "\<not> blank (issue_demo_token D key now uuid OPERATOR_SUBJECT [''operator''])"
    using assms by (simp add: call_ok_def jwt_round_trip_def issue_demo_token_def Let_def)
  then have "issue_demo_token D key now uuid OPERATOR_SUBJECT [''operator''] \<noteq> []" by (auto simp: blank_iff)
  then show ?thesis using assms
    by (simp add: extract_bearer_token_def BEARER_PREFIX_def startswith_def call_ok_def Let_def)
qed

lemma demo_user_simps [simp]:
  "subject_id (fst (demo_user now uuid)) = OPERATOR_SUBJECT" "ic_subject_id (snd (demo_user now uuid)) = OPERATOR_SUBJECT"
  by (simp_all add: demo_user_def demo_identity_def)

lemma demo_call_trust:
  assumes "demo_state D b p pem e g"
  shows "app_producer_trust G (g_app g) req (fst (demo_user now uuid)) = Inr user_trust"
proof -
  have "OPERATOR_SUBJECT \<noteq> TRUSTED_PRODUCER_SUBJECT" by (simp add: OPERATOR_SUBJECT_def TRUSTED_PRODUCER_SUBJECT_def)
  then show ?thesis using assms
    by (simp add: app_producer_trust_def demo_state_def resolve_operation_producer_trust_def
        classify_operation_producer_def user_trust_def)
qed

lemma demo_call_consistent: "check_identity_consistency (fst (demo_user now uuid)) (snd (demo_user now uuid)) user_trust = Inr ()"
  by (simp add: check_identity_consistency_def user_trust_def)

lemma user_untrusted [simp]: "ot_status user_trust = UNTRUSTED"
  by (simp add: user_trust_def)

text \<open>The request the client sends, as the route sees it.\<close>

definition sent :: "demo_lib \<Rightarrow> client_call \<Rightarrow> string \<Rightarrow> pyval dict \<Rightarrow> http_request" where
  "sent D call token body = (demo_request D call token body)\<lparr>hr_correlation_id := cc_correlation_id call\<rparr>"

lemma sent_simps [simp]:
  "hr_correlation_id (sent D call token body) = cc_correlation_id call"
  "hr_compose_clock (sent D call token body) = cc_compose_clock call"
  "hr_oa_call (sent D call token body) = cc_oa_call call"
  "hr_authorization (sent D call token body) = Some (''Bearer '' @ token)"
  "hr_body (sent D call token body) = Inr (dl_dumps D (PDict body))"
  by (simp_all add: sent_def demo_request_def)

lemma capturing_simps [simp]:
  "gl_jwt (capturing G) = gl_jwt G" "gl_parse_json (capturing G) = gl_parse_json G"
  "gl_nested (capturing G) = gl_nested G" "ae_accepts (gl_audit (capturing G)) = ae_accepts (gl_audit G)"
  by (simp_all add: capturing_def)

lemma post_oa_demo:
  assumes "demo_state D b p pem e (da_state app)"
  shows "post_oa D G call app token body =
    (let (r, st) = evaluate_operation_aware (capturing G) (g_app (da_state app)) (sent D call token body)
           (audit_of (da_state app))
     in (client_reply D (Some r), \<lparr>da_state = with_audit st (da_state app)\<rparr>))"
  using assms by (simp add: post_oa_def serve_operation_aware_def demo_state_def sent_def split: prod.split)

lemma demo_not_blocked:
  assumes "demo_state D b p pem e g"
  shows "evaluate_operation_aware G (g_app g) req st = oa_answer (oa_steps G (g_app g) req st)"
  using assms by (auto simp: oa_cases audit_blocks_def demo_state_def)

section \<open>The untrusted producer\<close>

definition demo_oq :: "string \<Rightarrow> string option \<Rightarrow> string option \<Rightarrow> pyval option \<Rightarrow> OperationAwareEvaluateRequest" where
  "demo_oq action resource_type resource_id intent =
     \<lparr>oq_request_id = None, oq_action = action, oq_resource_type = resource_type, oq_resource_id = resource_id,
      oq_context = [], oq_operation_intent = intent, oq_location = None, oq_device = None,
      oq_protocol_context = None, oq_safety_context = None, oq_environment_context = None, oq_risk_context = None,
      oq_identity_evidence_reference = None, oq_adapter_evidence_reference = None\<rparr>"

lemmas validate_simps = OperationAwareEvaluateRequest_validate_def nested_field_def oa_context_field_def
  context_field_def action_field_def action_not_empty_def opt_str_field_def extra_errors_def evaluate_fields_def
  OPERATION_PRODUCER_ONLY_FIELDS_def ok_def val_def demo_oq_def

lemma untrusted_body_validates:
  assumes "nested ''operation_intent'' (PStr ''read_only'') = Inr v"
  shows "OperationAwareEvaluateRequest_validate nested (PDict untrusted_body) = Inr (demo_oq ''read:ahu'' None None (Some v))"
proof -
  have "strip ''read:ahu'' \<noteq> []" by code_simp
  then show ?thesis using assms by (simp add: validate_simps untrusted_body_def)
qed

lemma demo_oq_producer_fields:
  "present_operation_producer_only_fields (demo_oq a t i intent) = (if intent = None then [] else [''operation_intent''])"
  by (simp add: present_operation_producer_only_fields_def OPERATION_PRODUCER_ONLY_FIELDS_def demo_oq_def)

lemma untrusted_compose:
  assumes "\<not> blank corr"
  shows "compose_operation_aware_input (demo_oq a t i (Some v)) (fst (demo_user now uuid)) (snd (demo_user now uuid))
    user_trust corr clk = Inl (UntrustedOperationProducerContextError [''operation_intent''])"
  using assms
  by (simp add: compose_operation_aware_input_def demo_call_consistent demo_oq_producer_fields Let_def)

definition rejection_event :: "http_request \<Rightarrow> AuditEvent" where
  "rejection_event req = oa_event req COMPOSITION_REJECTED (Some REASON_PRODUCER_CONTEXT_REJECTED) (Some 400)
     (Some OPERATOR_SUBJECT)"

lemma untrusted_answer:
  assumes "demo_state D b p pem e g" and "call_ok D G call key pem now uuid untrusted_body"
    and "gl_nested G ''operation_intent'' (PStr ''read_only'') = Inr v"
    and "req = sent D call (issue_demo_token D key now uuid OPERATOR_SUBJECT [''operator'']) untrusted_body"
  obtains m where "evaluate_operation_aware (capturing G) (g_app g) req st =
      (Inr (validation_failed m (cc_correlation_id call)), emit_event (gl_audit (capturing G)) (rejection_event req) st)"
proof -
  have parse: "model_validate_json (gl_parse_json (capturing G))
      (OperationAwareEvaluateRequest_validate (gl_nested (capturing G))) (hr_body req)
      = Inr (demo_oq ''read:ahu'' None None (Some v))"
    using assms(2) untrusted_body_validates [of "gl_nested G", OF assms(3)] by (simp add: assms(4) model_validate_json_def call_ok_def)
  have corr: "\<not> blank (cc_correlation_id call)" using assms(2) by (simp add: call_ok_def)
  have "evaluate_operation_aware (capturing G) (g_app g) req st =
      (Inr (validation_failed (comp_exn_msg (UntrustedOperationProducerContextError [''operation_intent'']))
         (cc_correlation_id call)), emit_event (gl_audit (capturing G)) (rejection_event req) st)"
    unfolding demo_not_blocked [OF assms(1)]
    using parse demo_call_bearer [OF assms(2)] demo_call_authenticated [OF assms(1,2)]
      demo_call_trust [OF assms(1)] untrusted_compose [OF corr]
    by (simp add: oa_steps_def oa_parse_step_def oa_bearer_step_def oa_authenticate_step_def oa_authenticated_def
        oa_trust_step_def oa_compose_step_def assms(4) oa_answer_def oa_reject_def reject_def step_bind_def
        step_return_def rejection_event_def composition_failure_reason_def response_helper_status)
  then show thesis by (rule that)
qed

lemma rejection_not_completed: "ev_action (rejection_event req) \<noteq> AUTHORIZATION_COMPLETED"
  by (simp add: rejection_event_def oa_event_def oa_system_event_def COMPOSITION_REJECTED_def AUTHORIZATION_COMPLETED_def)

text \<open>The untrusted-producer scenario passes whatever the policy and the kernel are, and even without
  an evaluator: an operator who is authenticated but not on the producer allowlist and
  sends one producer-only field is answered 400, no completed record is written, and exactly one
  system event is, the rejection of the composition, naming the operator.\<close>

theorem untrusted_producer_scenario_passes:
  assumes "demo_state D b p pem e (da_state app)" and "call_ok D G call key pem now uuid untrusted_body"
    and "gl_nested G ''operation_intent'' (PStr ''read_only'') = Inr v"
  shows "\<exists>report app'. run_untrusted_producer_scenario D G call app OPERATOR_SUBJECT
        (issue_demo_token D key now uuid OPERATOR_SUBJECT [''operator'']) [(''http_status'', PInt 400)] = (report, app')
     \<and> sr_passed report \<and> dict_get (sr_details report) ''kernel_invoked'' = PBool False
     \<and> dict_get (sr_details report) ''system_event_reason'' = PStr REASON_PRODUCER_CONTEXT_REJECTED
     \<and> (\<exists>ev. sink_events app' = sink_events app @ [ev] \<and> ev_subject_id ev = Some OPERATOR_SUBJECT)"
proof -
  let ?req = "sent D call (issue_demo_token D key now uuid OPERATOR_SUBJECT [''operator'']) untrusted_body"
  let ?g = "da_state app"
  let ?A = "gl_audit (capturing G)"
  obtain m where m: "evaluate_operation_aware (capturing G) (g_app ?g) ?req (audit_of ?g) =
      (Inr (validation_failed m (cc_correlation_id call)), emit_event ?A (rejection_event ?req) (audit_of ?g))"
    by (rule untrusted_answer [OF assms refl])
  define app' where "app' = \<lparr>da_state = with_audit (emit_event ?A (rejection_event ?req) (audit_of ?g)) ?g\<rparr>"
  have post: "post_oa D G call app (issue_demo_token D key now uuid OPERATOR_SUBJECT [''operator'']) untrusted_body
      = (reply_of D (validation_failed m (cc_correlation_id call)), app')"
    using m by (simp add: post_oa_demo [OF assms(1)] client_reply_def app'_def)
  have trail: "sink_events app' = sink_events app @ [rejection_event ?req]"
    using assms(1,2)
    by (simp add: app'_def sink_events_def audit_of_def with_audit_def st_trail_emit demo_state_def call_ok_def)
  show ?thesis
    using trail rejection_not_completed
    by (simp add: run_untrusted_producer_scenario_def post new_events_def completed_events_def compare_def
        reply_of_def response_helper_status dict_get_def scalar_eq_def number_of_def Let_def opt_pyval_def)
      (simp add: rejection_event_def oa_event_def oa_system_event_def)
qed

section \<open>The semantic startup failure\<close>

definition probe_body :: "pyval dict" where
  "probe_body = [(''action'', PStr ''read:ahu'')]"

lemma probe_body_validates:
  "OperationAwareEvaluateRequest_validate nested (PDict probe_body) = Inr (demo_oq ''read:ahu'' None None None)"
proof -
  have "strip ''read:ahu'' \<noteq> []" by code_simp
  then show ?thesis by (simp add: validate_simps probe_body_def)
qed

text \<open>The request the kernel gets for a composed request of the operator.\<close>

definition kernel_request :: "client_call \<Rightarrow> string \<Rightarrow> string option \<Rightarrow> string option \<Rightarrow> OADecisionRequest" where
  "kernel_request call action resource_type resource =
     \<lparr>ok_request_id = cc_correlation_id call, ok_correlation_id = Some (cc_correlation_id call),
      ok_subject_id = OPERATOR_SUBJECT, ok_subject_roles = [''operator''], ok_subject_attrs = [],
      ok_identity_evidence_reference = None, ok_action = action, ok_resource = resource,
      ok_resource_type = resource_type, ok_location = None, ok_device = None, ok_protocol_context = None,
      ok_operation_intent = None, ok_adapter_evidence_reference = None, ok_safety_context = None,
      ok_environment_context = None, ok_risk_context = None, ok_evaluation_time = cc_compose_clock call\<rparr>"

lemma demo_user_request:
  "roles (fst (demo_user now uuid)) = [''operator'']" "attributes (fst (demo_user now uuid)) = []"
proof -
  have "sorted_set [''operator''] = [''operator'']" by (rule sorted_distinct_set_unique) simp_all
  then show "roles (fst (demo_user now uuid)) = [''operator'']" "attributes (fst (demo_user now uuid)) = []"
    by (simp_all add: demo_user_def demo_identity_def)
qed

lemma demo_compose:
  assumes "\<not> blank (cc_correlation_id call)" and "is_aware (cc_compose_clock call)"
    and "compose_action a t = Inr action" and "compose_resource_id t i = Inr rc"
  obtains c where "compose_operation_aware_input (demo_oq a t i None) (fst (demo_user now uuid)) (snd (demo_user now uuid))
      user_trust (cc_correlation_id call) (cc_compose_clock call) = Inr c"
    "oa_request_of c = kernel_request call action t (rc_resource_id rc)"
    "reject_unexpected_composed_context_keys (ci_context c) = Inr ()"
proof -
  let ?compose = "\<lambda>f. f (demo_oq a t i None) (fst (demo_user now uuid)) (snd (demo_user now uuid))
      user_trust (cc_correlation_id call) (cc_compose_clock call)"
  have o: "oq_action (demo_oq a t i None) = a" "oq_resource_type (demo_oq a t i None) = t"
    "oq_resource_id (demo_oq a t i None) = i" "oq_context (demo_oq a t i None) = []"
    by (simp_all add: demo_oq_def)
  have "\<exists>c. ?compose compose_accepted = Inr c \<and> oa_request_of c = kernel_request call action t (rc_resource_id rc)"
    using assms(2-4) o
    by (simp add: compose_accepted_Inr oa_request_of_def kernel_request_def demo_user_request str_attrs_def)
      (simp add: demo_oq_def)
  then obtain c where c: "?compose compose_accepted = Inr c"
    "oa_request_of c = kernel_request call action t (rc_resource_id rc)" by blast
  have compose: "?compose compose_operation_aware_input = Inr c"
    using assms(1) o c(1)
    by (simp add: compose_operation_aware_input_def demo_call_consistent demo_oq_producer_fields
        reserved_key_collisions_def Let_def)
  obtain a' rc' where "ci_context c = combined_context (demo_oq a t i None) a' rc'"
    using composed_context_eq [OF compose] by blast
  then have "reject_unexpected_composed_context_keys (ci_context c) = Inr ()"
    using combined_context_keys [OF o(4)] by (intro reserved_context_accepted) (simp only:)
  with compose c(2) show thesis by (rule that)
qed

lemma demo_app_state:
  assumes "clean_environment environ" and "st_bool S ''true'' = Some True" and "startup_ok D L b tmp pem E"
    and "p = fst (write_v01_policy D tmp)" and "preflight_passes E (sl_now L) \<or> preflight_rejects E (sl_now L)"
  shows "demo_state D b p pem (if preflight_passes E (sl_now L) then Some E else None)
     (da_state (fst (build_demo_app D S L b p pem environ)))"
proof -
  let ?L = "L\<lparr>sl_load_config := load_config S (lowered (demo_environment_enter D b p pem environ))\<rparr>"
  have "startup_ok D ?L b tmp pem E" using assms(3) by (simp add: startup_ok_def)
  moreover have "sl_load_config ?L = Inr (demo_config D b p pem)"
    by (simp add: demo_configuration_loaded [OF assms(1,2)])
  ultimately have "demo_state D b p pem (if preflight_passes E (sl_now ?L) then Some E else None)
      (lifespan_startup ?L create_app)"
    using assms(4,5) by (intro demo_started) simp_all
  then show ?thesis by (simp add: build_demo_app_def Let_def)
qed

lemma demo_ready:
  assumes "demo_state D b p pem None (da_state app)"
  shows "rp_status (get_ready D call app) = 503"
    "dict_get (or_empty (dict_get (rp_json (get_ready D call app)) ''components'')) c =
      (case component_of (g_readiness (da_state app)) c of None \<Rightarrow> PNone | Some v \<Rightarrow> PBool v)"
proof -
  let ?rs = "g_readiness (da_state app)"
  have s: "component_of ?rs OA_SEMANTIC = Some False" using assms by (simp add: demo_state_def)
  have "readiness_inv ?rs" using assms
    by (auto simp: demo_state_def st_inv_def audit_of_def audit_inv_def split: option.splits)
  then have "\<not> is_ready ?rs" using s by (rule rdy.status_False_blocks)
  then have r: "ready ?rs (cc_correlation_id call) = \<lparr>status_code = 503, content = ReadyBody
      \<lparr>ry_status = ''not_ready'', ry_service = SERVICE_NAME, ry_components = components ?rs,
       ry_reason = Some (case reason ?rs of
          Some m \<Rightarrow> if m = ([], []) then (''application not initialized'', []) else m
        | None \<Rightarrow> (''application not initialized'', [])),
       ry_reasons = all_reasons ?rs, ry_correlation_id = Some (cc_correlation_id call)\<rparr>\<rparr>"
    by (simp add: ready_def)
  then show "rp_status (get_ready D call app) = 503" by (simp add: get_ready_def reply_of_def)
  have ne: "components ?rs \<noteq> []" using s by (auto simp: component_of_def)
  show "dict_get (or_empty (dict_get (rp_json (get_ready D call app)) ''components'')) c =
      (case component_of ?rs c of None \<Rightarrow> PNone | Some v \<Rightarrow> PBool v)"
    by (simp add: get_ready_def reply_of_def r body_json_def dict_get_def ne or_empty_def component_of_def map_of_map
        split: option.split)
qed

lemma probe_composes:
  "compose_action ''read:ahu'' None = Inr ''read:ahu''" "\<exists>rc. compose_resource_id None None = Inr rc"
  by (code_simp, simp add: compose_resource_id_def)

lemma probe_answer:
  assumes "demo_state D b p pem None (da_state app)" and "call_ok D G call key pem now uuid probe_body"
  shows "rp_status (fst (post_oa D G call app
    (issue_demo_token D key now uuid OPERATOR_SUBJECT [''operator'']) probe_body)) = 503"
proof -
  let ?req = "sent D call (issue_demo_token D key now uuid OPERATOR_SUBJECT [''operator'']) probe_body"
  let ?g = "da_state app"
  obtain rc where rc: "compose_resource_id None None = Inr rc" using probe_composes(2) by blast
  obtain c where c: "compose_operation_aware_input (demo_oq ''read:ahu'' None None None) (fst (demo_user now uuid))
      (snd (demo_user now uuid)) user_trust (cc_correlation_id call) (cc_compose_clock call) = Inr c"
    by (rule demo_compose [OF _ _ probe_composes(1) rc, of call now uuid]) (use assms(2) in \<open>simp_all add: call_ok_def\<close>)
  have parse: "model_validate_json (gl_parse_json (capturing G))
      (OperationAwareEvaluateRequest_validate (gl_nested (capturing G))) (hr_body ?req)
      = Inr (demo_oq ''read:ahu'' None None None)"
    using assms(2) by (simp add: model_validate_json_def call_ok_def probe_body_validates)
  have trust: "app_producer_trust (capturing G) (g_app ?g) ?req (fst (demo_user now uuid)) = Inr user_trust"
    by (rule demo_call_trust [OF assms(1)])
  have "oa_status_spec (capturing G) (g_app ?g) ?req w = Inr 503" for w
    using parse demo_call_bearer [OF assms(2)] demo_call_authenticated [OF assms] trust c assms(1)
    by (cases "demo_user now uuid") (simp add: oa_status_spec_def demo_state_def)
  then have "res_status (fst (evaluate_operation_aware (capturing G) (g_app ?g) ?req (audit_of ?g))) = Inr 503"
    by (simp add: demo_not_blocked [OF assms(1)] oa_steps_status)
  then obtain r where "fst (evaluate_operation_aware (capturing G) (g_app ?g) ?req (audit_of ?g)) = Inr r"
    "status_code r = 503" by (auto simp: res_status_def map_sum_def split: sum.splits)
  then show ?thesis by (simp add: post_oa_demo [OF assms(1)] client_reply_def reply_of_def case_prod_beta)
qed

definition semantic_expected :: "pyval dict" where
  "semantic_expected = [(''health_status'', PInt 200), (''ready_status'', PInt 503),
     (''operation_aware_route_status'', PInt 503)]"

text \<open>The hypotheses on the outside world for the application with the invalid bundle.\<close>

definition semantic_world_ok :: "demo_world \<Rightarrow> string dict \<Rightarrow> bool" where
  "semantic_world_ok W environ \<longleftrightarrow>
     (let D = dw_lib W; path = INVALID_BUNDLE_PATH (dw_demo_dir W); L = dw_startup W path;
          pem = dl_public_pem D (dw_private_key W) in
      clean_environment environ \<and> st_bool (dw_settings W) ''true'' = Some True
      \<and> (\<exists>E. startup_ok D L path (dw_tmp_dir W) pem E \<and> preflight_rejects E (sl_now L))
      \<and> (case dw_token W ''semantic-startup-failure'' of (now, uuid) \<Rightarrow>
           call_ok D (dw_gateway W) (dw_call W ''semantic-startup-failure'') (dw_private_key W) pem now uuid probe_body))"

text \<open>The semantic-startup-failure scenario passes: when the bundle loads and its evaluator can be built,
  but the preflight rejects it, the application started by \<^verbatim>\<open>build_demo_app\<close> is alive
  (health 200), not ready (503, with the three earlier components up and the semantic one down),
  its route answers the authenticated operator 503, never 404, and the scenario reports
  no mismatch.\<close>

theorem semantic_startup_failure_scenario_passes:
  assumes "semantic_world_ok W environ"
  shows "sr_passed (fst (run_semantic_startup_failure_scenario W semantic_expected environ))
    \<and> dict_get (sr_details (fst (run_semantic_startup_failure_scenario W semantic_expected environ))) ''components''
      = PDict [(OA_MODE, PBool True), (OA_BUNDLE, PBool True), (OA_EVALUATOR, PBool True), (OA_SEMANTIC, PBool False)]"
proof -
  define D where "D = dw_lib W"
  define path where "path = INVALID_BUNDLE_PATH (dw_demo_dir W)"
  define p where "p = fst (write_v01_policy D (dw_tmp_dir W))"
  define pem where "pem = dl_public_pem D (dw_private_key W)"
  define call where "call = dw_call W ''semantic-startup-failure''"
  obtain now uuid where tok: "dw_token W ''semantic-startup-failure'' = (now, uuid)" by (metis surj_pair)
  obtain E where h: "clean_environment environ" "st_bool (dw_settings W) ''true'' = Some True"
    "startup_ok D (dw_startup W path) path (dw_tmp_dir W) pem E" "preflight_rejects E (sl_now (dw_startup W path))"
    "call_ok D (dw_gateway W) call (dw_private_key W) pem now uuid probe_body"
    using assms tok unfolding semantic_world_ok_def D_def path_def p_def pem_def call_def by (auto simp: Let_def)
  define app where "app = fst (demo_app W path environ)"
  have "\<not> preflight_passes E (sl_now (dw_startup W path))"
    using h(4) by (auto simp: preflight_rejects_def preflight_passes_def)
  then have g: "demo_state D path p pem None (da_state app)"
    using demo_app_state [OF h(1-3) p_def] h(4)
    by (simp add: app_def demo_app_def D_def p_def pem_def)
  have health: "rp_status (get_health D) = 200" by (simp add: get_health_def reply_of_def health_def)
  define token where "token = demo_token W ''semantic-startup-failure''"
  have "token = issue_demo_token D (dw_private_key W) now uuid OPERATOR_SUBJECT [''operator'']"
    by (simp add: token_def demo_token_def tok D_def)
  then have route: "rp_status (fst (post_oa D (dw_gateway W) call app token probe_body)) = 503"
    using probe_answer [OF g h(5)] by simp
  note names = OA_MODE_def OA_BUNDLE_def OA_EVALUATOR_def OA_SEMANTIC_def
  let ?comp = "or_empty (dict_get (rp_json (get_ready D call app)) ''components'')"
  have comp: "dict_get ?comp OA_MODE = PBool True" "dict_get ?comp OA_BUNDLE = PBool True"
    "dict_get ?comp OA_EVALUATOR = PBool True" "dict_get ?comp OA_SEMANTIC = PBool False"
    using g by (simp_all add: demo_ready(2) [OF g] demo_state_def)
  have order: "OPERATION_AWARE_COMPONENTS = [OA_MODE, OA_BUNDLE, OA_EVALUATOR, OA_SEMANTIC]"
    by (simp add: OPERATION_AWARE_COMPONENTS_def names)
  have "semantic_mismatches D ?comp 503 = []"
    using comp by (simp add: semantic_mismatches_def order OA_SEMANTIC_def)
  moreover obtain oa_resp app' where post: "post_oa D (dw_gateway W) call app token probe_body = (oa_resp, app')"
    by (metis surj_pair)
  moreover have "rp_status oa_resp = 503" using route post by simp
  moreover obtain environ' where "demo_app W path environ = (app, environ')" by (simp add: app_def) (metis surj_pair fst_conv)
  ultimately show ?thesis
    using comp health demo_ready(1) [OF g]
    by (simp add: run_semantic_startup_failure_scenario_def D_def [symmetric] path_def [symmetric] call_def [symmetric]
        token_def [symmetric] probe_body_def [symmetric] Let_def compare_def semantic_expected_def dict_get_def
        scalar_eq_def number_of_def order)
qed

end
