(* ===== verification/GW_Demo_Result.thy ===== *)
theory GW_Demo_Result
  imports GW_Demo_Runs
begin

text \<open>
  \<^verbatim>\<open>demo/operation-aware/run_demo.py\<close>, second part: the four scenarios the kernel decides, the run
  of all of them with its exit code, and a concrete world in which every
  hypothesis holds. A mismatch of a scenario is data, not an exception, so the exit
  code is proved to tell the truth for every world.
\<close>

section \<open>The completed scenarios\<close>

lemma completed_body_validates:
  assumes "strip a \<noteq> []"
  shows "OperationAwareEvaluateRequest_validate nested (PDict (completed_body a t i))
    = Inr (demo_oq a (Some t) (Some i) None)"
proof -
  have "a \<noteq> []" using assms by (auto simp: strip_def strip_by_def)
  then show ?thesis using assms by (simp add: validate_simps completed_body_def)
qed

text \<open>The result the kernel is expected to give: completed, with the outcome, and with evidence
  that carries its own id and the matched rules.\<close>

definition good_result :: "oa_outcome \<Rightarrow> OAResult \<Rightarrow> bool" where
  "good_result u result \<longleftrightarrow>
     or_evaluation_status (rr_response result) = COMPLETED \<and> or_outcome (rr_response result) = Some u
     \<and> or_failure_reason (rr_response result) = None \<and> \<not> blank (or_request_id (rr_response result))
     \<and> rr_disposition result = (if u = OA_ALLOW then DISP_ALLOW else DISP_DENY)
     \<and> (\<exists>v ids. rr_audit_evidence result = Some v \<and> \<not> blank (evd_evidence_id v)
          \<and> map_of (evd_dump v) ''evidence_id'' = Some (PStr (evd_evidence_id v))
          \<and> map_of (evd_dump v) ''matched_rule_ids'' = Some (PList (map PStr ids)))"

definition kernel_gives ::
    "OperationAwareGatewayEvaluator \<Rightarrow> client_call \<Rightarrow> OADecisionRequest \<Rightarrow> oa_outcome \<Rightarrow> bool" where
  "kernel_gives E call request u \<longleftrightarrow>
     oa_request_error E request = None \<and> is_aware (call_clock (cc_oa_call call))
     \<and> (\<exists>result. oa_ep_evaluate E request (trace_id_factory (cc_oa_call call)) (evidence_id_factory (cc_oa_call call))
            (call_clock (cc_oa_call call)) = Inr result \<and> good_result u result)"

definition outcome_expected :: "oa_outcome \<Rightarrow> pyval dict" where
  "outcome_expected u = [(''http_status'', PInt (if u = OA_ALLOW then 200 else 403)),
     (''evaluation_status'', PStr ''completed''), (''outcome'', PStr (outcome_value u)),
     (''disposition'', PStr (if u = OA_ALLOW then ''allow'' else ''deny''))]"

lemma good_result_record:
  assumes "good_result u result"
  obtains v ids where "rr_audit_evidence result = Some v" "record_ok st result"
    "map_of (evd_dump v) ''evidence_id'' = Some (PStr (evd_evidence_id v))"
    "map_of (evd_dump v) ''matched_rule_ids'' = Some (PList (map PStr ids))"
    "ev_action (final_event req c result) = AUTHORIZATION_COMPLETED"
    "map_of (ev_detail (final_event req c result)) ''audit_evidence'' = Some (PDict (evd_dump v))"
    "\<exists>ge. map_of (ev_detail (final_event req c result)) ''gateway_audit_event'' = Some (PDict ge)
       \<and> map_of ge ''audit_evidence_id'' = Some (PStr (evd_evidence_id v))"
proof -
  obtain v ids where v: "rr_audit_evidence result = Some v" "\<not> blank (evd_evidence_id v)"
    "map_of (evd_dump v) ''evidence_id'' = Some (PStr (evd_evidence_id v))"
    "map_of (evd_dump v) ''matched_rule_ids'' = Some (PList (map PStr ids))"
    using assms unfolding good_result_def by blast
  obtain e where e: "assemble_gateway_audit_event result = Inr (Some e)"
    using assemble_ok_iff [of result] assms v(1,2) by (auto simp: good_result_def kernel_result_ok_def)
  have id: "ga_audit_evidence_id e = evd_evidence_id v" using assemble_Some [OF e] v(1) by auto
  show thesis
    by (rule that [OF v(1) _ v(3,4)])
      (use e v(1) id in \<open>simp_all add: record_ok_def final_event_def completed_event_def
        build_operation_aware_audit_detail_def serialize_audit_evidence_def GatewayAuditEvent_to_dict_def\<close>)
qed

lemma map_of_some_entry:
  "map_of (some_entry k v @ d) x = (if x = k \<and> v \<noteq> None then map_option PStr v else map_of d x)"
  by (cases v) (auto simp: some_entry_def)

lemma good_result_reply:
  assumes "good_result u result"
  shows "rp_status (reply_of D (oa_result_response result)) = (if u = OA_ALLOW then 200 else 403)"
    "dict_get (rp_json (reply_of D (oa_result_response result))) ''evaluation_status'' = PStr ''completed''"
    "dict_get (rp_json (reply_of D (oa_result_response result))) ''outcome'' = PStr (outcome_value u)"
    "dict_get (rp_json (reply_of D (oa_result_response result))) ''disposition''
       = PStr (if u = OA_ALLOW then ''allow'' else ''deny'')"
proof -
  show "rp_status (reply_of D (oa_result_response result)) = (if u = OA_ALLOW then 200 else 403)"
    using assms by (cases u) (simp_all add: good_result_def reply_of_def oa_result_response_def result_status_def
        classify_operation_aware_http_status_def)
  have js: "rp_json (reply_of D (oa_result_response result)) = body_json D (OABody (from_result result))"
    by (simp add: reply_of_def oa_result_response_def)
  note body = js body_json_def from_result_def dict_get_def map_of_some_entry map_of_append good_result_def Let_def
  show "dict_get (rp_json (reply_of D (oa_result_response result))) ''evaluation_status'' = PStr ''completed''"
    using assms by (simp add: body status_value_def del: map_of_append)
  show "dict_get (rp_json (reply_of D (oa_result_response result))) ''outcome'' = PStr (outcome_value u)"
    using assms by (simp add: body del: map_of_append)
  show "dict_get (rp_json (reply_of D (oa_result_response result))) ''disposition''
       = PStr (if u = OA_ALLOW then ''allow'' else ''deny'')"
    using assms by (simp add: body disposition_value_def del: map_of_append)
qed

lemma completed_answer:
  assumes "demo_state D b p pem (Some E) (da_state app)"
    and "call_ok D G call key pem now uuid (completed_body a t i)"
    and "strip a \<noteq> []" and "compose_action a (Some t) = Inr action"
    and "compose_resource_id (Some t) (Some i) = Inr rc" and "rc_resource_id rc = Some resource"
    and "kernel_gives E call (kernel_request call action (Some t) (Some resource)) u"
  obtains c result app' where "good_result u result"
    "post_oa D G call app (issue_demo_token D key now uuid OPERATOR_SUBJECT [''operator'']) (completed_body a t i)
      = (reply_of D (oa_result_response result), app')"
    "sink_events app' = sink_events app @ [final_event
       (sent D call (issue_demo_token D key now uuid OPERATOR_SUBJECT [''operator'']) (completed_body a t i)) c result]"
proof -
  let ?req = "sent D call (issue_demo_token D key now uuid OPERATOR_SUBJECT [''operator'']) (completed_body a t i)"
  let ?g = "da_state app"
  let ?G = "capturing G"
  have "\<not> blank (cc_correlation_id call)" "is_aware (cc_compose_clock call)" using assms(2) by (simp_all add: call_ok_def)
  then obtain c where c: "compose_operation_aware_input (demo_oq a (Some t) (Some i) None) (fst (demo_user now uuid))
      (snd (demo_user now uuid)) user_trust (cc_correlation_id call) (cc_compose_clock call) = Inr c"
    "oa_request_of c = kernel_request call action (Some t) (rc_resource_id rc)"
    "reject_unexpected_composed_context_keys (ci_context c) = Inr ()"
    by (rule demo_compose [OF _ _ assms(4,5)])
  obtain result where result: "OperationAwareGatewayEvaluator_evaluate E (cc_oa_call call) c = Inr result"
    "good_result u result"
    using assms(6,7) c(2,3)
    by (auto simp: kernel_gives_def OperationAwareGatewayEvaluator_evaluate_def evaluate_with_metadata_def
        build_operation_aware_decision_request_def require_tz_aware_def)
  have "oa_reaches ?G (g_app ?g) ?req (demo_oq a (Some t) (Some i) None) (fst (demo_user now uuid)) user_trust c result"
    unfolding oa_reaches_def
    by (intro exI [of _ "issue_demo_token D key now uuid OPERATOR_SUBJECT [''operator'']"]
        exI [of _ "snd (demo_user now uuid)"] exI [of _ E] conjI)
      (use assms(1,2) demo_call_bearer [OF assms(2)] demo_call_authenticated [OF assms(1,2)]
        demo_call_trust [OF assms(1)] c(1) result(1) completed_body_validates [OF assms(3)]
       in \<open>simp_all add: model_validate_json_def call_ok_def demo_state_def\<close>)
  then have reach: "oa_reaches ?G (g_app ?g) ?req (demo_oq a (Some t) (Some i) None) (fst (demo_user now uuid))
      user_trust c result" .
  have nb: "\<not> audit_blocks (gl_audit ?G) (as_config (g_app ?g)) (oa_probe_event ?req) (audit_of ?g)"
    using assms(1) by (auto simp: audit_blocks_def demo_state_def)
  have pr: "probed ?G (g_app ?g) ?req (audit_of ?g) = audit_of ?g"
    using assms(1) by (auto simp: probed_def demo_state_def)
  obtain v ids where ok: "record_ok (audit_of ?g) result"
    using good_result_record [OF result(2)] by metis
  have ans: "evaluate_operation_aware ?G (g_app ?g) ?req (audit_of ?g) =
      (Inr (oa_result_response result), emit_event (gl_audit ?G) (final_event ?req c result) (audit_of ?g))"
  proof (cases rule: oa_ends [OF nb])
    case (1 r' s' t' c' result')
    then show ?thesis using reaches_unique [OF reach 1(1)] pr by simp
  next
    case (2 r' s' t' c' result' e)
    then show ?thesis using ok reaches_unique [OF reach 2(1)] by simp
  qed (use reach in blast)+
  define app' where "app' = \<lparr>da_state = with_audit
    (emit_event (gl_audit ?G) (final_event ?req c result) (audit_of ?g)) ?g\<rparr>"
  show thesis
  proof (rule that [OF result(2)])
    show "post_oa D G call app (issue_demo_token D key now uuid OPERATOR_SUBJECT [''operator'']) (completed_body a t i)
      = (reply_of D (oa_result_response result), app')"
      using ans by (simp add: post_oa_demo [OF assms(1)] client_reply_def app'_def)
    show "sink_events app' = sink_events app @ [final_event ?req c result]"
      using assms(1,2)
      by (simp add: app'_def sink_events_def audit_of_def with_audit_def st_trail_emit demo_state_def call_ok_def)
  qed
qed

lemma join_strings: "join_ids (PList (map PStr ids)) = Inr (joined '', '' ids)"
proof -
  have "all_strings (map PStr ids) = Some ids" by (induction ids) simp_all
  then show ?thesis by (simp add: join_ids_def Let_def)
qed

text \<open>A completed scenario passes when the kernel decides as expected: if the kernel answers the
  request composed from the scenario's fields with a completed result, the expected outcome and evidence, then the
  scenario's request, sent with the operator's token to a started demonstration application, is
  answered with the expected status, outcome and enforcement, writes exactly one
  completed record whose gateway event refers to the evidence it carries, and the report has no
  mismatch.\<close>

theorem completed_scenario_passes:
  assumes "demo_state D b p pem (Some E) (da_state app)"
    and "call_ok D G call key pem now uuid (completed_body a t i)"
    and "strip a \<noteq> []" and "compose_action a (Some t) = Inr action"
    and "compose_resource_id (Some t) (Some i) = Inr rc" and "rc_resource_id rc = Some resource"
    and "kernel_gives E call (kernel_request call action (Some t) (Some resource)) u"
  shows "\<exists>report app'. run_completed_scenario D G call name app OPERATOR_SUBJECT
        (issue_demo_token D key now uuid OPERATOR_SUBJECT [''operator'']) a t i (outcome_expected u) notes
        = (Inr report, app')
     \<and> sr_passed report \<and> sr_name report = name
     \<and> dict_get (sr_details report) ''evidence_id'' = dict_get (sr_details report) ''audit_evidence_id''
     \<and> length (sink_events app') = length (sink_events app) + 1"
proof -
  let ?token = "issue_demo_token D key now uuid OPERATOR_SUBJECT [''operator'']"
  obtain c result app' where r: "good_result u result"
    "post_oa D G call app ?token (completed_body a t i) = (reply_of D (oa_result_response result), app')"
    "sink_events app' = sink_events app @ [final_event (sent D call ?token (completed_body a t i)) c result]"
    by (rule completed_answer [OF assms])
  let ?ev = "final_event (sent D call ?token (completed_body a t i)) c result"
  obtain v0 ids where w: "rr_audit_evidence result = Some v0" "record_ok (audit_of (da_state app)) result"
    "map_of (evd_dump v0) ''evidence_id'' = Some (PStr (evd_evidence_id v0))"
    "map_of (evd_dump v0) ''matched_rule_ids'' = Some (PList (map PStr ids))"
    "ev_action ?ev = AUTHORIZATION_COMPLETED"
    "map_of (ev_detail ?ev) ''audit_evidence'' = Some (PDict (evd_dump v0))"
    "\<exists>ge. map_of (ev_detail ?ev) ''gateway_audit_event'' = Some (PDict ge)
       \<and> map_of ge ''audit_evidence_id'' = Some (PStr (evd_evidence_id v0))"
    by (rule good_result_record [OF r(1)])
  define v where "v = v0"
  obtain ge where ge: "map_of (ev_detail ?ev) ''gateway_audit_event'' = Some (PDict ge)"
    "map_of ge ''audit_evidence_id'' = Some (PStr (evd_evidence_id v))" using w(7) unfolding v_def by blast
  note v = w(3-6) [folded v_def] ge
  define ev where "ev = ?ev"
  note v = v [folded ev_def] and r = r [folded ev_def]
  have completed: "completed_events (new_events app app') = [ev]"
    using r(3) v(3) by (simp add: completed_events_def new_events_def)
  have gets: "dict_get (ev_detail ev) ''gateway_audit_event'' = PDict ge"
    "dict_get (ev_detail ev) ''audit_evidence'' = PDict (evd_dump v)"
    using v(4,5) by (simp_all add: dict_get_def)
  have ids: "join_ids (dict_get (or_empty (PDict (evd_dump v))) ''matched_rule_ids'') = Inr (joined '', '' ids)"
    using v(2) by (simp add: or_empty_def dict_get_def join_strings)
  have eids: "dict_get (or_empty (PDict (evd_dump v))) ''evidence_id'' = PStr (evd_evidence_id v)"
    "dict_get (or_empty (PDict ge)) ''audit_evidence_id'' = PStr (evd_evidence_id v)"
    using v(1,6) by (simp_all add: or_empty_def dict_get_def)
  have rec: "completed_record [ev] = ([], PDict ge, PDict (evd_dump v), dict_get (ev_detail ev) ''provenance'')"
    by (simp add: completed_record_def gets eids scalar_eq_def Let_def)
  have cmp: "compare D [(''http_status'', PInt (int (rp_status (reply_of D (oa_result_response result))))),
      (''evaluation_status'', dict_get (rp_json (reply_of D (oa_result_response result))) ''evaluation_status''),
      (''outcome'', dict_get (rp_json (reply_of D (oa_result_response result))) ''outcome''),
      (''disposition'', dict_get (rp_json (reply_of D (oa_result_response result))) ''disposition'')]
      (outcome_expected u) = []"
    unfolding good_result_reply [OF r(1)]
    by (simp add: compare_def outcome_expected_def dict_get_def scalar_eq_def number_of_def)
  have det: "dict_get (completed_details resp (PDict ge) (PDict (evd_dump v)) pv sid ca cr) ''evidence_id''
      = dict_get (completed_details resp (PDict ge) (PDict (evd_dump v)) pv sid ca cr) ''audit_evidence_id''"
    for resp pv sid ca cr
    unfolding completed_details_def eids by (simp add: dict_get_def Let_def)
  show ?thesis
    unfolding run_completed_scenario_def r(2) Let_def split_conv completed rec cmp ids
    using det r(3) by simp
qed

section \<open>The whole run\<close>

lemma completed_report_name:
  "run_completed_scenario D G call name app sid token a t i expected notes = (Inr report, app') \<Longrightarrow> sr_name report = name"
  by (auto simp: run_completed_scenario_def res_bind_eq_Inr Let_def split: prod.splits)

lemma run_completed_all_names:
  "run_completed_all W expected token xs app = (Inr reports, app') \<Longrightarrow> map sr_name reports = map fst xs"
proof (induction xs arbitrary: app app' reports)
  case (Cons x xs)
  obtain name a t i expl where x: "x = (name, a, t, i, expl)" by (cases x)
  from Cons.prems show ?case unfolding x
    by (auto simp: res_bind_eq_Inr completed_report_name split: sum.splits prod.splits dest!: Cons.IH)
qed simp

definition chosen :: "string list \<Rightarrow> string list \<Rightarrow> string list" where
  "chosen selected names = filter (\<lambda>name. name \<in> set selected) names"

lemma scenario_names:
  "SCENARIO_ORDER = map fst completed_scenarios @ [''untrusted-producer'', ''semantic-startup-failure'']"
  by (simp add: SCENARIO_ORDER_def completed_scenarios_def)

lemma run_valid_names:
  assumes "run_valid_scenarios W expected selected token app = Inr reports"
  shows "map sr_name reports = chosen selected (map fst completed_scenarios @ [''untrusted-producer''])"
proof -
  have f: "map fst (filter (\<lambda>(name, _). name \<in> set selected) xs) = chosen selected (map fst xs)"
    for xs :: "(string \<times> string \<times> string \<times> string \<times> string list) list"
    unfolding chosen_def by (induction xs) auto
  have u: "sr_name (fst (run_untrusted_producer_scenario D G call a s tok ex)) = ''untrusted-producer''" for D G call a s tok ex
    by (simp add: run_untrusted_producer_scenario_def Let_def split: prod.split)
  from assms show ?thesis
    by (auto simp: run_valid_scenarios_def res_bind_eq_Inr u f chosen_def dest!: run_completed_all_names
        split: prod.splits sum.splits if_splits)
qed

lemma semantic_report_names:
  "semantic_reports W expected selected environ = Inr reports \<Longrightarrow>
   map sr_name reports = chosen selected [''semantic-startup-failure'']"
proof -
  have "sr_name (fst (run_semantic_startup_failure_scenario W ex env)) = ''semantic-startup-failure''" for ex env
    by (simp add: run_semantic_startup_failure_scenario_def Let_def split: prod.split)
  then show "semantic_reports W expected selected environ = Inr reports \<Longrightarrow> ?thesis"
    by (auto simp: semantic_reports_def res_bind_eq_Inr chosen_def split: if_splits)
qed

lemma collect_names:
  assumes "collect_reports W expected selected js environ = Inr (reports, out)"
  shows "map sr_name reports = chosen selected SCENARIO_ORDER"
proof (cases "\<exists>name\<in>set selected. name \<noteq> ''semantic-startup-failure''")
  case True
  then show ?thesis using assms
    by (auto simp: collect_reports_def scenario_names res_bind_eq_Inr chosen_def Let_def
        dest!: run_valid_names semantic_report_names split: prod.splits)
next
  case False
  then have "chosen selected (map fst completed_scenarios @ [''untrusted-producer'']) = []"
    by (auto simp: chosen_def completed_scenarios_def)
  then have "chosen selected SCENARIO_ORDER = chosen selected [''semantic-startup-failure'']"
    by (simp add: scenario_names chosen_def split: if_splits)
  then show ?thesis using assms False
    by (auto simp: collect_reports_def res_bind_eq_Inr dest!: semantic_report_names)
qed

lemma check_selected_Inr: "check_selected selected = Inr u \<longleftrightarrow> set selected \<subseteq> set SCENARIO_ORDER"
  by (auto simp: check_selected_def filter_empty_conv split: list.splits dest: filter_eq_ConsD)

lemma passed_count: "length (filter P xs) = length xs \<longleftrightarrow> (\<forall>x \<in> set xs. P x)"
  by (metis filter_True length_filter_less less_irrefl)

text \<open>C39: The exit code tells the truth: whenever the demonstration ends at all, it was asked for scenarios
  that exist, has one report for every selected scenario and no other, in the declared order, and
  exits with 0 exactly when every report has passed, otherwise with 1.\<close>

theorem demo_exit_code_exact:
  assumes "run_demo W scenario json_output environ = Inr (code, reports, printed)"
  shows "set (selection scenario) \<subseteq> set SCENARIO_ORDER
    \<and> map sr_name reports = filter (\<lambda>name. name \<in> set (selection scenario)) SCENARIO_ORDER
    \<and> (code = 0 \<longleftrightarrow> (\<forall>r \<in> set reports. sr_passed r)) \<and> code \<in> {0, 1}"
proof -
  obtain expected out where h: "check_selected (selection scenario) = Inr ()"
    "collect_reports W expected (selection scenario) json_output environ = Inr (reports, out)"
    "code = (if length (filter sr_passed reports) = length reports then 0 else 1)"
    using assms by (auto simp: run_demo_def res_bind_eq_Inr Let_def split: prod.splits)
  then show ?thesis
    using collect_names [OF h(2)] by (simp add: check_selected_Inr chosen_def passed_count)
qed

text \<open>Without variables of the gateway in the environment, the block restores it to the letter.\<close>

lemma dict_pop_append: "dict_pop (d @ e) k = dict_pop d k @ dict_pop e k"
  by (simp add: dict_pop_def)

lemma exit_clean:
  assumes "clean_environment environ"
  shows "demo_environment_exit (saved_environment environ) (demo_environment_enter D b p pem environ) = environ"
proof -
  have absent: "k \<notin> fst ` set environ" if "k \<in> set ENV_KEYS" for k
    using assms lower_env_keys [OF that] by (auto simp: clean_environment_def)
  have pops: "demo_environment_exit (map (\<lambda>k. (k, None)) keys) (environ @ e) = environ @ filter (\<lambda>(k, v). k \<notin> set keys) e"
    if "set keys \<subseteq> set ENV_KEYS" for keys e
    using that
  proof (induction keys arbitrary: e)
    case (Cons k keys)
    have "dict_pop environ k = environ" using absent Cons.prems by (intro dict_pop_absent) simp
    then have "demo_environment_exit (map (\<lambda>k. (k, None)) (k # keys)) (environ @ e)
        = demo_environment_exit (map (\<lambda>k. (k, None)) keys) (environ @ dict_pop e k)"
      by (simp add: demo_environment_exit_def dict_pop_append)
    then show ?case using Cons by (simp add: dict_pop_def case_prod_beta conj_commute)
  qed (simp add: demo_environment_exit_def)
  have "saved_environment environ = map (\<lambda>k. (k, None)) ENV_KEYS"
    unfolding saved_environment_def using absent by (simp add: map_of_eq_None_iff)
  moreover have "filter (\<lambda>(k, v). k \<notin> set ENV_KEYS) (demo_settings D b p pem) = []"
    using settings_keys(2) [of D b p pem] by (auto simp: filter_empty_conv)
  ultimately show ?thesis by (simp only: enter_clean [OF assms] pops [OF order_refl] append_Nil2)
qed

lemma post_oa_keeps:
  assumes "demo_state D b p pem e (da_state app)" and "post_oa D G call app token body = (r, app')"
  shows "demo_state D b p pem e (da_state app')"
proof -
  let ?g = "da_state app"
  obtain x st where x: "evaluate_operation_aware (capturing G) (g_app ?g) (sent D call token body) (audit_of ?g) = (x, st)"
    by (metis surj_pair)
  have app': "da_state app' = with_audit st ?g" using assms(2) x by (auto simp: post_oa_demo [OF assms(1)])
  have "audit_frame_rel (audit_of ?g) (snd (evaluate_operation_aware (capturing G) (g_app ?g) (sent D call token body) (audit_of ?g)))"
    by (rule framed.R_evaluate_operation_aware) simp_all
  then have frame: "audit_frame_rel (audit_of ?g) st" by (simp add: x)
  have "flag_rel (audit_of ?g) (snd (evaluate_operation_aware (capturing G) (g_app ?g) (sent D call token body) (audit_of ?g)))"
    by (rule flagged.R_evaluate_operation_aware) simp_all
  then have "flag_rel (audit_of ?g) st" by (simp only: x snd_conv)
  then have "map_option w_readiness_state (fst st) = map_option w_readiness_state (g_writer ?g)"
    by (simp add: flag_rel_def audit_of_def)
  then have writer: "g_writer ?g \<noteq> None \<Longrightarrow> fst st \<noteq> None" by auto
  have "OA_MODE \<noteq> AUDIT_WRITER_COMPONENT" "OA_BUNDLE \<noteq> AUDIT_WRITER_COMPONENT"
    "OA_EVALUATOR \<noteq> AUDIT_WRITER_COMPONENT" "OA_SEMANTIC \<noteq> AUDIT_WRITER_COMPONENT"
    using not_owned(1) by (metis owned_components)+
  then show ?thesis using assms(1) frame writer
    by (simp add: demo_state_def app' with_audit_def audit_frame_rel_def audit_of_def del: not_None_eq)
qed

lemma run_completed_keeps:
  assumes "demo_state D b p pem e (da_state app)"
    and "run_completed_scenario D G call name app sid token a t i expected expl = (r, app')"
  shows "demo_state D b p pem e (da_state app')"
  using assms post_oa_keeps by (auto simp: run_completed_scenario_def Let_def split: prod.splits)

text \<open>What the run relies on for one completed scenario.\<close>

definition scenario_ok ::
    "demo_world \<Rightarrow> OperationAwareGatewayEvaluator \<Rightarrow> pyval dict \<Rightarrow> int \<Rightarrow> string \<Rightarrow> string \<Rightarrow> string \<Rightarrow> string \<Rightarrow> string \<Rightarrow> bool" where
  "scenario_ok W E expected now uuid name a t i \<longleftrightarrow>
     call_ok (dw_lib W) (dw_gateway W) (dw_call W name) (dw_private_key W)
       (dl_public_pem (dw_lib W) (dw_private_key W)) now uuid (completed_body a t i)
     \<and> (\<exists>u. map_of expected name = Some (PDict (outcome_expected u))
          \<and> kernel_gives E (dw_call W name)
               (kernel_request (dw_call W name) (a @ '':'' @ t) (Some t) (Some (t @ '':'' @ i))) u)"

definition composes :: "string \<Rightarrow> string \<Rightarrow> string \<Rightarrow> bool" where
  "composes a t i \<longleftrightarrow> strip a \<noteq> [] \<and> compose_action a (Some t) = Inr (a @ '':'' @ t)
     \<and> (case compose_resource_id (Some t) (Some i) of Inl _ \<Rightarrow> False
        | Inr rc \<Rightarrow> rc_resource_id rc = Some (t @ '':'' @ i))"

lemma all_compose: "list_all (\<lambda>(name, a, t, i, expl). composes a t i) completed_scenarios"
  by code_simp

lemma run_completed_all_passes:
  assumes "demo_state (dw_lib W) b p (dl_public_pem (dw_lib W) (dw_private_key W)) (Some E) (da_state app)"
    and "list_all (\<lambda>(name, a, t, i, expl). composes a t i \<and> scenario_ok W E expected now uuid name a t i) xs"
    and "token = issue_demo_token (dw_lib W) (dw_private_key W) now uuid OPERATOR_SUBJECT [''operator'']"
  shows "\<exists>reports app'. run_completed_all W expected token xs app = (Inr reports, app') \<and> list_all sr_passed reports
    \<and> demo_state (dw_lib W) b p (dl_public_pem (dw_lib W) (dw_private_key W)) (Some E) (da_state app')"
  using assms(1,2)
proof (induction xs arbitrary: app)
  case (Cons x xs)
  obtain name a t i expl where x: "x = (name, a, t, i, expl)" by (cases x)
  obtain u rc where h: "strip a \<noteq> []" "compose_action a (Some t) = Inr (a @ '':'' @ t)"
    "compose_resource_id (Some t) (Some i) = Inr rc" "rc_resource_id rc = Some (t @ '':'' @ i)"
    "call_ok (dw_lib W) (dw_gateway W) (dw_call W name) (dw_private_key W)
       (dl_public_pem (dw_lib W) (dw_private_key W)) now uuid (completed_body a t i)"
    "map_of expected name = Some (PDict (outcome_expected u))"
    "kernel_gives E (dw_call W name)
               (kernel_request (dw_call W name) (a @ '':'' @ t) (Some t) (Some (t @ '':'' @ i))) u"
    using Cons.prems(2) by (auto simp: x composes_def scenario_ok_def split: sum.splits)
  obtain report app1 where r: "run_completed_scenario (dw_lib W) (dw_gateway W) (dw_call W name) name app
      OPERATOR_SUBJECT token a t i (outcome_expected u) expl = (Inr report, app1)" "sr_passed report"
    using completed_scenario_passes [OF Cons.prems(1) h(5) h(1-4) h(7)] unfolding assms(3) by blast
  have "demo_state (dw_lib W) b p (dl_public_pem (dw_lib W) (dw_private_key W)) (Some E) (da_state app1)"
    by (rule run_completed_keeps [OF Cons.prems(1) r(1)])
  then obtain reports app' where "run_completed_all W expected token xs app1 = (Inr reports, app')"
    "list_all sr_passed reports"
    "demo_state (dw_lib W) b p (dl_public_pem (dw_lib W) (dw_private_key W)) (Some E) (da_state app')"
    using Cons.IH [of app1] Cons.prems(2) by (auto simp: x)
  then show ?case using r h(6) by (simp add: x expected_for_def)
qed simp

definition demo_expected :: "pyval dict" where
  "demo_expected =
     [(''allow'', PDict (outcome_expected OA_ALLOW)), (''explicit-deny'', PDict (outcome_expected OA_DENY)),
      (''default-deny'', PDict (outcome_expected OA_DENY)),
      (''not-applicable'', PDict (outcome_expected OA_NOT_APPLICABLE)),
      (''untrusted-producer'', PDict [(''http_status'', PInt 400)]),
      (''semantic-startup-failure'', PDict semantic_expected)]"

definition demo_decisions :: "(string \<times> oa_outcome) list" where
  "demo_decisions = [(''allow'', OA_ALLOW), (''explicit-deny'', OA_DENY), (''default-deny'', OA_DENY),
     (''not-applicable'', OA_NOT_APPLICABLE)]"

text \<open>The hypotheses on the outside world for a run of every scenario: the expected summary is the one
  of the repository, the valid bundle's evaluator passes its preflight and decides the four
  requests as the bundle says, and the calls go through.\<close>

definition demo_world_ok :: "demo_world \<Rightarrow> string dict \<Rightarrow> bool" where
  "demo_world_ok W environ \<longleftrightarrow>
     (let D = dw_lib W; path = VALID_BUNDLE_PATH (dw_demo_dir W); L = dw_startup W path;
          pem = dl_public_pem D (dw_private_key W); (now, uuid) = dw_token W ''operator'' in
      dw_expected W = Inr demo_expected \<and> semantic_world_ok W environ
      \<and> (\<exists>E. startup_ok D L path (dw_tmp_dir W) pem E \<and> preflight_passes E (sl_now L)
           \<and> list_all (\<lambda>(name, a, t, i, expl).
               kernel_gives E (dw_call W name)
               (kernel_request (dw_call W name) (a @ '':'' @ t) (Some t) (Some (t @ '':'' @ i))) (the (map_of demo_decisions name)))
               completed_scenarios)
      \<and> list_all (\<lambda>(name, a, t, i, expl).
            call_ok D (dw_gateway W) (dw_call W name) (dw_private_key W) pem now uuid (completed_body a t i))
            completed_scenarios
      \<and> call_ok D (dw_gateway W) (dw_call W ''untrusted-producer'') (dw_private_key W) pem now uuid untrusted_body
      \<and> (\<exists>v. gl_nested (dw_gateway W) ''operation_intent'' (PStr ''read_only'') = Inr v))"

lemma untrusted_scenario_report:
  assumes "demo_state D b p pem e (da_state app)" and "call_ok D G call key pem now uuid untrusted_body"
    and "gl_nested G ''operation_intent'' (PStr ''read_only'') = Inr v"
    and "token = issue_demo_token D key now uuid OPERATOR_SUBJECT [''operator'']"
  shows "sr_passed (fst (run_untrusted_producer_scenario D G call app OPERATOR_SUBJECT token [(''http_status'', PInt 400)]))"
  using untrusted_producer_scenario_passes [OF assms(1-3)] by (auto simp: assms(4))


section \<open>A concrete world\<close>

fun plain :: "pyval \<Rightarrow> string" where
  "plain (PStr s) = s"
| "plain _ = ''?''"

definition stub_dumps :: "pyval \<Rightarrow> string" where
  "stub_dumps v = (case v of
      PDict d \<Rightarrow> ''{'' @ concat (map (\<lambda>(k, x). k @ ''='' @ plain x @ '';'') d) @ ''}'' | _ \<Rightarrow> plain v)"

definition stub_documents :: "pyval list" where
  "stub_documents = PDict [(KID, PStr ''PEM'')] # v01_policy # PDict untrusted_body # PDict probe_body
     # map (\<lambda>(name, a, t, i, expl). PDict (completed_body a t i)) completed_scenarios"

definition stub_loads :: "string \<Rightarrow> pyval option" where
  "stub_loads text = find (\<lambda>v. stub_dumps v = text) stub_documents"

lemma stub_loads_dumps: "list_all (\<lambda>v. stub_loads (stub_dumps v) = Some v) stub_documents"
  by code_simp

definition stub_demo_lib :: demo_lib where
  "stub_demo_lib = \<lparr>dl_encode = (\<lambda>_ _ _ _. ''t''), dl_public_pem = (\<lambda>_. ''PEM''), dl_dumps = stub_dumps,
     dl_dumps_indented = stub_dumps, dl_str = plain, dl_repr = plain, dl_text = fst\<rparr>"

definition stub_demo_claims :: "pyval dict" where
  "stub_demo_claims = demo_claims 0 ''u'' OPERATOR_SUBJECT [''operator'']"

definition stub_demo_jwt :: jwt_lib where
  "stub_demo_jwt = \<lparr>get_unverified_header = (\<lambda>_. Inr [(''alg'', PStr ''RS256''), (''kid'', PStr KID)]),
     jwt_decode = (\<lambda>_. Inr stub_demo_claims), signing_key_from_jwt = (\<lambda>_ _. Inr ''key'')\<rparr>"

definition stub_demo_gateway :: gateway_lib where
  "stub_demo_gateway = \<lparr>gl_jwt = stub_demo_jwt, gl_audit = stub_audit, gl_parse_json = stub_loads,
     gl_nested = (\<lambda>_ v. Inr v), gl_load_pem = (\<lambda>_. Inl (ValueError (''bad PEM'', [])))\<rparr>"

text \<open>A kernel that decides by action, and one whose evaluation always fails.\<close>

definition stub_decision :: "string \<Rightarrow> oa_outcome" where
  "stub_decision action = (if action = ''read:ahu'' then OA_ALLOW
     else if action = ''read:lighting'' then OA_NOT_APPLICABLE else OA_DENY)"

definition stub_evidence :: AuditEvidence where
  "stub_evidence = \<lparr>evd_evidence_id = ''e1'',
     evd_dump = [(''evidence_id'', PStr ''e1''), (''matched_rule_ids'', PList (map PStr [''rule'']))]\<rparr>"

definition stub_demo_result :: "oa_outcome \<Rightarrow> OAResult" where
  "stub_demo_result u = (sample_oa_result u)\<lparr>rr_audit_evidence := Some stub_evidence\<rparr>"

definition stub_failed_result :: OAResult where
  "stub_failed_result = \<lparr>rr_response = (sample_oa_response OA_DENY)\<lparr>or_evaluation_status := FAILED,
     or_outcome := None, or_failure_reason := Some POLICY_VALIDATION_FAILURE\<rparr>,
     rr_disposition = DISP_DENY, rr_audit_evidence = None\<rparr>"

definition stub_demo_evaluator :: "bool \<Rightarrow> OperationAwareGatewayEvaluator" where
  "stub_demo_evaluator valid = \<lparr>oa_request_error = (\<lambda>_. None),
     oa_ep_evaluate = (\<lambda>request _ _ _. Inr (if valid then stub_demo_result (stub_decision (ok_action request))
       else stub_failed_result))\<rparr>"

definition stub_demo_fs :: fs_lib where
  "stub_demo_fs = \<lparr>path_exists = (\<lambda>_. True), path_is_file = (\<lambda>_. True),
     read_text = (\<lambda>_. Inr (stub_dumps v01_policy)), json_loads = stub_loads\<rparr>"

definition stub_demo_startup :: "string \<Rightarrow> startup_lib" where
  "stub_demo_startup path = \<lparr>sl_load_config = Inl (PyError (OtherException ([], []))), sl_net = stub_net,
     sl_json_loads = stub_loads, sl_fs = stub_demo_fs, sl_policy = stub_policy,
     sl_enforcement_point = (\<lambda>_ _. Inr (stub_kernel D_DENY)),
     sl_for_bundle = (\<lambda>_. Inr (stub_demo_evaluator (path = VALID_BUNDLE_PATH ''demo''))), sl_now = Aware 0\<rparr>"

definition stub_client_call :: client_call where
  "stub_client_call = \<lparr>cc_correlation_id = ''c-1'', cc_now = Aware 0, cc_compose_clock = Aware 0,
     cc_oa_call = stub_call, cc_headers = []\<rparr>"

definition stub_world :: demo_world where
  "stub_world = \<lparr>dw_lib = stub_demo_lib,
     dw_settings = \<lparr>st_int = (\<lambda>_. None), st_float = (\<lambda>_. None),
       st_bool = (\<lambda>s. if s = ''true'' then Some True else None), st_json = (\<lambda>_. None), st_str = plain\<rparr>,
     dw_startup = stub_demo_startup, dw_gateway = stub_demo_gateway, dw_call = (\<lambda>_. stub_client_call),
     dw_token = (\<lambda>_. (0, ''u'')), dw_demo_dir = ''demo'', dw_tmp_dir = ''tmp'', dw_private_key = ''key'',
     dw_expected = Inr demo_expected\<rparr>"

lemma stub_jwt_round_trip: "jwt_round_trip stub_demo_lib stub_demo_jwt key pem stub_demo_claims"
  by (simp add: jwt_round_trip_def stub_demo_lib_def stub_demo_jwt_def blank_iff is_space_def)

lemma stub_call_ok:
  assumes "PDict body \<in> set stub_documents"
  shows "call_ok stub_demo_lib stub_demo_gateway stub_client_call key pem 0 ''u'' body"
proof -
  have "stub_loads (stub_dumps (PDict body)) = Some (PDict body)"
    using assms stub_loads_dumps by (simp only: list_all_iff)
  then show ?thesis
    using stub_jwt_round_trip [of key pem] not_blank_c1
    by (simp add: call_ok_def stub_demo_gateway_def stub_client_call_def stub_audit_def clock_ok_def
        stub_demo_claims_def issue_demo_token_def stub_demo_lib_def)
qed

lemma stub_startup_ok:
  assumes "path \<noteq> []"
  shows "startup_ok stub_demo_lib (stub_demo_startup path) path tmp ''PEM''
    (stub_demo_evaluator (path = VALID_BUNDLE_PATH ''demo''))"
proof -
  have pem: "public_pem_ok ''PEM''" by code_simp
  have reads: "stub_loads (stub_dumps (PDict [(KID, PStr ''PEM'')])) = Some (PDict [(KID, PStr ''PEM'')])"
    "stub_loads (stub_dumps v01_policy) = Some v01_policy"
    using stub_loads_dumps by (simp_all add: stub_documents_def del: find.simps)
  obtain d where d: "v01_policy = PDict d" by (simp add: v01_policy_def)
  have "load_operation_aware_policy_bundle stub_demo_fs stub_policy path = Inr v01_policy"
    using reads(2) by (simp add: load_operation_aware_policy_bundle_def stub_demo_fs_def stub_policy_def d)
  then have "\<exists>bndl. load_operation_aware_policy_bundle stub_demo_fs stub_policy path = Inr bndl" ..
  moreover have "stub_dumps (PDict [(KID, PStr ''PEM'')]) \<noteq> []" by (simp add: stub_dumps_def)
  ultimately show ?thesis using assms pem reads
    by (auto simp: startup_ok_def stub_demo_lib_def stub_demo_startup_def stub_demo_fs_def write_v01_policy_def
        stub_policy_def construct_operation_aware_evaluator_def)
qed

lemma stub_preflight:
  "preflight_passes (stub_demo_evaluator True) now" "preflight_rejects (stub_demo_evaluator False) now"
  by (simp_all add: preflight_passes_def preflight_rejects_def preflight_operation_aware_evaluator_def
      stub_demo_evaluator_def evaluate_with_metadata_def stub_demo_result_def sample_oa_result_def
      sample_oa_response_def stub_failed_result_def Let_def)

lemma stub_good_result: "good_result u (stub_demo_result u)"
proof -
  have "map_of (evd_dump stub_evidence) ''matched_rule_ids'' = Some (PList (map PStr [''rule'']))"
    "map_of (evd_dump stub_evidence) ''evidence_id'' = Some (PStr (evd_evidence_id stub_evidence))"
    "\<not> blank (evd_evidence_id stub_evidence)"
    by (simp_all add: stub_evidence_def blank_iff is_space_def)
  then have "\<exists>v ids. rr_audit_evidence (stub_demo_result u) = Some v \<and> \<not> blank (evd_evidence_id v)
      \<and> map_of (evd_dump v) ''evidence_id'' = Some (PStr (evd_evidence_id v))
      \<and> map_of (evd_dump v) ''matched_rule_ids'' = Some (PList (map PStr ids))"
    by (intro exI [of _ stub_evidence] exI [of _ "[''rule'']"]) (simp add: stub_demo_result_def)
  then show ?thesis
    by (simp add: good_result_def stub_demo_result_def sample_oa_result_def sample_oa_response_def blank_iff is_space_def)
qed

lemma stub_kernel_gives:
  "u = stub_decision (ok_action request) \<Longrightarrow> kernel_gives (stub_demo_evaluator True) stub_client_call request u"
  using stub_good_result by (simp add: kernel_gives_def stub_demo_evaluator_def stub_client_call_def stub_call_def)

lemma stub_documents_bodies:
  "PDict untrusted_body \<in> set stub_documents" "PDict probe_body \<in> set stub_documents"
  "(name, a, t, i, expl) \<in> set completed_scenarios \<Longrightarrow> PDict (completed_body a t i) \<in> set stub_documents"
  by (force simp: stub_documents_def)+

lemma stub_decisions:
  "list_all (\<lambda>(name, a, t, i, expl). the (map_of demo_decisions name) = stub_decision (a @ '':'' @ t)) completed_scenarios"
  by code_simp

lemma stub_semantic_ok: "semantic_world_ok stub_world []"
proof -
  have "INVALID_BUNDLE_PATH ''demo'' \<noteq> VALID_BUNDLE_PATH ''demo''" "INVALID_BUNDLE_PATH ''demo'' \<noteq> []"
    by (simp_all add: INVALID_BUNDLE_PATH_def VALID_BUNDLE_PATH_def)
  then have "startup_ok stub_demo_lib (stub_demo_startup (INVALID_BUNDLE_PATH ''demo'')) (INVALID_BUNDLE_PATH ''demo'')
      ''tmp'' ''PEM'' (stub_demo_evaluator False)"
    using stub_startup_ok [of "INVALID_BUNDLE_PATH ''demo''" "''tmp''"] by simp
  moreover have "call_ok stub_demo_lib stub_demo_gateway stub_client_call ''key'' ''PEM'' 0 ''u'' probe_body"
    by (rule stub_call_ok [OF stub_documents_bodies(2)])
  moreover have "dl_public_pem stub_demo_lib k = ''PEM''" for k by (simp add: stub_demo_lib_def)
  ultimately show ?thesis using stub_preflight(2)
    by (auto simp: semantic_world_ok_def stub_world_def clean_environment_def Let_def)
qed

lemma stub_world_ok: "demo_world_ok stub_world []"
proof -
  have "VALID_BUNDLE_PATH ''demo'' \<noteq> []" by (simp add: VALID_BUNDLE_PATH_def)
  then have start: "startup_ok stub_demo_lib (stub_demo_startup (VALID_BUNDLE_PATH ''demo'')) (VALID_BUNDLE_PATH ''demo'')
      ''tmp'' ''PEM'' (stub_demo_evaluator True)"
    using stub_startup_ok [of "VALID_BUNDLE_PATH ''demo''" "''tmp''"] by simp
  have kernel: "list_all (\<lambda>(name, a, t, i, expl). kernel_gives (stub_demo_evaluator True) stub_client_call
      (kernel_request stub_client_call (a @ '':'' @ t) (Some t) (Some (t @ '':'' @ i)))
      (the (map_of demo_decisions name))) completed_scenarios"
    using stub_decisions unfolding list_all_iff
    by (auto intro!: stub_kernel_gives simp: kernel_request_def)
  have calls: "list_all (\<lambda>(name, a, t, i, expl). call_ok stub_demo_lib stub_demo_gateway stub_client_call ''key'' ''PEM''
      0 ''u'' (completed_body a t i)) completed_scenarios"
    unfolding list_all_iff by (auto intro!: stub_call_ok stub_documents_bodies(3))
  have untrusted: "call_ok stub_demo_lib stub_demo_gateway stub_client_call ''key'' ''PEM'' 0 ''u'' untrusted_body"
    by (rule stub_call_ok [OF stub_documents_bodies(1)])
  have sel: "dw_lib stub_world = stub_demo_lib" "dw_gateway stub_world = stub_demo_gateway"
    "dw_startup stub_world = stub_demo_startup" "dw_call stub_world name = stub_client_call"
    "dw_token stub_world use = (0, ''u'')" "dw_demo_dir stub_world = ''demo''" "dw_tmp_dir stub_world = ''tmp''"
    "dw_private_key stub_world = ''key''" "dw_expected stub_world = Inr demo_expected"
    "dl_public_pem stub_demo_lib k = ''PEM''" for name use k
    by (simp_all add: stub_world_def stub_demo_lib_def)
  have "\<exists>v. gl_nested stub_demo_gateway ''operation_intent'' (PStr ''read_only'') = Inr v"
    by (simp add: stub_demo_gateway_def)
  then show ?thesis
    using start kernel calls untrusted stub_preflight(1) stub_semantic_ok
    unfolding demo_world_ok_def sel Let_def prod.case by blast
qed


text \<open>C40: Round trip of the demonstration's tokens: a token issued for a subject with some roles, signed
  with the demonstration's key, authenticates at a gateway in BASIS-local mode with the demonstration's
  trust configuration as exactly that subject, with these roles in sorted order without
  repetition, no attributes, and the issued claims in the identity context.\<close>

theorem demo_token_authenticates:
  assumes "jwt_round_trip D J private_key pem (demo_claims now uuid sid role_names)"
    and "\<not> blank sid" and "clock_ok now"
  shows "authenticate J BASIS_LOCAL_TOKEN (issue_demo_token D private_key now uuid sid role_names) ov
      (Some (demo_trust pem)) = Inr (demo_identity now uuid sid role_names)"
  by (rule demo_token_identity [OF assms])

theorem demo_token_authenticates_witness:
  "authenticate stub_demo_jwt BASIS_LOCAL_TOKEN
     (issue_demo_token stub_demo_lib ''key'' 0 ''u'' OPERATOR_SUBJECT [''operator'']) None (Some (demo_trust ''PEM''))
   = Inr (demo_identity 0 ''u'' OPERATOR_SUBJECT [''operator''])"
  by (rule demo_token_authenticates [OF stub_jwt_round_trip [unfolded stub_demo_claims_def] operator_not_blank])
    (simp add: clock_ok_def)

theorem demo_exit_code_exact_witness:
  "\<exists>code reports printed. run_demo stub_world (Some ''semantic-startup-failure'') False [] = Inr (code, reports, printed)
     \<and> map sr_name reports = [''semantic-startup-failure''] \<and> code \<in> {0, 1}"
proof -
  have e: "dw_expected stub_world = Inr demo_expected" by (simp add: stub_world_def)
  have x: "expected_for demo_expected ''semantic-startup-failure'' = Inr semantic_expected"
    by (simp add: expected_for_def demo_expected_def)
  have s: "selection (Some ''semantic-startup-failure'') = [''semantic-startup-failure'']" by (simp add: selection_def)
  have c: "check_selected [''semantic-startup-failure''] = Inr ()"
    by (simp add: check_selected_Inr SCENARIO_ORDER_def)
  obtain code reports printed where
    r: "run_demo stub_world (Some ''semantic-startup-failure'') False [] = Inr (code, reports, printed)"
    by (simp add: run_demo_def e s c collect_reports_def semantic_reports_def x Let_def)
  from demo_exit_code_exact [OF r] r show ?thesis
    by (auto simp: s SCENARIO_ORDER_def)
qed

end
