(* ===== verification/Spec2Isabelle.thy ===== *)
theory Spec2Isabelle
  imports GW_Probe GW_Settings GW_Demo_Result
begin

text \<open>
  \<^bold>\<open>basis-gateway: a model of the HTTP enforcement gateway and its correctness.\<close>

  \<^bold>\<open>The program.\<close> basis-gateway is a Python service in front of the authorization kernel
  basis-core. A request carries a bearer token and a JSON body. The gateway verifies
  the token (OIDC, or a statically configured BASIS-local trust), normalizes the identity,
  composes the canonical action and resource, asks the kernel, maps the outcome to an HTTP
  status, and records audit events through a writer that watches its own failures. A second,
  optional endpoint takes operation context (device, location, risk, ...), which only a trusted
  operation producer may supply: a subject on an allowlist, or a workload with an admitted
  client certificate forwarded by a trusted proxy. Startup loads the configuration, the verifier,
  the policy and the operation-aware bundle in stages, and a readiness tracker reports which
  stage is missing.

  \<^bold>\<open>The theories.\<close> Paths are under \<^verbatim>\<open>src/src/basis_gateway/\<close>; definitions keep the names of the
  source, without a leading underscore, and with a prefix where two modules or HOL already use one.

    \<^item> \<^verbatim>\<open>GW_Prelude\<close>: Python strings, dictionaries (association lists that keep insertion order),
      JSON values, \<^verbatim>\<open>datetime.fromtimestamp\<close>, the exception hierarchy (\<^verbatim>\<open>auth/errors.py\<close> and
      the classes of the other modules) and results \<^verbatim>\<open>'a res = exn + 'a\<close>.
    \<^item> \<^verbatim>\<open>GW_Readiness\<close> (\<^verbatim>\<open>readiness.py\<close>): the component tracker; locale \<^verbatim>\<open>component_tracker\<close>.
    \<^item> \<^verbatim>\<open>GW_Audit\<close> (\<^verbatim>\<open>audit/writer.py\<close>, \<^verbatim>\<open>audit/gateway_events.py\<close>): the writer with its failure
      counters, and event emission.
    \<^item> \<^verbatim>\<open>GW_Actions\<close> (\<^verbatim>\<open>core/actions.py\<close>, \<^verbatim>\<open>core/resources.py\<close>): composition of action and resource.
    \<^item> \<^verbatim>\<open>GW_Config\<close> and \<^verbatim>\<open>GW_Settings\<close> (\<^verbatim>\<open>config.py\<close>): the settings record, field validators and startup
      checks; every declared field with its default and bound, and \<^verbatim>\<open>load_config\<close> from an environment.
    \<^item> \<^verbatim>\<open>GW_Subject\<close> (\<^verbatim>\<open>auth/subject_mapper.py\<close>), \<^verbatim>\<open>GW_Oidc\<close> (\<^verbatim>\<open>auth/oidc.py\<close>), \<^verbatim>\<open>GW_Local_Token\<close>
      (\<^verbatim>\<open>auth/basis_local_token.py\<close>), \<^verbatim>\<open>GW_Auth_Runtime\<close> (\<^verbatim>\<open>auth/runtime.py\<close>): the two ways to
      authenticate and the dispatch between them.
    \<^item> \<^verbatim>\<open>GW_Producer\<close> (\<^verbatim>\<open>auth/operation_producer.py\<close>, \<^verbatim>\<open>auth/operation_producer_mtls.py\<close>,
      \<^verbatim>\<open>auth/producer_mtls.py\<close>, \<^verbatim>\<open>auth/producer_mtls_trusted_proxy.py\<close>): producer trust; the contract
      that composition relies on is the locale \<^verbatim>\<open>trust_resolver\<close>, interpreted for both mechanisms
      and for the mode-selecting resolver.
    \<^item> \<^verbatim>\<open>GW_Schemas\<close> (\<^verbatim>\<open>api/schemas.py\<close>, \<^verbatim>\<open>api/operation_aware_schemas.py\<close>,
      \<^verbatim>\<open>api/operation_aware_classification.py\<close>): request validation, response bodies, HTTP status.
    \<^item> \<^verbatim>\<open>GW_Composition\<close> (\<^verbatim>\<open>core/operation_aware_composition.py\<close>): the producer gate and provenance.
    \<^item> \<^verbatim>\<open>GW_Policy\<close> (\<^verbatim>\<open>policy/loader.py\<close>, \<^verbatim>\<open>policy/operation_aware_loader.py\<close>): the policy documents.
    \<^item> \<^verbatim>\<open>GW_Evaluator\<close> (\<^verbatim>\<open>core/evaluator.py\<close>, \<^verbatim>\<open>core/operation_aware_evaluator.py\<close>): the wrappers
      around the kernel, and the startup preflight.
    \<^item> \<^verbatim>\<open>GW_OA_Audit\<close> (\<^verbatim>\<open>audit/operation_aware_gateway_events.py\<close>): the durable record.
    \<^item> \<^verbatim>\<open>GW_Routes\<close> and \<^verbatim>\<open>GW_OA_Routes\<close> (\<^verbatim>\<open>api/routes.py\<close>, \<^verbatim>\<open>middleware/correlation.py\<close>): the
      probes, the strict-mode precheck and the two handlers, one definition per numbered step of
      the source, composed by \<^verbatim>\<open>step_bind\<close> (an early return is \<^term>\<open>Inl\<close>).
    \<^item> \<^verbatim>\<open>GW_Startup\<close> (\<^verbatim>\<open>main.py\<close>): the stages of \<^verbatim>\<open>lifespan\<close>, its exception handler, shutdown.
    \<^item> \<^verbatim>\<open>GW_Process\<close>: whole requests and lifespan events as the steps of a process (\<^verbatim>\<open>gw_step\<close>), and
      the invariant of its reachable states.
    \<^item> \<^verbatim>\<open>GW_Interleaving\<close>: concurrent requests. Both handlers suspend at one point only,
      \<^verbatim>\<open>await request.body()\<close>; a handler is two atomic halves, and \<^verbatim>\<open>p_step\<close> interleaves the halves of
      any number of requests.
    \<^item> \<^verbatim>\<open>GW_Probe\<close>: the readiness probe, which runs in a worker thread beside the event loop; its four
      reads of the tracker interleave with the tracker operations of the requests (\<^verbatim>\<open>probing\<close>).
    \<^item> \<^verbatim>\<open>GW_Demo\<close>, \<^verbatim>\<open>GW_Demo_Runs\<close>, \<^verbatim>\<open>GW_Demo_Result\<close> (\<^verbatim>\<open>src/demo/operation-aware/run_demo.py\<close>): the
      demonstration, a client of the gateway modelled above: its tokens, its environment block, the
      scenario runners with their reports; what each scenario meets at the gateway; the run.
    \<^item> this theory: the properties that span components.

  \<^bold>\<open>State.\<close> A \<^verbatim>\<open>gateway_state\<close> is \<^verbatim>\<open>app.state\<close> (configuration, verifier, trust configuration, the two
  evaluators), the readiness singleton, the audit writer and the flag of the registered route.
  Handlers thread the writer and the readiness state; everything else is constant between lifespan
  events. A sequential step is a whole request; the interleaved process splits it at the only
  suspension point of a handler, the reading of the body between the strict-mode precheck and
  step 1. Lifespan events occur while no request is suspended. Each method of the tracker
  holds its lock and is atomic.

  \<^bold>\<open>Parameters.\<close> Code outside the repository is an argument: PyJWT with the JWKS client
  (\<^verbatim>\<open>jwt_lib\<close>), HTTP discovery (\<^verbatim>\<open>oidc_net\<close>), the inner audit sink, which may fail depending on
  everything written before (\<^verbatim>\<open>audit_lib\<close>), pydantic's reading of a number or Boolean from a string (\<^verbatim>\<open>settings_lib\<close>), X.509 parsing (\<^verbatim>\<open>load_pem\<close>), the JSON parser, the file
  system (\<^verbatim>\<open>fs_lib\<close>), pydantic's nested models and basis-core (\<^verbatim>\<open>nested\<close>, \<^verbatim>\<open>policy_lib\<close>,
  \<^verbatim>\<open>GatewayEvaluator\<close>, \<^verbatim>\<open>OperationAwareGatewayEvaluator\<close>, \<^verbatim>\<open>startup_lib\<close>), clocks and generated
  identifiers (fields of \<^verbatim>\<open>http_request\<close> and \<^verbatim>\<open>oa_call\<close>); for the demonstration, signing, key
  export and JSON text (\<^verbatim>\<open>demo_lib\<close>) and everything a run meets outside (\<^verbatim>\<open>demo_world\<close>). No theorem assumes more of them than its
  statement says; hypotheses on the sink (it accepts events, it works again) are named there.
  Messages are a template with its interpolated values (\<^verbatim>\<open>msg\<close>), so that which values reach a
  message is visible. Python's unbounded integers are \<^typ>\<open>int\<close>; the range of time stamps is written
  out in \<^verbatim>\<open>fromtimestamp_us\<close>. Strings are lists of 8-bit characters, so text outside Latin-1 and
  the Unicode cases of \<^verbatim>\<open>lower\<close>, \<^verbatim>\<open>upper\<close> and \<^verbatim>\<open>strip\<close> are not represented. No definition uses
  fuel: all loops are structural or have a termination proof, and the one index-driven loop
  (\<^verbatim>\<open>decode_producer_certificate_assertion\<close>) is also modelled as written, with \<^verbatim>\<open>while_option\<close>.

  \<^bold>\<open>What is shown.\<close> Permits: both handlers are equivalent to a decision table over every branch, and
  a 200 has its consequences for identity and kernel outcome, also under concurrency. Identity: soundness of both verifiers, of
  the trust configuration and of the claim mapping. Producers: who is trusted, that context passes
  the gate from no one else, and that provenance says so. Audit: degradation refines a
  specification over the trail of writes, strict mode fails closed and recovers, receipts precede
  decisions, one record per operation-aware answer. Startup: readiness is equivalent to the
  success of all stages, and what is then installed. Reachable states: the invariant that ties
  writer, readiness, evaluator and suspended requests together, by rule induction over all
  interleavings, and that interleaving never shows in a response. Probes: the status of a readiness
  probe is linearizable, its body is not. Configuration: loading yields
  checked settings only. Demonstration: the environment is restored, its tokens authenticate as
  their subject, the exit code tells the truth, and a run succeeds in every world that behaves as
  documented (hypothesis \<^verbatim>\<open>demo_world_ok\<close>, with a witness world). Errors: which
  exceptions each boundary lets through. A few theorems state behaviour that departs from the
  source's comments: a trailing newline in a resource type, a restarted lifespan, an empty
  issuer, a blank request id, unclassified read and time-stamp errors, a strict-mode
  permit while the writer is degraded, and a probe that contradicts itself.

  \<^bold>\<open>Locales.\<close> \<^verbatim>\<open>component_tracker\<close> (readiness), \<^verbatim>\<open>audit_sink\<close> (the writer), \<^verbatim>\<open>composition_boundary\<close>
  (actions and resources), \<^verbatim>\<open>trust_resolver\<close> (producer trust), \<^verbatim>\<open>identity_source\<close> (both
  authentication modes and their dispatch), \<^verbatim>\<open>step_relation\<close> (a reflexive, transitive
  relation that emission respects is respected by both handlers; interpreted for the audit
  invariant, the trail, the relations of \<^verbatim>\<open>GW_Process\<close> and the moves of \<^verbatim>\<open>GW_Probe\<close>) and the stage relations of
  \<^verbatim>\<open>GW_Startup\<close>.

  \<^bold>\<open>Not modelled.\<close> FastAPI and Starlette themselves (routing, header parsing, the 500 for an escaped
  exception), logging and \<^verbatim>\<open>configure_logging\<close>, \<^verbatim>\<open>errors.py\<close> (two exception classes nobody raises),
  the package markers, and of the demonstration the reading of its options, key generation,
  the temporary directory and the printing itself.
\<close>

section \<open>Concrete reachable states for the witnesses\<close>

text \<open>A strict-mode process whose audit sink refused one event.\<close>

definition strict_config :: GatewayConfig where
  "strict_config = oa_config\<lparr>audit_fail_closed := True, audit_failure_threshold := 1\<rparr>"

definition strict_start :: gateway_state where
  "strict_start = lifespan_startup (stub_lib (Inr strict_config)) create_app"

definition bad_request :: http_request where
  "bad_request = stub_request\<lparr>hr_body := Inl (ValueError (''disconnected'', []))\<rparr>"

definition strict_degraded :: gateway_state where
  "strict_degraded = snd (serve_evaluate failing_gw ''c-1'' bad_request strict_start)"

lemma strict_start_parts:
  "g_writer strict_start = Some (GatewayAuditWriter_init True 1)" "as_config (g_app strict_start) = Some strict_config"
proof -
  have "sl_load_config (stub_lib (Inr strict_config)) = Inr strict_config" by (simp add: stub_lib_def)
  from lifespan_later [OF this, of create_app]
  show "g_writer strict_start = Some (GatewayAuditWriter_init True 1)" "as_config (g_app strict_start) = Some strict_config"
    by (simp_all add: strict_start_def later_frame_def prepared_simps build_audit_writer_def strict_config_def oa_config_def)
qed

lemma strict_degraded_reachable: "reachable strict_degraded"
  unfolding strict_degraded_def strict_start_def by (rule stepped [OF stepped [OF created startup] evaluated])

lemma strict_degraded_parts:
  "\<exists>w. g_writer strict_degraded = Some w \<and> w_degraded w" "as_config (g_app strict_degraded) = Some strict_config"
proof -
  have "\<exists>w. fst (snd (evaluate failing_gw app (bad_request\<lparr>hr_correlation_id := ''c-1''\<rparr>)
      (Some (GatewayAuditWriter_init True 1), rs))) = Some w \<and> w_degraded w" for app rs
    by (simp add: evaluate_cases audit_blocks_def st_degraded_def evaluate_steps_def parse_body_step_def
        model_validate_json_def bad_request_def step_bind_def reject_def answer_def emit_event_Some
        failing_gw_def write_cases write_failed_def Let_def)
  then show "\<exists>w. g_writer strict_degraded = Some w \<and> w_degraded w"
    by (simp add: strict_degraded_def serve_evaluate_state with_audit_def audit_of_def strict_start_parts)
  show "as_config (g_app strict_degraded) = Some strict_config"
    by (simp add: strict_degraded_def serve_evaluate_state with_audit_def strict_start_parts)
qed

text \<open>A process with a verifier, a policy and an operation-aware evaluator.\<close>

definition full_config :: "bool \<Rightarrow> GatewayConfig" where
  "full_config strict = oa_config\<lparr>oidc_issuer := Some ''https://idp'', policy_path := Some ''policy.json'',
     operation_producer_subject_ids := {''alice''}, audit_fail_closed := strict,
     audit_failure_threshold := (if strict then 1 else 10)\<rparr>"

definition full_lib :: "bool \<Rightarrow> startup_lib" where
  "full_lib strict = (stub_lib (Inr (full_config strict)))\<lparr>sl_fs := ok_fs\<lparr>json_loads := (\<lambda>_. Some (policy_json sample_doc))\<rparr>\<rparr>"

lemma full_verifier:
  "OIDCVerifier_initialize stub_net (OIDCVerifier_from_config ''https://idp'' None None 300) = Inr stub_verifier"
  by (simp add: OIDCVerifier_initialize_def discover_jwks_uri_def stub_net_def stub_verifier_def
      OIDCVerifier_from_config_def dict_get_def)

lemma full_startup: "\<exists>g. startup_stages (full_lib strict) create_app = (Inr (), g)"
proof -
  have c: "validate_evaluation_config (full_config strict) = Inr ()" "validate_operation_aware_config (full_config strict) = Inr ()"
    "operation_aware_enabled (full_config strict)" "auth_mode (full_config strict) = OIDC" "oidc_issuer (full_config strict) = Some ''https://idp''"
    "oidc_audience (full_config strict) = None" "oidc_jwks_uri (full_config strict) = None" "jwks_cache_ttl_seconds (full_config strict) = 300"
    "policy_path (full_config strict) = Some ''policy.json''" "operation_aware_policy_bundle_path (full_config strict) = Some ''bundle.json''"
    by (simp_all add: full_config_def oa_config_def default_config_def validate_evaluation_config_def
        validate_operation_aware_config_def)
  let ?fs = "ok_fs\<lparr>json_loads := (\<lambda>_. Some (policy_json sample_doc))\<rparr>"
  have b: "load_operation_aware_policy_bundle ?fs stub_policy ''bundle.json'' = Inr (policy_json sample_doc)"
    by (simp add: load_operation_aware_policy_bundle_def ok_fs_def stub_policy_def policy_json_def)
  have "\<exists>rules. load_policy_engine ?fs stub_policy ''policy.json'' = Inr rules"
    by (simp add: load_policy_engine_def ok_fs_def policy_json_def engine_from_data_def dict_get_def sample_doc_def
        rule_json_def parse_rule_def stub_policy_def blank_iff is_space_def Let_def)
  then obtain rules where r: "load_policy_engine ?fs stub_policy ''policy.json'' = Inr rules" by blast
  have p: "preflight_operation_aware_evaluator stub_oa (Aware 0) = Inr (sample_oa_result OA_ALLOW)"
    by (simp add: preflight_operation_aware_evaluator_def evaluate_with_metadata_def stub_oa_def
        sample_oa_result_def sample_oa_response_def)
  show ?thesis
    using c full_verifier b r p
    by (simp add: startup_stages_eq full_lib_def stub_lib_def fallible_stages_def validate_stage_def auth_stage_def
        oidc_stage_def policy_stage_def evaluator_stage_def build_evaluator_def oa_stage_def oa_bundle_stage_def oa_construct_stage_def
        oa_preflight_stage_def construct_operation_aware_evaluator_def stage_simps opt_or_def truthy_opt_def)
qed

lemma full_state:
  fixes strict
  defines "g \<equiv> lifespan_startup (full_lib strict) create_app"
  shows "stub_serves (g_app g)" "g_router g" "\<not> st_degraded (audit_of g)"
    "as_config (g_app g) = Some (full_config strict)"
    "g_writer g = Some (GatewayAuditWriter_init True (if strict then 1 else 10))"
proof -
  obtain g' where s: "startup_stages (full_lib strict) create_app = (Inr (), g')" using full_startup by blast
  then have eq: "g = g'" by (simp add: g_def lifespan_startup_def)
  have lc: "sl_load_config (full_lib strict) = Inr (full_config strict)" by (simp add: full_lib_def stub_lib_def)
  have "\<exists>config. started (full_lib strict) config g" using startup_success(1) [OF s] eq by blast
  then have st: "started (full_lib strict) (full_config strict) g" using lc by (auto simp: started_def)
  have "as_verifier (g_app g) = Some stub_verifier"
    using st full_verifier by (simp add: started_def auth_installed_def full_lib_def stub_lib_def full_config_def
        oa_config_def default_config_def opt_or_def truthy_opt_def)
  moreover have "as_oa_evaluator (g_app g) = Some stub_oa"
    using st by (auto simp: started_def oa_installed_def load_and_build_operation_aware_evaluator_def
        build_operation_aware_evaluator_def construct_operation_aware_evaluator_def
        full_lib_def stub_lib_def full_config_def oa_config_def check_Inr Let_def split: sum.splits if_splits)
  moreover show cfg: "as_config (g_app g) = Some (full_config strict)" using st by (simp add: started_def)
  ultimately show "stub_serves (g_app g)"
    by (simp add: stub_serves_def stub_auth_def full_config_def oa_config_def default_config_def)
  note l = lifespan_later [OF lc, of create_app, folded g_def, unfolded later_frame_def]
  show "g_router g" using l by (simp add: prepared_simps full_config_def oa_config_def)
  show w: "g_writer g = Some (GatewayAuditWriter_init True (if strict then 1 else 10))"
    using l by (simp add: prepared_simps full_config_def oa_config_def default_config_def build_audit_writer_def)
  then show "\<not> st_degraded (audit_of g)" by (simp add: audit_of_def st_degraded_def GatewayAuditWriter_init_def)
qed

section \<open>Properties that span the components\<close>

text \<open>In every state a process can reach, by any sequence of startups, shutdowns and requests
  to both endpoints with any environment, the readiness state is well formed,
  the \<^verbatim>\<open>audit_writer\<close> component is ready exactly when the writer is not
  degraded, a degraded writer makes \<^verbatim>\<open>/ready\<close> answer 503, and an installed
  operation-aware evaluator has passed a preflight.\<close>

theorem reachable_states_consistent:
  assumes "reachable g"
  shows "readiness_inv (g_readiness g)
    \<and> (\<forall>w. g_writer g = Some w \<longrightarrow> writer_inv w
         \<and> component_of (g_readiness g) AUDIT_WRITER_COMPONENT = Some (\<not> w_degraded w)
         \<and> (w_degraded w \<longrightarrow> status_code (ready (g_readiness g) cid) = 503))
    \<and> (\<forall>E. as_oa_evaluator (g_app g) = Some E \<longrightarrow> preflighted E)"
  by (rule gw_inv_consistent [OF gw_inv_reachable [OF assms]])

theorem reachable_states_consistent_witness:
  "component_of (g_readiness (lifespan_startup (stub_lib (Inr oa_config)) create_app)) AUDIT_WRITER_COMPONENT \<noteq> None"
proof -
  let ?g = "lifespan_startup (stub_lib (Inr oa_config)) create_app"
  have r: "reachable ?g" by (rule stepped [OF created startup])
  obtain w where "g_writer ?g = Some w"
    using lifespan_later [of "stub_lib (Inr oa_config)" oa_config create_app]
    by (simp add: later_frame_def prepared_simps stub_lib_def oa_config_def)
  with reachable_states_consistent [OF r] show ?thesis by auto
qed


definition stub_gateway :: gateway_state where
  "stub_gateway = \<lparr>g_app = stub_app False D_ALLOW, g_readiness = initial_readiness, g_writer = None, g_router = True\<rparr>"



text \<open>What an operation-aware permit rests on.\<close>

definition oa_permit_chain :: "gateway_lib \<Rightarrow> gateway_state \<Rightarrow> http_request \<Rightarrow> bool" where
  "oa_permit_chain G g req \<longleftrightarrow> (\<exists>tok (s :: NormalizedSubject) (i :: IdentityContext) E c result.
      extract_bearer_token (hr_authorization req) = Inr tok
    \<and> mode_verified (gl_jwt G) (auth_mode_of (g_app g)) (as_verifier (g_app g)) (as_trust_config (g_app g))
        tok (ic_claims i)
    \<and> map_of (ic_claims i) ''sub'' = Some (PStr (subject_id s))
    \<and> as_oa_evaluator (g_app g) = Some E \<and> preflighted E
    \<and> ok_subject_id (oa_request_of c) = subject_id s \<and> ok_subject_roles (oa_request_of c) = roles s
    \<and> ok_correlation_id (oa_request_of c) = Some (hr_correlation_id req)
    \<and> oa_ep_evaluate E (oa_request_of c) (trace_id_factory (hr_oa_call req)) (evidence_id_factory (hr_oa_call req))
        (call_clock (hr_oa_call req)) = Inr result
    \<and> or_evaluation_status (rr_response result) = COMPLETED \<and> or_outcome (rr_response result) = Some OA_ALLOW)"

lemma oa_permit_chainI:
  assumes "gw_inv g" and ev: "fst (evaluate_operation_aware G (g_app g) req (audit_of g)) = Inr resp"
    and "status_code resp = 200"
  shows "oa_permit_chain G g req"
proof -
  have nb: "\<not> audit_blocks (gl_audit G) (as_config (g_app g)) (oa_probe_event req) (audit_of g)"
    using ev assms(3) by (auto simp: oa_cases response_helper_status)
  obtain r s t c result where h: "oa_reaches G (g_app g) req r s t c result" "resp = oa_result_response result"
  proof (cases rule: oa_ends [OF nb])
    case (4 e)
    then show thesis using ev assms(3) by (simp add: is_error_def)
  qed (use ev that in auto)
  obtain tok i E where
    k: "extract_bearer_token (hr_authorization req) = Inr tok" "app_authenticate G (g_app g) tok = Inr (s, i)"
      "as_oa_evaluator (g_app g) = Some E" "OperationAwareGatewayEvaluator_evaluate E (hr_oa_call req) c = Inr result"
    using h(1) by (auto simp: oa_reaches_def)
  have "result_status result = 200" using h(2) assms(3) by (simp add: oa_result_response_def)
  moreover have "preflighted E" using assms(1) k(3) by (simp add: gw_inv_def)
  moreover have "ok_subject_id (oa_request_of c) = subject_id s" "ok_subject_roles (oa_request_of c) = roles s"
    "ok_correlation_id (oa_request_of c) = Some (hr_correlation_id req)"
    using reaches_composed(1,2) [OF h(1)] by (simp_all add: oa_request_of_def)
  ultimately show ?thesis
    using k(1,3) app_authenticate_verified [OF k(2)] oa_kernel_result [OF k(4)]
    unfolding result_status_200 oa_permit_chain_def by (elim conjE, intro exI conjI) assumption+
qed

text \<open>No operation-aware permit without its whole chain: in a reachable state, a 200 from
  the operation-aware endpoint implies that the route was registered, that
  this request's bearer token was verified by the mode's verifier, and that the
  preflighted evaluator's enforcement point completed with ALLOW for a
  request about the verified subject, under the gateway's correlation id.\<close>

theorem oa_permit_requires_chain:
  assumes "reachable g" and "fst (serve_operation_aware G cid req g) = Some (Inr resp)" and "status_code resp = 200"
  shows "g_router g \<and> (\<exists>tok (s :: NormalizedSubject) (i :: IdentityContext) E c result.
      extract_bearer_token (hr_authorization req) = Inr tok
    \<and> mode_verified (gl_jwt G) (auth_mode_of (g_app g)) (as_verifier (g_app g)) (as_trust_config (g_app g))
        tok (ic_claims i)
    \<and> map_of (ic_claims i) ''sub'' = Some (PStr (subject_id s))
    \<and> as_oa_evaluator (g_app g) = Some E \<and> preflighted E
    \<and> ok_subject_id (oa_request_of c) = subject_id s \<and> ok_subject_roles (oa_request_of c) = roles s
    \<and> ok_correlation_id (oa_request_of c) = Some cid
    \<and> oa_ep_evaluate E (oa_request_of c) (trace_id_factory (hr_oa_call req)) (evidence_id_factory (hr_oa_call req))
        (call_clock (hr_oa_call req)) = Inr result
    \<and> or_evaluation_status (rr_response result) = COMPLETED \<and> or_outcome (rr_response result) = Some OA_ALLOW)"
proof -
  let ?req = "req\<lparr>hr_correlation_id := cid\<rparr>"
  have rt: "g_router g" and ev: "fst (evaluate_operation_aware G (g_app g) ?req (audit_of g)) = Inr resp"
    using assms(2) by (auto simp: serve_operation_aware_def case_prod_beta split: if_splits)
  have "oa_permit_chain G g ?req" by (rule oa_permit_chainI [OF gw_inv_reachable [OF assms(1)] ev assms(3)])
  then show ?thesis using rt by (simp add: oa_permit_chain_def)
qed

theorem oa_permit_requires_chain_witness:
  "\<exists>(s :: NormalizedSubject) (i :: IdentityContext) E.
     map_of (ic_claims i) ''sub'' = Some (PStr (subject_id s))
     \<and> as_oa_evaluator (g_app (lifespan_startup (full_lib False) create_app)) = Some E \<and> preflighted E"
proof -
  let ?g = "lifespan_startup (full_lib False) create_app" and ?req = "stub_oa_request False"
  let ?resp = "oa_result_response (sample_oa_result OA_ALLOW)"
  have q: "?req\<lparr>hr_correlation_id := ''c-1''\<rparr> = ?req" by (simp add: stub_oa_request_def stub_request_def)
  have "fst (evaluate_operation_aware stub_gw (g_app ?g) ?req (audit_of ?g)) = Inr ?resp"
    using stub_oa_answer_in [OF full_state(1,3), of False False] by blast
  then have a: "fst (serve_operation_aware stub_gw ''c-1'' ?req ?g) = Some (Inr ?resp)"
    by (simp add: serve_operation_aware_def full_state(2) q case_prod_beta)
  have 200: "status_code ?resp = 200"
    by (simp add: oa_result_response_def sample_oa_result_def sample_oa_response_def result_status_200)
  from oa_permit_requires_chain [OF stepped [OF created startup] a 200] show ?thesis by blast
qed

section \<open>Concurrent requests\<close>

text \<open>A concrete interleaving in strict mode over a sink that refuses every event. An
  operation-aware request arrives while the writer is healthy and is suspended; a second
  request degrades the writer; then the first one is resumed.\<close>

definition race_start :: gateway_state where
  "race_start = lifespan_startup (full_lib True) create_app"

definition race_permit :: task where
  "race_permit = new_task EVALUATE_OPERATION_AWARE failing_gw ''c-1'' (stub_oa_request False) race_start"

definition race_other :: task where
  "race_other = new_task EVALUATE failing_gw ''c-2'' bad_request race_start"

definition race_process :: process where
  "race_process = \<lparr>p_state = with_audit (snd (task_finish race_other (g_app race_start) (audit_of race_start))) race_start,
     p_tasks = [race_permit]\<rparr>"

lemma race_permit_parts:
  "t_request race_permit = stub_oa_request False" "t_lib race_permit = failing_gw"
  "t_endpoint race_permit = EVALUATE_OPERATION_AWARE" "t_arrival race_permit = race_start"
  by (simp_all add: race_permit_def new_task_def stub_oa_request_def stub_request_def)

lemmas race_start_parts = full_state [of True, folded race_start_def]

lemma with_audit_same [simp]: "with_audit (audit_of g) g = g"
  by (simp add: with_audit_def audit_of_def)

lemma race_begin: "task_begin t (g_app race_start) (audit_of race_start) = (Inr (), audit_of race_start)"
  using race_start_parts(3) by (simp add: task_begin_def precheck_cases audit_blocks_def)

lemma race_suspend:
  assumes "p_reachable \<lparr>p_state = race_start, p_tasks = ts\<rparr>" and "routed e race_start"
  shows "p_reachable \<lparr>p_state = race_start, p_tasks = ts @ [new_task e G cid req race_start]\<rparr>"
proof -
  let ?p = "\<lparr>p_state = race_start, p_tasks = ts\<rparr>"
  have "p_step ?p Silent (?p\<lparr>p_state := with_audit (audit_of race_start) (p_state ?p),
      p_tasks := p_tasks ?p @ [new_task e G cid req race_start]\<rparr>)"
    by (rule p_suspended [of e _ _ G cid req]) (simp_all add: assms(2) race_begin)
  then show ?thesis using p_stepped [OF assms(1)] by simp
qed

lemma race_reachable: "p_reachable race_process"
proof -
  let ?p = "\<lparr>p_state = race_start, p_tasks = [race_permit, race_other]\<rparr>"
  have "p_reachable \<lparr>p_state = race_start, p_tasks = []\<rparr>"
    using p_stepped [OF p_created p_startup, of "full_lib True"] by (simp add: race_start_def)
  from race_suspend [OF race_suspend [OF this]] have 2: "p_reachable ?p"
    using race_start_parts(2) by (simp add: routed_def race_permit_def race_other_def)
  obtain r st where f: "task_finish race_other (g_app race_start) (audit_of race_start) = (r, st)" by (metis surj_pair)
  have "p_step ?p (Answered race_other r)
      (?p\<lparr>p_state := with_audit st (p_state ?p), p_tasks := without_nth 1 (p_tasks ?p)\<rparr>)"
    by (rule p_resumed) (simp_all add: f)
  then show ?thesis using p_stepped [OF 2] f by (simp add: race_process_def without_nth_def)
qed

lemma race_degraded: "\<exists>w. g_writer (p_state race_process) = Some w \<and> w_degraded w"
  using race_start_parts(5)
  by (simp add: race_process_def task_finish_state race_other_def new_task_def audit_of_def evaluate_steps_def
      parse_body_step_def model_validate_json_def bad_request_def step_bind_def reject_def answer_def emit_event_Some
      failing_gw_def write_cases write_failed_def Let_def)

lemma race_answer:
  "fst (evaluate_operation_aware failing_gw (g_app race_start) (stub_oa_request False) (audit_of race_start))
     = Inr (oa_result_response (sample_oa_result OA_ALLOW))"
proof -
  let ?app = "g_app race_start" and ?req = "stub_oa_request False" and ?st = "audit_of race_start"
  obtain s t c where "oa_reaches stub_gw ?app ?req (stub_oq False) s t c (sample_oa_result OA_ALLOW)"
    using stub_reaches [OF race_start_parts(1)] by blast
  moreover have "app_producer_trust failing_gw = app_producer_trust stub_gw"
    by (simp add: fun_eq_iff app_producer_trust_def failing_gw_def split: option.split)
  ultimately have r: "oa_reaches failing_gw ?app ?req (stub_oq False) s t c (sample_oa_result OA_ALLOW)"
    by (simp add: oa_reaches_def app_authenticate_def) (simp add: failing_gw_def)
  have nb: "\<not> audit_blocks (gl_audit failing_gw) (as_config ?app) (oa_probe_event ?req) ?st"
    using race_start_parts(3) by (simp add: audit_blocks_def)
  have ok: "record_ok ?st (sample_oa_result OA_ALLOW)"
    unfolding record_ok_def assemble_ok_iff
    by (simp add: sample_oa_result_def sample_oa_response_def kernel_result_ok_def blank_iff is_space_def)
  show ?thesis
  proof (cases rule: oa_ends [OF nb])
    case (1 r' s' t' c' result)
    then show ?thesis using r reaches_unique [OF r 1(1)] by auto
  next
    case (2 r' s' t' c' result e)
    then show ?thesis using ok reaches_unique [OF r 2(1)] by auto
  qed (use r in blast)+
qed

lemma race_step:
  obtains p' where "p_step race_process (Answered race_permit (Inr (oa_result_response (sample_oa_result OA_ALLOW)))) p'"
    "\<exists>w. g_writer (p_state p') = Some w \<and> w_degraded w"
proof -
  let ?p = race_process
  obtain r st where f: "task_finish race_permit (g_app (p_state ?p)) (audit_of (p_state ?p)) = (r, st)"
    by (metis surj_pair)
  let ?p' = "?p\<lparr>p_state := with_audit st (p_state ?p), p_tasks := without_nth 0 (p_tasks ?p)\<rparr>"
  have s: "p_step ?p (Answered race_permit r) ?p'"
    by (rule p_resumed [OF _ _ f]) (simp_all add: race_process_def)
  have r: "r = Inr (oa_result_response (sample_oa_result OA_ALLOW))"
    using answered_atomic(1) [OF p_inv_reachable [OF race_reachable] s] race_answer
    by (simp add: race_permit_parts task_atomic_def)
  have fail: "\<not> inner_write (gl_audit failing_gw) h ev" for h ev by (simp add: failing_gw_def)
  have "st_degraded (audit_of (p_state ?p))" using race_degraded by (auto simp: audit_of_def st_degraded_def)
  moreover have "stuck_rel (gl_audit failing_gw) (audit_of (p_state ?p))
      (snd (task_finish race_permit (g_app (p_state ?p)) (audit_of (p_state ?p))))"
    by (simp add: task_finish_state race_permit_parts stuck.R_oa_steps)
  ultimately have "st_degraded st" using f fail by (simp add: stuck_rel_def)
  then have "\<exists>w. g_writer (p_state ?p') = Some w \<and> w_degraded w"
    by (auto simp: st_degraded_def split: option.splits)
  with s show thesis unfolding r by (rule that)
qed

lemma race_200: "status_code (oa_result_response (sample_oa_result OA_ALLOW)) = 200"
  by (simp add: oa_result_response_def sample_oa_result_def sample_oa_response_def result_status_200)

text \<open>C6: In every state an interleaved process can reach, between any two halves of any
  number of concurrent requests to both endpoints, the readiness state is well formed,
  the \<^verbatim>\<open>audit_writer\<close> component is ready exactly when the writer is not degraded, a
  degraded writer makes \<^verbatim>\<open>/ready\<close> answer 503, an installed operation-aware
  evaluator has passed a preflight, and every suspended request still runs on
  the configuration, verifier, policy and evaluators it arrived with.\<close>

theorem interleaved_states_consistent:
  assumes "p_reachable p"
  shows "readiness_inv (g_readiness (p_state p))
    \<and> (\<forall>w. g_writer (p_state p) = Some w \<longrightarrow> writer_inv w
         \<and> component_of (g_readiness (p_state p)) AUDIT_WRITER_COMPONENT = Some (\<not> w_degraded w)
         \<and> (w_degraded w \<longrightarrow> status_code (ready (g_readiness (p_state p)) cid) = 503))
    \<and> (\<forall>E. as_oa_evaluator (g_app (p_state p)) = Some E \<longrightarrow> preflighted E)
    \<and> (\<forall>t \<in> set (p_tasks p). g_app (p_state p) = g_app (t_arrival t))"
  using gw_inv_consistent p_inv_reachable [OF assms] unfolding p_inv_def task_inv_def by blast

theorem interleaved_states_consistent_witness:
  "component_of (g_readiness (p_state race_process)) AUDIT_WRITER_COMPONENT = Some False
   \<and> g_app (p_state race_process) = g_app (t_arrival race_permit)"
proof -
  obtain w where w: "g_writer (p_state race_process) = Some w" "w_degraded w" using race_degraded by blast
  have "race_permit \<in> set (p_tasks race_process)" by (simp add: race_process_def)
  with interleaved_states_consistent [OF race_reachable] w show ?thesis by simp
qed

text \<open>C7: Concurrency is invisible in responses: whatever other requests run between the two
  halves of a request, its response (or escaping exception) is the one of the
  uninterrupted handler in the state in which the request arrived.\<close>

theorem interleaving_transparent:
  assumes "p_reachable p" and "p_step p (Answered t r) p'"
  shows "r = (case t_endpoint t of
        EVALUATE \<Rightarrow> Inr (fst (evaluate (t_lib t) (g_app (t_arrival t)) (t_request t) (audit_of (t_arrival t))))
      | EVALUATE_OPERATION_AWARE \<Rightarrow>
          fst (evaluate_operation_aware (t_lib t) (g_app (t_arrival t)) (t_request t) (audit_of (t_arrival t))))"
  using answered_atomic(1) [OF p_inv_reachable [OF assms(1)] assms(2)]
  by (simp add: task_atomic_def case_prod_beta split: endpoint.split)

theorem interleaving_transparent_witness:
  "fst (evaluate_operation_aware failing_gw (g_app race_start) (stub_oa_request False) (audit_of race_start))
     = Inr (oa_result_response (sample_oa_result OA_ALLOW))"
proof -
  obtain p' where "p_step race_process (Answered race_permit (Inr (oa_result_response (sample_oa_result OA_ALLOW)))) p'"
    by (rule race_step)
  from interleaving_transparent [OF race_reachable this] show ?thesis by (simp add: race_permit_parts)
qed

text \<open>C2: No permit under concurrency without its chain: a 200 delivered by any step of any
  interleaved process implies, for \<^verbatim>\<open>/v1/evaluate\<close>, a verified token of this very
  request and a kernel decision ALLOW about the verified subject, and for the
  operation-aware endpoint the whole chain from route and token to the
  preflighted evaluator's completed ALLOW.\<close>

theorem interleaved_permit_requires_chain:
  assumes "p_reachable p" and "p_step p (Answered t (Inr resp)) p'" and "status_code resp = 200"
  shows "case t_endpoint t of
      EVALUATE \<Rightarrow> (\<exists>tok (s :: NormalizedSubject) (i :: IdentityContext) K dq ks ic d.
          extract_bearer_token (hr_authorization (t_request t)) = Inr tok
        \<and> mode_verified (gl_jwt (t_lib t)) (auth_mode_of (g_app (p_state p))) (as_verifier (g_app (p_state p)))
            (as_trust_config (g_app (p_state p))) tok (ic_claims i)
        \<and> map_of (ic_claims i) ''sub'' = Some (PStr (subject_id s))
        \<and> as_evaluator (g_app (p_state p)) = Some K \<and> dq_subject_id dq = subject_id s
        \<and> snd (ep_evaluate K dq ks ic (Some (hr_correlation_id (t_request t)))) = Inr d \<and> dr_outcome d = D_ALLOW)
    | EVALUATE_OPERATION_AWARE \<Rightarrow> g_router (t_arrival t) \<and> oa_permit_chain (t_lib t) (t_arrival t) (t_request t)
        \<and> g_app (t_arrival t) = g_app (p_state p)"
proof -
  note a = answered_atomic [OF p_inv_reachable [OF assms(1)] assms(2)]
  let ?st = "audit_of (t_arrival t)"
  show ?thesis
  proof (cases "t_endpoint t")
    case EVALUATE
    then have "status_code (fst (evaluate (t_lib t) (g_app (p_state p)) (t_request t) ?st)) = 200"
      using a(1,4) assms(3) by (simp add: task_atomic_def case_prod_beta)
    then show ?thesis
    proof (rule evaluate_200)
      fix tok s i K dq ks ic d
      assume h: "extract_bearer_token (hr_authorization (t_request t)) = Inr tok"
        "app_authenticate (t_lib t) (g_app (p_state p)) tok = Inr (s, i)" "as_evaluator (g_app (p_state p)) = Some K"
        "dq_subject_id dq = subject_id s"
        "snd (ep_evaluate K dq ks ic (Some (hr_correlation_id (t_request t)))) = Inr d" "dr_outcome d = D_ALLOW"
      show ?thesis
        using h EVALUATE app_authenticate_verified [OF h(2)] by (simp, intro exI conjI) assumption+
    qed
  next
    case EVALUATE_OPERATION_AWARE
    then have "fst (evaluate_operation_aware (t_lib t) (g_app (t_arrival t)) (t_request t) ?st) = Inr resp"
      using a(1) by (simp add: task_atomic_def)
    then have "oa_permit_chain (t_lib t) (t_arrival t) (t_request t)" using a(2) assms(3) by (intro oa_permit_chainI)
    then show ?thesis using a(3,4) EVALUATE_OPERATION_AWARE by (simp add: routed_def)
  qed
qed

theorem interleaved_permit_requires_chain_witness:
  "oa_permit_chain failing_gw race_start (stub_oa_request False) \<and> g_router race_start"
proof -
  obtain p' where "p_step race_process (Answered race_permit (Inr (oa_result_response (sample_oa_result OA_ALLOW)))) p'"
    by (rule race_step)
  from interleaved_permit_requires_chain [OF race_reachable this race_200] show ?thesis
    by (simp add: race_permit_parts)
qed

text \<open>C15: Strict mode is decided on arrival only: the precheck is not repeated after the body has
  been read, so a request that arrived before the writer degraded is answered as
  if it were healthy. Some interleaved process, in strict mode and with a
  degraded writer whose sink refuses every event, delivers a 200 for an operation-aware
  request, and the writer is degraded before and after that answer.\<close>

theorem strict_mode_race:
  "\<exists>p t resp p' cfg w w'. p_reachable p \<and> p_step p (Answered t (Inr resp)) p' \<and> status_code resp = 200
     \<and> as_config (g_app (p_state p)) = Some cfg \<and> audit_fail_closed cfg
     \<and> g_writer (p_state p) = Some w \<and> w_degraded w \<and> g_writer (p_state p') = Some w' \<and> w_degraded w'
     \<and> (\<forall>h ev. \<not> inner_write (gl_audit (t_lib t)) h ev)"
proof -
  obtain p' where s: "p_step race_process (Answered race_permit (Inr (oa_result_response (sample_oa_result OA_ALLOW)))) p'"
    "\<exists>w. g_writer (p_state p') = Some w \<and> w_degraded w" by (rule race_step)
  have "as_config (g_app (p_state race_process)) = Some (full_config True)" "audit_fail_closed (full_config True)"
    using race_start_parts(4) by (simp_all add: race_process_def full_config_def)
  moreover have "\<not> inner_write (gl_audit (t_lib race_permit)) h ev" for h ev
    by (simp add: race_permit_parts failing_gw_def)
  ultimately show ?thesis
    using race_reachable s race_200 race_degraded by metis
qed

section \<open>Probes beside concurrent requests\<close>

text \<open>After \<^verbatim>\<open>race_process\<close> the sink works again: the strict-mode probe of a new request heals the writer.\<close>

lemma race_ready: "is_ready (g_readiness race_start)" "readiness_inv (g_readiness race_start)"
proof -
  obtain g' where s: "startup_stages (full_lib True) create_app = (Inr (), g')" using full_startup by blast
  then have eq: "race_start = g'" by (simp add: race_start_def lifespan_startup_def)
  show i: "readiness_inv (g_readiness race_start)"
    unfolding race_start_def by (rule lifespan_readiness_inv) (simp add: create_app_def)
  show "is_ready (g_readiness race_start)"
    using startup_success(2,3) [OF s] i unfolding eq by (auto simp: is_ready_iff down_def registered_def create_app_def)
qed

lemma race_tracker:
  "p_readiness race_process = mark_not_ready (threshold_message 1) AUDIT_WRITER_COMPONENT (g_readiness race_start)"
  using race_start_parts(5)
  by (simp add: p_readiness_def with_audit_def race_process_def task_finish_state race_other_def new_task_def audit_of_def evaluate_steps_def
      parse_body_step_def model_validate_json_def bad_request_def step_bind_def reject_def answer_def emit_event_Some
      failing_gw_def write_cases write_failed_def Let_def GatewayAuditWriter_init_def)

definition healed :: ReadinessState where
  "healed = apply_op (Mark_ready AUDIT_WRITER_COMPONENT) (p_readiness race_process)"

lemma race_heals:
  "\<exists>p'. request_step race_process p' \<and> p_readiness p' = healed \<and> as_config (g_app (p_state p')) = Some (full_config True)"
proof -
  let ?t = "new_task EVALUATE stub_gw ''c-3'' bad_request (p_state race_process)" and ?g = "p_state race_process"
  obtain w where w: "g_writer ?g = Some w" "w_degraded w" using race_degraded by blast
  have app: "as_config (g_app ?g) = Some (full_config True)" using race_start_parts(4) by (simp add: race_process_def)
  have flag: "w_readiness_state w"
    using p_inv_reachable [OF race_reachable] w by (simp add: p_inv_def gw_inv_def)
  let ?st = "emit_event stub_audit (task_probe ?t) (audit_of ?g)"
  have "task_begin ?t (g_app ?g) (audit_of ?g) = (Inr (), ?st)"
    using w app by (simp add: task_begin_def precheck_cases audit_blocks_def new_task_def stub_gw_def stub_audit_def
        st_degraded_def audit_of_def full_config_def)
  then have "p_step race_process Silent
      (race_process\<lparr>p_state := with_audit ?st ?g, p_tasks := p_tasks race_process @ [?t]\<rparr>)"
    by (rule p_suspended [rotated 2]) (simp_all add: routed_def)
  moreover have "snd ?st = healed"
    using w flag by (simp add: audit_of_def healed_def p_readiness_def emit_event_Some stub_audit_def write_cases
        write_succeeded_def Let_def)
  ultimately show ?thesis
    unfolding request_step_def p_readiness_def
    by (intro exI [of _ "race_process\<lparr>p_state := with_audit ?st ?g, p_tasks := p_tasks race_process @ [?t]\<rparr>"])
      (auto simp: with_audit_def app [unfolded with_audit_def])
qed

lemma healed_ready: "is_ready healed" "all_reasons healed = []" "reason healed = None"
proof -
  let ?s = "p_readiness race_process"
  have i: "readiness_inv healed" using race_ready(2) by (simp add: healed_def race_tracker)
  have up: "component_of healed c \<noteq> Some False" for c
    using race_ready by (simp add: healed_def race_tracker is_ready_iff)
  show "is_ready healed" using i up by (auto simp: is_ready_iff healed_def intro: exI [of _ AUDIT_WRITER_COMPONENT])
  show "reason healed = None" using i up by (simp add: reason_None_iff)
  show "all_reasons healed = []" using all_reasons_keys [OF i] up by (cases "all_reasons healed") force+
qed

lemma race_down: "\<not> is_ready (p_readiness race_process)"
  "map_of (components (p_readiness race_process)) AUDIT_WRITER_COMPONENT = Some False"
proof -
  have c: "component_of (p_readiness race_process) AUDIT_WRITER_COMPONENT = Some False" by (simp add: race_tracker)
  then show "map_of (components (p_readiness race_process)) AUDIT_WRITER_COMPONENT = Some False"
    by (simp add: component_of_def)
  have "readiness_inv (p_readiness race_process)" using race_ready(2) by (simp add: race_tracker)
  from rdy.status_False_blocks [OF this c] show "\<not> is_ready (p_readiness race_process)" .
qed

text \<open>A probe that has done some reads while the writer was down, and then sees it healed.\<close>

lemma race_probe:
  assumes "probing cid race_process [] (p_readiness race_process) [p_readiness race_process] probe"
  shows "\<exists>p. probing cid p [] healed [p_readiness race_process, healed] probe
    \<and> as_config (g_app (p_state p)) = Some (full_config True)"
proof -
  obtain p' where p': "request_step race_process p'" "p_readiness p' = healed"
    "as_config (g_app (p_state p')) = Some (full_config True)" using race_heals by blast
  have "probing cid p' [Mark_ready AUDIT_WRITER_COMPONENT] (p_readiness race_process) [p_readiness race_process] probe"
    by (rule steps [OF assms p'(1)]) (simp_all add: p'(2) healed_def)
  from moves [OF this] p'(3) show ?thesis by (auto simp: healed_def)
qed

lemmas race_arrives = arrives [OF race_reachable]

text \<open>C16: A probe is linearizable in its status, not in its body: whatever requests run between its
  four reads of the tracker, its status is the one an undisturbed probe would have
  given at some moment since it arrived, the components it lists are those of some such
  moment, it answers 503 if a component other than the writer's was down when it
  arrived, and a probe that no change of the tracker interrupts answers like the
  undisturbed handler.\<close>

theorem probe_linearizable:
  assumes "probing cid p ops rs history (Replied r)"
  shows "(\<exists>s \<in> set history. status_code r = status_code (ready s cid))
    \<and> (\<exists>s b. s \<in> set history \<and> content r = ReadyBody b \<and> ry_components b = components s)
    \<and> (\<forall>c. c \<noteq> AUDIT_WRITER_COMPONENT \<and> component_of (hd history) c = Some False \<longrightarrow> status_code r = 503)
    \<and> (\<forall>s. set history = {s} \<longrightarrow> r = ready s cid)"
proof (intro conjI allI impI)
  note s = probing_seen [OF assms] and f = probing_history [OF assms]
  show "\<exists>s \<in> set history. status_code r = status_code (ready s cid)"
    using s by (auto simp: seen_def ready_def ready_response_def not_ready_response_def)
  show "\<exists>s b. s \<in> set history \<and> content r = ReadyBody b \<and> ry_components b = components s"
    using s by (auto simp: seen_def ready_response_def not_ready_response_def)
  show "status_code r = 503" if c: "c \<noteq> AUDIT_WRITER_COMPONENT \<and> component_of (hd history) c = Some False" for c
  proof -
    have "\<not> is_ready u" if "u \<in> set history" for u
      using f that c rdy.status_False_blocks [of u c] by (simp add: list_all_iff served_from_def)
    then show ?thesis using s by (auto simp: seen_def not_ready_response_def)
  qed
  show "r = ready s cid" if "set history = {s}" for s
    using probing_seen [OF assms] that by (auto simp: seen_def ready_def ready_response_def not_ready_response_def)
qed

theorem probe_linearizable_witness:
  "\<exists>r. (probe_read ''c'' (p_readiness race_process) ^^ 4) Arrived = Replied r
     \<and> r = ready (p_readiness race_process) ''c'' \<and> status_code r = 503"
proof -
  let ?rs = "p_readiness race_process"
  have "probing ''c'' race_process [] ?rs [?rs] ((probe_read ''c'' ?rs ^^ 4) Arrived)"
    using reads [OF reads [OF reads [OF reads [OF race_arrives]]]] by (simp add: eval_nat_numeral)
  from probe_linearizable [OF this [unfolded undisturbed]] show ?thesis
    using race_down(1) by (simp add: undisturbed ready_def)
qed

text \<open>C17: A probe may contradict itself: a recovery of the audit writer between two reads makes it
  answer 200 with a body that lists the writer as down, or, one read later, 503
  with the reason "application not initialized" and no component named, although the
  process has started and, at the time of the answer, every component is ready.\<close>

theorem probe_mixes_states:
  "(\<exists>cid p rs history r b. probing cid p [] rs history (Replied r) \<and> status_code r = 200 \<and> content r = ReadyBody b
      \<and> map_of (ry_components b) AUDIT_WRITER_COMPONENT = Some False)
   \<and> (\<exists>cid p rs history r b. probing cid p [] rs history (Replied r) \<and> status_code r = 503 \<and> content r = ReadyBody b
      \<and> ry_reason b = Some (''application not initialized'', []) \<and> ry_reasons b = []
      \<and> is_ready rs \<and> as_config (g_app (p_state p)) \<noteq> None)"
proof -
  let ?rs = "p_readiness race_process" and ?cs = "components (p_readiness race_process)"
  have listed: "probing ''c'' race_process [] ?rs [?rs] (Listed ?cs)" using reads [OF race_arrives] by simp
  from race_probe [OF this] obtain p where "probing ''c'' p [] healed [?rs, healed] (Listed ?cs)" by blast
  from reads [OF this] have a: "probing ''c'' p [] healed [?rs, healed] (Replied (ready_response ?cs))"
    by (simp add: healed_ready)
  have unready: "probing ''c'' race_process [] ?rs [?rs] (Unready ?cs)" using reads [OF listed] race_down(1) by simp
  from race_probe [OF this] obtain p' where u: "probing ''c'' p' [] healed [?rs, healed] (Unready ?cs)"
    and c: "as_config (g_app (p_state p')) \<noteq> None" by auto
  from reads [OF reads [OF u]]
  have b: "probing ''c'' p' [] healed [?rs, healed] (Replied (not_ready_response ?cs [] None ''c''))"
    by (simp add: healed_ready)
  show ?thesis
  proof
    show "\<exists>cid p rs history r b. probing cid p [] rs history (Replied r) \<and> status_code r = 200 \<and> content r = ReadyBody b
        \<and> map_of (ry_components b) AUDIT_WRITER_COMPONENT = Some False"
      by (intro exI conjI, rule a) (simp_all add: ready_response_def, simp add: race_down(2))
    show "\<exists>cid p rs history r b. probing cid p [] rs history (Replied r) \<and> status_code r = 503 \<and> content r = ReadyBody b
        \<and> ry_reason b = Some (''application not initialized'', []) \<and> ry_reasons b = []
        \<and> is_ready rs \<and> as_config (g_app (p_state p)) \<noteq> None"
      by (intro exI conjI, rule b) (simp_all add: not_ready_response_def healed_ready c, simp_all)
  qed
qed

section \<open>Errors and recovery\<close>

text \<open>An internal composition error cannot be provoked from outside: with a configuration as
  loading delivers it (no empty admitted URI), a generated correlation id that
  is not blank and an aware clock, the operation-aware endpoint never answers
  with its internal-error response, whatever the request.\<close>

theorem oa_never_internal_error:
  assumes "\<forall>cfg. as_config app = Some cfg \<longrightarrow> [] \<notin> operation_producer_mtls_admitted_uris cfg"
    and "\<not> blank (hr_correlation_id req)" and "is_aware (hr_compose_clock req)"
  shows "fst (evaluate_operation_aware G app req st) \<noteq> Inr (internal_error_response (hr_correlation_id req))"
proof -
  have trust: "compose_operation_aware_input r s i t (hr_correlation_id req) (hr_compose_clock req)
      \<noteq> Inl (CompositionInternalError m)"
    if "app_authenticate G app tok = Inr (s, i)" "app_producer_trust G app req s = Inr t" for r s i t m tok
  proof (cases "as_config app")
    case None
    then have "resolve_operation_producer_trust (gl_load_pem G) (hr_raw_headers req) s default_config = Inr t"
      using that(2) by (simp add: app_producer_trust_def resolve_operation_producer_trust_def default_config_def)
    then show ?thesis
      using composition_no_internal [OF app_authenticate_verified(3) [OF that(1)]] assms(2,3)
      by (simp add: default_config_def)
  next
    case (Some cfg)
    then show ?thesis
      using composition_no_internal [OF app_authenticate_verified(3) [OF that(1)]] assms that(2)
      by (simp add: app_producer_trust_def)
  qed
  have steps: "fst (oa_steps G app req st') \<noteq> Inl (Inr (internal_error_response (hr_correlation_id req)))" for st'
    using trust by (rule oa_steps_no_internal)
  have final: "fst (oa_steps G app req st') \<noteq> Inr (internal_error_response (hr_correlation_id req))" for st'
  proof (cases rule: oa_steps_cases [of G app req st'])
    case (reached r s t c result)
    have "\<exists>e. oa_respond_step G req c result st' = (Inl (Inl e), st')" if "\<not> record_ok st' result"
      using that by (rule oa_respond_raises) blast
    then show ?thesis using reached
      by (cases "record_ok st' result") (auto simp: oa_respond_ok not_internal)
  qed (auto simp: early_return_def)
  have "fst (oa_answer (oa_steps G app req st')) \<noteq> Inr (internal_error_response (hr_correlation_id req))" for st'
    using steps [of st'] final [of st']
    by (cases "oa_steps G app req st'"; cases "fst (oa_steps G app req st')") (auto simp: oa_answer_def)
  then show ?thesis by (simp add: oa_cases not_internal)
qed


theorem oa_never_internal_error_witness:
  "fst (evaluate_operation_aware stub_gw (stub_app True D_ALLOW) stub_request degraded_st)
     \<noteq> Inr (internal_error_response (hr_correlation_id stub_request))"
  by (rule oa_never_internal_error)
    (auto simp: stub_app_def default_config_def stub_request_def blank_iff is_space_def)

text \<open>C22: From the environment to the answer, an internal composition error cannot be provoked: a
  gateway started on a configuration that \<^verbatim>\<open>load_config\<close> delivers, whatever the environment
  variables and however startup went, never answers the operation-aware endpoint with its
  internal-error response, whatever the request, as long as the generated correlation id is
  not blank and the clock is aware.\<close>

theorem started_never_internal_error:
  assumes "sl_load_config L = load_config S env" and "\<not> blank cid" and "is_aware (hr_compose_clock req)"
  shows "fst (serve_operation_aware G cid req (lifespan_startup L create_app))
     \<noteq> Some (Inr (internal_error_response cid))"
proof -
  let ?g = "lifespan_startup L create_app" and ?req = "req\<lparr>hr_correlation_id := cid\<rparr>"
  have "[] \<notin> operation_producer_mtls_admitted_uris cfg" if "as_config (g_app ?g) = Some cfg" for cfg
  proof (cases "sl_load_config L")
    case (Inl e)
    then show ?thesis using that
      by (simp add: lifespan_no_config startup_failed_simps create_app_def empty_app_def)
  next
    case (Inr config)
    then have "config = cfg"
      using lifespan_later [OF Inr, of create_app] that by (simp add: later_frame_def prepared_simps)
    then show ?thesis
      using Inr assms(1) loaded_uris [of S env] by simp
  qed
  then have "fst (evaluate_operation_aware G (g_app ?g) ?req (audit_of ?g)) \<noteq> Inr (internal_error_response cid)"
    using oa_never_internal_error [of "g_app ?g" ?req G "audit_of ?g"] assms(2,3) by simp
  then show ?thesis by (auto simp: serve_operation_aware_def case_prod_beta split: if_splits)
qed

theorem started_never_internal_error_witness:
  "fst (serve_operation_aware stub_gw ''c-1'' stub_request
     (lifespan_startup (stub_lib (load_config stub_settings (\<lambda>_. None))) create_app)) \<noteq> Some (Inr (internal_error_response ''c-1''))"
  by (rule started_never_internal_error [where S = stub_settings and env = "\<lambda>_. None"])
    (simp_all add: stub_lib_def stub_request_def blank_iff is_space_def)

text \<open>C14: Strict mode heals itself: when the audit sink works again, one request to \<^verbatim>\<open>/v1/evaluate\<close>
  in any reachable strict-mode state with a degraded writer brings the
  \<^verbatim>\<open>audit_writer\<close> component back, and the request is answered as it would be
  without a writer.\<close>

theorem strict_mode_recovers:
  assumes "reachable g" and "g_writer g = Some w" and "w_degraded w"
    and "as_config (g_app g) = Some cfg" and "audit_fail_closed cfg"
    and "\<And>ev. ae_accepts (gl_audit G) ev" and "\<And>h ev. inner_write (gl_audit G) h ev"
  shows "component_of (g_readiness (snd (serve_evaluate G cid req g))) AUDIT_WRITER_COMPONENT = Some True
    \<and> fst (fst (serve_evaluate G cid req g)) =
        fst (evaluate G (g_app g) (req\<lparr>hr_correlation_id := cid\<rparr>) (None, g_readiness g))"
proof -
  let ?req = "req\<lparr>hr_correlation_id := cid\<rparr>" and ?st = "audit_of g"
  have nb: "\<not> audit_blocks (gl_audit G) (as_config (g_app g)) (probe_event ?req) ?st"
    using assms(6,7) by (simp add: audit_blocks_def)
  have nb': "\<not> audit_blocks (gl_audit G) (as_config (g_app g)) (probe_event ?req) (None, g_readiness g)"
    by (simp add: audit_blocks_def st_degraded_def)
  have deg: "st_degraded ?st" using assms(2,3) by (simp add: audit_of_def st_degraded_def)
  let ?p = "emit_event (gl_audit G) (probe_event ?req) ?st"
  have ev: "evaluate G (g_app g) ?req ?st = answer (evaluate_steps G (g_app g) ?req ?p)"
    using nb deg assms(4,5) by (simp add: evaluate_cases)
  have ok: "\<not> st_degraded ?p" using assms(6,7) deg by (simp add: st_degraded_emit)
  then have "evaluate G (g_app g) ?req ?p = answer (evaluate_steps G (g_app g) ?req ?p)"
    by (simp add: evaluate_cases audit_blocks_def)
  then have "\<not> st_degraded (snd (evaluate G (g_app g) ?req ?st))"
    using evaluate_rels(3) [of G ?p "g_app g" ?req] ok assms(7) by (simp add: ev healthy_rel_def)
  moreover have "gw_inv (snd (serve_evaluate G cid req g))"
    by (rule gw_inv_reachable, rule stepped [OF assms(1)], rule evaluated)
  moreover have "fst (snd (evaluate G (g_app g) ?req ?st)) \<noteq> None"
    using evaluate_rels(1) [of ?st G "g_app g" ?req] assms(2) by (simp add: audit_frame_rel_def audit_of_def)
  ultimately have "component_of (g_readiness (snd (serve_evaluate G cid req g))) AUDIT_WRITER_COMPONENT = Some True"
    by (auto simp: serve_evaluate_state with_audit_def gw_inv_def audit_of_def st_inv_def audit_inv_def
        writer_link_def st_degraded_def)
  moreover obtain x where "\<And>s. fst (evaluate_steps G (g_app g) ?req s) = x"
    using evaluate_steps_rules(2) [of G "g_app g" ?req] unfolding oblivious_def by blast
  ultimately show ?thesis
    using nb nb' by (simp add: serve_evaluate_def dispatch_def case_prod_beta evaluate_cases fst_answer)
qed

theorem strict_mode_recovers_witness:
  "component_of (g_readiness (snd (serve_evaluate stub_gw ''c-2'' stub_request strict_degraded)))
     AUDIT_WRITER_COMPONENT = Some True
   \<and> component_of (g_readiness strict_degraded) AUDIT_WRITER_COMPONENT = Some False"
proof -
  obtain w where w: "g_writer strict_degraded = Some w" "w_degraded w" using strict_degraded_parts(1) by blast
  have "audit_fail_closed strict_config" by (simp add: strict_config_def)
  moreover have "ae_accepts (gl_audit stub_gw) ev" "inner_write (gl_audit stub_gw) h ev" for h ev
    by (simp_all add: stub_gw_def stub_audit_def)
  ultimately show ?thesis
    using strict_mode_recovers [OF strict_degraded_reachable w strict_degraded_parts(2), of stub_gw]
      gw_inv_reachable [OF strict_degraded_reachable] w
    by (auto simp: gw_inv_def st_inv_def audit_of_def audit_inv_def writer_link_def)
qed

text \<open>C37: Readiness does not cover the verifier when the issuer is empty: in OIDC mode with an
  unset or empty issuer the gateway becomes ready once the other stages pass
  (even with a policy or the operation-aware mode configured), no verifier is
  installed, and no request to either endpoint can ever be permitted.\<close>

theorem ready_without_verifier:
  assumes "startup_stages L create_app = (Inr (), g)" and "sl_load_config L = Inr config"
    and "auth_mode config = OIDC" and "\<not> truthy_opt (oidc_issuer config)"
  shows "is_ready (g_readiness (lifespan_startup L create_app)) \<and> as_verifier (g_app g) = None
    \<and> status_code (fst (fst (serve_evaluate G cid req g))) \<noteq> 200
    \<and> (\<forall>resp. fst (serve_operation_aware G cid req g) = Some (Inr resp) \<longrightarrow> status_code resp \<noteq> 200)"
proof -
  obtain config' where "started L config' g" using startup_success(1) [OF assms(1)] by blast
  then have s: "started L config g" using assms(2) by (simp add: started_def)
  then have v: "as_verifier (g_app g) = None" "as_config (g_app g) = Some config"
    using assms(3,4) by (simp_all add: started_def auth_installed_def)
  have na: "app_authenticate G (g_app g) tok \<noteq> Inr i" for tok i
    using v assms(3) by (simp add: app_authenticate_def authenticate_modes)
  have i: "readiness_inv (g_readiness g)"
    using lifespan_readiness_inv [of create_app L] assms(1) by (simp add: create_app_def lifespan_startup_def)
  have "is_ready (g_readiness (lifespan_startup L create_app))"
    using startup_success(2,3) [OF assms(1)] fresh_create_app assms(1)
    by (auto simp: lifespan_startup_def is_ready_iff [OF i] fresh_def down_def registered_def)
  moreover have "status_code (fst (fst (serve_evaluate G cid req g))) \<noteq> 200"
  proof
    assume "status_code (fst (fst (serve_evaluate G cid req g))) = 200"
    then have "status_code (fst (evaluate G (g_app g) (req\<lparr>hr_correlation_id := cid\<rparr>) (audit_of g))) = 200"
      by (simp add: serve_evaluate_def dispatch_def case_prod_beta)
    then show False by (rule evaluate_200) (use na in blast)
  qed
  moreover have "status_code resp \<noteq> 200" if r: "fst (serve_operation_aware G cid req g) = Some (Inr resp)" for resp
  proof
    assume 200: "status_code resp = 200"
    let ?req = "req\<lparr>hr_correlation_id := cid\<rparr>"
    have ev: "fst (evaluate_operation_aware G (g_app g) ?req (audit_of g)) = Inr resp"
      using r by (auto simp: serve_operation_aware_def case_prod_beta split: if_splits)
    have nb: "\<not> audit_blocks (gl_audit G) (as_config (g_app g)) (oa_probe_event ?req) (audit_of g)"
      using ev 200 by (auto simp: oa_cases response_helper_status)
    show False
      by (cases rule: oa_ends [OF nb]) (use ev 200 na in \<open>auto simp: oa_reaches_def is_error_def\<close>)
  qed
  ultimately show ?thesis using v(1) by blast
qed


theorem ready_without_verifier_witness:
  "is_ready (g_readiness (lifespan_startup (stub_lib (Inr oa_config)) create_app))
   \<and> status_code (fst (fst (serve_evaluate stub_gw ''c-1'' stub_request
       (lifespan_startup (stub_lib (Inr oa_config)) create_app)))) \<noteq> 200"
proof -
  obtain g where g: "startup_stages (stub_lib (Inr oa_config)) create_app = (Inr (), g)" using stub_startup by blast
  have "sl_load_config (stub_lib (Inr oa_config)) = Inr oa_config" "auth_mode oa_config = OIDC"
    "\<not> truthy_opt (oidc_issuer oa_config)"
    by (simp_all add: stub_lib_def oa_config_def default_config_def)
  from ready_without_verifier [OF g this] show ?thesis using g by (simp add: lifespan_startup_def)
qed

end
